(* ===== verification/Prelude.thy ===== *)
theory Prelude
  imports Main "HOL-Library.AList"
begin

text \<open>
  Shared vocabulary of the development: Go's byte strings and maps, the fragments of the
  \<^verbatim>\<open>strings\<close> package the program uses, and the generic lemmas on them that the component
  theories rely on.

  A Go \<^verbatim>\<open>map[K]V\<close> is an association list with distinct keys (\<open>go_wf\<close>). The order of the
  list stands for the order in which a \<^verbatim>\<open>range\<close> loop visits the map, which Go leaves open:
  the theorems quantify over the map, hence over every order. A nil map or nil pointer that
  the code can tell apart from an empty one is \<open>None\<close> of an \<open>option\<close>.
\<close>

section \<open>Types\<close>

type_synonym bytes = string
type_synonym ('k, 'v) gomap = "('k \<times> 'v) list"
type_synonym strmap = "(string, string) gomap"

named_theorems go_simps \<open>lookup and domain of the operations on Go maps\<close>

section \<open>Go maps\<close>

abbreviation go_get :: "('k, 'v) gomap \<Rightarrow> 'k \<Rightarrow> 'v option" where
  "go_get \<equiv> map_of"

definition go_put :: "'k \<Rightarrow> 'v \<Rightarrow> ('k, 'v) gomap \<Rightarrow> ('k, 'v) gomap" where
  "go_put k v m = AList.update k v m"

definition go_del :: "'k \<Rightarrow> ('k, 'v) gomap \<Rightarrow> ('k, 'v) gomap" where
  "go_del k m = AList.delete k m"

definition go_has :: "('k, 'v) gomap \<Rightarrow> 'k \<Rightarrow> bool" where
  "go_has m k = (go_get m k \<noteq> None)"

definition go_keys :: "('k, 'v) gomap \<Rightarrow> 'k list" where
  "go_keys m = map fst m"

definition go_wf :: "('k, 'v) gomap \<Rightarrow> bool" where
  "go_wf m = distinct (go_keys m)"

text \<open>\<^verbatim>\<open>reflect.DeepEqual\<close> on two maps: the same keys with the same values, and a nil map
  equals only a nil map.\<close>

definition go_eq :: "('k, 'v) gomap \<Rightarrow> ('k, 'v) gomap \<Rightarrow> bool" where
  "go_eq m n = list_all (\<lambda>k. go_get m k = go_get n k) (go_keys m @ go_keys n)"

fun DeepEqual :: "('k, 'v) gomap option \<Rightarrow> ('k, 'v) gomap option \<Rightarrow> bool" where
  "DeepEqual None None = True"
| "DeepEqual (Some m) (Some n) = go_eq m n"
| "DeepEqual _ _ = False"

lemma go_get_put [simp, go_simps]:
  "go_get (go_put k v m) = (go_get m)(k \<mapsto> v)"
  by (simp add: go_put_def update_conv' fun_eq_iff)

lemma go_get_del [simp, go_simps]:
  "go_get (go_del k m) = (go_get m)(k := None)"
  by (simp add: go_del_def delete_conv' fun_eq_iff)

lemma go_has_iff [go_simps]: "go_has m k \<longleftrightarrow> k \<in> dom (go_get m)"
  by (auto simp: go_has_def)

lemma set_go_keys [simp, go_simps]: "set (go_keys m) = dom (go_get m)"
  by (simp add: go_keys_def dom_map_of_conv_image_fst)

lemma go_wf_Nil [simp, intro]: "go_wf []"
  by (simp add: go_wf_def go_keys_def)

lemma go_wf_put [simp, intro]: "go_wf m \<Longrightarrow> go_wf (go_put k v m)"
  by (simp add: go_wf_def go_put_def go_keys_def distinct_update)

lemma go_wf_del [simp, intro]: "go_wf m \<Longrightarrow> go_wf (go_del k m)"
  by (simp add: go_wf_def go_del_def go_keys_def distinct_delete)

lemma go_put_nonempty [simp]: "go_put k v m \<noteq> []"
  by (cases m) (auto simp: go_put_def)

lemma go_eq_iff: "go_eq m n \<longleftrightarrow> go_get m = go_get n"
proof
  assume "go_eq m n"
  then have eq: "go_get m k = go_get n k" if "k \<in> dom (go_get m) \<union> dom (go_get n)" for k
    using that by (auto simp: go_eq_def list_all_iff)
  show "go_get m = go_get n"
  proof
    fix k
    show "go_get m k = go_get n k"
      using eq [of k] by (cases "go_get m k"; cases "go_get n k") auto
  qed
qed (simp add: go_eq_def list_all_iff)

lemma DeepEqual_iff:
  "DeepEqual a b \<longleftrightarrow> map_option map_of a = map_option map_of b"
  by (cases a; cases b) (simp_all add: go_eq_iff)

lemma go_wf_get_iff: "go_wf m \<Longrightarrow> go_get m k = Some v \<longleftrightarrow> (k, v) \<in> set m"
  by (simp add: go_wf_def go_keys_def)

section \<open>Byte strings\<close>

text \<open>\<^verbatim>\<open>strings.Split\<close> with a one-byte separator.\<close>

fun strings_Split :: "string \<Rightarrow> char \<Rightarrow> string list" where
  "strings_Split [] d = [[]]"
| "strings_Split (c # s) d =
     (if c = d then [] # strings_Split s d
      else (case strings_Split s d of [] \<Rightarrow> [[c]] | p # ps \<Rightarrow> (c # p) # ps))"

text \<open>\<^verbatim>\<open>strings.Join\<close> with a one-byte separator.\<close>

fun strings_Join :: "string list \<Rightarrow> char \<Rightarrow> string" where
  "strings_Join [] d = []"
| "strings_Join [s] d = s"
| "strings_Join (s # t # ts) d = s @ d # strings_Join (t # ts) d"

definition strings_HasPrefix :: "string \<Rightarrow> string \<Rightarrow> bool" where
  "strings_HasPrefix s p = (take (length p) s = p)"

text \<open>\<^verbatim>\<open>strings.SplitN\<close> into at most two parts, at the first occurrence of a nonempty
  separator.\<close>

fun strings_cut :: "string \<Rightarrow> string \<Rightarrow> (string \<times> string) option" where
  "strings_cut [] d = None"
| "strings_cut (c # s) d =
     (if strings_HasPrefix (c # s) d then Some ([], drop (length d) (c # s))
      else map_option (\<lambda>(a, b). (c # a, b)) (strings_cut s d))"

definition strings_SplitN2 :: "string \<Rightarrow> string \<Rightarrow> string list" where
  "strings_SplitN2 s d = (case strings_cut s d of None \<Rightarrow> [s] | Some (a, b) \<Rightarrow> [a, b])"

text \<open>\<^verbatim>\<open>strings.LastIndexByte\<close>: the position of the last occurrence, or -1.\<close>

fun strings_LastIndexByte :: "string \<Rightarrow> char \<Rightarrow> int" where
  "strings_LastIndexByte [] d = -1"
| "strings_LastIndexByte (c # s) d =
     (let i = strings_LastIndexByte s d in if 0 \<le> i then i + 1 else if c = d then 0 else -1)"

text \<open>The ASCII white space that \<^verbatim>\<open>strings.TrimSpace\<close> removes at both ends.\<close>

definition is_space :: "char \<Rightarrow> bool" where
  "is_space c = (c \<in> {CHR '' '', CHR 0x09, CHR 0x0A, CHR 0x0B, CHR 0x0C, CHR 0x0D})"

definition strings_TrimSpace :: "string \<Rightarrow> string" where
  "strings_TrimSpace s = rev (dropWhile is_space (rev (dropWhile is_space s)))"

lemma strings_Split_nonempty [simp]: "strings_Split s d \<noteq> []"
  by (induction s) (auto split: list.splits)

lemma strings_Split_no_sep: "d \<notin> set s \<Longrightarrow> strings_Split s d = [s]"
  by (induction s) auto

lemma strings_Split_append:
  "d \<notin> set s \<Longrightarrow> strings_Split (s @ d # t) d = s # strings_Split t d"
  by (induction s) auto

lemma strings_Split_Join:
  "ss \<noteq> [] \<Longrightarrow> \<forall>s\<in>set ss. d \<notin> set s \<Longrightarrow> strings_Split (strings_Join ss d) d = ss"
  by (induction ss d rule: strings_Join.induct)
     (auto simp: strings_Split_no_sep strings_Split_append)

lemma strings_LastIndexByte_none: "d \<notin> set s \<Longrightarrow> strings_LastIndexByte s d = -1"
  by (induction s) (auto simp: Let_def)

lemma strings_LastIndexByte_append:
  "d \<notin> set t \<Longrightarrow> strings_LastIndexByte (s @ d # t) d = int (length s)"
  by (induction s) (simp_all add: strings_LastIndexByte_none Let_def)

lemma strings_cut_fresh: "hd d \<notin> set s \<Longrightarrow> d \<noteq> [] \<Longrightarrow> strings_cut (s @ d @ t) d = Some (s, t)"
proof (induction s)
  case Nil
  then show ?case by (cases d) (simp_all add: strings_HasPrefix_def)
next
  case (Cons c s)
  from Cons.prems have "\<not> strings_HasPrefix (c # s @ d @ t) d"
    by (cases d) (auto simp: strings_HasPrefix_def)
  with Cons show ?case by simp
qed

lemma strings_TrimSpace_id: "\<forall>c\<in>set s. \<not> is_space c \<Longrightarrow> strings_TrimSpace s = s"
proof -
  assume a: "\<forall>c\<in>set s. \<not> is_space c"
  have id: "dropWhile is_space t = t" if "\<forall>c\<in>set t. \<not> is_space c" for t
    using that by (cases t) auto
  from id [OF a] id [of "rev s"] a show ?thesis by (simp add: strings_TrimSpace_def)
qed

section \<open>Numbers\<close>

text \<open>\<^verbatim>\<open>strconv.Atoi\<close>: an optional sign and decimal digits, within the range of \<^verbatim>\<open>int\<close> (64 bit).\<close>

definition digit :: "char \<Rightarrow> int option" where
  "digit c = (let n = of_char c in if 48 \<le> n \<and> n \<le> 57 then Some (n - 48) else None)"

fun digits :: "int \<Rightarrow> string \<Rightarrow> int option" where
  "digits acc [] = Some acc"
| "digits acc (c # s) =
     (case digit c of None \<Rightarrow> None | Some d \<Rightarrow> digits (10 * acc + d) s)"

definition strconv_Atoi :: "string \<Rightarrow> int option" where
  "strconv_Atoi s =
     (let neg = (s \<noteq> [] \<and> hd s = CHR ''-'');
          t = (if s \<noteq> [] \<and> hd s \<in> {CHR ''-'', CHR ''+''} then tl s else s)
      in if t = [] then None
         else (case digits 0 t of
                 None \<Rightarrow> None
               | Some n \<Rightarrow>
                   let i = (if neg then - n else n) in
                   if - (2 ^ 63) \<le> i \<and> i < 2 ^ 63 then Some i else None))"

section \<open>Loops\<close>

text \<open>A fold whose body keeps an invariant keeps it; used for every \<^verbatim>\<open>for range\<close> loop.\<close>

lemma fold_invariant:
  assumes "P s" and "\<And>x s. x \<in> set xs \<Longrightarrow> P s \<Longrightarrow> P (f x s)"
  shows "P (fold f xs s)"
  using assms by (induction xs arbitrary: s) auto

section \<open>Lists\<close>

lemma singleton_list: "x \<in> set xs \<Longrightarrow> length xs \<le> 1 \<Longrightarrow> xs = [x]"
  by (cases xs) auto

lemma in_map_filter: "r \<in> set rs \<Longrightarrow> f r = Some x \<Longrightarrow> x \<in> set (List.map_filter f rs)"
  by (force simp: List.map_filter_def)

section \<open>Signals\<close>

text \<open>True, false, true, and so on: what a component sends that reports each change of a
  condition which is false at first.\<close>

definition alternate :: "bool list \<Rightarrow> bool" where
  "alternate bs = (bs = map even [0..<length bs])"

lemma alternate_Nil [simp]: "alternate []"
  by (simp add: alternate_def)

lemma alternate_snoc: "alternate (bs @ [b]) \<longleftrightarrow> alternate bs \<and> b = even (length bs)"
  by (auto simp: alternate_def)

lemma alternate_prefix: "alternate (bs @ cs) \<Longrightarrow> alternate bs"
  by (induction cs rule: rev_induct) (simp_all add: alternate_snoc flip: append_assoc)

lemma alternate_last: "alternate bs \<Longrightarrow> bs \<noteq> [] \<Longrightarrow> last bs = odd (length bs)"
  by (cases bs rule: rev_cases) (auto simp: alternate_snoc)

end
