(* ===== verification/Message.thy ===== *)
theory Message
  imports Prelude
begin

text \<open>
  The messages cluster controllers exchange (\<^verbatim>\<open>pkg/clustermessage\<close>) and the registration
  record carried by some of them (\<^verbatim>\<open>pkg/config\<close>). The encoders and decoders of
  \<^verbatim>\<open>golang/protobuf\<close> and \<^verbatim>\<open>encoding/json\<close> are the fields of a record of type \<open>codecs\<close>,
  an argument of every definition that serialises; \<open>roundtrip\<close> states of an encoder and its
  decoder what their packages document. \<open>None\<close> is a returned error.
\<close>

section \<open>Messages\<close>

text \<open>Protobuf enumerations are open: an unknown number on the wire is kept.\<close>

datatype CommandType =
    Reserved | ClusterRegist | ClusterUnregist | NeighborRoute | SubTreeRoute | DeployReq
  | DeployResp | ControlReq | ControlResp | EdgeReport | ControlMultiReq | OtherCommand int

record MessageHead =
  MessageID :: string
  Command :: CommandType
  ClusterSelector :: string
  ClusterName :: string
  ParentClusterName :: string

definition emptyHead :: MessageHead where
  "emptyHead = \<lparr>MessageID = [], Command = Reserved, ClusterSelector = [], ClusterName = [],
     ParentClusterName = []\<rparr>"

record ClusterMessage =
  Head :: "MessageHead option"
  Body :: bytes

record ControllerTask =
  Destination :: string
  Method :: string
  URI :: string
  TaskBody :: bytes

record ControlMultiTask =
  MultiDestination :: string
  MultiMethod :: string
  MultiURI :: string
  MultiBody :: "bytes list"

record ControllerTaskResponse =
  RespTimestamp :: int
  RespStatusCode :: int
  RespBody :: bytes

section \<open>Registration record\<close>

record ClusterRegistry =
  RegName :: string
  RegUserDefineName :: string
  RegListen :: string
  RegTime :: int
  RegParentName :: string

definition RootClusterName :: string where
  "RootClusterName = ''root''"

definition IsRoot :: "string \<Rightarrow> bool" where
  "IsRoot clusterName = (RootClusterName = clusterName)"

section \<open>Encoders and decoders\<close>

text \<open>The exported fields of \<^verbatim>\<open>ClusterRouter\<close>, which are what JSON carries.\<close>

type_synonym router_json = "strmap option \<times> strmap option \<times> strmap option"

record codecs =
  pb_msg :: "ClusterMessage \<Rightarrow> bytes option"
  unpb_msg :: "bytes \<Rightarrow> ClusterMessage option"
  pb_task :: "ControllerTask \<Rightarrow> bytes option"
  unpb_task :: "bytes \<Rightarrow> ControllerTask option"
  pb_multi :: "ControlMultiTask \<Rightarrow> bytes option"
  unpb_multi :: "bytes \<Rightarrow> ControlMultiTask option"
  pb_resp :: "ControllerTaskResponse \<Rightarrow> bytes option"
  unpb_resp :: "bytes \<Rightarrow> ControllerTaskResponse option"
  js_registry :: "ClusterRegistry \<Rightarrow> bytes option"
  unjs_registry :: "bytes \<Rightarrow> ClusterRegistry option"
  js_router :: "router_json \<Rightarrow> bytes option"
  unjs_router :: "bytes \<Rightarrow> router_json option"
  js_subtree :: "strmap \<Rightarrow> bytes option"
  unjs_subtree :: "bytes \<Rightarrow> strmap option option"

definition roundtrip :: "('a \<Rightarrow> bytes option) \<Rightarrow> (bytes \<Rightarrow> 'a option) \<Rightarrow> bool" where
  "roundtrip enc dec = (\<forall>x b. enc x = Some b \<longrightarrow> dec b = Some x)"

lemma roundtripD: "roundtrip enc dec \<Longrightarrow> enc x = Some b \<Longrightarrow> dec b = Some x"
  by (simp add: roundtrip_def)

section \<open>Operations\<close>

datatype msg_error = MarshalError | UnmarshalError | NilData | WrongCommand | NilHead

definition Serialize :: "codecs \<Rightarrow> ClusterMessage \<Rightarrow> msg_error + bytes" where
  "Serialize cd c = (case pb_msg cd c of None \<Rightarrow> Inl MarshalError | Some data \<Rightarrow> Inr data)"

text \<open>\<^verbatim>\<open>data\<close> is \<open>None\<close> for a nil slice.\<close>

definition Deserialize :: "codecs \<Rightarrow> bytes option \<Rightarrow> msg_error + ClusterMessage" where
  "Deserialize cd data =
     (case data of
        None \<Rightarrow> Inl NilData
      | Some b \<Rightarrow> (case unpb_msg cd b of None \<Rightarrow> Inl UnmarshalError | Some c \<Rightarrow> Inr c))"

definition ControllerTask_ToClusterMessage ::
  "codecs \<Rightarrow> ControllerTask \<Rightarrow> MessageHead \<Rightarrow> msg_error + ClusterMessage" where
  "ControllerTask_ToClusterMessage cd c head =
     (if Command head \<noteq> ControlReq then Inl WrongCommand
      else (case pb_task cd c of
              None \<Rightarrow> Inl MarshalError
            | Some data \<Rightarrow> Inr \<lparr>Head = Some head, Body = data\<rparr>))"

definition ControlMultiTask_ToClusterMessage ::
  "codecs \<Rightarrow> ControlMultiTask \<Rightarrow> MessageHead \<Rightarrow> msg_error + ClusterMessage" where
  "ControlMultiTask_ToClusterMessage cd c head =
     (if Command head \<noteq> ControlMultiReq then Inl WrongCommand
      else (case pb_multi cd c of
              None \<Rightarrow> Inl MarshalError
            | Some data \<Rightarrow> Inr \<lparr>Head = Some head, Body = data\<rparr>))"

definition Registry_Serialize :: "codecs \<Rightarrow> ClusterRegistry \<Rightarrow> msg_error + bytes" where
  "Registry_Serialize cd cr =
     (case js_registry cd cr of None \<Rightarrow> Inl MarshalError | Some b \<Rightarrow> Inr b)"

definition ClusterRegistryDeserialize :: "codecs \<Rightarrow> bytes \<Rightarrow> msg_error + ClusterRegistry" where
  "ClusterRegistryDeserialize cd b =
     (case unjs_registry cd b of None \<Rightarrow> Inl UnmarshalError | Some cr \<Rightarrow> Inr cr)"

definition WrapperToClusterMessage ::
  "codecs \<Rightarrow> ClusterRegistry \<Rightarrow> CommandType \<Rightarrow> msg_error + ClusterMessage" where
  "WrapperToClusterMessage cd cr command =
     (case Registry_Serialize cd cr of
        Inl e \<Rightarrow> Inl e
      | Inr cbyte \<Rightarrow> Inr \<lparr>Head = Some (emptyHead\<lparr>Command := command\<rparr>), Body = cbyte\<rparr>)"

lemma Deserialize_Serialize:
  "roundtrip (pb_msg cd) (unpb_msg cd) \<Longrightarrow> Serialize cd c = Inr data \<Longrightarrow>
   Deserialize cd (Some data) = Inr c"
  by (auto simp: Serialize_def Deserialize_def dest: roundtripD split: option.splits)

lemma WrapperToClusterMessage_Inr:
  assumes "WrapperToClusterMessage cd cr command = Inr m"
  obtains b where "js_registry cd cr = Some b"
    "m = \<lparr>Head = Some (emptyHead\<lparr>Command := command\<rparr>), Body = b\<rparr>"
  using assms
  by (auto simp: WrapperToClusterMessage_def Registry_Serialize_def split: option.splits)

end
