(* ===== verification/Router.thy ===== *)
theory Router
  imports Message
begin

text \<open>
  The route table of a cluster controller (\<^verbatim>\<open>pkg/clusterrouter/router.go\<close>): the directly
  connected children, the neighbours learnt from the parent, and the subtree routes, which
  map every known descendant to the child (the port) it is reached through. Every operation
  runs under the table's lock, so each is one atomic step on the record.

  \<open>AddChild\<close>, \<open>DelChild\<close> and \<open>UpdateRouter\<close> return, besides the new table, the message
  they hand to the notifier; \<open>None\<close> there is the nil message the code passes when
  serialisation fails.
\<close>

section \<open>State\<close>

record ClusterRouter =
  Childs :: "strmap option"
  Neighbor :: "strmap option"
  ParentNeighbor :: "strmap option"
  subtreeRouter :: strmap

definition defaultClusterRouter :: ClusterRouter where
  "defaultClusterRouter =
     \<lparr>Childs = Some [], Neighbor = None, ParentNeighbor = None, subtreeRouter = []\<rparr>"

datatype router_error = NameInUse string | ErrDuplicatedName | NilMapWrite

text \<open>Reading a nil map yields nothing; writing to it panics.\<close>

definition nil_get :: "strmap option \<Rightarrow> string \<Rightarrow> string option" where
  "nil_get m k = (case m of None \<Rightarrow> None | Some m' \<Rightarrow> go_get m' k)"

section \<open>Serialisation\<close>

definition Router_Serialize :: "codecs \<Rightarrow> ClusterRouter \<Rightarrow> bytes option" where
  "Router_Serialize cd cr = js_router cd (Childs cr, Neighbor cr, ParentNeighbor cr)"

definition Router_Deserialize :: "codecs \<Rightarrow> bytes \<Rightarrow> ClusterRouter option" where
  "Router_Deserialize cd b =
     (case unjs_router cd b of
        None \<Rightarrow> None
      | Some (c, n, p) \<Rightarrow>
          Some \<lparr>Childs = c, Neighbor = n, ParentNeighbor = p, subtreeRouter = []\<rparr>)"

definition SubTreeRouter_Serialize :: "codecs \<Rightarrow> strmap \<Rightarrow> bytes option" where
  "SubTreeRouter_Serialize cd s = js_subtree cd s"

definition NeighborRouterMessage :: "codecs \<Rightarrow> ClusterRouter \<Rightarrow> ClusterMessage option" where
  "NeighborRouterMessage cd cr =
     (case Router_Serialize cd cr of
        None \<Rightarrow> None
      | Some cbyte \<Rightarrow>
          Some \<lparr>Head = Some (emptyHead\<lparr>Command := NeighborRoute\<rparr>), Body = cbyte\<rparr>)"

definition SubTreeMessage :: "codecs \<Rightarrow> ClusterRouter \<Rightarrow> ClusterMessage option" where
  "SubTreeMessage cd cr =
     (case SubTreeRouter_Serialize cd (subtreeRouter cr) of
        None \<Rightarrow> None
      | Some cbyte \<Rightarrow>
          Some \<lparr>Head = Some (emptyHead\<lparr>Command := SubTreeRoute\<rparr>), Body = cbyte\<rparr>)"

text \<open>A JSON \<^verbatim>\<open>null\<close> decodes without error to the nil map, which is what the function
  returns on an error, too.\<close>

definition SubtreeFromClusterController :: "codecs \<Rightarrow> ClusterMessage \<Rightarrow> strmap option" where
  "SubtreeFromClusterController cd msg =
     (case unjs_subtree cd (Body msg) of None \<Rightarrow> None | Some ret \<Rightarrow> ret)"

definition neighborRouterFromClusterMessage ::
  "codecs \<Rightarrow> ClusterMessage \<Rightarrow> ClusterRouter option" where
  "neighborRouterFromClusterMessage cd msg = Router_Deserialize cd (Body msg)"

section \<open>Children\<close>

definition AddChild ::
  "codecs \<Rightarrow> string \<Rightarrow> string \<Rightarrow> ClusterRouter \<Rightarrow>
   router_error + ClusterRouter \<times> ClusterMessage option" where
  "AddChild cd clusterName listen cr =
     (case nil_get (Childs cr) clusterName of
        Some ip \<Rightarrow> Inl (NameInUse ip)
      | None \<Rightarrow>
          (case Childs cr of
             None \<Rightarrow> Inl NilMapWrite
           | Some m \<Rightarrow>
               let cr' = cr\<lparr>Childs := Some (go_put clusterName listen m)\<rparr>
               in Inr (cr', NeighborRouterMessage cd cr')))"

definition DelChild ::
  "codecs \<Rightarrow> string \<Rightarrow> ClusterRouter \<Rightarrow> ClusterRouter \<times> ClusterMessage option" where
  "DelChild cd clusterName cr =
     (let cr' = (case nil_get (Childs cr) clusterName of
                   None \<Rightarrow> cr
                 | Some _ \<Rightarrow> cr\<lparr>Childs := map_option (go_del clusterName) (Childs cr)\<rparr>)
      in (cr', NeighborRouterMessage cd cr'))"

definition HasChild :: "string \<Rightarrow> ClusterRouter \<Rightarrow> bool" where
  "HasChild clusterName cr = (nil_get (Childs cr) clusterName \<noteq> None)"

section \<open>Subtree routes\<close>

definition AddRoute :: "string \<Rightarrow> string \<Rightarrow> ClusterRouter \<Rightarrow> router_error + ClusterRouter" where
  "AddRoute to port cr =
     (case go_get (subtreeRouter cr) to of
        None \<Rightarrow> Inr (cr\<lparr>subtreeRouter := go_put to port (subtreeRouter cr)\<rparr>)
      | Some oldPort \<Rightarrow> if port \<noteq> oldPort then Inl ErrDuplicatedName else Inr cr)"

text \<open>The loop of \<^verbatim>\<open>DelRoute\<close> over the routes; Go allows deleting during the iteration.\<close>

definition delRoutesOfPort :: "string \<Rightarrow> strmap \<Rightarrow> strmap" where
  "delRoutesOfPort port m =
     fold (\<lambda>(key, oldPort) m'. if oldPort = port then go_del key m' else m') m m"

definition DelRoute :: "string \<Rightarrow> string \<Rightarrow> ClusterRouter \<Rightarrow> ClusterRouter" where
  "DelRoute to port cr =
     (let r1 = (case go_get (subtreeRouter cr) to of
                  Some oldPort \<Rightarrow>
                    if oldPort = port then go_del to (subtreeRouter cr) else subtreeRouter cr
                | None \<Rightarrow> subtreeRouter cr);
          r2 = (if to = port then delRoutesOfPort port (go_del to r1) else r1)
      in cr\<lparr>subtreeRouter := r2\<rparr>)"

definition HasRoute :: "string \<Rightarrow> string \<Rightarrow> ClusterRouter \<Rightarrow> bool" where
  "HasRoute to port cr =
     (case go_get (subtreeRouter cr) to of None \<Rightarrow> False | Some oldPort \<Rightarrow> oldPort = port)"

fun portsLoop ::
  "strmap \<Rightarrow> string list \<Rightarrow> (string, string list) gomap \<Rightarrow> (string, string list) gomap" where
  "portsLoop m [] ret = ret"
| "portsLoop m (c # cs) ret =
     (case go_get m c of
        None \<Rightarrow> portsLoop m cs ret
      | Some port \<Rightarrow>
          (case go_get ret port of
             Some subs \<Rightarrow> portsLoop m cs (go_put port (subs @ [c]) ret)
           | None \<Rightarrow> portsLoop m cs (go_put port [c] ret)))"

definition PortsToSubtreeClusters ::
  "string list \<Rightarrow> ClusterRouter \<Rightarrow> (string, string list) gomap" where
  "PortsToSubtreeClusters clusters cr = portsLoop (subtreeRouter cr) clusters []"

definition SubTreeOfPort :: "string \<Rightarrow> ClusterRouter \<Rightarrow> string list" where
  "SubTreeOfPort port cr =
     map fst (filter (\<lambda>(to, p). p = port \<and> to \<noteq> port) (subtreeRouter cr))"

definition SubTreeClusters :: "ClusterRouter \<Rightarrow> string list" where
  "SubTreeClusters cr = go_keys (subtreeRouter cr)"

section \<open>Neighbours\<close>

definition updateNeighbor :: "ClusterRouter \<Rightarrow> ClusterRouter \<Rightarrow> bool \<times> ClusterRouter" where
  "updateNeighbor parentRouter cr =
     (if DeepEqual (Neighbor cr) (Childs parentRouter) then (False, cr)
      else (True, cr\<lparr>Neighbor := Childs parentRouter\<rparr>))"

definition updateParentNeighbor :: "ClusterRouter \<Rightarrow> ClusterRouter \<Rightarrow> bool \<times> ClusterRouter" where
  "updateParentNeighbor parentRouter cr =
     (if DeepEqual (ParentNeighbor cr) (Neighbor parentRouter) then (False, cr)
      else (True, cr\<lparr>ParentNeighbor := Neighbor parentRouter\<rparr>))"

definition ParentNeighbors :: "ClusterRouter \<Rightarrow> strmap option" where
  "ParentNeighbors cr = ParentNeighbor cr"

text \<open>The second component lists the calls of the notifier.\<close>

definition UpdateRouter ::
  "codecs \<Rightarrow> ClusterMessage \<Rightarrow> ClusterRouter \<Rightarrow>
   ClusterRouter \<times> ClusterMessage option list" where
  "UpdateRouter cd msg cr =
     (case neighborRouterFromClusterMessage cd msg of
        None \<Rightarrow> (cr, [])
      | Some r \<Rightarrow>
          let (changed, cr1) = updateNeighbor r cr;
              notes = (if changed then [NeighborRouterMessage cd cr1] else []);
              (_, cr2) = updateParentNeighbor r cr1
          in (cr2, notes))"

section \<open>Abstraction and invariant\<close>

text \<open>What a client of the table sees: the partial function from descendants to ports.\<close>

definition route :: "ClusterRouter \<Rightarrow> string \<Rightarrow> string option" where
  "route cr = go_get (subtreeRouter cr)"

definition opt_wf :: "strmap option \<Rightarrow> bool" where
  "opt_wf m = (case m of None \<Rightarrow> True | Some m' \<Rightarrow> go_wf m')"

definition router_wf :: "ClusterRouter \<Rightarrow> bool" where
  "router_wf cr \<longleftrightarrow>
     Childs cr \<noteq> None \<and> opt_wf (Childs cr) \<and> opt_wf (Neighbor cr) \<and>
     opt_wf (ParentNeighbor cr) \<and> go_wf (subtreeRouter cr)"

section \<open>Interface\<close>

text \<open>
  What the cluster handler relies on. The laws are about the abstract route function; the
  client lemmas are about its two loops over a reported subtree.
\<close>

locale route_table =
  fixes rt_inv :: "'s \<Rightarrow> bool"
    and rt_route :: "'s \<Rightarrow> string \<Rightarrow> string option"
    and rt_add :: "string \<Rightarrow> string \<Rightarrow> 's \<Rightarrow> 'e + 's"
    and rt_del :: "string \<Rightarrow> string \<Rightarrow> 's \<Rightarrow> 's"
  assumes add_free: "rt_inv s \<Longrightarrow> rt_route s to = None \<or> rt_route s to = Some port \<Longrightarrow>
      \<exists>s'. rt_add to port s = Inr s' \<and> rt_inv s' \<and> rt_route s' = (rt_route s)(to \<mapsto> port)"
    and add_taken: "rt_inv s \<Longrightarrow> rt_route s to = Some q \<Longrightarrow> q \<noteq> port \<Longrightarrow>
      \<exists>e. rt_add to port s = Inl e"
    and del_inv: "rt_inv s \<Longrightarrow> rt_inv (rt_del to port s)"
    and del_other: "rt_inv s \<Longrightarrow> to \<noteq> port \<Longrightarrow>
      rt_route (rt_del to port s) k =
        (if k = to \<and> rt_route s to = Some port then None else rt_route s k)"
    and del_port: "rt_inv s \<Longrightarrow> rt_route (rt_del port port s) k =
        (if k = port \<or> rt_route s k = Some port then None else rt_route s k)"
begin

abbreviation add_or_keep :: "string \<Rightarrow> string \<Rightarrow> 's \<Rightarrow> 's" where
  "add_or_keep port to s \<equiv> (case rt_add to port s of Inl _ \<Rightarrow> s | Inr s' \<Rightarrow> s')"

lemma add_or_keep:
  assumes "rt_inv s"
  shows "rt_inv (add_or_keep port to s) \<and>
    rt_route (add_or_keep port to s) =
      (\<lambda>k. if k = to \<and> rt_route s k = None then Some port else rt_route s k)"
proof (cases "rt_route s to = None \<or> rt_route s to = Some port")
  case True
  with add_free [OF assms this] assms show ?thesis by fastforce
next
  case False
  then obtain q where "rt_route s to = Some q" "q \<noteq> port" by auto
  with add_taken [OF assms this] assms show ?thesis by auto
qed

lemma fold_add:
  "rt_inv s \<Longrightarrow> rt_inv (fold (add_or_keep port) ks s) \<and>
   rt_route (fold (add_or_keep port) ks s) =
     (\<lambda>k. if k \<in> set ks \<and> rt_route s k = None then Some port else rt_route s k)"
proof (induction ks arbitrary: s)
  case (Cons to ks)
  note step = add_or_keep [OF Cons.prems, where port = port and to = to]
  from Cons.IH [of "add_or_keep port to s"] step show ?case
    by (auto simp: fun_eq_iff)
qed simp

lemma fold_del:
  "rt_inv s \<Longrightarrow> \<forall>k\<in>set ks. k \<noteq> port \<Longrightarrow>
   rt_inv (fold (\<lambda>k. rt_del k port) ks s) \<and>
   rt_route (fold (\<lambda>k. rt_del k port) ks s) =
     (\<lambda>k. if k \<in> set ks \<and> rt_route s k = Some port then None else rt_route s k)"
proof (induction ks arbitrary: s)
  case (Cons to ks)
  from Cons.IH [of "rt_del to port s"] Cons.prems show ?case
    by (auto simp: fun_eq_iff del_inv del_other)
qed simp

text \<open>Adding everything a child reports and dropping what it no longer reports.\<close>

lemma sync_routes:
  assumes "rt_inv s" and "s' = fold (add_or_keep port) ks s"
    and old: "set old = {k. rt_route s' k = Some port \<and> k \<noteq> port \<and> k \<notin> set ks}"
  shows "rt_inv (fold (\<lambda>k. rt_del k port) old s') \<and>
    rt_route (fold (\<lambda>k. rt_del k port) old s') =
      (\<lambda>k. if k \<in> set ks then (case rt_route s k of None \<Rightarrow> Some port | Some q \<Rightarrow> Some q)
           else if rt_route s k = Some port \<and> k \<noteq> port then None
           else rt_route s k)"
proof -
  from fold_add [OF assms(1), where port = port and ks = ks] assms(2)
  have s': "rt_inv s'" "rt_route s' =
      (\<lambda>k. if k \<in> set ks \<and> rt_route s k = None then Some port else rt_route s k)"
    by auto
  from old have "\<forall>k\<in>set old. k \<noteq> port" by auto
  from fold_del [OF s'(1) this] old s'(2) show ?thesis
    by (auto simp: fun_eq_iff split: option.splits)
qed

end

section \<open>Lemmas\<close>

lemma go_get_delRoutes_aux:
  "go_get (fold (\<lambda>(key, oldPort) m'. if oldPort = port then go_del key m' else m') xs m) k =
     (if (k, port) \<in> set xs then None else go_get m k)"
  by (induction xs arbitrary: m) (auto split: if_splits)

lemma go_get_delRoutesOfPort:
  "go_wf m \<Longrightarrow>
   go_get (delRoutesOfPort port m) k = (if go_get m k = Some port then None else go_get m k)"
  by (simp add: delRoutesOfPort_def go_get_delRoutes_aux go_wf_get_iff)

lemma go_wf_delRoutesOfPort [intro]: "go_wf m \<Longrightarrow> go_wf (delRoutesOfPort port m)"
  unfolding delRoutesOfPort_def by (rule fold_invariant) auto

lemma route_AddRoute:
  "AddRoute to port cr = Inr cr' \<Longrightarrow> route cr' = (route cr)(to \<mapsto> port)"
  by (auto simp: AddRoute_def route_def split: option.splits if_splits)

lemma AddRoute_childs: "AddRoute to port cr = Inr cr' \<Longrightarrow> Childs cr' = Childs cr"
  by (auto simp: AddRoute_def split: option.splits if_splits)

lemma DelRoute_childs [simp]: "Childs (DelRoute to port cr) = Childs cr"
  by (simp add: DelRoute_def Let_def)

lemma AddRoute_Inl_iff:
  "AddRoute to port cr = Inl e \<longleftrightarrow>
     e = ErrDuplicatedName \<and> (\<exists>q. route cr to = Some q \<and> q \<noteq> port)"
  by (auto simp: AddRoute_def route_def split: option.splits if_splits)

lemma route_DelRoute:
  assumes "go_wf (subtreeRouter cr)"
  shows "route (DelRoute to port cr) k =
    (if to = port then (if k = port \<or> route cr k = Some port then None else route cr k)
     else if k = to \<and> route cr to = Some port then None else route cr k)"
  using assms
  by (auto simp: DelRoute_def route_def Let_def go_get_delRoutesOfPort split: option.splits)

lemma router_wf_default [simp, intro]: "router_wf defaultClusterRouter"
  by (simp add: router_wf_def defaultClusterRouter_def opt_wf_def)

lemma router_wf_subtree: "router_wf cr \<Longrightarrow> go_wf (subtreeRouter cr)"
  by (simp add: router_wf_def)

lemma router_wf_AddRoute: "router_wf cr \<Longrightarrow> AddRoute to port cr = Inr cr' \<Longrightarrow> router_wf cr'"
  by (auto simp: AddRoute_def router_wf_def split: option.splits if_splits)

lemma router_wf_DelRoute [intro]: "router_wf cr \<Longrightarrow> router_wf (DelRoute to port cr)"
  by (auto simp: DelRoute_def router_wf_def Let_def split: option.splits)

lemma router_wf_AddChild:
  "router_wf cr \<Longrightarrow> AddChild cd name listen cr = Inr (cr', n) \<Longrightarrow> router_wf cr'"
  by (auto simp: AddChild_def router_wf_def opt_wf_def Let_def split: option.splits)

lemma router_wf_DelChild: "router_wf cr \<Longrightarrow> DelChild cd name cr = (cr', n) \<Longrightarrow> router_wf cr'"
  by (auto simp: DelChild_def router_wf_def opt_wf_def Let_def split: option.splits)

interpretation rt: route_table router_wf route AddRoute DelRoute
proof unfold_locales
  fix s to port
  assume "router_wf s" and free: "route s to = None \<or> route s to = Some port"
  then obtain s' where s': "AddRoute to port s = Inr s'"
    by (cases "AddRoute to port s") (auto simp: AddRoute_Inl_iff)
  with \<open>router_wf s\<close> show "\<exists>s'. AddRoute to port s = Inr s' \<and> router_wf s' \<and>
      route s' = (route s)(to \<mapsto> port)"
    by (blast dest: route_AddRoute router_wf_AddRoute)
qed (auto simp: AddRoute_Inl_iff route_DelRoute router_wf_subtree)

section \<open>Children and neighbours\<close>

lemma AddChild_Inr:
  assumes "AddChild cd name listen cr = Inr (cr', n)"
  shows "nil_get (Childs cr) name = None"
    and "nil_get (Childs cr') = (nil_get (Childs cr))(name \<mapsto> listen)"
    and "route cr' = route cr" and "n = NeighborRouterMessage cd cr'"
  using assms
  by (auto simp: AddChild_def nil_get_def route_def Let_def fun_eq_iff split: option.splits)

lemma DelChild_childs:
  "nil_get (Childs (fst (DelChild cd name cr))) = (nil_get (Childs cr))(name := None)"
  by (auto simp: DelChild_def nil_get_def Let_def fun_eq_iff split: option.splits)

lemma DelChild_route: "route (fst (DelChild cd name cr)) = route cr"
  by (auto simp: DelChild_def route_def Let_def split: option.splits)

lemma set_SubTreeOfPort:
  "go_wf (subtreeRouter cr) \<Longrightarrow>
   set (SubTreeOfPort port cr) = {k. route cr k = Some port \<and> k \<noteq> port}"
  by (force simp: SubTreeOfPort_def route_def go_wf_get_iff)

lemma set_SubTreeClusters [simp]: "set (SubTreeClusters cr) = dom (route cr)"
  by (simp add: SubTreeClusters_def route_def)

lemma distinct_SubTreeClusters [simp]: "router_wf cr \<Longrightarrow> distinct (SubTreeClusters cr)"
  by (simp add: SubTreeClusters_def router_wf_def go_wf_def)

section \<open>Grouping by port\<close>

definition append_group :: "string list option \<Rightarrow> string list \<Rightarrow> string list option" where
  "append_group old new =
     (if new = [] then old else Some ((case old of None \<Rightarrow> [] | Some xs \<Rightarrow> xs) @ new))"

lemma portsLoop_get:
  "go_get (portsLoop m cs ret) p =
     append_group (go_get ret p) (filter (\<lambda>c. go_get m c = Some p) cs)"
  by (induction m cs ret rule: portsLoop.induct)
     (auto simp: append_group_def split: option.splits)

lemma go_wf_portsLoop: "go_wf ret \<Longrightarrow> go_wf (portsLoop m cs ret)"
  by (induction m cs ret rule: portsLoop.induct) (auto split: option.splits)

lemma go_wf_PortsToSubtreeClusters [simp]: "go_wf (PortsToSubtreeClusters cs cr)"
  by (simp add: PortsToSubtreeClusters_def go_wf_portsLoop)

lemma PortsToSubtreeClusters_get:
  "go_get (PortsToSubtreeClusters cs cr) p =
     (let sub = filter (\<lambda>c. route cr c = Some p) cs in if sub = [] then None else Some sub)"
  by (simp add: PortsToSubtreeClusters_def portsLoop_get append_group_def route_def Let_def)

end
