(* ===== verification/Selector.thy ===== *)
theory Selector
  imports Prelude "HOL-Library.Sublist"
begin

text \<open>
  The cluster selector (\<^verbatim>\<open>pkg/clusterselector/selector.go\<close>): a comma separated list of
  regular expressions. Matching itself is \<^verbatim>\<open>regexp.MatchString\<close>, the argument \<open>rx\<close> of the
  definitions: \<open>rx p s\<close> holds when pattern \<open>p\<close> compiles and matches somewhere in \<open>s\<close>.
  What the documentation of that package says of a pattern without metacharacters is
  \<open>regexp_literal\<close>: it matches exactly the strings that contain it.
\<close>

section \<open>Operations\<close>

definition SelectorPatternDelimiter :: char where
  "SelectorPatternDelimiter = CHR '',''"

type_synonym selector = "string list"

definition NewSelector :: "string \<Rightarrow> selector" where
  "NewSelector s = map strings_TrimSpace (strings_Split s SelectorPatternDelimiter)"

fun Has :: "(string \<Rightarrow> string \<Rightarrow> bool) \<Rightarrow> selector \<Rightarrow> string \<Rightarrow> bool" where
  "Has rx [] clusterName = False"
| "Has rx (p # ps) clusterName = (if rx p clusterName then True else Has rx ps clusterName)"

definition ClustersToSelector :: "string list \<Rightarrow> string" where
  "ClustersToSelector clusters = strings_Join clusters SelectorPatternDelimiter"

section \<open>Literal patterns\<close>

definition metachars :: string where
  "metachars = [CHR 0x5C] @ ''.+*?()|[]{}^$''"

definition literal :: "string \<Rightarrow> bool" where
  "literal p = list_all (\<lambda>c. c \<notin> set metachars) p"

definition regexp_literal :: "(string \<Rightarrow> string \<Rightarrow> bool) \<Rightarrow> bool" where
  "regexp_literal rx = (\<forall>p s. literal p \<longrightarrow> rx p s = sublist p s)"

text \<open>A cluster name that survives a trip through a selector: literal, and without the
  delimiter or white space.\<close>

definition plain_name :: "string \<Rightarrow> bool" where
  "plain_name n \<longleftrightarrow>
     literal n \<and> list_all (\<lambda>c. c \<noteq> SelectorPatternDelimiter \<and> \<not> is_space c) n"

section \<open>Lemmas\<close>

lemma Has_iff: "Has rx ps n \<longleftrightarrow> (\<exists>p\<in>set ps. rx p n)"
  by (induction ps) auto

lemma NewSelector_ClustersToSelector:
  assumes "ns \<noteq> []" and "\<forall>n\<in>set ns. plain_name n"
  shows "NewSelector (ClustersToSelector ns) = ns"
proof -
  have "strings_Split (strings_Join ns SelectorPatternDelimiter) SelectorPatternDelimiter = ns"
    using assms by (intro strings_Split_Join) (auto simp: plain_name_def list_all_iff)
  moreover have "map strings_TrimSpace ns = ns"
    using assms
    by (intro map_idI strings_TrimSpace_id) (auto simp: plain_name_def list_all_iff)
  ultimately show ?thesis
    by (simp add: NewSelector_def ClustersToSelector_def)
qed

lemma Has_literal:
  "regexp_literal rx \<Longrightarrow> \<forall>p\<in>set ps. literal p \<Longrightarrow> Has rx ps n \<longleftrightarrow> (\<exists>p\<in>set ps. sublist p n)"
  by (auto simp: Has_iff regexp_literal_def)

lemma Has_relayed:
  assumes "regexp_literal rx" and "ns \<noteq> []" and "\<forall>n\<in>set ns. plain_name n"
  shows "Has rx (NewSelector (ClustersToSelector ns)) n \<longleftrightarrow> (\<exists>p\<in>set ns. sublist p n)"
  using assms by (simp add: NewSelector_ClustersToSelector Has_literal plain_name_def)

lemma Has_relayed_member:
  "regexp_literal rx \<Longrightarrow> n \<in> set ns \<Longrightarrow> \<forall>n\<in>set ns. plain_name n \<Longrightarrow>
   Has rx (NewSelector (ClustersToSelector ns)) n"
  by (subst Has_relayed) auto

lemma NewSelector_empty [simp]: "NewSelector [] = [[]]"
  by (simp add: NewSelector_def strings_TrimSpace_def)

lemma Has_empty_selector: "regexp_literal rx \<Longrightarrow> Has rx (NewSelector []) n"
  by (simp add: regexp_literal_def literal_def)

end
