(* ===== verification/K8sClient.thy ===== *)
theory K8sClient
  imports Prelude
begin

text \<open>
  The custom resources \<^verbatim>\<open>Cluster\<close> and \<^verbatim>\<open>ClusterController\<close> (\<^verbatim>\<open>pkg/apis/ote/v1/types.go\<close>) and
  the two wrappers around the API server (\<^verbatim>\<open>pkg/k8sclient\<close>). What they call is a record \<open>oteapi\<close>
  over an abstract server state \<open>'k\<close>, an argument of the definitions: the generated client, which
  \<open>OteClient\<close> models and from which it builds such a record, and \<^verbatim>\<open>retry.RetryOnConflict\<close> and
  \<^verbatim>\<open>jsonpatch\<close>, which are libraries. \<open>oteapi_ok\<close> collects the behaviour some theorems rely on;
  \<open>OteClientProps\<close> derives it from the documented behaviour of an API server.
\<close>

section \<open>Resources\<close>

record ClusterStatus =
  stListen :: string
  stParentName :: string
  stStatus :: string
  stTimestamp :: int
  stCapacity :: "(string, int) gomap"
  stAllocatable :: "(string, int) gomap"

record Cluster =
  clNamespace :: string
  clName :: string
  clResourceVersion :: string
  clSpecName :: string
  clStatus :: ClusterStatus

record ClusterControllerStatus =
  ccsTimestamp :: int
  ccsStatusCode :: int
  ccsBody :: string

record ClusterController =
  ccNamespace :: string
  ccName :: string
  ccCreationTimestamp :: int
  ccParentClusterName :: string
  ccClusterSelector :: string
  ccDestination :: string
  ccMethod :: string
  ccURL :: string
  ccBody :: string
  ccStatus :: "(string, ClusterControllerStatus) gomap option"

definition ClusterStatusOnline :: string where "ClusterStatusOnline = ''online''"
definition ClusterStatusOffline :: string where "ClusterStatusOffline = ''offline''"
definition ClusterNamespace :: string where "ClusterNamespace = ''kube-system''"
definition ClusterControllerDestAPI :: string where "ClusterControllerDestAPI = ''api''"
definition ClusterControllerDestHelm :: string where "ClusterControllerDestHelm = ''helm''"

section \<open>The API server as a parameter\<close>

datatype api_error = NotFound | Conflict | StaleTimestamp | GetFailed | PatchFailed | ApiError string

record 'k oteapi =
  api_getCluster :: "string \<Rightarrow> string \<Rightarrow> 'k \<Rightarrow> Cluster option"
  api_createCluster :: "string \<Rightarrow> Cluster \<Rightarrow> 'k \<Rightarrow> api_error option \<times> 'k"
  api_updateCluster :: "string \<Rightarrow> Cluster \<Rightarrow> 'k \<Rightarrow> api_error option \<times> 'k"
  api_deleteCluster :: "string \<Rightarrow> string \<Rightarrow> 'k \<Rightarrow> api_error option \<times> 'k"
  api_patchCluster :: "string \<Rightarrow> string \<Rightarrow> bytes \<Rightarrow> 'k \<Rightarrow> api_error option \<times> 'k"
  api_getCC :: "string \<Rightarrow> string \<Rightarrow> 'k \<Rightarrow> ClusterController option"
  api_updateCC :: "string \<Rightarrow> ClusterController \<Rightarrow> 'k \<Rightarrow> api_error option \<times> 'k"
  api_retry :: "('k \<Rightarrow> api_error option \<times> 'k) \<Rightarrow> 'k \<Rightarrow> api_error option \<times> 'k"
  api_marshalCluster :: "Cluster \<Rightarrow> bytes option"
  api_mergePatch :: "bytes \<Rightarrow> bytes \<Rightarrow> bytes option"

section \<open>ClusterCRD\<close>

definition ClusterCRD_Get :: "'k oteapi \<Rightarrow> string \<Rightarrow> string \<Rightarrow> 'k \<Rightarrow> Cluster option" where
  "ClusterCRD_Get api ns name k = api_getCluster api ns name k"

text \<open>\<^verbatim>\<open>Create\<close>, \<^verbatim>\<open>Delete\<close> and \<^verbatim>\<open>Update\<close> log an error and drop it.\<close>

definition ClusterCRD_Create :: "'k oteapi \<Rightarrow> Cluster \<Rightarrow> 'k \<Rightarrow> 'k" where
  "ClusterCRD_Create api cluster k = snd (api_createCluster api (clNamespace cluster) cluster k)"

definition ClusterCRD_Delete :: "'k oteapi \<Rightarrow> Cluster \<Rightarrow> 'k \<Rightarrow> 'k" where
  "ClusterCRD_Delete api cluster k =
     snd (api_deleteCluster api (clNamespace cluster) (clName cluster) k)"

definition ClusterCRD_Update :: "'k oteapi \<Rightarrow> Cluster \<Rightarrow> 'k \<Rightarrow> 'k" where
  "ClusterCRD_Update api cluster k = snd (api_updateCluster api (clNamespace cluster) cluster k)"

definition updateClusterIsValid :: "Cluster \<Rightarrow> Cluster \<Rightarrow> bool" where
  "updateClusterIsValid newcluster oldcluster =
     (stTimestamp (clStatus newcluster) > stTimestamp (clStatus oldcluster))"

text \<open>The closure \<^verbatim>\<open>UpdateStatus\<close> hands to \<^verbatim>\<open>RetryOnConflict\<close>, and the method.\<close>

definition updateStatusOnce :: "'k oteapi \<Rightarrow> Cluster \<Rightarrow> 'k \<Rightarrow> api_error option \<times> 'k" where
  "updateStatusOnce api newcluster k =
     (case api_getCluster api (clNamespace newcluster) (clName newcluster) k of
        None \<Rightarrow> (Some GetFailed, k)
      | Some oldcluster \<Rightarrow>
          if \<not> updateClusterIsValid newcluster oldcluster then (Some StaleTimestamp, k)
          else api_updateCluster api (clNamespace oldcluster)
                 (oldcluster\<lparr>clStatus := clStatus newcluster\<rparr>) k)"

definition ClusterCRD_UpdateStatus :: "'k oteapi \<Rightarrow> Cluster \<Rightarrow> 'k \<Rightarrow> api_error option \<times> 'k" where
  "ClusterCRD_UpdateStatus api newcluster k = api_retry api (updateStatusOnce api newcluster) k"

definition getPatchBytes :: "'k oteapi \<Rightarrow> Cluster \<Rightarrow> Cluster \<Rightarrow> bytes option" where
  "getPatchBytes api oldcluster newcluster =
     (case api_marshalCluster api oldcluster of
        None \<Rightarrow> None
      | Some oldData \<Rightarrow>
          (case api_marshalCluster api newcluster of
             None \<Rightarrow> None
           | Some newData \<Rightarrow> api_mergePatch api oldData newData))"

definition ClusterCRD_PatchStatus :: "'k oteapi \<Rightarrow> Cluster \<Rightarrow> 'k \<Rightarrow> api_error option \<times> 'k" where
  "ClusterCRD_PatchStatus api newcluster k =
     (case api_getCluster api (clNamespace newcluster) (clName newcluster) k of
        None \<Rightarrow> (Some GetFailed, k)
      | Some oldcluster \<Rightarrow>
          if \<not> updateClusterIsValid newcluster oldcluster then (Some StaleTimestamp, k)
          else (case getPatchBytes api oldcluster
                       (oldcluster\<lparr>clStatus := clStatus newcluster\<rparr>) of
                  None \<Rightarrow> (Some PatchFailed, k)
                | Some patchBytes \<Rightarrow>
                    api_patchCluster api (clNamespace oldcluster) (clName oldcluster) patchBytes k))"

section \<open>ClusterControllerCRD\<close>

definition ClusterControllerCRD_Get ::
  "'k oteapi \<Rightarrow> string \<Rightarrow> string \<Rightarrow> 'k \<Rightarrow> ClusterController option" where
  "ClusterControllerCRD_Get api ns name k = api_getCC api ns name k"

definition ClusterControllerCRD_Update :: "'k oteapi \<Rightarrow> ClusterController \<Rightarrow> 'k \<Rightarrow> 'k" where
  "ClusterControllerCRD_Update api cc k = snd (api_updateCC api (ccNamespace cc) cc k)"

section \<open>Documented behaviour\<close>

text \<open>
  \<open>RetryOnConflict\<close> runs the closure once and again for as long as it reports a conflict
  and steps are left; it returns what the last run returned.
\<close>

fun retry_runs :: "nat \<Rightarrow> ('k \<Rightarrow> api_error option \<times> 'k) \<Rightarrow> 'k \<Rightarrow> api_error option \<times> 'k" where
  "retry_runs 0 f k = f k"
| "retry_runs (Suc n) f k =
     (case f k of (Some Conflict, k') \<Rightarrow> retry_runs n f k' | r \<Rightarrow> r)"

definition retry_ok :: "(('k \<Rightarrow> api_error option \<times> 'k) \<Rightarrow> 'k \<Rightarrow> api_error option \<times> 'k) \<Rightarrow> bool" where
  "retry_ok retry = (\<forall>f k. \<exists>n. retry f k = retry_runs n f k)"

text \<open>
  A failed write leaves the server unchanged; a successful one stores the object, under a
  fresh resource version, and touches no other. An object is stored under the name and
  namespace it carries.
\<close>

definition stored_as :: "Cluster \<Rightarrow> Cluster option \<Rightarrow> bool" where
  "stored_as c r = (\<exists>rv. r = Some (c\<lparr>clResourceVersion := rv\<rparr>))"

definition write_ok ::
  "'k oteapi \<Rightarrow> (string \<Rightarrow> Cluster \<Rightarrow> 'k \<Rightarrow> api_error option \<times> 'k) \<Rightarrow> bool" where
  "write_ok api w \<longleftrightarrow>
     (\<forall>ns c k e k'. w ns c k = (e, k') \<longrightarrow>
        (if e \<noteq> None then k' = k
         else stored_as c (api_getCluster api ns (clName c) k') \<and>
           (\<forall>ns' n'. (ns', n') \<noteq> (ns, clName c) \<longrightarrow>
              api_getCluster api ns' n' k' = api_getCluster api ns' n' k)))"

definition get_ok :: "'k oteapi \<Rightarrow> bool" where
  "get_ok api \<longleftrightarrow>
     (\<forall>ns n k c. api_getCluster api ns n k = Some c \<longrightarrow> clNamespace c = ns \<and> clName c = n)"

definition oteapi_ok :: "'k oteapi \<Rightarrow> bool" where
  "oteapi_ok api \<longleftrightarrow>
     get_ok api \<and> write_ok api (api_updateCluster api) \<and> write_ok api (api_createCluster api) \<and>
     retry_ok (api_retry api)"

section \<open>Lemmas\<close>

lemma oteapi_okD:
  assumes "oteapi_ok api"
  shows "get_ok api" "write_ok api (api_updateCluster api)"
    "write_ok api (api_createCluster api)" "retry_ok (api_retry api)"
  using assms by (simp_all add: oteapi_ok_def)

lemma write_ok_failed: "write_ok api w \<Longrightarrow> w ns c k = (Some e, k') \<Longrightarrow> k' = k"
  unfolding write_ok_def by (metis option.distinct(1))

lemma write_ok_done:
  assumes "write_ok api w" and "w ns c k = (None, k')"
  shows "stored_as c (api_getCluster api ns (clName c) k')"
    and "(ns', n') \<noteq> (ns, clName c) \<Longrightarrow> api_getCluster api ns' n' k' = api_getCluster api ns' n' k"
proof -
  from assms have "stored_as c (api_getCluster api ns (clName c) k') \<and>
      (\<forall>ns' n'. (ns', n') \<noteq> (ns, clName c) \<longrightarrow>
         api_getCluster api ns' n' k' = api_getCluster api ns' n' k)"
    unfolding write_ok_def by presburger
  then show "stored_as c (api_getCluster api ns (clName c) k')"
    and "(ns', n') \<noteq> (ns, clName c) \<Longrightarrow> api_getCluster api ns' n' k' = api_getCluster api ns' n' k"
    by blast+
qed

lemma stored_asD:
  "stored_as c r \<Longrightarrow> \<exists>c'. r = Some c' \<and> clStatus c' = clStatus c \<and>
     clSpecName c' = clSpecName c \<and> clNamespace c' = clNamespace c \<and> clName c' = clName c"
  by (auto simp: stored_as_def)

text \<open>A closure that leaves the server alone when it fails makes the retry loop transparent.\<close>

lemma retry_runs_transparent:
  "(\<And>k e k'. f k = (Some e, k') \<Longrightarrow> k' = k) \<Longrightarrow> retry_runs n f k = f k"
proof (induction n arbitrary: k)
  case (Suc n)
  obtain e k' where "f k = (e, k')" by fastforce
  with Suc show ?case by (cases e) (auto split: api_error.splits)
qed simp

lemma updateStatusOnce_failed:
  "oteapi_ok api \<Longrightarrow> updateStatusOnce api c k = (Some e, k') \<Longrightarrow> k' = k"
  by (auto simp: updateStatusOnce_def dest: oteapi_okD(2) write_ok_failed
      split: option.splits if_splits)

lemma UpdateStatus_once:
  assumes "oteapi_ok api"
  shows "ClusterCRD_UpdateStatus api c k = updateStatusOnce api c k"
proof -
  from assms obtain n where "api_retry api (updateStatusOnce api c) k =
      retry_runs n (updateStatusOnce api c) k"
    by (auto simp: oteapi_ok_def retry_ok_def)
  also have "\<dots> = updateStatusOnce api c k"
    by (rule retry_runs_transparent) (rule updateStatusOnce_failed [OF assms])
  finally show ?thesis by (simp add: ClusterCRD_UpdateStatus_def)
qed

lemma UpdateStatus_done:
  assumes ok: "oteapi_ok api" and upd: "ClusterCRD_UpdateStatus api c k = (None, k')"
  obtains old where "api_getCluster api (clNamespace c) (clName c) k = Some old"
    and "stTimestamp (clStatus old) < stTimestamp (clStatus c)"
    and "stored_as (old\<lparr>clStatus := clStatus c\<rparr>)
           (api_getCluster api (clNamespace c) (clName c) k')"
    and "\<And>ns n. (ns, n) \<noteq> (clNamespace c, clName c) \<Longrightarrow>
           api_getCluster api ns n k' = api_getCluster api ns n k"
proof -
  from upd ok have "updateStatusOnce api c k = (None, k')" by (simp add: UpdateStatus_once)
  then obtain old where old: "api_getCluster api (clNamespace c) (clName c) k = Some old"
      "stTimestamp (clStatus old) < stTimestamp (clStatus c)"
      "api_updateCluster api (clNamespace old) (old\<lparr>clStatus := clStatus c\<rparr>) k = (None, k')"
    by (auto simp: updateStatusOnce_def updateClusterIsValid_def split: option.splits if_splits)
  moreover from old(1) ok have "clNamespace old = clNamespace c" "clName old = clName c"
    by (auto simp: oteapi_ok_def get_ok_def)
  ultimately show thesis
    using that [of old] write_ok_done [OF oteapi_okD(2) [OF ok] old(3)] by simp
qed

lemma Create_done:
  assumes ok: "oteapi_ok api"
  shows "ClusterCRD_Create api c k = k \<or>
    stored_as c (api_getCluster api (clNamespace c) (clName c) (ClusterCRD_Create api c k))"
proof -
  obtain e k' where w: "api_createCluster api (clNamespace c) c k = (e, k')" by fastforce
  show ?thesis
  proof (cases e)
    case None
    with w write_ok_done(1) [OF oteapi_okD(3) [OF ok], of "clNamespace c" c k k'] show ?thesis
      by (simp add: ClusterCRD_Create_def)
  next
    case (Some x)
    with w have "k' = k" by (blast intro: write_ok_failed [OF oteapi_okD(3) [OF ok]])
    with w show ?thesis by (simp add: ClusterCRD_Create_def)
  qed
qed

end
