(* ===== verification/Handler.thy ===== *)
theory Handler
  imports Router Selector K8sClient
begin

text \<open>
  The cluster handler (\<^verbatim>\<open>pkg/clusterhandler/clusterhandler.go\<close>), the core of a cluster
  controller: it accepts children, keeps the route table, relays messages down by selector
  and up to the parent, and at the root writes the custom resources.

  A handler is a record of its configuration, the two switches computed by \<open>valid\<close>, the
  route table and the API server's state. Each entry point is a function from the record to
  the new record and the list of \<open>action\<close>s it performs on its channels, its tunnel and its
  goroutines, in the order the code issues them. \<open>henv\<close> collects what comes from outside: the codecs, the API
  server, the regular expression matcher, the clock (in nanoseconds) and whether the tunnel
  manages to send a message to a controller manager. An entry point that can dereference a
  nil pointer returns an \<open>option\<close>, with \<open>None\<close> for the panic.
\<close>

section \<open>State\<close>

record config =
  TunnelListenAddr :: string
  LeaderListenAddr :: string
  ParentCluster :: string
  confClusterName :: string
  ClusterUserDefineName :: string
  RemoteShimAddr :: string
  hasK8sClient :: bool

record 'k handler =
  conf :: config
  k8sEnable :: bool
  rootClusterEnable :: bool
  router :: ClusterRouter
  kube :: 'k

record 'k henv =
  codec :: codecs
  api :: "'k oteapi"
  rx :: "string \<Rightarrow> string \<Rightarrow> bool"
  now :: int
  cmSendOk :: "bytes \<Rightarrow> bool"

datatype action =
    SendTo string bytes
  | BroadcastAll bytes
  | ToControllerManager bytes
  | ToParent ClusterMessage
  | ToRootEdge ClusterMessage
  | ToDownstream ClusterMessage
  | SpawnHandle string bytes

datatype handler_error =
    EmptyClusterName | RootHasName | NonRootNamedRoot | EmptyListenAddr | NilK8sClient
  | BadMessage | NilMessageHead | MarshalFailed | SendFailed | NoClusterInfo
  | RouteRefused router_error | StatusUpdateFailed api_error | SubtreeEmpty
  | ChanFull | TunnelStartFailed

definition isRoot :: "'k handler \<Rightarrow> bool" where
  "isRoot c = IsRoot (ClusterUserDefineName (conf c))"

section \<open>Construction\<close>

text \<open>\<open>valid\<close> checks a configuration and computes the switches
  \<open>(rootClusterEnable, k8sEnable)\<close>; the two resource wrappers it builds are never nil.\<close>

definition valid :: "config \<Rightarrow> handler_error + bool \<times> bool" where
  "valid cf =
     (let root = IsRoot (ClusterUserDefineName cf) in
      if ClusterUserDefineName cf = [] then Inl EmptyClusterName
      else if ParentCluster cf = [] \<and> \<not> root then Inl RootHasName
      else if ParentCluster cf \<noteq> [] \<and> root then Inl NonRootNamedRoot
      else if TunnelListenAddr cf = [] then Inl EmptyListenAddr
      else let rce = (root \<and> RemoteShimAddr cf \<noteq> []) in
           if root then (if \<not> hasK8sClient cf then Inl NilK8sClient else Inr (rce, True))
           else Inr (rce, hasK8sClient cf))"

definition NewClusterHandler :: "config \<Rightarrow> 'k \<Rightarrow> handler_error + 'k handler" where
  "NewClusterHandler cf k =
     (case valid cf of
        Inl e \<Rightarrow> Inl e
      | Inr (rce, k8s) \<Rightarrow>
          Inr \<lparr>conf = cf, k8sEnable = k8s, rootClusterEnable = rce,
               router = defaultClusterRouter, kube = k\<rparr>)"

section \<open>The queue of child messages\<close>

definition ChildMessageChanCap :: nat where
  "ChildMessageChanCap = 10000"

type_synonym child_queue = "(string \<times> bytes) list"

definition handleMessageFromCloudTunnel ::
  "string \<Rightarrow> bytes \<Rightarrow> child_queue \<Rightarrow> handler_error option \<times> child_queue" where
  "handleMessageFromCloudTunnel client data q =
     (if length q < ChildMessageChanCap then (None, q @ [(client, data)]) else (Some ChanFull, q))"

section \<open>Sending to children\<close>

definition sendToChild :: "'k henv \<Rightarrow> ClusterMessage option \<Rightarrow> string list \<Rightarrow> action list" where
  "sendToChild env msg tos =
     (case msg of
        None \<Rightarrow> []
      | Some m \<Rightarrow>
          (case pb_msg (codec env) m of
             None \<Rightarrow> []
           | Some data \<Rightarrow>
               if tos = [] then [BroadcastAll data] else map (\<lambda>to. SendTo to data) tos))"

text \<open>\<open>head\<close> is the message's head, dereferenced by the caller before.\<close>

definition portMessage :: "ClusterMessage \<Rightarrow> MessageHead \<Rightarrow> string list \<Rightarrow> ClusterMessage" where
  "portMessage msg head subtree =
     msg\<lparr>Head := Some (head\<lparr>ClusterSelector := ClustersToSelector subtree\<rparr>)\<rparr>"

definition selectedClusters :: "'k henv \<Rightarrow> string \<Rightarrow> ClusterRouter \<Rightarrow> string list" where
  "selectedClusters env sel cr = filter (Has (rx env) (NewSelector sel)) (SubTreeClusters cr)"

definition selectChild ::
  "'k henv \<Rightarrow> ClusterMessage \<Rightarrow> MessageHead \<Rightarrow> ClusterRouter \<Rightarrow>
   (string, ClusterMessage) gomap" where
  "selectChild env msg head cr =
     map (\<lambda>(port, subtree). (port, portMessage msg head subtree))
       (PortsToSubtreeClusters (selectedClusters env (ClusterSelector head) cr) cr)"

definition sendSelected ::
  "'k henv \<Rightarrow> ClusterMessage \<Rightarrow> MessageHead \<Rightarrow> ClusterRouter \<Rightarrow> action list" where
  "sendSelected env msg head cr =
     concat (map (\<lambda>(port, portMsg). sendToChild env (Some portMsg) [port])
       (selectChild env msg head cr))"

section \<open>Custom resources to messages and back\<close>

definition hour :: int where "hour = 3600 * 10 ^ 9"

definition hasToProcessClusterController :: "'k henv \<Rightarrow> ClusterController \<Rightarrow> bool" where
  "hasToProcessClusterController env ca =
     (if \<not> (ccCreationTimestamp ca + hour > now env) then False
      else (case ccStatus ca of None \<Rightarrow> True | Some st \<Rightarrow> st = []))"

definition clusterControllerCRDToSerializedControllerTask ::
  "codecs \<Rightarrow> ClusterController \<Rightarrow> bytes option" where
  "clusterControllerCRDToSerializedControllerTask cd cc =
     pb_task cd \<lparr>Destination = ccDestination cc, Method = ccMethod cc, URI = ccURL cc,
       TaskBody = ccBody cc\<rparr>"

definition clusterControllerCRDToClusterMessage ::
  "codecs \<Rightarrow> ClusterController \<Rightarrow> CommandType \<Rightarrow> ClusterMessage" where
  "clusterControllerCRDToClusterMessage cd cc command =
     (let ret = \<lparr>Head = Some \<lparr>MessageID = ccName cc, Command = command,
                   ClusterSelector = ccClusterSelector cc, ClusterName = [],
                   ParentClusterName = ccParentClusterName cc\<rparr>,
                 Body = []\<rparr>
      in if command = ControlReq
         then (case clusterControllerCRDToSerializedControllerTask cd cc of
                 None \<Rightarrow> ret | Some task \<Rightarrow> ret\<lparr>Body := task\<rparr>)
         else ret)"

definition clusterMessageToClusterControllerStatusCRD ::
  "codecs \<Rightarrow> ClusterMessage \<Rightarrow> MessageHead \<Rightarrow> string \<times> ClusterControllerStatus option" where
  "clusterMessageToClusterControllerStatusCRD cd msg head =
     (case unpb_resp cd (Body msg) of
        None \<Rightarrow> ([], None)
      | Some resp \<Rightarrow>
          (ClusterName head,
           Some \<lparr>ccsTimestamp = RespTimestamp resp, ccsStatusCode = RespStatusCode resp,
                 ccsBody = RespBody resp\<rparr>))"

text \<open>\<open>None\<close> is the panic of \<^verbatim>\<open>*status\<close> on a nil status.\<close>

definition clusterMessageToClusterControllerCRD ::
  "codecs \<Rightarrow> ClusterMessage \<Rightarrow> MessageHead \<Rightarrow> ClusterController option" where
  "clusterMessageToClusterControllerCRD cd msg head =
     (let ret = \<lparr>ccNamespace = ClusterNamespace, ccName = MessageID head,
                 ccCreationTimestamp = 0, ccParentClusterName = [], ccClusterSelector = [],
                 ccDestination = [], ccMethod = [], ccURL = [], ccBody = [],
                 ccStatus = Some []\<rparr>
      in if Command head = ControlResp
         then (case clusterMessageToClusterControllerStatusCRD cd msg head of
                 (cluster, None) \<Rightarrow> None
               | (cluster, Some status) \<Rightarrow> Some (ret\<lparr>ccStatus := Some [(cluster, status)]\<rparr>))
         else Some ret)"

definition getClusterRegistryFromClusterMessage ::
  "codecs \<Rightarrow> ClusterMessage \<Rightarrow> ClusterRegistry option" where
  "getClusterRegistryFromClusterMessage cd msg =
     (case ClusterRegistryDeserialize cd (Body msg) of Inl _ \<Rightarrow> None | Inr cr \<Rightarrow> Some cr)"

definition getClusterFromClusterRegistry :: "ClusterRegistry option \<Rightarrow> Cluster option" where
  "getClusterFromClusterRegistry cr =
     (case cr of
        None \<Rightarrow> None
      | Some r \<Rightarrow>
          Some \<lparr>clNamespace = ClusterNamespace, clName = RegName r, clResourceVersion = [],
                clSpecName = RegUserDefineName r,
                clStatus = \<lparr>stListen = RegListen r, stParentName = RegParentName r,
                  stStatus = [], stTimestamp = RegTime r, stCapacity = [], stAllocatable = []\<rparr>\<rparr>)"

text \<open>\<^verbatim>\<open>time.Now().Unix()\<close>: whole seconds.\<close>

definition unixNow :: "'k henv \<Rightarrow> int" where
  "unixNow env = now env div 10 ^ 9"

definition newRootCluster :: "'k henv \<Rightarrow> 'k handler \<Rightarrow> Cluster" where
  "newRootCluster env c =
     \<lparr>clNamespace = ClusterNamespace, clName = confClusterName (conf c), clResourceVersion = [],
      clSpecName = confClusterName (conf c),
      clStatus = \<lparr>stListen = TunnelListenAddr (conf c), stParentName = [], stStatus = [],
        stTimestamp = unixNow env, stCapacity = [], stAllocatable = []\<rparr>\<rparr>"

definition createOrUpdateCluster ::
  "'k henv \<Rightarrow> Cluster \<Rightarrow> 'k handler \<Rightarrow> handler_error option \<times> 'k handler" where
  "createOrUpdateCluster env cluster c =
     (case ClusterCRD_Get (api env) (clNamespace cluster) (clName cluster) (kube c) of
        None \<Rightarrow>
          (None, c\<lparr>kube := ClusterCRD_Create (api env)
             (cluster\<lparr>clStatus := (clStatus cluster)\<lparr>stStatus := ClusterStatusOnline,
                stTimestamp := unixNow env\<rparr>\<rparr>) (kube c)\<rparr>)
      | Some old \<Rightarrow>
          (case ClusterCRD_UpdateStatus (api env)
                  (old\<lparr>clStatus := (clStatus old)\<lparr>stStatus := ClusterStatusOnline,
                     stTimestamp := stTimestamp (clStatus cluster),
                     stListen := stListen (clStatus cluster),
                     stParentName := stParentName (clStatus cluster)\<rparr>\<rparr>) (kube c) of
             (None, k') \<Rightarrow> (None, c\<lparr>kube := k'\<rparr>)
           | (Some e, k') \<Rightarrow> (Some (StatusUpdateFailed e), c\<lparr>kube := k'\<rparr>)))"

section \<open>Messages going up\<close>

definition transmitToParent :: "ClusterMessage \<Rightarrow> action list" where
  "transmitToParent msg = [ToParent msg]"

definition sendToControllerManager ::
  "'k henv \<Rightarrow> ClusterMessage \<Rightarrow> handler_error option \<times> action list" where
  "sendToControllerManager env msg =
     (case pb_msg (codec env) msg of
        None \<Rightarrow> (Some MarshalFailed, [])
      | Some data \<Rightarrow>
          (if cmSendOk env data then None else Some SendFailed, [ToControllerManager data]))"

section \<open>Registration\<close>

definition handleRegistClusterMessage ::
  "'k henv \<Rightarrow> string \<Rightarrow> ClusterMessage \<Rightarrow> 'k handler \<Rightarrow>
   handler_error option \<times> 'k handler \<times> action list" where
  "handleRegistClusterMessage env client msg c =
     (let cr = getClusterRegistryFromClusterMessage (codec env) msg in
      case (cr, getClusterFromClusterRegistry cr) of
        (Some reg, Some cluster) \<Rightarrow>
          (case AddRoute (RegName reg) client (router c) of
             Inl e \<Rightarrow> (Some (RouteRefused e), c, [])
           | Inr r' \<Rightarrow>
               let c1 = c\<lparr>router := r'\<rparr> in
               if isRoot c1
               then (case createOrUpdateCluster env cluster c1 of (ret, c2) \<Rightarrow> (ret, c2, []))
               else (None, c1, transmitToParent msg))
      | _ \<Rightarrow> (Some NoClusterInfo, c, []))"

definition handleUnregistClusterMessage ::
  "'k henv \<Rightarrow> string \<Rightarrow> ClusterMessage \<Rightarrow> 'k handler \<Rightarrow>
   handler_error option \<times> 'k handler \<times> action list" where
  "handleUnregistClusterMessage env client msg c =
     (let cr = getClusterRegistryFromClusterMessage (codec env) msg in
      case (cr, getClusterFromClusterRegistry cr) of
        (Some reg, Some cluster) \<Rightarrow>
          (let c1 = c\<lparr>router := DelRoute (clName cluster) client (router c)\<rparr> in
           if isRoot c1
           then (case ClusterCRD_Get (api env) (clNamespace cluster) (clName cluster) (kube c1) of
                   None \<Rightarrow> (None, c1, [])
                 | Some old \<Rightarrow>
                     (case ClusterCRD_UpdateStatus (api env)
                             (old\<lparr>clStatus := (clStatus old)\<lparr>stStatus := ClusterStatusOffline,
                                stTimestamp := RegTime reg\<rparr>\<rparr>) (kube c1) of
                        (None, k') \<Rightarrow> (None, c1\<lparr>kube := k'\<rparr>, [])
                      | (Some e, k') \<Rightarrow> (Some (StatusUpdateFailed e), c1\<lparr>kube := k'\<rparr>, [])))
           else (None, c1, transmitToParent msg))
      | _ \<Rightarrow> (Some NoClusterInfo, c, []))"

section \<open>Subtree reports\<close>

definition addSubtreeRoutes :: "string \<Rightarrow> string list \<Rightarrow> ClusterRouter \<Rightarrow> ClusterRouter" where
  "addSubtreeRoutes port tos r =
     fold (\<lambda>to r. case AddRoute to port r of Inl _ \<Rightarrow> r | Inr r' \<Rightarrow> r') tos r"

definition updateRouteToSubtree ::
  "'k henv \<Rightarrow> ClusterMessage \<Rightarrow> MessageHead \<Rightarrow> 'k handler \<Rightarrow>
   handler_error option \<times> 'k handler" where
  "updateRouteToSubtree env msg head c =
     (case SubtreeFromClusterController (codec env) msg of
        None \<Rightarrow> (Some SubtreeEmpty, c)
      | Some subtrees \<Rightarrow>
          let port = ClusterName head;
              r1 = addSubtreeRoutes port (go_keys subtrees) (router c);
              childsOfChild = SubTreeOfPort port r1;
              r2 = fold (\<lambda>k r. if go_has subtrees k then r else DelRoute k port r)
                     childsOfChild r1
          in (None, c\<lparr>router := r2\<rparr>))"

section \<open>Merging responses\<close>

text \<open>The loop over the new statuses: a cluster's status is replaced only by a younger one.\<close>

fun mergeStatus ::
  "(string, ClusterControllerStatus) gomap \<Rightarrow> (string, ClusterControllerStatus) gomap \<Rightarrow>
   (string, ClusterControllerStatus) gomap \<Rightarrow> (string, ClusterControllerStatus) gomap" where
  "mergeStatus origin [] new = new"
| "mergeStatus origin ((cn, s) # rest) new =
     (case go_get origin cn of
        None \<Rightarrow> mergeStatus origin rest (go_put cn s new)
      | Some originStatus \<Rightarrow>
          if ccsTimestamp originStatus < ccsTimestamp s
          then mergeStatus origin rest (go_put cn s new)
          else mergeStatus origin rest new)"

definition opt_map :: "('a, 'b) gomap option \<Rightarrow> ('a, 'b) gomap" where
  "opt_map m = (case m of None \<Rightarrow> [] | Some m' \<Rightarrow> m')"

definition mergeToApiserver ::
  "'k henv \<Rightarrow> ClusterMessage \<Rightarrow> MessageHead \<Rightarrow> 'k handler \<Rightarrow>
   (handler_error option \<times> 'k handler) option" where
  "mergeToApiserver env msg head c =
     (case clusterMessageToClusterControllerCRD (codec env) msg head of
        None \<Rightarrow> None
      | Some cc \<Rightarrow>
          (case ClusterControllerCRD_Get (api env) (ccNamespace cc) (ccName cc) (kube c) of
             None \<Rightarrow> Some (None, c)
           | Some origin \<Rightarrow>
               let new = origin\<lparr>ccStatus := Some (mergeStatus (opt_map (ccStatus origin))
                           (opt_map (ccStatus cc)) (opt_map (ccStatus origin)))\<rparr>
               in Some (None, c\<lparr>kube := ClusterControllerCRD_Update (api env) new (kube c)\<rparr>)))"

section \<open>Messages from children\<close>

definition fillParent :: "'k handler \<Rightarrow> MessageHead \<Rightarrow> MessageHead" where
  "fillParent c head =
     (if ParentClusterName head = []
      then head\<lparr>ParentClusterName := confClusterName (conf c)\<rparr> else head)"

text \<open>The switch on the command; \<open>msg\<close> already carries the filled in \<open>head\<close>.\<close>

definition dispatchFromChild ::
  "'k henv \<Rightarrow> string \<Rightarrow> ClusterMessage \<Rightarrow> MessageHead \<Rightarrow> 'k handler \<Rightarrow>
   (handler_error option \<times> 'k handler \<times> action list) option" where
  "dispatchFromChild env client msg head c =
     (case Command head of
        ClusterRegist \<Rightarrow>
          (let as = (if isRoot c then snd (sendToControllerManager env msg) else []) in
           case handleRegistClusterMessage env client msg c of
             (ret, c', as') \<Rightarrow> Some (ret, c', as @ as'))
      | ClusterUnregist \<Rightarrow>
          (let as = (if isRoot c then snd (sendToControllerManager env msg) else []) in
           case handleUnregistClusterMessage env client msg c of
             (ret, c', as') \<Rightarrow> Some (ret, c', as @ as'))
      | SubTreeRoute \<Rightarrow> Some (None, snd (updateRouteToSubtree env msg head c), [])
      | _ \<Rightarrow>
          if isRoot c
          then (case sendToControllerManager env msg of
                  (ret, as) \<Rightarrow>
                    if Command head = ControlResp
                    then map_option (\<lambda>(ret', c'). (ret', c', as))
                           (mergeToApiserver env msg head c)
                    else Some (ret, c, as))
          else Some (None, c, transmitToParent msg))"

definition handleMessageFromChild ::
  "'k henv \<Rightarrow> string \<Rightarrow> bytes \<Rightarrow> 'k handler \<Rightarrow>
   (handler_error option \<times> 'k handler \<times> action list) option" where
  "handleMessageFromChild env client data c =
     (case unpb_msg (codec env) data of
        None \<Rightarrow> Some (Some BadMessage, c, [])
      | Some msg \<Rightarrow>
          (case Head msg of
             None \<Rightarrow> Some (Some NilMessageHead, c, [])
           | Some head \<Rightarrow>
               let head' = fillParent c head
               in dispatchFromChild env client (msg\<lparr>Head := Some head'\<rparr>) head' c))"

text \<open>One turn of a worker: it takes the oldest queued message and drops the returned
  error; on an empty queue it waits.\<close>

definition handleChildMessage ::
  "'k henv \<Rightarrow> child_queue \<Rightarrow> 'k handler \<Rightarrow> (child_queue \<times> 'k handler \<times> action list) option" where
  "handleChildMessage env q c =
     (case q of
        [] \<Rightarrow> Some ([], c, [])
      | (client, data) # q' \<Rightarrow>
          map_option (\<lambda>(_, c', as). (q', c', as)) (handleMessageFromChild env client data c))"

section \<open>Messages from the parent, the controller manager and the root edge handler\<close>

text \<open>One turn of the loop; a message without a head panics.\<close>

definition handleMessageFromParent ::
  "'k henv \<Rightarrow> ClusterMessage \<Rightarrow> 'k handler \<Rightarrow> ('k handler \<times> action list) option" where
  "handleMessageFromParent env msg c =
     (case Head msg of
        None \<Rightarrow> None
      | Some head \<Rightarrow>
          if Command head = NeighborRoute
          then (case UpdateRouter (codec env) msg (router c) of
                  (r', notes) \<Rightarrow>
                    Some (c\<lparr>router := r'\<rparr>, concat (map (\<lambda>n. sendToChild env n []) notes)))
          else Some (c, sendSelected env msg head (router c)))"

definition handleMessageFromEdgeHandler ::
  "'k henv \<Rightarrow> ClusterMessage \<Rightarrow> 'k handler \<Rightarrow>
   (handler_error option \<times> 'k handler \<times> action list) option" where
  "handleMessageFromEdgeHandler env msg c =
     (case pb_msg (codec env) msg of
        None \<Rightarrow> Some (None, c, [])
      | Some data \<Rightarrow> handleMessageFromChild env RootClusterName data c)"

definition controllerMsgHandler ::
  "'k henv \<Rightarrow> string \<Rightarrow> bytes \<Rightarrow> 'k handler \<Rightarrow> handler_error option \<times> action list" where
  "controllerMsgHandler env clientName data c =
     (case unpb_msg (codec env) data of
        None \<Rightarrow> (Some BadMessage, [])
      | Some msg \<Rightarrow>
          (case Head msg of
             None \<Rightarrow> (Some NilMessageHead, [])
           | Some head \<Rightarrow>
               let msg' = msg\<lparr>Head := Some (fillParent c head)\<rparr>
               in (None, [if rootClusterEnable c then ToRootEdge msg' else ToDownstream msg'])))"

definition addClusterController ::
  "'k henv \<Rightarrow> ClusterController \<Rightarrow> 'k handler \<Rightarrow> action list" where
  "addClusterController env cc c =
     (if \<not> hasToProcessClusterController env cc then []
      else
        let cc' = cc\<lparr>ccParentClusterName := confClusterName (conf c)\<rparr>;
            msg = clusterControllerCRDToClusterMessage (codec env) cc' ControlReq
        in if rootClusterEnable c then [ToRootEdge msg]
           else (case Head msg of
                   None \<Rightarrow> []
                 | Some head \<Rightarrow> sendSelected env msg head (router c)))"

section \<open>Connections\<close>

definition isInParentPool :: "string \<Rightarrow> ClusterRouter \<Rightarrow> bool" where
  "isInParentPool clientName r =
     (case ParentNeighbors r of
        None \<Rightarrow> False | Some m \<Rightarrow> list_ex (\<lambda>name. clientName = name) (go_keys m))"

text \<open>Returns the decision, the registry record it has filled in, and the goroutine that
  handles the registration.\<close>

definition checkClusterName ::
  "'k henv \<Rightarrow> ClusterRegistry option \<Rightarrow> 'k handler \<Rightarrow>
   bool \<times> ClusterRegistry option \<times> action list" where
  "checkClusterName env cr c =
     (case cr of
        None \<Rightarrow> (False, None, [])
      | Some r \<Rightarrow>
          if isInParentPool (RegName r) (router c) then (False, cr, [])
          else
            let r' = r\<lparr>RegParentName := confClusterName (conf c)\<rparr> in
            (case WrapperToClusterMessage (codec env) r' ClusterRegist of
               Inl _ \<Rightarrow> (False, Some r', [])
             | Inr cc \<Rightarrow>
                 (case Serialize (codec env) cc of
                    Inl _ \<Rightarrow> (False, Some r', [])
                  | Inr data \<Rightarrow> (True, Some r', [SpawnHandle (RegName r') data]))))"

definition afterClusterConnect ::
  "'k henv \<Rightarrow> ClusterRegistry \<Rightarrow> 'k handler \<Rightarrow> 'k handler \<times> action list" where
  "afterClusterConnect env cr c =
     (case AddChild (codec env) (RegName cr) (RegListen cr) (router c) of
        Inl _ \<Rightarrow> (c, [])
      | Inr (r', n) \<Rightarrow> (c\<lparr>router := r'\<rparr>, sendToChild env n []))"

definition closeChild ::
  "'k henv \<Rightarrow> ClusterRegistry option \<Rightarrow> 'k handler \<Rightarrow> 'k handler \<times> action list" where
  "closeChild env cr c =
     (case cr of
        None \<Rightarrow> (c, [])
      | Some r \<Rightarrow>
          let r' = r\<lparr>RegParentName := confClusterName (conf c)\<rparr> in
          (case DelChild (codec env) (RegName r') (router c) of
             (rt', n) \<Rightarrow>
               let c' = c\<lparr>router := rt'\<rparr>; as = sendToChild env n [] in
               (case WrapperToClusterMessage (codec env) r' ClusterUnregist of
                  Inl _ \<Rightarrow> (c', as)
                | Inr cc \<Rightarrow>
                    (case Serialize (codec env) cc of
                       Inl _ \<Rightarrow> (c', as)
                     | Inr data \<Rightarrow> (c', as @ [SpawnHandle (RegName r') data])))))"

section \<open>Start\<close>

text \<open>What \<^verbatim>\<open>Start\<close> does to the state, given whether the tunnel started: the root cluster's
  own resource is written when the root serves a cluster itself. The goroutines it starts
  are the entry points above.\<close>

definition Start :: "'k henv \<Rightarrow> bool \<Rightarrow> 'k handler \<Rightarrow> handler_error option \<times> 'k handler" where
  "Start env tunnOk c =
     (if \<not> tunnOk then (Some TunnelStartFailed, c)
      else if k8sEnable c \<and> rootClusterEnable c
      then createOrUpdateCluster env (newRootCluster env c) c
      else (None, c))"

end
