(* ===== verification/HandlerLemmas.thy ===== *)
theory HandlerLemmas
  imports Handler
begin

text \<open>
  What the operations of the cluster handler guarantee one by one: who may write to the API
  server and who may talk to the parent, what registration and subtree reports do to the
  route table, how responses merge, and which children a message is relayed to.
\<close>

section \<open>Locality: who touches what\<close>

named_theorems handler_defs \<open>the definitions of the handler's operations\<close>

lemmas [handler_defs] =
  handleRegistClusterMessage_def handleUnregistClusterMessage_def updateRouteToSubtree_def
  createOrUpdateCluster_def mergeToApiserver_def dispatchFromChild_def
  sendToControllerManager_def transmitToParent_def

lemmas handler_splits =
  option.splits sum.splits prod.splits if_splits CommandType.splits

text \<open>The fields no operation changes.\<close>

definition same_static :: "'k handler \<Rightarrow> 'k handler \<Rightarrow> bool" where
  "same_static c c' \<longleftrightarrow>
     conf c' = conf c \<and> k8sEnable c' = k8sEnable c \<and> rootClusterEnable c' = rootClusterEnable c"

lemma same_static_refl [simp, intro]: "same_static c c"
  by (simp add: same_static_def)

lemma same_static_trans [trans]: "same_static a b \<Longrightarrow> same_static b c \<Longrightarrow> same_static a c"
  by (simp add: same_static_def)

lemma same_static_router [simp]: "same_static c (c\<lparr>router := r\<rparr>)"
  and same_static_kube [simp]: "same_static c (c\<lparr>kube := k\<rparr>)"
  and same_static_both [simp]: "same_static c (c\<lparr>router := r, kube := k\<rparr>)"
  by (simp_all add: same_static_def)

lemma isRoot_upd [simp]:
  "isRoot (c\<lparr>router := r\<rparr>) = isRoot c" "isRoot (c\<lparr>kube := k\<rparr>) = isRoot c"
  by (simp_all add: isRoot_def)

lemma same_static_isRoot: "same_static c c' \<Longrightarrow> isRoot c' = isRoot c"
  by (simp add: same_static_def isRoot_def)

lemma static_createOrUpdate: "createOrUpdateCluster env cl c = (e, c') \<Longrightarrow>
    same_static c c' \<and> router c' = router c"
  by (auto simp: createOrUpdateCluster_def split: handler_splits)

text \<open>Only the root may talk to the controller manager, and only another may talk to a parent.\<close>

fun upward_ok :: "bool \<Rightarrow> action \<Rightarrow> bool" where
  "upward_ok root (ToParent _) = (\<not> root)"
| "upward_ok root (ToControllerManager _) = root"
| "upward_ok root _ = True"

text \<open>What every operation started by a child guarantees.\<close>

definition local_ok :: "'k handler \<Rightarrow> 'k handler \<Rightarrow> action list \<Rightarrow> bool" where
  "local_ok c c' as \<longleftrightarrow>
     same_static c c' \<and> (router_wf (router c) \<longrightarrow> router_wf (router c')) \<and>
     (\<not> isRoot c \<longrightarrow> kube c' = kube c) \<and> list_all (upward_ok (isRoot c)) as"

lemma local_ok_refl [simp]: "local_ok c c []"
  by (simp add: local_ok_def)

lemma local_okD:
  assumes "local_ok c c' as"
  shows "same_static c c'" "router_wf (router c) \<Longrightarrow> router_wf (router c')"
    "\<not> isRoot c \<Longrightarrow> kube c' = kube c" "list_all (upward_ok (isRoot c)) as"
  using assms by (simp_all add: local_ok_def)

lemma sendToChild_upward [simp]: "list_all (upward_ok r) (sendToChild env m tos)"
  by (auto simp: sendToChild_def list_all_iff split: option.splits)

lemma sendSelected_upward [simp]: "list_all (upward_ok r) (sendSelected env m h cr)"
  using sendToChild_upward [of r env] by (auto simp: sendSelected_def list_all_iff)

lemma sendToControllerManager_upward:
  "isRoot c \<Longrightarrow> list_all (upward_ok (isRoot c)) (snd (sendToControllerManager env m))"
  by (auto simp: sendToControllerManager_def split: option.splits)

lemma local_ok_regist:
  assumes "handleRegistClusterMessage env client msg c = (e, c', as)"
  shows "local_ok c c' as"
proof -
  have "local_ok c c2 []" if "isRoot c" "AddRoute n client (router c) = Inr r'"
    "createOrUpdateCluster env cl (c\<lparr>router := r'\<rparr>) = (e2, c2)" for n r' cl e2 c2
    using that static_createOrUpdate [OF that(3)]
    by (auto simp: local_ok_def same_static_def dest: router_wf_AddRoute)
  then show ?thesis
    using assms
    by (auto simp: handleRegistClusterMessage_def transmitToParent_def Let_def
        split: handler_splits)
       (auto simp: local_ok_def dest: router_wf_AddRoute)
qed

lemma local_ok_unregist:
  "handleUnregistClusterMessage env client msg c = (e, c', as) \<Longrightarrow> local_ok c c' as"
  by (auto simp: handleUnregistClusterMessage_def transmitToParent_def Let_def local_ok_def
      split: handler_splits)

lemma router_wf_addSubtreeRoutes: "router_wf r \<Longrightarrow> router_wf (addSubtreeRoutes port tos r)"
  unfolding addSubtreeRoutes_def using rt.fold_add by blast

lemma router_wf_dropped:
  "router_wf r \<Longrightarrow> router_wf (fold (\<lambda>k r. if P k then r else DelRoute k port r) ks r)"
  by (rule fold_invariant) auto

lemma local_ok_subtree:
  "updateRouteToSubtree env msg head c = (e, c') \<Longrightarrow> local_ok c c' []"
  by (auto simp: updateRouteToSubtree_def Let_def local_ok_def
      router_wf_dropped router_wf_addSubtreeRoutes split: option.splits)

lemma local_ok_merge:
  "mergeToApiserver env msg head c = Some (e, c') \<Longrightarrow> isRoot c \<Longrightarrow> local_ok c c' []"
  by (auto simp: mergeToApiserver_def Let_def local_ok_def split: handler_splits)

lemma local_ok_append: "local_ok c c' as' \<Longrightarrow> list_all (upward_ok (isRoot c)) as \<Longrightarrow>
    local_ok c c' (as @ as')"
  by (simp add: local_ok_def)

lemma local_ok_default:
  "(if isRoot c
    then (case sendToControllerManager env msg of
            (ret, as) \<Rightarrow>
              if Command head = ControlResp
              then map_option (\<lambda>(ret', c'). (ret', c', as)) (mergeToApiserver env msg head c)
              else Some (ret, c, as))
    else Some (None, c, transmitToParent msg)) = Some (e, c', as) \<Longrightarrow> local_ok c c' as"
  using sendToControllerManager_upward [of c env msg] local_ok_merge [of env msg head c]
    local_ok_append [of c c' "[]" as]
  by (auto simp: transmitToParent_def local_ok_def split: handler_splits)

lemma local_ok_dispatch:
  assumes "dispatchFromChild env client msg head c = Some (e, c', as)"
  shows "local_ok c c' as"
proof -
  let ?pre = "if isRoot c then snd (sendToControllerManager env msg) else []"
  have pre: "list_all (upward_ok (isRoot c)) ?pre"
    using sendToControllerManager_upward [of c env msg] by auto
  show ?thesis
  proof (cases "Command head")
    case ClusterRegist
    with assms pre show ?thesis
      by (auto simp: dispatchFromChild_def Let_def
          intro!: local_ok_append intro: local_ok_regist split: prod.splits)
  next
    case ClusterUnregist
    with assms pre show ?thesis
      by (auto simp: dispatchFromChild_def Let_def
          intro!: local_ok_append intro: local_ok_unregist split: prod.splits)
  next
    case SubTreeRoute
    with assms show ?thesis
      by (auto simp: dispatchFromChild_def intro: local_ok_subtree prod.collapse [symmetric])
  qed (use assms in \<open>simp_all add: dispatchFromChild_def local_ok_default [where head = head]\<close>)
qed

lemma local_ok_fromChild:
  "handleMessageFromChild env client data c = Some (e, c', as) \<Longrightarrow> local_ok c c' as"
  by (auto simp: handleMessageFromChild_def Let_def intro: local_ok_dispatch
      split: option.splits)

section \<open>Subtree reports\<close>

lemma fold_if_filter:
  "fold (\<lambda>k r. if P k then r else f k r) xs r = fold f (filter (\<lambda>k. \<not> P k) xs) r"
  by (induction xs arbitrary: r) auto

lemma updateRouteToSubtree_route:
  assumes wf: "router_wf (router c)"
    and sub: "SubtreeFromClusterController (codec env) msg = Some sub"
    and upd: "updateRouteToSubtree env msg head c = (e, c')"
  shows "route (router c') =
    (\<lambda>k. if k \<in> dom (go_get sub)
         then (case route (router c) k of None \<Rightarrow> Some (ClusterName head) | Some q \<Rightarrow> Some q)
         else if route (router c) k = Some (ClusterName head) \<and> k \<noteq> ClusterName head then None
         else route (router c) k)"
proof -
  let ?port = "ClusterName head"
  define r1 where "r1 = addSubtreeRoutes ?port (go_keys sub) (router c)"
  define old where "old = filter (\<lambda>k. \<not> go_has sub k) (SubTreeOfPort ?port r1)"
  from upd sub have "router c' = fold (\<lambda>k. DelRoute k ?port) old r1"
    by (auto simp: updateRouteToSubtree_def Let_def r1_def old_def fold_if_filter)
  moreover have "go_wf (subtreeRouter r1)"
    unfolding r1_def by (intro router_wf_subtree router_wf_addSubtreeRoutes wf)
  then have "set old = {k. route r1 k = Some ?port \<and> k \<noteq> ?port \<and> k \<notin> set (go_keys sub)}"
    by (auto simp: old_def set_SubTreeOfPort go_has_def)
  ultimately show ?thesis
    using rt.sync_routes [OF wf r1_def [unfolded addSubtreeRoutes_def]] by simp
qed

section \<open>Merging responses\<close>

text \<open>The younger of two statuses; on a tie the one already there.\<close>

definition younger ::
  "ClusterControllerStatus option \<Rightarrow> ClusterControllerStatus option \<Rightarrow> ClusterControllerStatus option"
  where
  "younger old new =
     (case (old, new) of
        (None, _) \<Rightarrow> new
      | (Some a, None) \<Rightarrow> Some a
      | (Some a, Some b) \<Rightarrow> if ccsTimestamp a < ccsTimestamp b then Some b else Some a)"

lemma mergeStatus_get:
  "go_wf s \<Longrightarrow> go_get (mergeStatus origin s new) cn =
     (case go_get s cn of
        None \<Rightarrow> go_get new cn
      | Some b \<Rightarrow>
          (case go_get origin cn of
             None \<Rightarrow> Some b
           | Some a \<Rightarrow> if ccsTimestamp a < ccsTimestamp b then Some b else go_get new cn))"
  by (induction origin s new rule: mergeStatus.induct)
     (auto simp: go_wf_def go_keys_def split: option.splits if_splits
       dest: map_of_SomeD intro: rev_image_eqI)

lemma mergeStatus_younger:
  "go_wf s \<Longrightarrow> go_get (mergeStatus origin s origin) cn = younger (go_get origin cn) (go_get s cn)"
  by (auto simp: mergeStatus_get younger_def split: option.splits)

lemma go_wf_mergeStatus: "go_wf new \<Longrightarrow> go_wf (mergeStatus origin s new)"
  by (induction origin s new rule: mergeStatus.induct) (auto split: option.splits)

lemma younger_idem: "younger (younger a b) b = younger a b"
  by (auto simp: younger_def split: option.splits)

lemma younger_assoc: "younger (younger a b) c = younger a (younger b c)"
  by (auto simp: younger_def split: option.splits)

lemma younger_comm:
  "(\<And>x y. b = Some x \<Longrightarrow> c = Some y \<Longrightarrow> ccsTimestamp x = ccsTimestamp y \<Longrightarrow> x = y) \<Longrightarrow>
   younger (younger a b) c = younger (younger a c) b"
  by (auto simp: younger_def split: option.splits)

section \<open>Relaying by selector\<close>

lemma selectChild_get:
  "go_get (selectChild env msg head cr) port =
     (let sub = filter (\<lambda>n. route cr n = Some port) (selectedClusters env (ClusterSelector head) cr)
      in if sub = [] then None else Some (portMessage msg head sub))"
proof -
  have "go_get (selectChild env msg head cr) port = map_option (portMessage msg head)
      (go_get (PortsToSubtreeClusters (selectedClusters env (ClusterSelector head) cr) cr) port)"
    by (simp add: selectChild_def map_of_map)
  then show ?thesis by (simp add: PortsToSubtreeClusters_get Let_def)
qed

lemma go_wf_selectChild [simp]: "go_wf (selectChild env msg head cr)"
proof -
  have "go_keys (selectChild env msg head cr) =
      go_keys (PortsToSubtreeClusters (selectedClusters env (ClusterSelector head) cr) cr)"
    by (simp add: selectChild_def go_keys_def comp_def split_beta)
  then show ?thesis by (metis go_wf_def go_wf_PortsToSubtreeClusters)
qed

lemma set_selectedClusters:
  "n \<in> set (selectedClusters env sel cr) \<longleftrightarrow>
     (\<exists>p. route cr n = Some p) \<and> Has (rx env) (NewSelector sel) n"
  by (auto simp: selectedClusters_def)

lemma sendSelected_iff:
  assumes "\<And>m. pb_msg (codec env) m \<noteq> None"
  shows "SendTo port data \<in> set (sendSelected env msg head cr) \<longleftrightarrow>
    (\<exists>m. go_get (selectChild env msg head cr) port = Some m \<and> pb_msg (codec env) m = Some data)"
proof -
  have "SendTo port data \<in> set (sendSelected env msg head cr) \<longleftrightarrow>
      (\<exists>m. (port, m) \<in> set (selectChild env msg head cr) \<and> pb_msg (codec env) m = Some data)"
    using assms by (force simp: sendSelected_def sendToChild_def split: option.splits)
  then show ?thesis by (simp add: go_wf_get_iff)
qed

section \<open>Connections\<close>

text \<open>The message a handler sends itself about a child.\<close>

definition childMessage :: "codecs \<Rightarrow> ClusterRegistry \<Rightarrow> CommandType \<Rightarrow> bytes \<Rightarrow> bool" where
  "childMessage cd r command data \<longleftrightarrow>
     (\<exists>b. js_registry cd r = Some b \<and>
        pb_msg cd \<lparr>Head = Some (emptyHead\<lparr>Command := command\<rparr>), Body = b\<rparr> = Some data)"

lemma Serialize_Wrapper:
  "WrapperToClusterMessage cd r command = Inr m \<Longrightarrow> Serialize cd m = Inr data \<Longrightarrow>
   childMessage cd r command data"
  by (auto simp: childMessage_def Serialize_def elim!: WrapperToClusterMessage_Inr
      split: option.splits)

lemma checkClusterName_True:
  "checkClusterName env (Some r) c = (True, cr', [SpawnHandle n data]) \<Longrightarrow>
   n = RegName r \<and> cr' = Some (r\<lparr>RegParentName := confClusterName (conf c)\<rparr>) \<and>
   childMessage (codec env) (r\<lparr>RegParentName := confClusterName (conf c)\<rparr>) ClusterRegist data"
  by (auto simp: checkClusterName_def Let_def dest: Serialize_Wrapper split: if_splits sum.splits)

lemma sendToChild_no_spawn [simp]: "SpawnHandle n d \<notin> set (sendToChild env m tos)"
  by (auto simp: sendToChild_def split: option.splits)

lemma closeChild_spawn:
  assumes "closeChild env (Some r) c = (c', as @ [SpawnHandle n data])"
  shows "n = RegName r" "router c' = fst (DelChild (codec env) (RegName r) (router c))"
    "childMessage (codec env) (r\<lparr>RegParentName := confClusterName (conf c)\<rparr>) ClusterUnregist data"
proof -
  have no: "sendToChild env m [] \<noteq> as @ [SpawnHandle n data]" for m
  proof
    assume "sendToChild env m [] = as @ [SpawnHandle n data]"
    then have "SpawnHandle n data \<in> set (sendToChild env m [])" by simp
    then show False by simp
  qed
  from assms no show "n = RegName r" "router c' = fst (DelChild (codec env) (RegName r) (router c))"
    "childMessage (codec env) (r\<lparr>RegParentName := confClusterName (conf c)\<rparr>) ClusterUnregist data"
    by (auto simp: closeChild_def Let_def dest: Serialize_Wrapper split: prod.splits sum.splits)
qed

lemma childMessage_decoded:
  assumes "roundtrip (pb_msg cd) (unpb_msg cd)" "roundtrip (js_registry cd) (unjs_registry cd)"
    and "childMessage cd r command data"
  obtains b where "unpb_msg cd data = Some \<lparr>Head = Some (emptyHead\<lparr>Command := command\<rparr>), Body = b\<rparr>"
    "ClusterRegistryDeserialize cd b = Inr r"
proof -
  from assms(3) obtain b where "js_registry cd r = Some b"
    "pb_msg cd \<lparr>Head = Some (emptyHead\<lparr>Command := command\<rparr>), Body = b\<rparr> = Some data"
    by (auto simp: childMessage_def)
  with roundtripD [OF assms(1)] roundtripD [OF assms(2)] that [of b] show thesis
    by (simp add: ClusterRegistryDeserialize_def)
qed

lemma afterClusterConnect_new:
  assumes "router_wf (router c)" "nil_get (Childs (router c)) (RegName r) = None"
    and "afterClusterConnect env r c = (c', as)"
  shows "route (router c') = route (router c)"
    "nil_get (Childs (router c')) = (nil_get (Childs (router c)))(RegName r \<mapsto> RegListen r)"
    "router_wf (router c')"
proof -
  from assms(1,2) obtain cr' n where add: "AddChild (codec env) (RegName r) (RegListen r) (router c) =
      Inr (cr', n)"
    by (auto simp: AddChild_def router_wf_def nil_get_def Let_def)
  with assms(3) have "router c' = cr'" by (auto simp: afterClusterConnect_def)
  with AddChild_Inr [OF add] router_wf_AddChild [OF assms(1) add]
  show "route (router c') = route (router c)"
    "nil_get (Childs (router c')) = (nil_get (Childs (router c)))(RegName r \<mapsto> RegListen r)"
    "router_wf (router c')"
    by simp_all
qed

lemma fromChild_regist:
  assumes "roundtrip (pb_msg (codec env)) (unpb_msg (codec env))"
    "roundtrip (js_registry (codec env)) (unjs_registry (codec env))"
    "childMessage (codec env) r ClusterRegist data"
    and "route (router c) (RegName r) = None"
    and "handleMessageFromChild env client data c = Some (e, c', as)"
  shows "AddRoute (RegName r) client (router c) = Inr (router c')"
proof -
  obtain b where "unpb_msg (codec env) data =
      Some \<lparr>Head = Some (emptyHead\<lparr>Command := ClusterRegist\<rparr>), Body = b\<rparr>"
    "ClusterRegistryDeserialize (codec env) b = Inr r"
    by (rule childMessage_decoded [OF assms(1-3)])
  with assms(4,5) show ?thesis
    by (auto simp: handleMessageFromChild_def dispatchFromChild_def Let_def AddRoute_def route_def
        handleRegistClusterMessage_def getClusterRegistryFromClusterMessage_def emptyHead_def
        fillParent_def getClusterFromClusterRegistry_def dest: static_createOrUpdate
        split: prod.splits if_splits)
qed

lemma fromChild_unregist:
  assumes "roundtrip (pb_msg (codec env)) (unpb_msg (codec env))"
    "roundtrip (js_registry (codec env)) (unjs_registry (codec env))"
    "childMessage (codec env) r ClusterUnregist data"
    and "handleMessageFromChild env client data c = Some (e, c', as)"
  shows "router c' = DelRoute (RegName r) client (router c)"
proof -
  obtain b where "unpb_msg (codec env) data =
      Some \<lparr>Head = Some (emptyHead\<lparr>Command := ClusterUnregist\<rparr>), Body = b\<rparr>"
    "ClusterRegistryDeserialize (codec env) b = Inr r"
    by (rule childMessage_decoded [OF assms(1-3)])
  with assms(4) show ?thesis
    by (auto simp: handleMessageFromChild_def dispatchFromChild_def Let_def
        handleUnregistClusterMessage_def getClusterRegistryFromClusterMessage_def emptyHead_def
        fillParent_def getClusterFromClusterRegistry_def
        split: prod.splits if_splits option.splits)
qed

end
