(* ===== verification/HandlerSteps.thy ===== *)
theory HandlerSteps
  imports HandlerLemmas
begin

text \<open>
  The running cluster handler as a state machine. A state holds the handler, the queue of
  messages its tunnel has accepted, the registrations and unregistrations handed to
  goroutines of their own, and everything sent so far. An event is one call of an entry point
  by the tunnel, a worker, the parent's channel, the root's edge handler, the controller
  manager or the informer; events come in any order, which covers every interleaving of the
  goroutines at the granularity of the handlers. A step that panics yields \<open>None\<close>.
\<close>

section \<open>States and events\<close>

record 'k sys =
  hnd :: "'k handler"
  queue :: child_queue
  pending :: child_queue
  sent :: "action list"

datatype event =
    TunnelMsg string bytes
  | Worker
  | RunPending nat
  | CheckName "ClusterRegistry option"
  | Connected ClusterRegistry
  | Closed "ClusterRegistry option"
  | ParentMsg ClusterMessage
  | EdgeMsg ClusterMessage
  | ManagerMsg string bytes
  | InformerAdd ClusterController

fun spawned :: "action \<Rightarrow> child_queue" where
  "spawned (SpawnHandle client data) = [(client, data)]"
| "spawned _ = []"

definition emit :: "action list \<Rightarrow> 'k handler \<Rightarrow> 'k sys \<Rightarrow> 'k sys" where
  "emit as c s = s\<lparr>hnd := c, pending := pending s @ concat (map spawned as), sent := sent s @ as\<rparr>"

fun sys_step :: "'k henv \<Rightarrow> event \<Rightarrow> 'k sys \<Rightarrow> 'k sys option" where
  "sys_step env (TunnelMsg client data) s =
     Some (s\<lparr>queue := snd (handleMessageFromCloudTunnel client data (queue s))\<rparr>)"
| "sys_step env Worker s =
     map_option (\<lambda>(q, c, as). emit as c (s\<lparr>queue := q\<rparr>)) (handleChildMessage env (queue s) (hnd s))"
| "sys_step env (RunPending i) s =
     (if i < length (pending s)
      then (case pending s ! i of
              (client, data) \<Rightarrow>
                map_option (\<lambda>(_, c, as).
                    emit as c (s\<lparr>pending := take i (pending s) @ drop (Suc i) (pending s)\<rparr>))
                  (handleMessageFromChild env client data (hnd s)))
      else Some s)"
| "sys_step env (CheckName cr) s =
     (case checkClusterName env cr (hnd s) of (_, _, as) \<Rightarrow> Some (emit as (hnd s) s))"
| "sys_step env (Connected cr) s =
     (case afterClusterConnect env cr (hnd s) of (c, as) \<Rightarrow> Some (emit as c s))"
| "sys_step env (Closed cr) s =
     (case closeChild env cr (hnd s) of (c, as) \<Rightarrow> Some (emit as c s))"
| "sys_step env (ParentMsg msg) s =
     map_option (\<lambda>(c, as). emit as c s) (handleMessageFromParent env msg (hnd s))"
| "sys_step env (EdgeMsg msg) s =
     map_option (\<lambda>(_, c, as). emit as c s) (handleMessageFromEdgeHandler env msg (hnd s))"
| "sys_step env (ManagerMsg client data) s =
     (case controllerMsgHandler env client data (hnd s) of (_, as) \<Rightarrow> Some (emit as (hnd s) s))"
| "sys_step env (InformerAdd cc) s =
     Some (emit (addClusterController env cc (hnd s)) (hnd s) s)"

text \<open>The clock may show anything at each step.\<close>

definition at_time :: "int \<Rightarrow> 'k henv \<Rightarrow> 'k henv" where
  "at_time t env = env\<lparr>now := t\<rparr>"

inductive reach :: "'k henv \<Rightarrow> config \<Rightarrow> 'k \<Rightarrow> 'k sys \<Rightarrow> bool" for env cf k0 where
  reach_start: "NewClusterHandler cf k0 = Inr c \<Longrightarrow> Start (at_time t env) True c = (None, c') \<Longrightarrow>
    reach env cf k0 \<lparr>hnd = c', queue = [], pending = [], sent = []\<rparr>"
| reach_step: "reach env cf k0 s \<Longrightarrow> sys_step (at_time t env) ev s = Some s' \<Longrightarrow>
    reach env cf k0 s'"

section \<open>One step\<close>

text \<open>JSON decodes an object into a Go map, which has each key once.\<close>

definition router_decoder_wf :: "codecs \<Rightarrow> bool" where
  "router_decoder_wf cd =
     (\<forall>b c n p. unjs_router cd b = Some (c, n, p) \<longrightarrow> opt_wf c \<and> opt_wf n \<and> opt_wf p)"

lemma router_wf_UpdateRouter:
  "router_decoder_wf cd \<Longrightarrow> router_wf r \<Longrightarrow> UpdateRouter cd msg r = (r', ns) \<Longrightarrow> router_wf r'"
  unfolding UpdateRouter_def neighborRouterFromClusterMessage_def Router_Deserialize_def
    updateNeighbor_def updateParentNeighbor_def Let_def router_decoder_wf_def
  by (fastforce simp: router_wf_def split: option.splits if_splits prod.splits)

lemma codec_at_time [simp]: "codec (at_time t env) = codec env"
  and api_at_time [simp]: "api (at_time t env) = api env"
  and rx_at_time [simp]: "rx (at_time t env) = rx env"
  by (simp_all add: at_time_def)

lemma local_ok_connected:
  "afterClusterConnect env cr c = (c', as) \<Longrightarrow> local_ok c c' as"
  by (auto simp: afterClusterConnect_def local_ok_def dest: router_wf_AddChild
      split: sum.splits prod.splits)

lemma local_ok_closed: "closeChild env cr c = (c', as) \<Longrightarrow> local_ok c c' as"
  by (auto simp: closeChild_def local_ok_def Let_def dest: router_wf_DelChild
      split: option.splits sum.splits prod.splits)

lemma local_ok_parent:
  "router_decoder_wf (codec env) \<Longrightarrow> handleMessageFromParent env msg c = Some (c', as) \<Longrightarrow>
   local_ok c c' as"
  by (auto simp: handleMessageFromParent_def local_ok_def list_all_iff
      dest: router_wf_UpdateRouter sendToChild_upward [unfolded list_all_iff, rule_format]
        sendSelected_upward [unfolded list_all_iff, rule_format]
      split: option.splits prod.splits if_splits)

lemma local_ok_informer: "local_ok c c (addClusterController env cc c)"
  by (auto simp: addClusterController_def local_ok_def Let_def split: option.splits)

lemma local_ok_manager: "controllerMsgHandler env client data c = (e, as) \<Longrightarrow> local_ok c c as"
  by (auto simp: controllerMsgHandler_def local_ok_def Let_def split: option.splits if_splits)

lemma local_ok_checkName: "checkClusterName env cr c = (b, cr', as) \<Longrightarrow> local_ok c c as"
  by (auto simp: checkClusterName_def local_ok_def Let_def split: option.splits sum.splits if_splits)

lemma emit_sel [simp]:
  "hnd (emit as c s) = c" "queue (emit as c s) = queue s" "sent (emit as c s) = sent s @ as"
  by (simp_all add: emit_def)

lemma local_ok_step:
  assumes "router_decoder_wf (codec env)" and "sys_step env ev s = Some s'"
  obtains as where "local_ok (hnd s) (hnd s') as" "sent s' = sent s @ as"
    "length (queue s) \<le> ChildMessageChanCap \<Longrightarrow> length (queue s') \<le> ChildMessageChanCap"
proof (cases ev)
  case (TunnelMsg client data)
  with assms that [of "[]"] show thesis
    by (auto simp: handleMessageFromCloudTunnel_def)
next
  case Worker
  with assms that show thesis
    by (auto simp: handleChildMessage_def dest!: local_ok_fromChild split: list.splits)
next
  case (RunPending i)
  with assms that that [of "[]"] show thesis
    by (auto dest!: local_ok_fromChild split: if_splits prod.splits)
next
  case (CheckName cr)
  with assms that show thesis by (auto dest!: local_ok_checkName split: prod.splits)
next
  case (Connected cr)
  with assms that show thesis by (auto dest!: local_ok_connected split: prod.splits)
next
  case (Closed cr)
  with assms that show thesis by (auto dest!: local_ok_closed split: prod.splits)
next
  case (ParentMsg msg)
  with assms that show thesis by (auto dest!: local_ok_parent)
next
  case (EdgeMsg msg)
  with assms that that [of "[]"] show thesis
    by (auto simp: handleMessageFromEdgeHandler_def dest!: local_ok_fromChild split: option.splits)
next
  case (ManagerMsg client data)
  with assms that show thesis by (auto dest!: local_ok_manager split: prod.splits)
next
  case (InformerAdd cc)
  with assms that local_ok_informer show thesis by force
qed

section \<open>Invariant of reachable states\<close>

definition sys_inv :: "config \<Rightarrow> 'k \<Rightarrow> 'k sys \<Rightarrow> bool" where
  "sys_inv cf k0 s \<longleftrightarrow>
     conf (hnd s) = cf \<and> valid cf = Inr (rootClusterEnable (hnd s), k8sEnable (hnd s)) \<and>
     router_wf (router (hnd s)) \<and> length (queue s) \<le> ChildMessageChanCap \<and>
     (isRoot (hnd s) \<or> kube (hnd s) = k0) \<and>
     list_all (upward_ok (isRoot (hnd s))) (sent s)"

lemma sys_inv_step:
  assumes "router_decoder_wf (codec env)" "sys_inv cf k0 s" "sys_step env ev s = Some s'"
  shows "sys_inv cf k0 s'"
proof -
  from local_ok_step [OF assms(1,3)] obtain as where as: "local_ok (hnd s) (hnd s') as"
    "sent s' = sent s @ as"
    "length (queue s) \<le> ChildMessageChanCap \<Longrightarrow> length (queue s') \<le> ChildMessageChanCap"
    by blast
  from local_okD [OF as(1)] as(2,3) assms(2) same_static_isRoot [OF local_okD(1) [OF as(1)]]
  show ?thesis by (auto simp: sys_inv_def same_static_def)
qed

lemma valid_rootCluster: "valid cf = Inr (True, k8s) \<Longrightarrow> IsRoot (ClusterUserDefineName cf)"
  by (auto simp: valid_def Let_def split: if_splits)

lemma Start_static: "Start env b c = (e, c') \<Longrightarrow> same_static c c' \<and> router c' = router c \<and>
    (\<not> rootClusterEnable c \<longrightarrow> c' = c)"
  by (auto simp: Start_def dest: static_createOrUpdate split: if_splits)

lemma sys_inv_start:
  assumes "NewClusterHandler cf k0 = Inr c" and "Start env b c = (e, c')"
  shows "sys_inv cf k0 \<lparr>hnd = c', queue = [], pending = [], sent = []\<rparr>"
proof -
  from assms(1) have c: "conf c = cf" "router c = defaultClusterRouter" "kube c = k0"
    "valid cf = Inr (rootClusterEnable c, k8sEnable c)"
    by (auto simp: NewClusterHandler_def split: sum.splits)
  from Start_static [OF assms(2)] c valid_rootCluster [of cf "k8sEnable c"] show ?thesis
    by (cases "rootClusterEnable c") (auto simp: sys_inv_def same_static_def isRoot_def)
qed

lemma reach_sys_inv:
  assumes "router_decoder_wf (codec env)" and "reach env cf k0 s"
  shows "sys_inv cf k0 s"
  using assms(2)
  by (induction rule: reach.induct) (auto intro: sys_inv_start sys_inv_step [rotated] simp: assms(1))

section \<open>Panics\<close>

text \<open>A response whose body does not decode, arriving at the root.\<close>

definition bad_resp :: "'k henv \<Rightarrow> bytes \<Rightarrow> 'k handler \<Rightarrow> bool" where
  "bad_resp env data c =
     (case unpb_msg (codec env) data of
        None \<Rightarrow> False
      | Some msg \<Rightarrow>
          (case Head msg of
             None \<Rightarrow> False
           | Some head \<Rightarrow> Command head = ControlResp \<and> isRoot c \<and>
               unpb_resp (codec env) (Body msg) = None))"

lemma Command_fillParent [simp]: "Command (fillParent c head) = Command head"
  by (simp add: fillParent_def)

lemma mergeToApiserver_None:
  "mergeToApiserver env msg head c = None \<longleftrightarrow>
     Command head = ControlResp \<and> unpb_resp (codec env) (Body msg) = None"
  by (auto simp: mergeToApiserver_def clusterMessageToClusterControllerCRD_def
      clusterMessageToClusterControllerStatusCRD_def Let_def split: option.splits)

lemma handleMessageFromChild_None:
  "handleMessageFromChild env client data c = None \<longleftrightarrow> bad_resp env data c"
  by (auto simp: handleMessageFromChild_def bad_resp_def dispatchFromChild_def Let_def
      mergeToApiserver_None split: option.splits prod.splits CommandType.splits)

fun crashes :: "'k henv \<Rightarrow> event \<Rightarrow> 'k sys \<Rightarrow> bool" where
  "crashes env Worker s = (queue s \<noteq> [] \<and> bad_resp env (snd (hd (queue s))) (hnd s))"
| "crashes env (RunPending i) s =
     (i < length (pending s) \<and> bad_resp env (snd (pending s ! i)) (hnd s))"
| "crashes env (ParentMsg msg) s = (Head msg = None)"
| "crashes env (EdgeMsg msg) s =
     (case pb_msg (codec env) msg of None \<Rightarrow> False | Some data \<Rightarrow> bad_resp env data (hnd s))"
| "crashes env _ s = False"

section \<open>The API server under the root's writes\<close>

text \<open>Writing a \<^verbatim>\<open>ClusterController\<close> leaves the \<^verbatim>\<open>Cluster\<close> resources alone.\<close>

definition updateCC_frame :: "'k oteapi \<Rightarrow> bool" where
  "updateCC_frame srv =
     (\<forall>ns cc k ns' n'.
        api_getCluster srv ns' n' (snd (api_updateCC srv ns cc k)) = api_getCluster srv ns' n' k)"

text \<open>No resource disappears, and a status changes only together with a younger timestamp.\<close>

definition grown :: "Cluster \<Rightarrow> Cluster \<Rightarrow> bool" where
  "grown cl cl' \<longleftrightarrow> clSpecName cl' = clSpecName cl \<and>
     (clStatus cl' = clStatus cl \<or> stTimestamp (clStatus cl) < stTimestamp (clStatus cl'))"

definition clusters_grow :: "'k oteapi \<Rightarrow> 'k \<Rightarrow> 'k \<Rightarrow> bool" where
  "clusters_grow srv k k' \<longleftrightarrow>
     (\<forall>ns n cl. api_getCluster srv ns n k = Some cl \<longrightarrow>
        (\<exists>cl'. api_getCluster srv ns n k' = Some cl' \<and> grown cl cl'))"

lemma grown_refl [simp]: "grown cl cl"
  by (simp add: grown_def)

lemma grown_trans: "grown a b \<Longrightarrow> grown b c \<Longrightarrow> grown a c"
  by (auto simp: grown_def)

lemma clusters_growI:
  "(\<And>ns n cl. api_getCluster srv ns n k = Some cl \<Longrightarrow>
      \<exists>cl'. api_getCluster srv ns n k' = Some cl' \<and> grown cl cl') \<Longrightarrow> clusters_grow srv k k'"
  by (simp add: clusters_grow_def)

lemma clusters_grow_trans:
  "clusters_grow srv a b \<Longrightarrow> clusters_grow srv b c \<Longrightarrow> clusters_grow srv a c"
  unfolding clusters_grow_def by (blast intro: grown_trans)

lemma clusters_grow_refl [simp, intro]: "clusters_grow srv k k"
  by (simp add: clusters_grow_def)

lemma grow_UpdateStatus:
  assumes ok: "oteapi_ok srv" and upd: "ClusterCRD_UpdateStatus srv c k = (e, k')"
  shows "clusters_grow srv k k'"
proof (cases e)
  case None
  with upd have "ClusterCRD_UpdateStatus srv c k = (None, k')" by simp
  with ok obtain old where old: "api_getCluster srv (clNamespace c) (clName c) k = Some old"
    "stTimestamp (clStatus old) < stTimestamp (clStatus c)"
    "stored_as (old\<lparr>clStatus := clStatus c\<rparr>) (api_getCluster srv (clNamespace c) (clName c) k')"
    and frame: "\<And>ns n. (ns, n) \<noteq> (clNamespace c, clName c) \<Longrightarrow>
      api_getCluster srv ns n k' = api_getCluster srv ns n k"
    by (rule UpdateStatus_done) blast
  show ?thesis
  proof (rule clusters_growI)
    fix ns n cl
    assume cl: "api_getCluster srv ns n k = Some cl"
    show "\<exists>cl'. api_getCluster srv ns n k' = Some cl' \<and> grown cl cl'"
    proof (cases "(ns, n) = (clNamespace c, clName c)")
      case True
      with stored_asD [OF old(3)] old(1,2) cl show ?thesis by (auto simp: grown_def)
    next
      case False
      from frame [OF this] cl show ?thesis by simp
    qed
  qed
next
  case (Some x)
  with upd ok have "k' = k" by (simp add: UpdateStatus_once updateStatusOnce_failed)
  then show ?thesis by simp
qed

lemma grow_Create:
  assumes ok: "oteapi_ok srv" and "api_getCluster srv (clNamespace c) (clName c) k = None"
  shows "clusters_grow srv k (ClusterCRD_Create srv c k)"
proof -
  obtain e k' where w: "api_createCluster srv (clNamespace c) c k = (e, k')" by fastforce
  then have k': "ClusterCRD_Create srv c k = k'" by (simp add: ClusterCRD_Create_def)
  show ?thesis
  proof (cases e)
    case None
    with w have w': "api_createCluster srv (clNamespace c) c k = (None, k')" by simp
    show ?thesis unfolding k'
    proof (rule clusters_growI)
      fix ns n cl
      assume cl: "api_getCluster srv ns n k = Some cl"
      with assms(2) have "(ns, n) \<noteq> (clNamespace c, clName c)" by auto
      from write_ok_done(2) [OF oteapi_okD(3) [OF ok] w' this] cl
      show "\<exists>cl'. api_getCluster srv ns n k' = Some cl' \<and> grown cl cl'" by simp
    qed
  next
    case (Some x)
    with w have "k' = k" by (blast intro: write_ok_failed [OF oteapi_okD(3) [OF ok]])
    then show ?thesis by (simp add: k')
  qed
qed

lemma grow_createOrUpdate:
  assumes "oteapi_ok (api env)" and "createOrUpdateCluster env cl c = (e, c')"
  shows "clusters_grow (api env) (kube c) (kube c')"
  using assms
  by (auto simp: createOrUpdateCluster_def ClusterCRD_Get_def
      intro: grow_UpdateStatus intro!: grow_Create split: option.splits prod.splits)

lemma grow_regist:
  assumes "oteapi_ok (api env)" and "handleRegistClusterMessage env client msg c = (e, c', as)"
  shows "clusters_grow (api env) (kube c) (kube c')"
proof -
  have "clusters_grow (api env) (kube c) (kube c2)"
    if "createOrUpdateCluster env cl (c\<lparr>router := r\<rparr>) = (e2, c2)" for cl r e2 c2
    using grow_createOrUpdate [OF assms(1) that] by simp
  with assms(2) show ?thesis
    by (auto simp: handleRegistClusterMessage_def Let_def split: handler_splits)
qed

lemma grow_unregist:
  assumes "oteapi_ok (api env)" and "handleUnregistClusterMessage env client msg c = (e, c', as)"
  shows "clusters_grow (api env) (kube c) (kube c')"
  using assms
  by (auto simp: handleUnregistClusterMessage_def Let_def intro: grow_UpdateStatus
      split: handler_splits)

lemma grow_merge:
  "updateCC_frame (api env) \<Longrightarrow> mergeToApiserver env msg head c = Some (e, c') \<Longrightarrow>
   clusters_grow (api env) (kube c) (kube c')"
  by (auto simp: mergeToApiserver_def Let_def ClusterControllerCRD_Update_def updateCC_frame_def
      clusters_grow_def split: option.splits)

lemma kube_subtree: "kube (snd (updateRouteToSubtree env msg head c)) = kube c"
  by (simp add: updateRouteToSubtree_def Let_def split: option.splits)

lemma grow_dispatch:
  assumes "oteapi_ok (api env)" "updateCC_frame (api env)"
    and "dispatchFromChild env client msg head c = Some (e, c', as)"
  shows "clusters_grow (api env) (kube c) (kube c')"
  using assms(3) grow_regist [OF assms(1), of client msg c] grow_merge [OF assms(2), of msg head c]
    grow_unregist [OF assms(1), of client msg c]
  by (auto simp: dispatchFromChild_def Let_def kube_subtree
      split: CommandType.splits if_splits prod.splits)

lemma grow_fromChild:
  "oteapi_ok (api env) \<Longrightarrow> updateCC_frame (api env) \<Longrightarrow>
   handleMessageFromChild env client data c = Some (e, c', as) \<Longrightarrow>
   clusters_grow (api env) (kube c) (kube c')"
  by (auto simp: handleMessageFromChild_def Let_def intro: grow_dispatch split: option.splits)

lemma kube_connections:
  "kube (fst (afterClusterConnect env cr c)) = kube c"
  "kube (fst (closeChild env r c)) = kube c"
  by (auto simp: afterClusterConnect_def closeChild_def Let_def split: option.splits sum.splits prod.splits)

lemma kube_parent: "handleMessageFromParent env msg c = Some (c', as) \<Longrightarrow> kube c' = kube c"
  by (auto simp: handleMessageFromParent_def split: option.splits prod.splits if_splits)

lemma grow_step:
  assumes ok: "oteapi_ok (api env)" "updateCC_frame (api env)" and st: "sys_step env ev s = Some s'"
  shows "clusters_grow (api env) (kube (hnd s)) (kube (hnd s'))"
proof -
  note child = grow_fromChild [OF ok]
  show ?thesis
  proof (cases ev)
    case Worker
    with st child show ?thesis by (auto simp: handleChildMessage_def split: list.splits)
  next
    case (RunPending i)
    with st child show ?thesis by (auto split: if_splits prod.splits)
  next
    case (EdgeMsg msg)
    with st child show ?thesis
      by (auto simp: handleMessageFromEdgeHandler_def split: option.splits)
  next
    case (Connected cr)
    with st kube_connections(1) [of env cr "hnd s"] show ?thesis by (auto split: prod.splits)
  next
    case (Closed cr)
    with st kube_connections(2) [of env cr "hnd s"] show ?thesis by (auto split: prod.splits)
  qed (use st in \<open>auto dest: kube_parent split: prod.splits\<close>)
qed

end
