(* ===== verification/SampleEnv.thy ===== *)
theory SampleEnv
  imports HandlerSteps
begin

text \<open>
  A concrete environment: a total wire format for every message and record, and an API server
  that keeps its resources in Go maps. It satisfies everything the development assumes of
  protobuf, JSON, the API server and \<^verbatim>\<open>regexp\<close>, so those assumptions are consistent, and
  the theorems that rest on them are applied to it. It is not a model of those libraries.
\<close>

section \<open>A wire format\<close>

fun pack1 :: "string \<Rightarrow> string" where
  "pack1 [] = [CHR ''.'']"
| "pack1 (c # s) = CHR '':'' # c # pack1 s"

fun unpack1 :: "string \<Rightarrow> (string \<times> string) option" where
  "unpack1 [] = None"
| "unpack1 [m] = (if m = CHR ''.'' then Some ([], []) else None)"
| "unpack1 (m # c # t) =
     (if m = CHR ''.'' then Some ([], c # t)
      else (case unpack1 t of None \<Rightarrow> None | Some (u, r) \<Rightarrow> Some (c # u, r)))"

fun unpackn :: "nat \<Rightarrow> string \<Rightarrow> string list option" where
  "unpackn 0 s = (if s = [] then Some [] else None)"
| "unpackn (Suc n) s =
     (if s = [] then Some []
      else (case unpack1 s of
              None \<Rightarrow> None
            | Some (u, r) \<Rightarrow> map_option (Cons u) (unpackn n r)))"

definition pack :: "string list \<Rightarrow> string" where
  "pack xs = concat (map pack1 xs)"

definition unpack :: "string \<Rightarrow> string list option" where
  "unpack s = unpackn (length s) s"

lemma pack1_nonempty [simp]: "pack1 s \<noteq> []"
  by (cases s) auto

lemma unpack1_pack1: "unpack1 (pack1 s @ r) = Some (s, r)"
proof (induction s)
  case Nil
  then show ?case by (cases r) auto
qed simp

lemma unpackn_pack: "length xs \<le> n \<Longrightarrow> unpackn n (pack xs) = Some xs"
proof (induction n arbitrary: xs)
  case (Suc n)
  then show ?case by (cases xs) (auto simp: pack_def unpack1_pack1)
qed (simp add: pack_def)

lemma length_pack1 [simp]: "length (pack1 s) = Suc (2 * length s)"
  by (induction s) auto

lemma length_pack: "length xs \<le> length (pack xs)"
  by (induction xs) (auto simp: pack_def)

lemma unpack_pack [simp]: "unpack (pack xs) = Some xs"
  by (simp add: unpack_def unpackn_pack length_pack)

definition int_str :: "int \<Rightarrow> string" where
  "int_str i = (if i < 0 then CHR ''-'' else CHR ''+'') # replicate (nat \<bar>i\<bar>) CHR ''1''"

definition str_int :: "string \<Rightarrow> int" where
  "str_int s =
     (case s of [] \<Rightarrow> 0 | c # t \<Rightarrow> if c = CHR ''-'' then - int (length t) else int (length t))"

lemma str_int_int_str [simp]: "str_int (int_str i) = i"
  by (simp add: str_int_def int_str_def)

fun cmd_str :: "CommandType \<Rightarrow> string" where
  "cmd_str Reserved = ''a''"
| "cmd_str ClusterRegist = ''b''"
| "cmd_str ClusterUnregist = ''c''"
| "cmd_str NeighborRoute = ''d''"
| "cmd_str SubTreeRoute = ''e''"
| "cmd_str DeployReq = ''f''"
| "cmd_str DeployResp = ''g''"
| "cmd_str ControlReq = ''h''"
| "cmd_str ControlResp = ''i''"
| "cmd_str EdgeReport = ''j''"
| "cmd_str ControlMultiReq = ''k''"
| "cmd_str (OtherCommand i) = int_str i"

definition str_cmd :: "string \<Rightarrow> CommandType" where
  "str_cmd s =
     (case map_of (map (\<lambda>c. (cmd_str c, c)) [Reserved, ClusterRegist, ClusterUnregist,
        NeighborRoute, SubTreeRoute, DeployReq, DeployResp, ControlReq, ControlResp, EdgeReport,
        ControlMultiReq]) s of
        Some c \<Rightarrow> c | None \<Rightarrow> OtherCommand (str_int s))"

lemma str_cmd_cmd_str [simp]: "str_cmd (cmd_str c) = c"
proof (cases c)
  case (OtherCommand i)
  have "hd (int_str i) \<in> {CHR ''-'', CHR ''+''}" by (simp add: int_str_def)
  then have "map_of (map (\<lambda>c. (cmd_str c, c)) [Reserved, ClusterRegist, ClusterUnregist,
        NeighborRoute, SubTreeRoute, DeployReq, DeployResp, ControlReq, ControlResp, EdgeReport,
        ControlMultiReq]) (int_str i) = None"
    by auto
  with OtherCommand show ?thesis by (simp add: str_cmd_def)
qed (simp_all add: str_cmd_def)

section \<open>Codecs\<close>

definition head_strs :: "MessageHead \<Rightarrow> string list" where
  "head_strs h = [MessageID h, cmd_str (Command h), ClusterSelector h, ClusterName h,
     ParentClusterName h]"

definition enc_msg :: "ClusterMessage \<Rightarrow> bytes option" where
  "enc_msg m = Some (pack (Body m # (case Head m of None \<Rightarrow> [] | Some h \<Rightarrow> head_strs h)))"

definition dec_msg :: "bytes \<Rightarrow> ClusterMessage option" where
  "dec_msg b =
     (case unpack b of
        Some [body] \<Rightarrow> Some \<lparr>Head = None, Body = body\<rparr>
      | Some [body, i, c, s, n, p] \<Rightarrow>
          Some \<lparr>Head = Some \<lparr>MessageID = i, Command = str_cmd c, ClusterSelector = s,
            ClusterName = n, ParentClusterName = p\<rparr>, Body = body\<rparr>
      | _ \<Rightarrow> None)"

definition enc_task :: "ControllerTask \<Rightarrow> bytes option" where
  "enc_task t = Some (pack [Destination t, Method t, URI t, TaskBody t])"

definition dec_task :: "bytes \<Rightarrow> ControllerTask option" where
  "dec_task b =
     (case unpack b of
        Some [d, m, u, x] \<Rightarrow> Some \<lparr>Destination = d, Method = m, URI = u, TaskBody = x\<rparr>
      | _ \<Rightarrow> None)"

definition enc_multi :: "ControlMultiTask \<Rightarrow> bytes option" where
  "enc_multi t = Some (pack ([MultiDestination t, MultiMethod t, MultiURI t] @ MultiBody t))"

definition dec_multi :: "bytes \<Rightarrow> ControlMultiTask option" where
  "dec_multi b =
     (case unpack b of
        Some (d # m # u # xs) \<Rightarrow>
          Some \<lparr>MultiDestination = d, MultiMethod = m, MultiURI = u, MultiBody = xs\<rparr>
      | _ \<Rightarrow> None)"

definition enc_resp :: "ControllerTaskResponse \<Rightarrow> bytes option" where
  "enc_resp r = Some (pack [int_str (RespTimestamp r), int_str (RespStatusCode r), RespBody r])"

definition dec_resp :: "bytes \<Rightarrow> ControllerTaskResponse option" where
  "dec_resp b =
     (case unpack b of
        Some [t, c, x] \<Rightarrow>
          Some \<lparr>RespTimestamp = str_int t, RespStatusCode = str_int c, RespBody = x\<rparr>
      | _ \<Rightarrow> None)"

definition enc_registry :: "ClusterRegistry \<Rightarrow> bytes option" where
  "enc_registry r = Some (pack [RegName r, RegUserDefineName r, RegListen r, int_str (RegTime r),
     RegParentName r])"

definition dec_registry :: "bytes \<Rightarrow> ClusterRegistry option" where
  "dec_registry b =
     (case unpack b of
        Some [n, u, l, t, p] \<Rightarrow>
          Some \<lparr>RegName = n, RegUserDefineName = u, RegListen = l, RegTime = str_int t,
            RegParentName = p\<rparr>
      | _ \<Rightarrow> None)"

fun unpairs :: "string list \<Rightarrow> strmap option" where
  "unpairs [] = Some []"
| "unpairs [_] = None"
| "unpairs (k # v # r) = map_option (Cons (k, v)) (unpairs r)"

definition pairs :: "strmap \<Rightarrow> string list" where
  "pairs m = concat (map (\<lambda>(k, v). [k, v]) m)"

lemma unpairs_pairs [simp]: "unpairs (pairs m) = Some m"
  by (induction m) (auto simp: pairs_def)

definition enc_subtree :: "strmap \<Rightarrow> bytes option" where
  "enc_subtree m = Some (pack (pairs m))"

definition dec_subtree :: "bytes \<Rightarrow> strmap option option" where
  "dec_subtree b = (case unpack b of None \<Rightarrow> None | Some xs \<Rightarrow> map_option Some (unpairs xs))"

definition opt_str :: "strmap option \<Rightarrow> string" where
  "opt_str m = (case m of None \<Rightarrow> [] | Some m' \<Rightarrow> CHR ''!'' # pack (pairs m'))"

text \<open>A string that does not hold a map with distinct keys reads as the nil map.\<close>

definition str_opt :: "string \<Rightarrow> strmap option" where
  "str_opt s =
     (case s of
        [] \<Rightarrow> None
      | _ # t \<Rightarrow>
          (case unpack t of
             None \<Rightarrow> None
           | Some xs \<Rightarrow>
               (case unpairs xs of None \<Rightarrow> None | Some m \<Rightarrow> if go_wf m then Some m else None)))"

definition enc_router :: "router_json \<Rightarrow> bytes option" where
  "enc_router r =
     (case r of (c, n, p) \<Rightarrow>
        if opt_wf c \<and> opt_wf n \<and> opt_wf p
        then Some (pack [opt_str c, opt_str n, opt_str p]) else None)"

definition dec_router :: "bytes \<Rightarrow> router_json option" where
  "dec_router b =
     (case unpack b of Some [c, n, p] \<Rightarrow> Some (str_opt c, str_opt n, str_opt p) | _ \<Rightarrow> None)"

definition sample_codecs :: codecs where
  "sample_codecs =
     \<lparr>pb_msg = enc_msg, unpb_msg = dec_msg, pb_task = enc_task, unpb_task = dec_task,
      pb_multi = enc_multi, unpb_multi = dec_multi, pb_resp = enc_resp, unpb_resp = dec_resp,
      js_registry = enc_registry, unjs_registry = dec_registry,
      js_router = enc_router, unjs_router = dec_router,
      js_subtree = enc_subtree, unjs_subtree = dec_subtree\<rparr>"

lemma roundtrip_msg [simp]: "roundtrip enc_msg dec_msg"
  by (auto simp: roundtrip_def enc_msg_def dec_msg_def head_strs_def split: option.splits)

lemma roundtrip_task [simp]: "roundtrip enc_task dec_task"
  by (auto simp: roundtrip_def enc_task_def dec_task_def)

lemma roundtrip_multi [simp]: "roundtrip enc_multi dec_multi"
  by (auto simp: roundtrip_def enc_multi_def dec_multi_def)

lemma roundtrip_resp [simp]: "roundtrip enc_resp dec_resp"
  by (auto simp: roundtrip_def enc_resp_def dec_resp_def)

lemma roundtrip_registry [simp]: "roundtrip enc_registry dec_registry"
  by (auto simp: roundtrip_def enc_registry_def dec_registry_def)

lemma str_opt_opt_str: "opt_wf m \<Longrightarrow> str_opt (opt_str m) = m"
  by (auto simp: str_opt_def opt_str_def opt_wf_def split: option.splits)

lemma roundtrip_router [simp]: "roundtrip enc_router dec_router"
  by (auto simp: roundtrip_def enc_router_def dec_router_def str_opt_opt_str split: if_splits)

lemma dec_subtree_enc [simp]: "dec_subtree (pack (pairs m)) = Some (Some m)"
  by (simp add: dec_subtree_def)

lemma opt_wf_str_opt: "opt_wf (str_opt s)"
  by (auto simp: str_opt_def opt_wf_def split: list.splits option.splits)

lemma sample_router_decoder_wf [simp]: "router_decoder_wf sample_codecs"
  by (auto simp: router_decoder_wf_def sample_codecs_def dec_router_def opt_wf_str_opt
      split: option.splits list.splits)

section \<open>An API server\<close>

record store =
  st_clusters :: "(string \<times> string, Cluster) gomap"
  st_controllers :: "(string \<times> string, ClusterController) gomap"

definition store_get :: "string \<Rightarrow> string \<Rightarrow> store \<Rightarrow> Cluster option" where
  "store_get ns n k =
     (case go_get (st_clusters k) (ns, n) of
        None \<Rightarrow> None
      | Some c \<Rightarrow> if clNamespace c = ns \<and> clName c = n then Some c else None)"

definition store_put :: "Cluster \<Rightarrow> store \<Rightarrow> store" where
  "store_put c k =
     k\<lparr>st_clusters := go_put (clNamespace c, clName c)
         (c\<lparr>clResourceVersion := CHR ''1'' # clResourceVersion c\<rparr>) (st_clusters k)\<rparr>"

definition store_create :: "string \<Rightarrow> Cluster \<Rightarrow> store \<Rightarrow> api_error option \<times> store" where
  "store_create ns c k =
     (if clNamespace c \<noteq> ns then (Some (ApiError ''namespace''), k)
      else if store_get ns (clName c) k \<noteq> None then (Some (ApiError ''exists''), k)
      else (None, store_put c k))"

definition store_update :: "string \<Rightarrow> Cluster \<Rightarrow> store \<Rightarrow> api_error option \<times> store" where
  "store_update ns c k =
     (if clNamespace c \<noteq> ns then (Some (ApiError ''namespace''), k)
      else (case store_get ns (clName c) k of
              None \<Rightarrow> (Some NotFound, k)
            | Some old \<Rightarrow>
                if clResourceVersion old \<noteq> clResourceVersion c then (Some Conflict, k)
                else (None, store_put c k)))"

definition sample_api :: "store oteapi" where
  "sample_api =
     \<lparr>api_getCluster = store_get, api_createCluster = store_create,
      api_updateCluster = store_update,
      api_deleteCluster = (\<lambda>ns n k. (None, k\<lparr>st_clusters := go_del (ns, n) (st_clusters k)\<rparr>)),
      api_patchCluster = (\<lambda>ns n b k. (Some PatchFailed, k)),
      api_getCC = (\<lambda>ns n k. go_get (st_controllers k) (ns, n)),
      api_updateCC = (\<lambda>ns cc k.
        (None, k\<lparr>st_controllers := go_put (ns, ccName cc) cc (st_controllers k)\<rparr>)),
      api_retry = retry_runs 4,
      api_marshalCluster = (\<lambda>c. None),
      api_mergePatch = (\<lambda>a b. None)\<rparr>"

lemma store_get_put:
  "store_get ns n (store_put c k) =
     (if (ns, n) = (clNamespace c, clName c)
      then Some (c\<lparr>clResourceVersion := CHR ''1'' # clResourceVersion c\<rparr>) else store_get ns n k)"
  by (simp add: store_get_def store_put_def)

lemma write_ok_storeI:
  assumes "\<And>ns c k e k'. w ns c k = (e, k') \<Longrightarrow>
    (if e = None then clNamespace c = ns \<and> k' = store_put c k else k' = k)"
  shows "write_ok sample_api w"
  unfolding write_ok_def
proof (intro allI impI)
  fix ns c k e k'
  assume "w ns c k = (e, k')"
  from assms [OF this] show "if e \<noteq> None then k' = k
    else stored_as c (api_getCluster sample_api ns (clName c) k') \<and>
      (\<forall>ns' n'. (ns', n') \<noteq> (ns, clName c) \<longrightarrow>
         api_getCluster sample_api ns' n' k' = api_getCluster sample_api ns' n' k)"
    by (auto simp: sample_api_def store_get_put stored_as_def split: if_splits)
qed

lemma sample_oteapi_ok [simp]: "oteapi_ok sample_api"
proof -
  have "write_ok sample_api (api_updateCluster sample_api)"
    by (rule write_ok_storeI)
       (auto simp: sample_api_def store_update_def split: if_splits option.splits)
  moreover have "write_ok sample_api (api_createCluster sample_api)"
    by (rule write_ok_storeI) (auto simp: sample_api_def store_create_def split: if_splits)
  moreover have "get_ok sample_api"
    by (auto simp: get_ok_def sample_api_def store_get_def split: option.splits if_splits)
  moreover have "retry_ok (api_retry sample_api)"
    by (auto simp: retry_ok_def sample_api_def)
  ultimately show ?thesis by (simp add: oteapi_ok_def)
qed

lemma sample_updateCC_frame [simp]: "updateCC_frame sample_api"
  by (simp add: updateCC_frame_def sample_api_def store_get_def)

section \<open>The environment\<close>

definition sample_env :: "store henv" where
  "sample_env = \<lparr>codec = sample_codecs, api = sample_api, rx = sublist, now = 5 * 10 ^ 9,
     cmSendOk = (\<lambda>_. True)\<rparr>"

lemma sample_regexp_literal [simp]: "regexp_literal sublist"
  by (simp add: regexp_literal_def)

lemma sample_env_sel [simp]:
  "codec sample_env = sample_codecs" "api sample_env = sample_api" "rx sample_env = sublist"
  by (simp_all add: sample_env_def)

lemmas sample_defs =
  sample_env_def sample_codecs_def sample_api_def store_get_def store_put_def store_create_def
  store_update_def enc_msg_def dec_msg_def head_strs_def enc_registry_def dec_registry_def
  enc_resp_def dec_resp_def enc_router_def dec_router_def enc_subtree_def

definition sample_root_conf :: config where
  "sample_root_conf = \<lparr>TunnelListenAddr = '':8272'', LeaderListenAddr = [], ParentCluster = [],
     confClusterName = ''root'', ClusterUserDefineName = ''root'', RemoteShimAddr = [],
     hasK8sClient = True\<rparr>"

definition sample_edge_conf :: config where
  "sample_edge_conf = \<lparr>TunnelListenAddr = '':8273'', LeaderListenAddr = [],
     ParentCluster = ''127.0.0.1:8272'', confClusterName = ''c1'',
     ClusterUserDefineName = ''c1'', RemoteShimAddr = [], hasK8sClient = False\<rparr>"

definition sample_root :: "store handler" where
  "sample_root = \<lparr>conf = sample_root_conf, k8sEnable = True, rootClusterEnable = False,
     router = defaultClusterRouter, kube = \<lparr>st_clusters = [], st_controllers = []\<rparr>\<rparr>"

definition sample_edge :: "store handler" where
  "sample_edge = \<lparr>conf = sample_edge_conf, k8sEnable = False, rootClusterEnable = False,
     router = defaultClusterRouter, kube = \<lparr>st_clusters = [], st_controllers = []\<rparr>\<rparr>"

definition sample_registry :: ClusterRegistry where
  "sample_registry = \<lparr>RegName = ''c1'', RegUserDefineName = ''c1'', RegListen = '':8273'',
     RegTime = 3, RegParentName = ''root''\<rparr>"

end
