(* ===== verification/HandlerProps.thy ===== *)
theory HandlerProps
  imports SampleEnv
begin

text \<open>
  The properties of the route table, the selector, the API server wrapper and the cluster
  handler, each with an application to a concrete input where it has hypotheses.
\<close>

section \<open>Sample runs\<close>

definition sample_regist_msg :: ClusterMessage where
  "sample_regist_msg = \<lparr>Head = Some (emptyHead\<lparr>Command := ClusterRegist\<rparr>),
     Body = pack [''c1'', ''c1'', '':8273'', int_str 3, ''root'']\<rparr>"

definition sample_regist_data :: bytes where
  "sample_regist_data = the (enc_msg sample_regist_msg)"

definition sample_start :: "store sys" where
  "sample_start = \<lparr>hnd = sample_root, queue = [], pending = [], sent = []\<rparr>"

lemma sample_reach_start: "reach sample_env sample_root_conf \<lparr>st_clusters = [], st_controllers = []\<rparr> sample_start"
proof -
  have "NewClusterHandler sample_root_conf \<lparr>st_clusters = [], st_controllers = []\<rparr> = Inr sample_root"
    by code_simp
  moreover have "Start (at_time 0 sample_env) True sample_root = (None, sample_root)"
    by (simp add: Start_def sample_root_def)
  ultimately show ?thesis
    unfolding sample_start_def by (rule reach_start)
qed

definition sample_after :: "store sys" where
  "sample_after = the (sys_step (at_time 0 sample_env) Worker
     (the (sys_step (at_time 0 sample_env) (TunnelMsg ''c1'' sample_regist_data) sample_start)))"

lemma sample_reach_after: "reach sample_env sample_root_conf \<lparr>st_clusters = [], st_controllers = []\<rparr> sample_after"
proof -
  let ?mid = "the (sys_step (at_time 0 sample_env) (TunnelMsg ''c1'' sample_regist_data) sample_start)"
  have mid: "sys_step (at_time 0 sample_env) (TunnelMsg ''c1'' sample_regist_data) sample_start =
      Some ?mid"
    by simp
  have "sys_step (at_time 0 sample_env) Worker ?mid \<noteq> None" by code_simp
  then have "sys_step (at_time 0 sample_env) Worker ?mid = Some sample_after"
    by (auto simp: sample_after_def)
  with mid show ?thesis by (blast intro: reach_step sample_reach_start)
qed

definition sample_unregist_data :: bytes where
  "sample_unregist_data =
     the (enc_msg (sample_regist_msg\<lparr>Head := Some (emptyHead\<lparr>Command := ClusterUnregist\<rparr>)\<rparr>))"

definition sample_closing :: "store sys" where
  "sample_closing = sample_after\<lparr>queue := [(''c1'', sample_unregist_data)]\<rparr>"

definition sample_closed :: "store sys" where
  "sample_closed = the (sys_step sample_env Worker sample_closing)"

definition sample_cluster :: Cluster where
  "sample_cluster = the (store_get ''kube-system'' ''c1'' (kube (hnd sample_closing)))"

section \<open>The running handler\<close>

text \<open>C2: In every reachable state of a cluster handler, under any interleaving of its entry
  points, the route table is well formed (each map has each key once, and the map of children
  is never nil, so that adding a child cannot panic), the queue of child messages holds at
  most 10000 messages, and the configuration is the validated one it was built with.\<close>

theorem reach_wellformed:
  assumes "router_decoder_wf (codec env)" and "reach env cf k0 s"
  shows "router_wf (router (hnd s)) \<and> length (queue s) \<le> 10000 \<and> conf (hnd s) = cf \<and>
    valid cf = Inr (rootClusterEnable (hnd s), k8sEnable (hnd s))"
  using reach_sys_inv [OF assms] by (simp add: sys_inv_def ChildMessageChanCap_def)

theorem reach_wellformed_witness:
  "router_wf (router (hnd sample_after)) \<and> length (queue sample_after) \<le> 10000 \<and>
   conf (hnd sample_after) = sample_root_conf \<and>
   valid sample_root_conf =
     Inr (rootClusterEnable (hnd sample_after), k8sEnable (hnd sample_after))"
  by (rule reach_wellformed [OF _ sample_reach_after]) simp

text \<open>C3: Only the root touches the API server and only the root talks to the controller
  manager, while the root never transmits to a parent: a non-root handler leaves the
  API server exactly as it found it in every reachable state.\<close>

theorem reach_authority:
  assumes "router_decoder_wf (codec env)" and "reach env cf k0 s"
  shows "if IsRoot (ClusterUserDefineName cf) then \<forall>m. ToParent m \<notin> set (sent s)
    else kube (hnd s) = k0 \<and> (\<forall>data. ToControllerManager data \<notin> set (sent s))"
  using reach_sys_inv [OF assms]
  by (auto simp: sys_inv_def isRoot_def list_all_iff)

theorem reach_authority_witness:
  "if IsRoot (ClusterUserDefineName sample_root_conf)
   then \<forall>m. ToParent m \<notin> set (sent sample_after)
   else kube (hnd sample_after) = \<lparr>st_clusters = [], st_controllers = []\<rparr> \<and>
     (\<forall>data. ToControllerManager data \<notin> set (sent sample_after))"
  by (rule reach_authority [OF _ sample_reach_after]) simp

text \<open>C22: The exact conditions under which the process panics: a message without a head from
  the parent's channel, or, at the root, a control response whose body does not decode, no
  matter whether it came through the queue, a registration goroutine or the root's own edge
  handler. Every other event is handled.\<close>

theorem step_panics_iff: "sys_step env ev s = None \<longleftrightarrow> crashes env ev s"
  by (cases ev)
     (auto simp: handleMessageFromChild_None handleChildMessage_def handleMessageFromParent_def
       handleMessageFromEdgeHandler_def split: option.splits prod.splits list.splits if_splits)

text \<open>C4: Across any step of the root no \<^verbatim>\<open>Cluster\<close> resource disappears or is renamed, and a
  stored status is only ever replaced by one with a strictly younger timestamp.\<close>

theorem step_clusters_grow:
  assumes "oteapi_ok (api env)" and "updateCC_frame (api env)"
    and "sys_step env ev s = Some s'"
    and "api_getCluster (api env) ns n (kube (hnd s)) = Some cl"
  shows "\<exists>cl'. api_getCluster (api env) ns n (kube (hnd s')) = Some cl' \<and>
    clSpecName cl' = clSpecName cl \<and>
    (clStatus cl' = clStatus cl \<or> stTimestamp (clStatus cl) < stTimestamp (clStatus cl'))"
  using grow_step [OF assms(1-3)] assms(4) by (simp add: clusters_grow_def grown_def)

theorem step_clusters_grow_witness:
  "stStatus (clStatus sample_cluster) = ''online'' \<and>
   (\<exists>cl'. api_getCluster (api sample_env) ''kube-system'' ''c1'' (kube (hnd sample_closed)) = Some cl' \<and>
      clSpecName cl' = clSpecName sample_cluster \<and>
      (clStatus cl' = clStatus sample_cluster \<or>
       stTimestamp (clStatus sample_cluster) < stTimestamp (clStatus cl')))"
proof -
  have "sys_step sample_env Worker sample_closing \<noteq> None" by code_simp
  then have step: "sys_step sample_env Worker sample_closing = Some sample_closed"
    by (auto simp: sample_closed_def)
  have "store_get ''kube-system'' ''c1'' (kube (hnd sample_closing)) \<noteq> None" by code_simp
  then have "api_getCluster (api sample_env) ''kube-system'' ''c1'' (kube (hnd sample_closing)) =
      Some sample_cluster"
    by (auto simp: sample_cluster_def sample_api_def)
  moreover have "stStatus (clStatus sample_cluster) = ''online''" by code_simp
  ultimately show ?thesis
    using step_clusters_grow [OF _ _ step] by simp
qed

section \<open>Registration\<close>

text \<open>A registration claims a name for the port it came through. When the name is free or
  already routed through that port, the route is set, and a non-root handler passes the
  message on unchanged. When another port holds the name, the registration is refused with
  the duplicate-name error, and nothing is written, sent or changed.\<close>

theorem regist_claims_name:
  assumes "getClusterRegistryFromClusterMessage (codec env) msg = Some reg"
    and "handleRegistClusterMessage env client msg c = (e, c', as)"
  shows "(case route (router c) (RegName reg) of
      None \<Rightarrow> route (router c') = (route (router c))(RegName reg \<mapsto> client) \<and>
        as = (if isRoot c then [] else [ToParent msg])
    | Some q \<Rightarrow>
        if q = client then route (router c') = route (router c) \<and>
          as = (if isRoot c then [] else [ToParent msg])
        else e = Some (RouteRefused ErrDuplicatedName) \<and> c' = c \<and> as = [])"
  using assms
  by (auto simp: handleRegistClusterMessage_def getClusterFromClusterRegistry_def Let_def
      AddRoute_def route_def transmitToParent_def dest: static_createOrUpdate split: handler_splits)

theorem regist_claims_name_witness:
  "route (router (hnd sample_after)) ''c1'' = Some ''c1'' \<and>
   handleRegistClusterMessage sample_env ''c9'' sample_regist_msg (hnd sample_after) =
     (Some (RouteRefused ErrDuplicatedName), hnd sample_after, [])"
proof -
  have reg: "getClusterRegistryFromClusterMessage (codec sample_env) sample_regist_msg =
      Some sample_registry"
    by code_simp
  obtain e c' as where h: "handleRegistClusterMessage sample_env ''c9'' sample_regist_msg
      (hnd sample_after) = (e, c', as)"
    by (rule prod_cases3)
  have r: "route (router (hnd sample_after)) ''c1'' = Some ''c1''" by code_simp
  with regist_claims_name [OF reg h] h show ?thesis by (simp add: sample_registry_def)
qed

definition stored :: "'k henv \<Rightarrow> Cluster \<Rightarrow> 'k handler \<Rightarrow> Cluster option" where
  "stored env cluster c = api_getCluster (api env) (clNamespace cluster) (clName cluster) (kube c)"

text \<open>What a registration or the start of a root does to the API server. A cluster the
  server does not know is created as online with the root's clock; a known one is set online
  with the new address, parent and timestamp exactly when that timestamp is younger than the
  stored one; an older or equal timestamp is refused and the server stays as it is.\<close>

theorem createOrUpdateCluster_spec:
  assumes ok: "oteapi_ok (api env)" and cu: "createOrUpdateCluster env cluster c = (e, c')"
  shows "case stored env cluster c of
      None \<Rightarrow> e = None \<and> (kube c' = kube c \<or>
        (\<exists>cl. stored env cluster c' = Some cl \<and> clStatus cl = (clStatus cluster)
           \<lparr>stStatus := ClusterStatusOnline, stTimestamp := unixNow env\<rparr>))
    | Some old \<Rightarrow>
        if stTimestamp (clStatus cluster) \<le> stTimestamp (clStatus old)
        then e = Some (StatusUpdateFailed StaleTimestamp) \<and> kube c' = kube c
        else (if e = None
          then (\<exists>cl. stored env cluster c' = Some cl \<and> clStatus cl = (clStatus old)
            \<lparr>stStatus := ClusterStatusOnline, stTimestamp := stTimestamp (clStatus cluster),
             stListen := stListen (clStatus cluster),
             stParentName := stParentName (clStatus cluster)\<rparr>)
          else kube c' = kube c)"
proof (cases "stored env cluster c")
  case None
  let ?new = "cluster\<lparr>clStatus := (clStatus cluster)
      \<lparr>stStatus := ClusterStatusOnline, stTimestamp := unixNow env\<rparr>\<rparr>"
  from None cu have "e = None" "kube c' = ClusterCRD_Create (api env) ?new (kube c)"
    by (auto simp: createOrUpdateCluster_def ClusterCRD_Get_def stored_def)
  with None Create_done [OF ok, of ?new "kube c"] show ?thesis
    by (auto simp: stored_def dest!: stored_asD)
next
  case (Some old)
  let ?new = "old\<lparr>clStatus := (clStatus old)\<lparr>stStatus := ClusterStatusOnline,
      stTimestamp := stTimestamp (clStatus cluster), stListen := stListen (clStatus cluster),
      stParentName := stParentName (clStatus cluster)\<rparr>\<rparr>"
  have old: "api_getCluster (api env) (clNamespace old) (clName old) (kube c) = Some old"
    "clNamespace old = clNamespace cluster" "clName old = clName cluster"
    using Some ok by (auto simp: stored_def oteapi_ok_def get_ok_def)
  obtain e2 k2 where w: "ClusterCRD_UpdateStatus (api env) ?new (kube c) = (e2, k2)" by fastforce
  with Some cu have "e = map_option StatusUpdateFailed e2" "kube c' = k2"
    by (auto simp: createOrUpdateCluster_def ClusterCRD_Get_def stored_def split: option.splits)
  moreover from w have "updateStatusOnce (api env) ?new (kube c) = (e2, k2)"
    by (simp add: UpdateStatus_once [OF ok])
  ultimately show ?thesis
    using Some old w updateStatusOnce_failed [OF ok, of ?new "kube c"]
      stored_asD [OF write_ok_done(1) [OF oteapi_okD(2) [OF ok]], of "clNamespace old" ?new "kube c" k2]
    by (cases e2) (auto simp: updateStatusOnce_def updateClusterIsValid_def stored_def)
qed

theorem createOrUpdateCluster_spec_witness:
  "\<exists>e c'. createOrUpdateCluster sample_env sample_cluster (hnd sample_after) = (e, c') \<and>
     stored sample_env sample_cluster (hnd sample_after) = Some sample_cluster \<and>
     e = Some (StatusUpdateFailed StaleTimestamp) \<and> kube c' = kube (hnd sample_after)"
proof -
  obtain e c' where cu: "createOrUpdateCluster sample_env sample_cluster (hnd sample_after) = (e, c')"
    by fastforce
  have "stored sample_env sample_cluster (hnd sample_after) = Some sample_cluster" by code_simp
  with createOrUpdateCluster_spec [OF _ cu] cu show ?thesis by simp
qed

text \<open>C6: A child that connects, is registered, and disconnects again leaves no trace in the
  route table and among the children, provided its name was not in use before: the
  unregistration undoes exactly what the registration and the connection did.\<close>

theorem connect_close_roundtrip:
  assumes rts: "roundtrip (pb_msg (codec env)) (unpb_msg (codec env))"
      "roundtrip (js_registry (codec env)) (unjs_registry (codec env))"
    and wf: "router_wf (router c)"
    and free: "route (router c) (RegName reg) = None" "RegName reg \<notin> ran (route (router c))"
      "nil_get (Childs (router c)) (RegName reg) = None"
    and check: "checkClusterName env (Some reg) c = (True, Some reg', [SpawnHandle n data])"
    and regist: "handleMessageFromChild env n data c = Some (e1, c1, as1)"
    and connect: "afterClusterConnect env reg' c1 = (c2, as2)"
    and close: "closeChild env (Some reg') c2 = (c3, as3 @ [SpawnHandle n' data'])"
    and unregist: "handleMessageFromChild env n' data' c3 = Some (e4, c4, as4)"
  shows "route (router c4) = route (router c) \<and>
    nil_get (Childs (router c4)) = nil_get (Childs (router c))"
proof -
  let ?n = "RegName reg" and ?r = "reg\<lparr>RegParentName := confClusterName (conf c)\<rparr>"
  from checkClusterName_True [OF check] have n: "n = ?n" "reg' = ?r"
    "childMessage (codec env) ?r ClusterRegist data" by auto
  have r1: "AddRoute ?n ?n (router c) = Inr (router c1)"
    using fromChild_regist [OF rts n(3)] free(1) regist by (simp add: n(1))
  note wf1 = router_wf_AddRoute [OF wf r1]
  from AddRoute_childs [OF r1] free(3) have "nil_get (Childs (router c1)) (RegName reg') = None"
    by (simp add: n(2))
  from afterClusterConnect_new [OF wf1 this connect] AddRoute_childs [OF r1]
  have r2: "route (router c2) = route (router c1)" "router_wf (router c2)"
      "nil_get (Childs (router c2)) = (nil_get (Childs (router c)))(?n \<mapsto> RegListen reg)"
    by (simp_all add: n(2))
  from closeChild_spawn [OF close] n(2) have r3: "n' = ?n"
    "router c3 = fst (DelChild (codec env) ?n (router c2))"
    "childMessage (codec env) (?r\<lparr>RegParentName := confClusterName (conf c2)\<rparr>) ClusterUnregist data'"
    by auto
  then have r3': "route (router c3) = route (router c1)"
    "nil_get (Childs (router c3)) = nil_get (Childs (router c))"
    using r2 free(3) by (auto simp: DelChild_childs DelChild_route fun_eq_iff)
  from fromChild_unregist [OF rts r3(3) unregist] have r4: "router c4 = DelRoute ?n ?n (router c3)"
    by (simp add: r3(1))
  have "router_wf (router c3)"
    unfolding r3(2) by (rule router_wf_DelChild [OF r2(2) surjective_pairing])
  with r4 r3' route_AddRoute [OF r1] free show ?thesis
    by (auto simp: fun_eq_iff rt.del_port ran_def)
qed

definition visit_reg :: ClusterRegistry where
  "visit_reg = sample_registry\<lparr>RegName := ''c2'', RegParentName := ''c1''\<rparr>"

definition visit_data :: "CommandType \<Rightarrow> bytes" where
  "visit_data command = the (enc_msg \<lparr>Head = Some (emptyHead\<lparr>Command := command\<rparr>),
     Body = the (enc_registry visit_reg)\<rparr>)"

definition visit1 :: "handler_error option \<times> store handler \<times> action list" where
  "visit1 = the (handleMessageFromChild sample_env ''c2'' (visit_data ClusterRegist) sample_edge)"

definition visit2 :: "store handler \<times> action list" where
  "visit2 = afterClusterConnect sample_env visit_reg (fst (snd visit1))"

definition visit3 :: "store handler \<times> action list" where
  "visit3 = closeChild sample_env (Some visit_reg) (fst visit2)"

definition visit4 :: "handler_error option \<times> store handler \<times> action list" where
  "visit4 = the (handleMessageFromChild sample_env ''c2'' (visit_data ClusterUnregist) (fst visit3))"

theorem connect_close_roundtrip_witness:
  "route (router (fst (snd visit1))) ''c2'' = Some ''c2'' \<and>
   route (router (fst (snd visit4))) = route (router sample_edge) \<and>
   nil_get (Childs (router (fst (snd visit4)))) = nil_get (Childs (router sample_edge))"
proof -
  have check: "checkClusterName sample_env (Some visit_reg) sample_edge =
      (True, Some visit_reg, [SpawnHandle ''c2'' (visit_data ClusterRegist)])"
    by code_simp
  have h1: "handleMessageFromChild sample_env ''c2'' (visit_data ClusterRegist) sample_edge =
      Some (fst visit1, fst (snd visit1), snd (snd visit1))"
    by code_simp
  have h2: "afterClusterConnect sample_env visit_reg (fst (snd visit1)) = (fst visit2, snd visit2)"
    by (simp add: visit2_def)
  have h3: "closeChild sample_env (Some visit_reg) (fst visit2) =
      (fst visit3, butlast (snd visit3) @ [SpawnHandle ''c2'' (visit_data ClusterUnregist)])"
    by code_simp
  have h4: "handleMessageFromChild sample_env ''c2'' (visit_data ClusterUnregist) (fst visit3) =
      Some (fst visit4, fst (snd visit4), snd (snd visit4))"
    by code_simp
  have rts: "roundtrip (pb_msg (codec sample_env)) (unpb_msg (codec sample_env))"
    "roundtrip (js_registry (codec sample_env)) (unjs_registry (codec sample_env))"
    by (simp_all add: sample_codecs_def)
  have "router sample_edge = defaultClusterRouter" by (simp add: sample_edge_def)
  then have "router_wf (router sample_edge)" "route (router sample_edge) (RegName visit_reg) = None"
    "RegName visit_reg \<notin> ran (route (router sample_edge))"
    "nil_get (Childs (router sample_edge)) (RegName visit_reg) = None"
    by (simp_all add: defaultClusterRouter_def route_def nil_get_def
        router_wf_default [unfolded defaultClusterRouter_def])
  note * = connect_close_roundtrip [OF rts this check h1 h2 h3 h4]
  have "route (router (fst (snd visit1))) ''c2'' = Some ''c2''" by code_simp
  with * show ?thesis by simp
qed

section \<open>Routes\<close>

text \<open>C5: A subtree report makes the table agree with the reporting child. Every reported
  cluster that was unknown is routed through that child, a reported cluster that another port
  holds keeps its port, a cluster that was routed through the child and is no longer reported
  loses its route, and no other route changes, whatever order the maps are visited in.\<close>

theorem subtree_report_sync:
  assumes "router_wf (router c)"
    and "SubtreeFromClusterController (codec env) msg = Some sub"
    and "updateRouteToSubtree env msg head c = (e, c')"
  shows "route (router c') k =
    (if k \<in> dom (go_get sub)
     then (case route (router c) k of None \<Rightarrow> Some (ClusterName head) | Some q \<Rightarrow> Some q)
     else if route (router c) k = Some (ClusterName head) \<and> k \<noteq> ClusterName head then None
     else route (router c) k)"
  by (simp add: updateRouteToSubtree_route [OF assms])

definition sample_router :: ClusterRouter where
  "sample_router = defaultClusterRouter\<lparr>subtreeRouter :=
     [(''c1'', ''c1''), (''c2'', ''c1''), (''c3'', ''c3'')]\<rparr>"

definition sample_report :: ClusterMessage where
  "sample_report = \<lparr>Head = None, Body = pack (pairs [(''c3'', ''c3''), (''c4'', ''c4'')])\<rparr>"

theorem subtree_report_sync_witness:
  "\<exists>e c'. updateRouteToSubtree sample_env sample_report (emptyHead\<lparr>ClusterName := ''c1''\<rparr>)
       (sample_edge\<lparr>router := sample_router\<rparr>) = (e, c') \<and>
     route (router c') ''c1'' = Some ''c1'' \<and> route (router c') ''c2'' = None \<and>
     route (router c') ''c3'' = Some ''c3'' \<and> route (router c') ''c4'' = Some ''c1''"
proof -
  obtain e c' where u: "updateRouteToSubtree sample_env sample_report
      (emptyHead\<lparr>ClusterName := ''c1''\<rparr>) (sample_edge\<lparr>router := sample_router\<rparr>) = (e, c')"
    by fastforce
  have "router_wf (router (sample_edge\<lparr>router := sample_router\<rparr>))"
    by (simp add: sample_router_def router_wf_def defaultClusterRouter_def opt_wf_def go_wf_def
        go_keys_def)
  moreover have "SubtreeFromClusterController (codec sample_env) sample_report =
      Some [(''c3'', ''c3''), (''c4'', ''c4'')]"
    by (simp add: SubtreeFromClusterController_def sample_report_def sample_codecs_def)
  ultimately show ?thesis
    using subtree_report_sync [OF _ _ u] u by (simp add: sample_router_def route_def)
qed

text \<open>The exact effect of removing a route. With a port other than the cluster itself, only
  the route of that cluster through that port goes. When cluster and port are the same, the
  cluster is a direct child: its own route goes whatever port it was through, and with it
  every route through it.\<close>

theorem DelRoute_effect:
  assumes "router_wf r"
  shows "route (DelRoute to port r) k =
    (if to = port \<and> (k = to \<or> route r k = Some port) then None
     else if to \<noteq> port \<and> k = to \<and> route r to = Some port then None
     else route r k)"
  using assms by (auto simp: route_DelRoute router_wf_subtree)

theorem DelRoute_effect_witness:
  "route (DelRoute ''c1'' ''c1'' sample_router) ''c2'' = None \<and>
   route (DelRoute ''c1'' ''c1'' sample_router) ''c3'' = Some ''c3''"
proof -
  have "router_wf sample_router"
    by (simp add: sample_router_def router_wf_def defaultClusterRouter_def opt_wf_def go_wf_def
        go_keys_def)
  then show ?thesis
    using DelRoute_effect [of sample_router "''c1''" "''c1''" "''c2''"]
      DelRoute_effect [of sample_router "''c1''" "''c1''" "''c3''"]
    by (simp add: sample_router_def route_def)
qed


text \<open>A message is relayed to exactly those children that lead to a selected cluster. The
  copy for a child carries, as its selector, precisely the selected clusters routed through
  that child, so that the children's copies split the selected clusters between them, and
  is otherwise the original message.\<close>

theorem selectChild_splits:
  "go_get (selectChild env msg head cr) port =
     (let sub = filter (\<lambda>n. Has (rx env) (NewSelector (ClusterSelector head)) n \<and>
                  route cr n = Some port) (SubTreeClusters cr)
      in if sub = [] then None
         else Some (msg\<lparr>Head := Some (head\<lparr>ClusterSelector := ClustersToSelector sub\<rparr>)\<rparr>))"
  by (simp add: selectChild_get selectedClusters_def portMessage_def Let_def conj_commute)

section \<open>Responses\<close>

text \<open>Responses to one request merge into its resource independently of the order they
  arrive in: for every cluster the youngest response is kept, provided no cluster sends
  two different responses with one timestamp.\<close>

theorem merge_order_irrelevant:
  assumes "go_wf a" "go_wf b" and "\<And>cn x y. go_get a cn = Some x \<Longrightarrow> go_get b cn = Some y \<Longrightarrow>
    ccsTimestamp x = ccsTimestamp y \<Longrightarrow> x = y"
  shows "go_get (mergeStatus (mergeStatus s a s) b (mergeStatus s a s)) cn =
    go_get (mergeStatus (mergeStatus s b s) a (mergeStatus s b s)) cn"
  using assms(1,2) by (simp add: mergeStatus_younger) (rule younger_comm, rule assms(3))

theorem merge_order_irrelevant_witness:
  "let s = [(''c1'', \<lparr>ccsTimestamp = 1, ccsStatusCode = 500, ccsBody = ''a''\<rparr>)];
       a = [(''c1'', \<lparr>ccsTimestamp = 3, ccsStatusCode = 200, ccsBody = ''b''\<rparr>)];
       b = [(''c1'', \<lparr>ccsTimestamp = 2, ccsStatusCode = 404, ccsBody = ''c''\<rparr>)]
   in go_get (mergeStatus (mergeStatus s a s) b (mergeStatus s a s)) ''c1'' =
        go_get (mergeStatus (mergeStatus s b s) a (mergeStatus s b s)) ''c1''"
  unfolding Let_def
  by (rule merge_order_irrelevant) (auto simp: go_wf_def go_keys_def split: if_splits)

text \<open>A response merged into the resource of its request keeps, for the responding
  cluster, the younger of the stored and the new status, and leaves the statuses of all other
  clusters alone; a resource that no longer exists is not written.\<close>

theorem mergeToApiserver_writes:
  assumes "Command head = ControlResp" and "unpb_resp (codec env) (Body msg) = Some resp"
  shows "mergeToApiserver env msg head c = Some (None,
    (case api_getCC (api env) ClusterNamespace (MessageID head) (kube c) of
       None \<Rightarrow> c
     | Some origin \<Rightarrow>
         c\<lparr>kube := snd (api_updateCC (api env) (ccNamespace origin) (origin\<lparr>ccStatus := Some
             (let s = \<lparr>ccsTimestamp = RespTimestamp resp, ccsStatusCode = RespStatusCode resp,
                       ccsBody = RespBody resp\<rparr>;
                  old = opt_map (ccStatus origin)
              in (case go_get old (ClusterName head) of
                    None \<Rightarrow> go_put (ClusterName head) s old
                  | Some o' \<Rightarrow> if ccsTimestamp o' < RespTimestamp resp
                               then go_put (ClusterName head) s old else old))\<rparr>) (kube c))\<rparr>))"
  using assms
  by (auto simp: mergeToApiserver_def clusterMessageToClusterControllerCRD_def
      clusterMessageToClusterControllerStatusCRD_def ClusterControllerCRD_Get_def
      ClusterControllerCRD_Update_def Let_def opt_map_def split: option.splits)

definition sample_resp :: ClusterMessage where
  "sample_resp = \<lparr>Head = None, Body = pack [int_str 4, int_str 200, ''ok'']\<rparr>"

theorem mergeToApiserver_writes_witness:
  "mergeToApiserver sample_env sample_resp
     (emptyHead\<lparr>Command := ControlResp, MessageID := ''m1'', ClusterName := ''c1''\<rparr>) sample_root =
   Some (None, sample_root)"
proof -
  have "unpb_resp (codec sample_env) (Body sample_resp) =
      Some \<lparr>RespTimestamp = 4, RespStatusCode = 200, RespBody = ''ok''\<rparr>"
    by (simp add: sample_codecs_def sample_resp_def dec_resp_def)
  from mergeToApiserver_writes [where env = sample_env and msg = sample_resp and c = sample_root
      and head = "emptyHead\<lparr>Command := ControlResp, MessageID := ''m1'', ClusterName := ''c1''\<rparr>",
      OF _ this]
  show ?thesis by (simp add: sample_api_def sample_root_def)
qed

section \<open>Configuration\<close>

text \<open>The configurations a handler accepts are exactly these: a name and a listen address
  are set, the name is the reserved root name if and only if no parent is set, and the root
  has a client for the API server. The root serves a cluster of its own exactly when it is
  given the address of a shim.\<close>

theorem valid_iff:
  "valid cf = Inr (rce, k8s) \<longleftrightarrow>
     ClusterUserDefineName cf \<noteq> [] \<and> TunnelListenAddr cf \<noteq> [] \<and>
     (ParentCluster cf = []) = IsRoot (ClusterUserDefineName cf) \<and>
     (IsRoot (ClusterUserDefineName cf) \<longrightarrow> hasK8sClient cf) \<and> k8s = hasK8sClient cf \<and>
     rce = (IsRoot (ClusterUserDefineName cf) \<and> RemoteShimAddr cf \<noteq> [])"
  by (auto simp: valid_def Let_def)

theorem valid_iff_witness: "valid sample_root_conf = Inr (False, True)"
  using valid_iff [of sample_root_conf False True]
  by (simp add: sample_root_conf_def IsRoot_def RootClusterName_def)

end
