(* ===== verification/EdgeHandler.thy ===== *)
theory EdgeHandler
  imports Handler
begin

text \<open>
  The edge handler (\<^verbatim>\<open>pkg/edgehandler/edgehandler.go\<close>): it takes messages from the parent's
  tunnel, passes each on to the cluster handler, has the shim execute those whose selector
  covers its own cluster, and queues everything that goes up to the parent. The shim is the
  argument \<open>shimDo\<close>: the response if any, and the error's text if any. Entry points that can
  dereference nil return \<open>None\<close> for the panic.
\<close>

section \<open>State\<close>

record edge =
  econf :: config
  eRootClusterEnable :: bool
  sendToParentChan :: "bytes list"
  eReporters :: nat
  stopReportSubtree :: nat

record eenv =
  ecodec :: codecs
  erx :: "string \<Rightarrow> string \<Rightarrow> bool"
  eUnixNow :: int
  shimDo :: "ClusterMessage \<Rightarrow> ClusterMessage option \<times> string option"

datatype edge_error =
    EdgeEmptyName | NoShimTarget | EdgeEmptyParent | RootWithParent | NoShimClient
  | EdgeTunnelFailed | EdgeUnmarshal | EdgeMarshal | ShimError string

datatype edge_action = ToCluster ClusterMessage | ToRootCluster ClusterMessage | Dispatch ClusterMessage

definition NewEdgeHandler :: "config \<Rightarrow> edge" where
  "NewEdgeHandler cf = \<lparr>econf = cf, eRootClusterEnable = False, sendToParentChan = [],
     eReporters = 0, stopReportSubtree = 0\<rparr>"

definition edge_isRoot :: "config \<Rightarrow> bool" where
  "edge_isRoot cf = IsRoot (ClusterUserDefineName cf)"

definition isRemoteShim :: "config \<Rightarrow> bool" where
  "isRemoteShim cf = (RemoteShimAddr cf \<noteq> [])"

section \<open>Start\<close>

definition edge_valid :: "edge \<Rightarrow> edge_error option \<times> edge" where
  "edge_valid e =
     (let cf = econf e in
      if ClusterUserDefineName cf = [] then (Some EdgeEmptyName, e)
      else if \<not> hasK8sClient cf \<and> \<not> isRemoteShim cf then (Some NoShimTarget, e)
      else if ParentCluster cf = [] \<and> \<not> edge_isRoot cf then (Some EdgeEmptyParent, e)
      else if ParentCluster cf \<noteq> [] \<and> edge_isRoot cf then (Some RootWithParent, e)
      else if edge_isRoot cf \<and> isRemoteShim cf then (None, e\<lparr>eRootClusterEnable := True\<rparr>)
      else (None, e))"

text \<open>Which shim client is made, which goroutines run afterwards: \<open>remoteOk\<close> and \<open>localOk\<close> say
  whether the constructors return a client, \<open>tunnelOk\<close> whether the tunnel connects.\<close>

datatype shim_kind = RemoteShim | LocalShim

record started =
  shimClient :: "shim_kind option"
  runsTunnel :: bool
  runsRootLoop :: bool

definition edge_Start ::
  "bool \<Rightarrow> bool \<Rightarrow> bool \<Rightarrow> edge \<Rightarrow> (edge_error + started) \<times> edge" where
  "edge_Start remoteOk localOk tunnelOk e =
     (case edge_valid e of
        (Some err, e1) \<Rightarrow> (Inl err, e1)
      | (None, e1) \<Rightarrow>
          let cf = econf e1;
              shim = (if isRemoteShim cf then (if remoteOk then Some RemoteShim else None)
                      else if \<not> edge_isRoot cf then (if localOk then Some LocalShim else None)
                      else None)
          in if shim = None \<and> (eRootClusterEnable e1 \<or> \<not> edge_isRoot cf)
             then (Inl NoShimClient, e1)
             else if \<not> edge_isRoot cf \<and> \<not> tunnelOk then (Inl EdgeTunnelFailed, e1)
             else (Inr \<lparr>shimClient = shim, runsTunnel = (\<not> edge_isRoot cf),
                        runsRootLoop = eRootClusterEnable e1\<rparr>, e1))"

section \<open>Sending up\<close>

definition sendToParentCap :: nat where
  "sendToParentCap = 10000"

text \<open>When the channel stays full for the whole second, the message is dropped, and the
  function still reports success.\<close>

definition sendToParent :: "eenv \<Rightarrow> ClusterMessage \<Rightarrow> edge \<Rightarrow> edge_error option \<times> edge" where
  "sendToParent env msg e =
     (case pb_msg (ecodec env) msg of
        None \<Rightarrow> (Some EdgeMarshal, e)
      | Some data \<Rightarrow>
          if length (sendToParentChan e) < sendToParentCap
          then (None, e\<lparr>sendToParentChan := sendToParentChan e @ [data]\<rparr>)
          else (None, e))"

text \<open>One turn of the loop that empties the channel into the tunnel.\<close>

definition sendMessageToParent :: "edge \<Rightarrow> bytes option \<times> edge" where
  "sendMessageToParent e =
     (case sendToParentChan e of
        [] \<Rightarrow> (None, e)
      | data # rest \<Rightarrow> (Some data, e\<lparr>sendToParentChan := rest\<rparr>))"

definition sendMessageToTunnel :: "eenv \<Rightarrow> ClusterMessage \<Rightarrow> edge \<Rightarrow> edge" where
  "sendMessageToTunnel env msg e = snd (sendToParent env msg e)"

section \<open>Messages from above\<close>

definition responseErrorStatus :: "eenv \<Rightarrow> string \<Rightarrow> bytes" where
  "responseErrorStatus env err =
     (case pb_resp (ecodec env) \<lparr>RespTimestamp = eUnixNow env, RespStatusCode = 500, RespBody = err\<rparr> of
        None \<Rightarrow> [] | Some data \<Rightarrow> data)"

definition handleMessage ::
  "eenv \<Rightarrow> ClusterMessage \<Rightarrow> MessageHead \<Rightarrow> edge \<Rightarrow>
   (edge_error option \<times> edge \<times> edge_action list) option" where
  "handleMessage env msg head e =
     (case Command head of
        ControlReq \<Rightarrow>
          (case shimDo env msg of
             (Some resp, err) \<Rightarrow>
               let resp1 = (case err of
                              None \<Rightarrow> resp
                            | Some txt \<Rightarrow> resp\<lparr>Body := responseErrorStatus env txt\<rparr>) in
               (case Head resp1 of
                  None \<Rightarrow> None
                | Some h \<Rightarrow>
                    (case sendToParent env (resp1\<lparr>Head := Some
                            (h\<lparr>ClusterName := confClusterName (econf e)\<rparr>)\<rparr>) e of
                       (err', e') \<Rightarrow> Some (err', e', [Dispatch msg])))
           | (None, err) \<Rightarrow> Some (map_option ShimError err, e, [Dispatch msg]))
      | ControlMultiReq \<Rightarrow> Some (map_option ShimError (snd (shimDo env msg)), e, [Dispatch msg])
      | _ \<Rightarrow> Some (None, e, []))"

definition receiveMessageFromTunnel ::
  "eenv \<Rightarrow> bytes \<Rightarrow> edge \<Rightarrow> (edge_error option \<times> edge \<times> edge_action list) option" where
  "receiveMessageFromTunnel env data e =
     (case unpb_msg (ecodec env) data of
        None \<Rightarrow> Some (Some EdgeUnmarshal, e, [])
      | Some msg \<Rightarrow>
          (case Head msg of
             None \<Rightarrow> None
           | Some head \<Rightarrow>
               if Has (erx env) (NewSelector (ClusterSelector head)) (confClusterName (econf e))
               then map_option (\<lambda>(_, e', as). (None, e', ToCluster msg # as))
                      (handleMessage env msg head e)
               else Some (None, e, [ToCluster msg])))"

section \<open>Messages from the shim\<close>

text \<open>One turn of the loop over the shim's return channel; \<open>clusterTakes\<close> tells whether the
  root's cluster handler takes the message within the second.\<close>

definition handleRespFromShimClient ::
  "eenv \<Rightarrow> bool \<Rightarrow> ClusterMessage \<Rightarrow> edge \<Rightarrow> (edge \<times> edge_action list) option" where
  "handleRespFromShimClient env clusterTakes resp e =
     (case Head resp of
        None \<Rightarrow> None
      | Some h \<Rightarrow>
          let resp' = resp\<lparr>Head := Some (h\<lparr>ClusterName := confClusterName (econf e)\<rparr>)\<rparr> in
          if eRootClusterEnable e
          then Some (e, if clusterTakes then [ToRootCluster resp'] else [])
          else Some (snd (sendToParent env resp' e), []))"

section \<open>Subtree reports\<close>

definition reportSubTree :: "eenv \<Rightarrow> ClusterRouter \<Rightarrow> edge \<Rightarrow> edge" where
  "reportSubTree env r e =
     (case SubTreeMessage (ecodec env) r of
        None \<Rightarrow> e
      | Some msg \<Rightarrow>
          (case Head msg of
             None \<Rightarrow> e
           | Some h \<Rightarrow> snd (sendToParent env
               (msg\<lparr>Head := Some (h\<lparr>ClusterName := confClusterName (econf e)\<rparr>)\<rparr>) e)))"

definition afterConnect :: "edge \<Rightarrow> edge" where
  "afterConnect e = e\<lparr>eReporters := Suc (eReporters e)\<rparr>"

text \<open>The channel holds one token; a second one blocks the caller.\<close>

definition afterDisconnect :: "edge \<Rightarrow> edge option" where
  "afterDisconnect e =
     (if stopReportSubtree e < 1 then Some (e\<lparr>stopReportSubtree := Suc (stopReportSubtree e)\<rparr>)
      else None)"

text \<open>A turn of \<^verbatim>\<open>reportSubTreeTimer\<close>: it stops on a token, and reports on a tick.\<close>

definition reporterStops :: "edge \<Rightarrow> edge option" where
  "reporterStops e =
     (if eReporters e = 0 \<or> stopReportSubtree e = 0 then None
      else Some (e\<lparr>eReporters := eReporters e - 1, stopReportSubtree := stopReportSubtree e - 1\<rparr>))"

definition reporterTicks :: "eenv \<Rightarrow> ClusterRouter \<Rightarrow> edge \<Rightarrow> edge option" where
  "reporterTicks env r e = (if eReporters e = 0 then None else Some (reportSubTree env r e))"

section \<open>Lemmas\<close>

lemma sendToParent_cases:
  "sendToParent env msg e = (err, e') \<Longrightarrow>
   (\<exists>data. pb_msg (ecodec env) msg = Some data \<and> err = None \<and>
      e' = (if length (sendToParentChan e) < sendToParentCap
            then e\<lparr>sendToParentChan := sendToParentChan e @ [data]\<rparr> else e)) \<or>
   (pb_msg (ecodec env) msg = None \<and> err = Some EdgeMarshal \<and> e' = e)"
  by (auto simp: sendToParent_def split: option.splits if_splits)

lemma sendToParent_bound:
  "length (sendToParentChan e) \<le> sendToParentCap \<Longrightarrow>
   length (sendToParentChan (snd (sendToParent env msg e))) \<le> sendToParentCap"
  by (auto simp: sendToParent_def split: option.splits)

text \<open>The connection as the tunnel drives it: connected, disconnected, and the reporters in
  between. \<open>up\<close> tells whether the tunnel is connected.\<close>

inductive report_run :: "bool \<Rightarrow> edge \<Rightarrow> bool" where
  run_new: "report_run False (NewEdgeHandler cf)"
| run_connect: "report_run False e \<Longrightarrow> report_run True (afterConnect e)"
| run_disconnect: "report_run True e \<Longrightarrow> afterDisconnect e = Some e' \<Longrightarrow> report_run False e'"
| run_stop: "report_run up e \<Longrightarrow> reporterStops e = Some e' \<Longrightarrow> report_run up e'"
| run_tick: "report_run up e \<Longrightarrow> reporterTicks env r e = Some e' \<Longrightarrow> report_run up e'"

lemma reportSubTree_counts [simp]:
  "eReporters (reportSubTree env r e) = eReporters e"
  "stopReportSubtree (reportSubTree env r e) = stopReportSubtree e"
  by (auto simp: reportSubTree_def sendToParent_def split: option.splits)

lemma report_run_balance:
  "report_run up e \<Longrightarrow> eReporters e = stopReportSubtree e + (if up then 1 else 0) \<and>
     stopReportSubtree e \<le> 1"
  by (induction rule: report_run.induct)
     (auto simp: NewEdgeHandler_def afterConnect_def afterDisconnect_def reporterStops_def
       reporterTicks_def split: if_splits)

end
