(* ===== verification/Network.thy ===== *)
theory Network
  imports EdgeHandler HandlerLemmas
begin

text \<open>
  A tree of cluster controllers relaying a request from the root. Every node runs the edge
  handler and the cluster handler of the program: \<open>relay\<close> feeds the bytes a node receives to
  \<open>receiveMessageFromTunnel\<close>, the message this passes on to \<open>handleMessageFromParent\<close>, and
  the bytes that sends to a port to the child of that name. The result lists the clusters
  whose shim is asked to execute the request.
\<close>

section \<open>The tree\<close>

datatype 'k ctree = CNode (nedge: edge) (nhandler: "'k handler") (kids: "'k ctree list")

definition nname :: "'k ctree \<Rightarrow> string" where
  "nname t = confClusterName (econf (nedge t))"

fun names :: "'k ctree \<Rightarrow> string list" where
  "names (CNode e h ks) = confClusterName (econf e) # concat (map names ks)"

text \<open>The bytes among the actions that go to a port.\<close>

definition sent_to :: "string \<Rightarrow> action list \<Rightarrow> bytes list" where
  "sent_to p as = concat (map (\<lambda>a. case a of SendTo q d \<Rightarrow> if q = p then [d] else [] | _ \<Rightarrow> []) as)"

definition to_cluster :: "edge_action list \<Rightarrow> ClusterMessage list" where
  "to_cluster as = concat (map (\<lambda>a. case a of ToCluster m \<Rightarrow> [m] | _ \<Rightarrow> []) as)"

definition executes :: "edge_action list \<Rightarrow> bool" where
  "executes as = list_ex (\<lambda>a. case a of Dispatch _ \<Rightarrow> True | _ \<Rightarrow> False) as"

definition edge_env :: "'k henv \<Rightarrow> (ClusterMessage \<Rightarrow> ClusterMessage option \<times> string option) \<Rightarrow> eenv" where
  "edge_env env shim = \<lparr>ecodec = codec env, erx = rx env, eUnixNow = unixNow env, shimDo = shim\<rparr>"

text \<open>What the cluster handler of a node sends for a message from its parent.\<close>

definition downward :: "'k henv \<Rightarrow> ClusterMessage \<Rightarrow> 'k handler \<Rightarrow> action list" where
  "downward env m h = (case handleMessageFromParent env m h of None \<Rightarrow> [] | Some (_, as) \<Rightarrow> as)"

fun relay ::
  "'k henv \<Rightarrow> (ClusterMessage \<Rightarrow> ClusterMessage option \<times> string option) \<Rightarrow> bytes \<Rightarrow> 'k ctree \<Rightarrow>
   string list" where
  "relay env shim data (CNode e h ks) =
     (case receiveMessageFromTunnel (edge_env env shim) data e of
        None \<Rightarrow> []
      | Some (_, _, as) \<Rightarrow>
          let down = concat (map (\<lambda>m. downward env m h) (to_cluster as)) in
          (if executes as then [confClusterName (econf e)] else []) @
          concat (map (\<lambda>k. concat (map (\<lambda>d. relay env shim d k) (sent_to (nname k) down))) ks))"

text \<open>The root publishes a message to its children.\<close>

definition publish ::
  "'k henv \<Rightarrow> (ClusterMessage \<Rightarrow> ClusterMessage option \<times> string option) \<Rightarrow> ClusterMessage \<Rightarrow>
   'k ctree \<Rightarrow> string list" where
  "publish env shim msg t =
     concat (map (\<lambda>k. concat (map (\<lambda>d. relay env shim d k)
       (sent_to (nname k) (downward env msg (nhandler t))))) (kids t))"

section \<open>Consistent tables\<close>

text \<open>Every table routes exactly the clusters below each child through that child.\<close>

fun consistent :: "'k ctree \<Rightarrow> bool" where
  "consistent (CNode e h ks) \<longleftrightarrow>
     router_wf (router h) \<and>
     (\<forall>n p. route (router h) n = Some p \<longleftrightarrow> (\<exists>k\<in>set ks. p = nname k \<and> n \<in> set (names k))) \<and>
     (\<forall>k\<in>set ks. consistent k)"

text \<open>No cluster name occurs inside another one.\<close>

definition antichain :: "string set \<Rightarrow> bool" where
  "antichain A \<longleftrightarrow> (\<forall>m\<in>A. \<forall>n\<in>A. sublist m n \<longrightarrow> m = n)"

text \<open>A shim answers with a message that has a head, if it answers.\<close>

definition shim_ok :: "(ClusterMessage \<Rightarrow> ClusterMessage option \<times> string option) \<Rightarrow> bool" where
  "shim_ok shim = (\<forall>m. case fst (shim m) of None \<Rightarrow> True | Some resp \<Rightarrow> Head resp \<noteq> None)"

definition relay_env_ok :: "'k henv \<Rightarrow> bool" where
  "relay_env_ok env \<longleftrightarrow>
     regexp_literal (rx env) \<and> roundtrip (pb_msg (codec env)) (unpb_msg (codec env)) \<and>
     (\<forall>m. pb_msg (codec env) m \<noteq> None)"

section \<open>One node\<close>

lemma nname_in_names: "nname k \<in> set (names k)"
  by (cases k) (simp add: nname_def)

lemma sent_to_map:
  assumes "\<And>m. pb_msg (codec env) m \<noteq> None"
  shows "go_wf ms \<Longrightarrow>
    sent_to p (concat (map (\<lambda>(port, pm). sendToChild env (Some pm) [port]) ms)) =
      (case go_get ms p of None \<Rightarrow> [] | Some pm \<Rightarrow> [the (pb_msg (codec env) pm)])"
proof (induction ms)
  case (Cons x ms)
  obtain port pm data where x: "x = (port, pm)" "pb_msg (codec env) pm = Some data"
    using assms by (cases x) (metis not_None_eq)
  have "go_wf ms" "go_get ms port = None"
    using Cons.prems by (auto simp: x go_wf_def go_keys_def map_of_eq_None_iff)
  with Cons.IH x show ?case by (auto simp: sent_to_def sendToChild_def)
qed (simp add: sent_to_def)

lemma sent_to_sendSelected:
  assumes "\<And>m. pb_msg (codec env) m \<noteq> None"
  shows "sent_to p (sendSelected env msg head cr) =
    (let sub = filter (\<lambda>n. route cr n = Some p) (selectedClusters env (ClusterSelector head) cr)
     in if sub = [] then [] else [the (pb_msg (codec env) (portMessage msg head sub))])"
  unfolding sendSelected_def sent_to_map [OF assms go_wf_selectChild]
  by (simp add: selectChild_get Let_def)

lemma handleMessage_executes:
  assumes "shim_ok shim" and "Command head = ControlReq"
  shows "\<exists>err e'. handleMessage (edge_env env shim) msg head e = Some (err, e', [Dispatch msg])"
proof -
  obtain resp err where sh: "shim msg = (resp, err)" by fastforce
  from assms(1) have "case fst (shim msg) of None \<Rightarrow> True | Some r \<Rightarrow> Head r \<noteq> None"
    by (simp add: shim_ok_def)
  with sh assms(2) show ?thesis
    by (cases resp; cases err) (auto simp: handleMessage_def edge_env_def Let_def split: prod.splits)
qed

lemma receive_executes:
  assumes "shim_ok shim" and "unpb_msg (codec env) data = Some msg" and "Head msg = Some head"
    and "Command head = ControlReq"
  shows "\<exists>err e' as. receiveMessageFromTunnel (edge_env env shim) data e = Some (err, e', as) \<and>
    to_cluster as = [msg] \<and>
    (executes as \<longleftrightarrow> Has (rx env) (NewSelector (ClusterSelector head)) (confClusterName (econf e)))"
proof -
  obtain err e' where "handleMessage (edge_env env shim) msg head e = Some (err, e', [Dispatch msg])"
    using handleMessage_executes [OF assms(1,4)] by blast
  with assms(2,3) show ?thesis
    by (auto simp: receiveMessageFromTunnel_def edge_env_def to_cluster_def executes_def)
qed

lemma downward_request:
  "Head msg = Some head \<Longrightarrow> Command head = ControlReq \<Longrightarrow>
   downward env msg h = sendSelected env msg head (router h)"
  by (simp add: downward_def handleMessageFromParent_def)

section \<open>Delivery\<close>

text \<open>What a subtree does with a request whose selector lists some of its clusters.\<close>

definition delivers ::
  "'k henv \<Rightarrow> (ClusterMessage \<Rightarrow> ClusterMessage option \<times> string option) \<Rightarrow> 'k ctree \<Rightarrow> bool" where
  "delivers env shim k \<longleftrightarrow>
     (\<forall>sub msg head data. sub \<noteq> [] \<longrightarrow> set sub \<subseteq> set (names k) \<longrightarrow> Head msg = Some head \<longrightarrow>
        Command head = ControlReq \<longrightarrow> ClusterSelector head = ClustersToSelector sub \<longrightarrow>
        pb_msg (codec env) msg = Some data \<longrightarrow>
        distinct (relay env shim data k) \<and> set (relay env shim data k) = set sub)"

lemma deliversD:
  "delivers env shim k \<Longrightarrow> sub \<noteq> [] \<Longrightarrow> set sub \<subseteq> set (names k) \<Longrightarrow> Head msg = Some head \<Longrightarrow>
   Command head = ControlReq \<Longrightarrow> ClusterSelector head = ClustersToSelector sub \<Longrightarrow>
   pb_msg (codec env) msg = Some data \<Longrightarrow>
   distinct (relay env shim data k) \<and> set (relay env shim data k) = set sub"
  unfolding delivers_def by blast

lemma same_kid:
  "distinct (concat (map names ks)) \<Longrightarrow> k \<in> set ks \<Longrightarrow> k' \<in> set ks \<Longrightarrow>
   n \<in> set (names k) \<Longrightarrow> n \<in> set (names k') \<Longrightarrow> k = k'"
  by (induction ks) auto

lemma distinct_concat_parts:
  "distinct (concat (map names ks)) \<Longrightarrow>
   (\<And>k. k \<in> set ks \<Longrightarrow> distinct (R k) \<and> set (R k) \<subseteq> set (names k)) \<Longrightarrow>
   distinct (concat (map R ks))"
proof (induction ks)
  case (Cons k ks)
  have "set (concat (map R ks)) \<subseteq> set (concat (map names ks))" using Cons.prems(2) by fastforce
  moreover have "set (names k) \<inter> set (concat (map names ks)) = {}" using Cons.prems(1) by simp
  ultimately have "set (R k) \<inter> set (concat (map R ks)) = {}"
    using Cons.prems(2) [of k] by auto
  with Cons show ?case by simp
qed simp

lemma kids_deliver:
  fixes msg :: ClusterMessage
  assumes ok: "relay_env_ok env"
    and cons: "\<And>n p. route r n = Some p \<longleftrightarrow> (\<exists>k\<in>set ks. p = nname k \<and> n \<in> set (names k))"
    and dist: "distinct (concat (map names ks))"
    and del: "\<And>k. k \<in> set ks \<Longrightarrow> delivers env shim k"
    and head: "Command head = ControlReq"
  defines "S \<equiv> {n \<in> set (concat (map names ks)). Has (rx env) (NewSelector (ClusterSelector head)) n}"
    and "R \<equiv> \<lambda>k. concat (map (\<lambda>d. relay env shim d k) (sent_to (nname k) (sendSelected env msg head r)))"
  shows "distinct (concat (map R ks)) \<and> set (concat (map R ks)) = S"
proof -
  have total: "\<And>m. pb_msg (codec env) m \<noteq> None" using ok by (simp add: relay_env_ok_def)
  have part: "distinct (R k) \<and> set (R k) = S \<inter> set (names k)" if k: "k \<in> set ks" for k
  proof -
    define sub where "sub = filter (\<lambda>n. route r n = Some (nname k))
      (selectedClusters env (ClusterSelector head) r)"
    have "route r n = Some (nname k) \<longleftrightarrow> n \<in> set (names k)" for n
      using cons k same_kid [OF dist _ k, of _ "nname k"] nname_in_names by metis
    then have sub: "set sub = S \<inter> set (names k)"
      using k by (auto simp: sub_def S_def set_selectedClusters)
    show ?thesis
    proof (cases "sub = []")
      case True
      then have "R k = []"
        unfolding R_def sent_to_sendSelected [OF total] by (simp add: sub_def [symmetric] Let_def)
      with sub True show ?thesis by simp
    next
      case False
      obtain data where data: "pb_msg (codec env) (portMessage msg head sub) = Some data"
        using total by blast
      have "R k = relay env shim data k"
        unfolding R_def sent_to_sendSelected [OF total]
        using False by (simp add: sub_def [symmetric] Let_def data)
      with deliversD [OF del [OF k] False _ _ _ _ data] sub head show ?thesis
        by (simp add: portMessage_def)
    qed
  qed
  then have "distinct (concat (map R ks))" by (intro distinct_concat_parts [OF dist]) auto
  moreover have "set (concat (map R ks)) = S" using part by (auto simp: S_def)
  ultimately show ?thesis ..
qed

text \<open>A listed name selects itself and no other.\<close>

lemma Has_names:
  assumes "relay_env_ok env" "antichain A" "\<forall>n\<in>A. plain_name n" "sub \<noteq> []" "set sub \<subseteq> A" "n \<in> A"
  shows "Has (rx env) (NewSelector (ClustersToSelector sub)) n \<longleftrightarrow> n \<in> set sub"
proof -
  have "Has (rx env) (NewSelector (ClustersToSelector sub)) n \<longleftrightarrow> (\<exists>p\<in>set sub. sublist p n)"
    using assms by (intro Has_relayed) (auto simp: relay_env_ok_def)
  also have "\<dots> \<longleftrightarrow> n \<in> set sub" using assms(2,5,6) by (auto simp: antichain_def)
  finally show ?thesis .
qed

lemma antichain_subset: "antichain A \<Longrightarrow> B \<subseteq> A \<Longrightarrow> antichain B"
  by (auto simp: antichain_def)

lemma relay_node:
  assumes ok: "relay_env_ok env" "shim_ok shim" and msg: "pb_msg (codec env) msg = Some data"
    "Head msg = Some head" "Command head = ControlReq"
  shows "relay env shim data (CNode e h ks) =
    (if Has (rx env) (NewSelector (ClusterSelector head)) (confClusterName (econf e))
     then [confClusterName (econf e)] else []) @
    concat (map (\<lambda>k. concat (map (\<lambda>d. relay env shim d k)
      (sent_to (nname k) (sendSelected env msg head (router h))))) ks)"
proof -
  from ok(1) msg(1) have "unpb_msg (codec env) data = Some msg"
    by (auto simp: relay_env_ok_def dest: roundtripD)
  from receive_executes [OF ok(2) this msg(2,3)] obtain err e' as where
    "receiveMessageFromTunnel (edge_env env shim) data e = Some (err, e', as)" "to_cluster as = [msg]"
    "executes as = Has (rx env) (NewSelector (ClusterSelector head)) (confClusterName (econf e))"
    by blast
  then show ?thesis by (simp add: downward_request [OF msg(2,3)])
qed

lemma delivers_all:
  assumes ok: "relay_env_ok env" "shim_ok shim"
  shows "consistent t \<Longrightarrow> distinct (names t) \<Longrightarrow> antichain (set (names t)) \<Longrightarrow>
    \<forall>n\<in>set (names t). plain_name n \<Longrightarrow> delivers env shim t"
proof (induction t)
  case (CNode e h ks)
  let ?n = "confClusterName (econf e)" and ?below = "set (concat (map names ks))"
  have del: "delivers env shim k" if "k \<in> set ks" for k
  proof (rule CNode.IH [OF that])
    show "consistent k" using CNode.prems(1) that by simp
    show "distinct (names k)" using CNode.prems(2) that
      by (metis (no_types, lifting) distinct_concat_iff distinct.simps(2) image_eqI list.set_map names.simps)
    show "antichain (set (names k))" by (rule antichain_subset [OF CNode.prems(3)]) (use that in auto)
    show "\<forall>n\<in>set (names k). plain_name n" using CNode.prems(4) that by auto
  qed
  have dist: "distinct (concat (map names ks))" "?n \<notin> ?below" using CNode.prems(2) by simp_all
  show ?case unfolding delivers_def
  proof (intro allI impI)
    fix sub msg head data
    assume sub: "sub \<noteq> []" "set sub \<subseteq> set (names (CNode e h ks))" and msg: "Head msg = Some head"
      "Command head = ControlReq" "ClusterSelector head = ClustersToSelector sub"
      "pb_msg (codec env) msg = Some data"
    note has = Has_names [OF ok(1) CNode.prems(3,4) sub]
    have cons: "route (router h) n = Some p \<longleftrightarrow> (\<exists>k\<in>set ks. p = nname k \<and> n \<in> set (names k))" for n p
      using CNode.prems(1) by simp
    have "{n \<in> ?below. Has (rx env) (NewSelector (ClusterSelector head)) n} = ?below \<inter> set sub"
      using has msg(3) by auto
    with kids_deliver [OF ok(1) cons dist(1) del msg(2), of msg] has [of ?n] sub(2) dist(2)
    show "distinct (relay env shim data (CNode e h ks)) \<and>
        set (relay env shim data (CNode e h ks)) = set sub"
      unfolding relay_node [OF ok msg(4,1,2)] msg(3) by auto
  qed
qed

end
