(* ===== verification/NetworkProps.thy ===== *)
theory NetworkProps
  imports Network SampleEnv
begin

text \<open>
  End-to-end properties of the tree of cluster controllers: a request reaches exactly the
  selected clusters when no cluster name occurs inside another one, and what goes wrong when
  one does.
\<close>

section \<open>Sample tree\<close>

definition leaf :: "string \<Rightarrow> store ctree" where
  "leaf n = CNode (NewEdgeHandler (sample_edge_conf\<lparr>confClusterName := n\<rparr>)) sample_edge []"

definition hub :: "string \<Rightarrow> strmap \<Rightarrow> store ctree list \<Rightarrow> store ctree" where
  "hub n routes ks = CNode (NewEdgeHandler (sample_edge_conf\<lparr>confClusterName := n\<rparr>))
     (sample_edge\<lparr>router := defaultClusterRouter\<lparr>subtreeRouter := routes\<rparr>\<rparr>) ks"

definition sample_tree :: "store ctree" where
  "sample_tree = hub ''root'' [(''c1'', ''c1''), (''c2'', ''c1''), (''c3'', ''c3'')]
     [hub ''c1'' [(''c2'', ''c2'')] [leaf ''c2''], leaf ''c3'']"

definition sample_shim :: "ClusterMessage \<Rightarrow> ClusterMessage option \<times> string option" where
  "sample_shim m = (None, None)"

definition sample_request :: "string \<Rightarrow> ClusterMessage" where
  "sample_request sel = \<lparr>Head = Some (emptyHead\<lparr>Command := ControlReq, ClusterSelector := sel\<rparr>),
     Body = []\<rparr>"

lemma sample_shim_ok: "shim_ok sample_shim"
  by (simp add: shim_ok_def sample_shim_def)

lemma sample_relay_env_ok: "relay_env_ok sample_env"
  by (simp add: relay_env_ok_def sample_codecs_def enc_msg_def)

lemma sample_tree_names: "names sample_tree = [''root'', ''c1'', ''c2'', ''c3'']"
  by code_simp

lemma consistent_leaf: "consistent (leaf n)"
  by (simp add: leaf_def sample_edge_def route_def defaultClusterRouter_def
      router_wf_default [unfolded defaultClusterRouter_def])

lemma sample_tree_consistent: "consistent sample_tree"
proof -
  have "consistent (hub ''c1'' [(''c2'', ''c2'')] [leaf ''c2''])"
    using consistent_leaf [of "''c2''"]
    by (auto simp: hub_def route_def router_wf_def defaultClusterRouter_def opt_wf_def go_wf_def
        go_keys_def nname_def leaf_def NewEdgeHandler_def)
  with consistent_leaf [of "''c3''"] show ?thesis
    by (auto simp: sample_tree_def hub_def route_def router_wf_def defaultClusterRouter_def
        opt_wf_def go_wf_def go_keys_def nname_def leaf_def NewEdgeHandler_def split: if_splits)
qed

lemma sample_tree_antichain: "antichain (set (names sample_tree))"
  unfolding sample_tree_names antichain_def by (simp add: sublist_code)

lemma sample_tree_plain: "\<forall>n\<in>set (names sample_tree). plain_name n"
  unfolding sample_tree_names by code_simp

section \<open>Properties\<close>

text \<open>C1: A control request published at the root is executed by exactly the clusters below it
  whose names its selector matches, and by each of them exactly once, however deep the tree,
  provided the route tables are consistent, cluster names are distinct and contain no
  regular expression syntax, delimiter or space, and no name occurs inside another one.\<close>

theorem publish_exact:
  assumes "relay_env_ok env" and "shim_ok shim" and "consistent t" and "distinct (names t)"
    and "antichain (set (names t))" and "\<forall>n\<in>set (names t). plain_name n"
    and "Head msg = Some head" and "Command head = ControlReq"
  shows "distinct (publish env shim msg t) \<and>
    set (publish env shim msg t) =
      {n \<in> set (concat (map names (kids t))). Has (rx env) (NewSelector (ClusterSelector head)) n}"
proof (cases t)
  case (CNode e h ks)
  have "delivers env shim k" if k: "k \<in> set ks" for k
  proof (rule delivers_all [OF assms(1,2)])
    show "consistent k" using assms(3) k by (simp add: CNode)
    show "distinct (names k)" using assms(4) k by (auto simp: CNode distinct_concat_iff)
    show "antichain (set (names k))"
      by (rule antichain_subset [OF assms(5)]) (use k in \<open>auto simp: CNode\<close>)
    show "\<forall>n\<in>set (names k). plain_name n" using assms(6) k by (auto simp: CNode)
  qed
  moreover have "route (router h) n = Some p \<longleftrightarrow> (\<exists>k\<in>set ks. p = nname k \<and> n \<in> set (names k))" for n p
    using assms(3) by (simp add: CNode)
  moreover have "distinct (concat (map names ks))" using assms(4) by (simp add: CNode)
  ultimately show ?thesis
    using kids_deliver [OF assms(1), where r = "router h" and ks = ks and shim = shim and msg = msg
        and head = head] assms(8)
    by (simp add: CNode publish_def downward_request [OF assms(7,8)])
qed

theorem publish_exact_witness:
  "set (publish sample_env sample_shim (sample_request ''c2, c3'') sample_tree) = {''c2'', ''c3''} \<and>
   distinct (publish sample_env sample_shim (sample_request ''c2, c3'') sample_tree)"
proof -
  let ?head = "emptyHead\<lparr>Command := ControlReq, ClusterSelector := ''c2, c3''\<rparr>"
  have "distinct (names sample_tree)" by (simp add: sample_tree_names)
  from publish_exact [OF sample_relay_env_ok sample_shim_ok sample_tree_consistent this
      sample_tree_antichain sample_tree_plain, of "sample_request ''c2, c3''" ?head]
  have *: "distinct (publish sample_env sample_shim (sample_request ''c2, c3'') sample_tree) \<and>
    set (publish sample_env sample_shim (sample_request ''c2, c3'') sample_tree) =
      {n \<in> set (concat (map names (kids sample_tree))). Has sublist (NewSelector ''c2, c3'') n}"
    by (simp add: sample_request_def)
  have "filter (Has sublist (NewSelector ''c2, c3'')) (concat (map names (kids sample_tree))) =
      [''c2'', ''c3'']"
    by code_simp
  then have "set (filter (Has sublist (NewSelector ''c2, c3'')) (concat (map names (kids sample_tree)))) =
      {''c2'', ''c3''}"
    by simp
  with * show ?thesis by (simp only: set_filter)
qed

text \<open>A matcher that also knows the anchored pattern \<^verbatim>\<open>^c1$\<close>, as \<^verbatim>\<open>regexp\<close> does.\<close>

definition anchored_rx :: "string \<Rightarrow> string \<Rightarrow> bool" where
  "anchored_rx p s = (if p = ''^c1$'' then s = ''c1'' else sublist p s)"

definition prefix_tree :: "store ctree" where
  "prefix_tree = hub ''root'' [(''h'', ''h''), (''c1'', ''h''), (''c10'', ''h'')]
     [hub ''h'' [(''c1'', ''c1''), (''c10'', ''c10'')] [leaf ''c1'', leaf ''c10'']]"


end
