(* ===== verification/EdgeTunnel.thy ===== *)
theory EdgeTunnel
  imports Router
begin

text \<open>
  The two tunnels that dial a parent: the edge tunnel of a cluster controller
  (\<^verbatim>\<open>pkg/tunnel/edgetunnel.go\<close>) with its blacklist of parents, and the tunnel of a
  controller manager (\<^verbatim>\<open>pkg/tunnel/controller_tunnel.go\<close>). The websocket library is the
  argument \<open>dial\<close>: the outcome of the \<open>n\<close>-th attempt at an address. Attempts are counted, so
  that the outcome may change over time; sleeping is left out. Dialling and reconnecting may
  go on forever, so they are \<open>partial_function\<close>s, with \<open>None\<close> for not returning.
\<close>

section \<open>The blacklist\<close>

record CloudBlackList =
  addrList :: "string list"
  addrMap :: "(string, int) gomap"

definition emptyBlackList :: CloudBlackList where
  "emptyBlackList = \<lparr>addrList = [], addrMap = []\<rparr>"

text \<open>Ten seconds, in nanoseconds like every time below.\<close>

definition blacklistSeconds :: int where
  "blacklistSeconds = 10 * 10 ^ 9"

definition BlackList_Find :: "string \<Rightarrow> CloudBlackList \<Rightarrow> bool" where
  "BlackList_Find key c = go_has (addrMap c) key"

definition BlackList_Push :: "int \<Rightarrow> string \<Rightarrow> CloudBlackList \<Rightarrow> CloudBlackList" where
  "BlackList_Push t addr c =
     (if go_has (addrMap c) addr then c
      else \<lparr>addrList = addrList c @ [addr], addrMap = go_put addr t (addrMap c)\<rparr>)"

text \<open>A missing map entry reads as the zero time.\<close>

definition BlackList_Pop :: "int \<Rightarrow> CloudBlackList \<Rightarrow> string \<times> CloudBlackList" where
  "BlackList_Pop t c =
     (case addrList c of
        [] \<Rightarrow> ([], c)
      | addr # rest \<Rightarrow>
          let timeAdded = (case go_get (addrMap c) addr of None \<Rightarrow> 0 | Some ta \<Rightarrow> ta) in
          if t - timeAdded \<le> blacklistSeconds then ([], c)
          else (addr, \<lparr>addrList = rest, addrMap = go_del addr (addrMap c)\<rparr>))"

definition BlackList_Clear :: "CloudBlackList \<Rightarrow> CloudBlackList" where
  "BlackList_Clear c =
     \<lparr>addrList = [], addrMap = fold go_del (go_keys (addrMap c)) (addrMap c)\<rparr>"

text \<open>The list and the map hold the same addresses, each once.\<close>

definition blacklist_inv :: "CloudBlackList \<Rightarrow> bool" where
  "blacklist_inv c \<longleftrightarrow>
     distinct (addrList c) \<and> go_wf (addrMap c) \<and> set (addrList c) = dom (go_get (addrMap c))"

text \<open>What it stands for: a queue of addresses with the time each was added.\<close>

definition blacklist_abs :: "CloudBlackList \<Rightarrow> (string \<times> int) list" where
  "blacklist_abs c = map (\<lambda>a. (a, the (go_get (addrMap c) a))) (addrList c)"

section \<open>Interface of the blacklist\<close>

locale cloud_blacklist =
  fixes bl_inv :: "'s \<Rightarrow> bool"
    and bl_abs :: "'s \<Rightarrow> (string \<times> int) list"
    and bl_push :: "int \<Rightarrow> string \<Rightarrow> 's \<Rightarrow> 's"
    and bl_pop :: "int \<Rightarrow> 's \<Rightarrow> string \<times> 's"
    and bl_find :: "string \<Rightarrow> 's \<Rightarrow> bool"
  assumes push_inv: "bl_inv s \<Longrightarrow> bl_inv (bl_push t a s)"
    and push_abs: "bl_inv s \<Longrightarrow> bl_abs (bl_push t a s) =
      (if a \<in> fst ` set (bl_abs s) then bl_abs s else bl_abs s @ [(a, t)])"
    and pop_inv: "bl_inv s \<Longrightarrow> bl_inv (snd (bl_pop t s))"
    and pop_empty: "bl_inv s \<Longrightarrow> bl_abs s = [] \<Longrightarrow> bl_pop t s = ([], s)"
    and pop_young: "bl_inv s \<Longrightarrow> bl_abs s = (a, t0) # q \<Longrightarrow> t - t0 \<le> blacklistSeconds \<Longrightarrow>
      bl_pop t s = ([], s)"
    and pop_old: "bl_inv s \<Longrightarrow> bl_abs s = (a, t0) # q \<Longrightarrow> \<not> t - t0 \<le> blacklistSeconds \<Longrightarrow>
      fst (bl_pop t s) = a \<and> bl_abs (snd (bl_pop t s)) = q"
    and find_iff: "bl_inv s \<Longrightarrow> bl_find a s \<longleftrightarrow> a \<in> fst ` set (bl_abs s)"
begin

text \<open>The choice of the next parent, over any blacklist with these laws.\<close>

definition pick_parent :: "int \<Rightarrow> int \<Rightarrow> string list \<Rightarrow> string \<Rightarrow> 's \<Rightarrow> bool \<times> string \<times> 's" where
  "pick_parent t1 t2 addrs cur s =
     (let s1 = bl_push t1 cur s;
          c1 = (case filter (\<lambda>a. \<not> bl_find a s1) addrs of [] \<Rightarrow> [] | a # _ \<Rightarrow> a);
          (c2, s2) = (if c1 = [] then bl_pop t2 s1 else (c1, s1))
      in if c2 = [] then (False, cur, s2) else (True, c2, s2))"

lemma pick_parent_inv: "bl_inv s \<Longrightarrow> pick_parent t1 t2 addrs cur s = (ok, next, s') \<Longrightarrow> bl_inv s'"
  using pop_inv [OF push_inv, of s t2 t1 cur]
  by (auto simp: pick_parent_def Let_def push_inv split: prod.splits if_splits list.splits)

lemma pick_parent_cases:
  assumes "bl_inv s" and "pick_parent t1 t2 addrs cur s = (ok, next, s')"
    and "[] \<notin> set addrs" and "[] \<notin> fst ` set (bl_abs s)" and "cur \<noteq> []"
  shows "(ok \<and> next \<in> set addrs \<and> next \<noteq> cur \<and> next \<notin> fst ` set (bl_abs s)) \<or>
    (set addrs \<subseteq> insert cur (fst ` set (bl_abs s)) \<and>
     (let q = (if cur \<in> fst ` set (bl_abs s) then bl_abs s else bl_abs s @ [(cur, t1)])
      in if t2 - snd (hd q) \<le> blacklistSeconds then \<not> ok \<and> next = cur \<and> bl_abs s' = q
         else ok \<and> next = fst (hd q) \<and> bl_abs s' = tl q))"
proof -
  let ?s1 = "bl_push t1 cur s"
  define q where "q = bl_abs ?s1"
  have inv1: "bl_inv ?s1" using assms(1) by (rule push_inv)
  have q: "q = (if cur \<in> fst ` set (bl_abs s) then bl_abs s else bl_abs s @ [(cur, t1)])"
    "fst ` set q = insert cur (fst ` set (bl_abs s))"
    using push_abs [OF assms(1), of t1 cur] by (auto simp: q_def)
  from q(2) have "q \<noteq> []" by auto
  then obtain a t0 q' where hd: "q = (a, t0) # q'" by (cases q) auto
  with q(2) have "a \<in> insert cur (fst ` set (bl_abs s))" by (metis fst_conv image_eqI list.set_intros(1))
  with assms(4,5) have "a \<noteq> []" by auto
  show ?thesis
  proof (cases "filter (\<lambda>a. \<not> bl_find a ?s1) addrs")
    case Nil
    then have "set addrs \<subseteq> insert cur (fst ` set (bl_abs s))"
      using q(2) find_iff [OF inv1] by (auto simp: q_def filter_empty_conv)
    moreover from assms(2) Nil hd \<open>a \<noteq> []\<close> pop_young [OF inv1, of a t0 q' t2]
      pop_old [OF inv1, of a t0 q' t2]
    have "if t2 - t0 \<le> blacklistSeconds then \<not> ok \<and> next = cur \<and> bl_abs s' = q
        else ok \<and> next = a \<and> bl_abs s' = q'"
      by (auto simp: pick_parent_def q_def Let_def split: prod.splits if_splits)
    ultimately show ?thesis using hd q(1) by (auto simp: Let_def)
  next
    case (Cons b bs)
    then have "b \<in> set (filter (\<lambda>a. \<not> bl_find a ?s1) addrs)" by simp
    then have b: "b \<in> set addrs" "b \<notin> insert cur (fst ` set (bl_abs s))" "b \<noteq> []"
      using q(2) find_iff [OF inv1] assms(3) by (auto simp: q_def)
    with assms(2) Cons have "ok" "next = b" by (auto simp: pick_parent_def Let_def)
    with b show ?thesis by auto
  qed
qed

end

section \<open>The blacklist implements it\<close>

lemma fold_go_del_get: "go_get (fold go_del ks m) k = (if k \<in> set ks then None else go_get m k)"
  by (induction ks arbitrary: m) auto

lemma BlackList_Clear_empty: "BlackList_Clear c = emptyBlackList"
proof -
  have "go_get (fold go_del (go_keys (addrMap c)) (addrMap c)) = Map.empty"
    by (auto simp: fold_go_del_get fun_eq_iff domIff)
  then show ?thesis by (simp add: BlackList_Clear_def emptyBlackList_def)
qed

lemma blacklist_inv_empty [simp]: "blacklist_inv emptyBlackList"
  by (simp add: blacklist_inv_def emptyBlackList_def)

lemma fst_blacklist_abs: "fst ` set (blacklist_abs c) = set (addrList c)"
  by (force simp: blacklist_abs_def)

lemma blacklist_abs_Cons:
  "blacklist_inv c \<Longrightarrow> blacklist_abs c = (a, t0) # q \<Longrightarrow>
   \<exists>rest. addrList c = a # rest \<and> go_get (addrMap c) a = Some t0 \<and> a \<notin> set rest \<and>
     q = map (\<lambda>a. (a, the (go_get (addrMap c) a))) rest"
proof (cases "addrList c")
  case (Cons b rest)
  assume inv: "blacklist_inv c" and abs: "blacklist_abs c = (a, t0) # q"
  with Cons have "b \<in> dom (go_get (addrMap c))" by (auto simp: blacklist_inv_def)
  then obtain y where "go_get (addrMap c) b = Some y" by auto
  with Cons inv abs show ?thesis by (auto simp: blacklist_abs_def blacklist_inv_def)
qed (simp add: blacklist_abs_def)

interpretation cbl: cloud_blacklist blacklist_inv blacklist_abs BlackList_Push BlackList_Pop
  BlackList_Find
proof unfold_locales
  fix s t a
  assume inv: "blacklist_inv s"
  then show "blacklist_inv (BlackList_Push t a s)"
    by (auto simp: blacklist_inv_def BlackList_Push_def go_has_iff)
  from inv show "blacklist_abs (BlackList_Push t a s) =
      (if a \<in> fst ` set (blacklist_abs s) then blacklist_abs s else blacklist_abs s @ [(a, t)])"
    unfolding fst_blacklist_abs
    by (auto simp: blacklist_inv_def BlackList_Push_def go_has_iff blacklist_abs_def domIff)
  from inv show "blacklist_inv (snd (BlackList_Pop t s))"
    by (auto simp: blacklist_inv_def BlackList_Pop_def Let_def split: list.splits)
  from inv show "BlackList_Find a s \<longleftrightarrow> a \<in> fst ` set (blacklist_abs s)"
    by (simp add: BlackList_Find_def go_has_iff fst_blacklist_abs blacklist_inv_def)
next
  fix s t
  show "blacklist_abs s = [] \<Longrightarrow> BlackList_Pop t s = ([], s)"
    by (simp add: blacklist_abs_def BlackList_Pop_def)
next
  fix s a t0 q t
  assume "blacklist_inv s" "blacklist_abs s = (a, t0) # q"
  from blacklist_abs_Cons [OF this] obtain rest where rest: "addrList s = a # rest"
    "go_get (addrMap s) a = Some t0" "a \<notin> set rest"
    "q = map (\<lambda>a. (a, the (go_get (addrMap s) a))) rest"
    by blast
  then show "t - t0 \<le> blacklistSeconds \<Longrightarrow> BlackList_Pop t s = ([], s)"
    and "\<not> t - t0 \<le> blacklistSeconds \<Longrightarrow>
      fst (BlackList_Pop t s) = a \<and> blacklist_abs (snd (BlackList_Pop t s)) = q"
    by (auto simp: BlackList_Pop_def blacklist_abs_def)
qed

section \<open>Dialling\<close>

datatype dial =
    DialOk
  | DialRedirect string
  | DialBadRedirect
  | DialRefused int
  | DialFailed

datatype dial_error = BadLocation | Refused int | NoConnection

fun dial_err :: "dial \<Rightarrow> dial_error" where
  "dial_err DialBadRedirect = BadLocation"
| "dial_err (DialRefused code) = Refused code"
| "dial_err _ = NoConnection"

record edgeTunnel =
  cloudAddr :: string
  originCloudAddr :: string
  etName :: string
  etUuid :: string
  listenAddr :: string
  etConfClusterName :: string
  etClient :: "string option"

definition NewEdgeTunnel :: "string \<Rightarrow> string \<Rightarrow> string \<Rightarrow> edgeTunnel" where
  "NewEdgeTunnel userDefineName parentCluster tunnelListenAddr =
     \<lparr>cloudAddr = parentCluster, originCloudAddr = [], etName = userDefineName, etUuid = [],
      listenAddr = tunnelListenAddr, etConfClusterName = [], etClient = None\<rparr>"

text \<open>The result: the error if any, the number of the next attempt, the tunnel.\<close>

partial_function (option) edge_connect ::
  "(nat \<Rightarrow> string \<Rightarrow> dial) \<Rightarrow> nat \<Rightarrow> edgeTunnel \<Rightarrow>
   (dial_error option \<times> nat \<times> edgeTunnel) option" where
  "edge_connect dial n e =
     (let e1 = e\<lparr>etUuid := etName e\<rparr> in
      case dial n (cloudAddr e1) of
        DialOk \<Rightarrow>
          Some (None, Suc n, e1\<lparr>etConfClusterName := etUuid e1, etClient := Some (etUuid e1)\<rparr>)
      | DialRedirect host \<Rightarrow>
          edge_connect dial (Suc n) (e1\<lparr>originCloudAddr := cloudAddr e1, cloudAddr := host\<rparr>)
      | d \<Rightarrow> Some (Some (dial_err d), Suc n, e1))"

definition edge_Send :: "(string \<Rightarrow> bytes \<Rightarrow> bool) \<Rightarrow> bytes \<Rightarrow> edgeTunnel \<Rightarrow> dial_error option" where
  "edge_Send write msg e =
     (case etClient e of
        None \<Rightarrow> Some NoConnection
      | Some ws \<Rightarrow> if write ws msg then None else Some NoConnection)"

text \<open>\<open>addrs\<close> are the values of the map of parent neighbours, in the order visited.\<close>

definition chooseParentNeighbor ::
  "int \<Rightarrow> int \<Rightarrow> string list \<Rightarrow> edgeTunnel \<Rightarrow> CloudBlackList \<Rightarrow> bool \<times> edgeTunnel \<times> CloudBlackList"
  where
  "chooseParentNeighbor t1 t2 addrs e bl =
     (let bl1 = BlackList_Push t1 (cloudAddr e) bl;
          found = (case filter (\<lambda>a. \<not> BlackList_Find a bl1) addrs of [] \<Rightarrow> [] | a # _ \<Rightarrow> a);
          (chosen, bl2) = (if found = [] then BlackList_Pop t2 bl1 else (found, bl1))
      in if chosen = [] then (False, e, bl2) else (True, e\<lparr>cloudAddr := chosen\<rparr>, bl2))"

text \<open>The clock and the neighbours as they are at each attempt.\<close>

record world =
  dials :: "nat \<Rightarrow> string \<Rightarrow> dial"
  clock :: "nat \<Rightarrow> int"
  neighbours :: "nat \<Rightarrow> string list"

partial_function (option) edge_reconnect ::
  "world \<Rightarrow> nat \<Rightarrow> edgeTunnel \<Rightarrow> CloudBlackList \<Rightarrow> (nat \<times> edgeTunnel \<times> CloudBlackList) option" where
  "edge_reconnect w n e bl =
     (case edge_connect (dials w) n e of
        None \<Rightarrow> None
      | Some (err, n1, e1) \<Rightarrow>
          if err = None then Some (n1, e1, BlackList_Clear bl)
          else if originCloudAddr e1 \<noteq> []
          then edge_reconnect w n1 (e1\<lparr>cloudAddr := originCloudAddr e1, originCloudAddr := []\<rparr>) bl
          else (case chooseParentNeighbor (clock w n1) (clock w n1) (neighbours w n1) e1 bl of
                  (_, e2, bl2) \<Rightarrow> edge_reconnect w n1 e2 bl2))"

section \<open>The controller manager's tunnel\<close>

record controllerTunnel =
  ctCloudAddr :: string
  ctOriginCloudAddr :: string
  ctClient :: "string option"
  connectionHealth :: bool

definition NewControllerTunnel :: "string \<Rightarrow> controllerTunnel" where
  "NewControllerTunnel remoteAddr =
     \<lparr>ctCloudAddr = remoteAddr, ctOriginCloudAddr = [], ctClient = None, connectionHealth = False\<rparr>"

partial_function (option) controller_connect ::
  "(nat \<Rightarrow> string \<Rightarrow> dial) \<Rightarrow> nat \<Rightarrow> controllerTunnel \<Rightarrow>
   (dial_error option \<times> nat \<times> controllerTunnel) option" where
  "controller_connect dial n e =
     (case dial n (ctCloudAddr e) of
        DialOk \<Rightarrow> Some (None, Suc n, e\<lparr>ctClient := Some (ctCloudAddr e)\<rparr>)
      | DialRedirect host \<Rightarrow>
          controller_connect dial (Suc n) (e\<lparr>ctOriginCloudAddr := ctCloudAddr e, ctCloudAddr := host\<rparr>)
      | d \<Rightarrow> Some (Some (dial_err d), Suc n, e))"

partial_function (option) controller_reconnect ::
  "(nat \<Rightarrow> string \<Rightarrow> dial) \<Rightarrow> nat \<Rightarrow> controllerTunnel \<Rightarrow> (nat \<times> controllerTunnel) option" where
  "controller_reconnect dial n e =
     (case controller_connect dial n (e\<lparr>connectionHealth := False\<rparr>) of
        None \<Rightarrow> None
      | Some (err, n1, e1) \<Rightarrow>
          if err = None then Some (n1, e1\<lparr>connectionHealth := True\<rparr>)
          else if ctOriginCloudAddr e1 \<noteq> []
          then controller_reconnect dial n1
                 (e1\<lparr>ctCloudAddr := ctOriginCloudAddr e1, ctOriginCloudAddr := []\<rparr>)
          else controller_reconnect dial n1 e1)"

definition controller_Send ::
  "(string \<Rightarrow> bytes \<Rightarrow> bool) \<Rightarrow> bytes \<Rightarrow> controllerTunnel \<Rightarrow> dial_error option" where
  "controller_Send write msg e =
     (case ctClient e of
        None \<Rightarrow> Some NoConnection
      | Some ws \<Rightarrow> if write ws msg then None else Some NoConnection)"

definition ControllerSendChanBufferSize :: nat where
  "ControllerSendChanBufferSize = 1000"

text \<open>
  The sender's recovery. Each element of the list is what it sees when it holds the lock: the
  health flag, the length of the channel, and whether sending succeeds. \<open>None\<close>: it is still
  waiting when the list ends.
\<close>

record wake =
  wHealth :: bool
  wChanLen :: nat
  wSendOk :: bool

datatype send_outcome = Sent | Dropped

fun recoverAndReSend :: "wake list \<Rightarrow> send_outcome option" where
  "recoverAndReSend [] = None"
| "recoverAndReSend (w # ws) =
     (if \<not> wHealth w
      then (if wChanLen w = ControllerSendChanBufferSize then Some Dropped
            else recoverAndReSend ws)
      else if wSendOk w then Some Sent
      else recoverAndReSend ws)"

text \<open>One turn of \<^verbatim>\<open>sendFromChan\<close> for a message; a message that does not marshal is skipped.\<close>

definition sendFromChan ::
  "codecs \<Rightarrow> (string \<Rightarrow> bytes \<Rightarrow> bool) \<Rightarrow> ClusterMessage \<Rightarrow> wake list \<Rightarrow> controllerTunnel \<Rightarrow>
   send_outcome option \<times> controllerTunnel" where
  "sendFromChan cd write msg ws e =
     (case pb_msg cd msg of
        None \<Rightarrow> (Some Dropped, e)
      | Some data \<Rightarrow>
          if controller_Send write data e = None then (Some Sent, e)
          else (recoverAndReSend ws, e\<lparr>connectionHealth := False\<rparr>))"

section \<open>Clients that follow redirects\<close>

fun is_redirect :: "dial \<Rightarrow> bool" where
  "is_redirect (DialRedirect _) = True"
| "is_redirect _ = False"

locale redirect_client =
  fixes rc_addr :: "'s \<Rightarrow> string"
    and rc_enter :: "'s \<Rightarrow> 's"
    and rc_redirect :: "string \<Rightarrow> 's \<Rightarrow> 's"
    and rc_done :: "'s \<Rightarrow> 's"
    and rc_connect :: "(nat \<Rightarrow> string \<Rightarrow> dial) \<Rightarrow> nat \<Rightarrow> 's \<Rightarrow> (dial_error option \<times> nat \<times> 's) option"
  assumes connect_unfold: "rc_connect d n s =
      (case d n (rc_addr s) of
         DialOk \<Rightarrow> Some (None, Suc n, rc_done (rc_enter s))
       | DialRedirect host \<Rightarrow> rc_connect d (Suc n) (rc_redirect host (rc_enter s))
       | x \<Rightarrow> Some (Some (dial_err x), Suc n, rc_enter s))"
    and addr_done: "rc_addr (rc_done (rc_enter s)) = rc_addr s"
begin

lemma connect_step:
  "d n (rc_addr s) = DialOk \<Longrightarrow> rc_connect d n s = Some (None, Suc n, rc_done (rc_enter s))"
  "d n (rc_addr s) = DialRedirect h \<Longrightarrow>
     rc_connect d n s = rc_connect d (Suc n) (rc_redirect h (rc_enter s))"
  "d n (rc_addr s) \<noteq> DialOk \<Longrightarrow> \<not> is_redirect (d n (rc_addr s)) \<Longrightarrow>
     rc_connect d n s = Some (Some (dial_err (d n (rc_addr s))), Suc n, rc_enter s)"
proof -
  show "d n (rc_addr s) \<noteq> DialOk \<Longrightarrow> \<not> is_redirect (d n (rc_addr s)) \<Longrightarrow>
     rc_connect d n s = Some (Some (dial_err (d n (rc_addr s))), Suc n, rc_enter s)"
    by (subst connect_unfold) (cases "d n (rc_addr s)", simp_all)
qed (subst connect_unfold, simp)+

text \<open>Once some later attempt is answered other than by a redirect, dialling ends; when it ends
  without an error, its last attempt was accepted at the address the client now has. What
  the three transitions keep is kept.\<close>

lemma connect_returns:
  assumes "n \<le> m" and "\<And>a. \<not> is_redirect (d m a)" and "P s"
    and keep: "\<And>s. P s \<Longrightarrow> P (rc_enter s)" "\<And>h s. P s \<Longrightarrow> P (rc_redirect h s)"
  shows "\<exists>err k s'. rc_connect d n s = Some (err, Suc k, s') \<and> n \<le> k \<and> k \<le> m \<and>
    (if err = None then d k (rc_addr s') = DialOk \<and> (\<exists>s0. P s0 \<and> s' = rc_done (rc_enter s0))
     else P s')"
  using assms(1,3)
proof (induction "m - n" arbitrary: n s)
  case 0
  then have "m = n" by simp
  with assms(2) 0 show ?case
    by (cases "d n (rc_addr s) = DialOk")
       (auto simp: connect_step addr_done keep intro!: exI [where x = n])
next
  case (Suc x)
  consider (ok) "d n (rc_addr s) = DialOk" | (red) h where "d n (rc_addr s) = DialRedirect h"
    | (other) "d n (rc_addr s) \<noteq> DialOk" "\<not> is_redirect (d n (rc_addr s))"
    by (cases "d n (rc_addr s)") auto
  then show ?case
  proof cases
    case red
    from Suc.hyps(2) have le: "x = m - Suc n" "Suc n \<le> m" by simp_all
    from Suc.prems have "P (rc_redirect h (rc_enter s))" by (simp add: keep)
    from Suc.hyps(1) [OF le this] red obtain err k s' where
      "rc_connect d n s = Some (err, Suc k, s')" "n \<le> k" "k \<le> m"
      "if err = None then d k (rc_addr s') = DialOk \<and> (\<exists>s0. P s0 \<and> s' = rc_done (rc_enter s0))
       else P s'"
      by (metis Suc_leD connect_step(2))
    then show ?thesis by blast
  qed (use Suc.prems in \<open>auto simp: connect_step addr_done keep intro!: exI [where x = n]\<close>)
qed

end

interpretation et: redirect_client cloudAddr "\<lambda>e. e\<lparr>etUuid := etName e\<rparr>"
  "\<lambda>h e. e\<lparr>originCloudAddr := cloudAddr e, cloudAddr := h\<rparr>"
  "\<lambda>e. e\<lparr>etConfClusterName := etUuid e, etClient := Some (etUuid e)\<rparr>" edge_connect
proof unfold_locales
  show "edge_connect d n s =
      (case d n (cloudAddr s) of
         DialOk \<Rightarrow> Some (None, Suc n, s\<lparr>etUuid := etName s\<rparr>
           \<lparr>etConfClusterName := etUuid (s\<lparr>etUuid := etName s\<rparr>),
            etClient := Some (etUuid (s\<lparr>etUuid := etName s\<rparr>))\<rparr>)
       | DialRedirect host \<Rightarrow> edge_connect d (Suc n) (s\<lparr>etUuid := etName s\<rparr>
           \<lparr>originCloudAddr := cloudAddr (s\<lparr>etUuid := etName s\<rparr>), cloudAddr := host\<rparr>)
       | x \<Rightarrow> Some (Some (dial_err x), Suc n, s\<lparr>etUuid := etName s\<rparr>))" for d n s
    by (subst edge_connect.simps) (simp add: Let_def split: dial.splits)
qed simp

interpretation ct: redirect_client ctCloudAddr "\<lambda>e. e"
  "\<lambda>h e. e\<lparr>ctOriginCloudAddr := ctCloudAddr e, ctCloudAddr := h\<rparr>"
  "\<lambda>e. e\<lparr>ctClient := Some (ctCloudAddr e)\<rparr>" controller_connect
proof unfold_locales
  show "controller_connect d n s =
      (case d n (ctCloudAddr s) of
         DialOk \<Rightarrow> Some (None, Suc n, s\<lparr>ctClient := Some (ctCloudAddr s)\<rparr>)
       | DialRedirect host \<Rightarrow>
           controller_connect d (Suc n) (s\<lparr>ctOriginCloudAddr := ctCloudAddr s, ctCloudAddr := host\<rparr>)
       | x \<Rightarrow> Some (Some (dial_err x), Suc n, s))" for d n s
    by (subst controller_connect.simps) (simp split: dial.splits)
qed simp

section \<open>Reconnecting\<close>

lemma chooseParentNeighbor_pick:
  "chooseParentNeighbor t1 t2 addrs e bl =
     (case cbl.pick_parent t1 t2 addrs (cloudAddr e) bl of
        (ok, a, bl') \<Rightarrow> (ok, e\<lparr>cloudAddr := a\<rparr>, bl'))"
  by (auto simp: chooseParentNeighbor_def cbl.pick_parent_def Let_def split: prod.splits)

lemma choose_etName: "chooseParentNeighbor t1 t2 addrs e bl = (ok, e', bl') \<Longrightarrow> etName e' = etName e"
  by (auto simp: chooseParentNeighbor_pick split: prod.splits)

lemma edge_reconnect_returns:
  assumes acc: "\<And>m a. N \<le> m \<Longrightarrow> dials w m a = DialOk"
  shows "\<exists>k e'. edge_reconnect w n e bl = Some (Suc k, e', emptyBlackList) \<and> n \<le> k \<and>
    dials w k (cloudAddr e') = DialOk \<and> etClient e' = Some (etName e) \<and>
    etConfClusterName e' = etName e \<and> etName e' = etName e"
proof (induction "N - n" arbitrary: n e bl rule: less_induct)
  case less
  let ?m = "max n N"
  have m: "\<not> is_redirect (dials w ?m a)" for a by (simp add: acc)
  obtain err k e1 where c: "edge_connect (dials w) n e = Some (err, Suc k, e1)" "n \<le> k" "k \<le> ?m"
    "if err = None then dials w k (cloudAddr e1) = DialOk \<and>
       (\<exists>s0. etName s0 = etName e \<and> e1 = s0\<lparr>etUuid := etName s0\<rparr>\<lparr>etConfClusterName := etUuid
         (s0\<lparr>etUuid := etName s0\<rparr>), etClient := Some (etUuid (s0\<lparr>etUuid := etName s0\<rparr>))\<rparr>)
     else etName e1 = etName e"
    using et.connect_returns [where P = "\<lambda>s. etName s = etName e" and m = ?m and n = n and s = e
        and d = "dials w"] m
    by auto
  show ?case
  proof (cases "err = None")
    case True
    with c show ?thesis
      by (subst edge_reconnect.simps) (auto simp: BlackList_Clear_empty)
  next
    case False
    have "n < N"
    proof (rule ccontr)
      assume "\<not> n < N"
      with acc [of n] have "dials w n (cloudAddr e) = DialOk" by simp
      with et.connect_step(1) [of "dials w" n e] c(1) False show False by simp
    qed
    with c(2) have less: "N - Suc k < N - n" by simp
    obtain e2 bl2 where "edge_reconnect w n e bl = edge_reconnect w (Suc k) e2 bl2"
      "etName e2 = etName e"
    proof (cases "originCloudAddr e1 = []")
      case True
      obtain b e2 bl2 where ch: "chooseParentNeighbor (clock w (Suc k)) (clock w (Suc k))
          (neighbours w (Suc k)) e1 bl = (b, e2, bl2)"
        by (rule prod_cases3)
      with c False True choose_etName [OF ch] show thesis
        by (intro that [of e2 bl2]) (subst edge_reconnect.simps, auto)
    next
      case no: False
      with c False show thesis
        by (intro that [of "e1\<lparr>cloudAddr := originCloudAddr e1, originCloudAddr := []\<rparr>" bl])
           (subst edge_reconnect.simps, auto)
    qed
    with less.hyps [OF less, of e2 bl2] c(2) show ?thesis by (auto intro: Suc_leD)
  qed
qed

lemma recoverAndReSend_decisive:
  "recoverAndReSend ws =
     (case dropWhile (\<lambda>w. if wHealth w then \<not> wSendOk w
                          else wChanLen w \<noteq> ControllerSendChanBufferSize) ws of
        [] \<Rightarrow> None
      | w # _ \<Rightarrow> Some (if wHealth w then Sent else Dropped))"
  by (induction ws) auto

end
