(* ===== verification/CloudTunnel.thy ===== *)
theory CloudTunnel
  imports Message
begin

text \<open>
  The listening side of the tunnels (\<^verbatim>\<open>pkg/tunnel/cloudtunnel.go\<close>): connections of child
  cluster controllers by cluster name, and of controller managers by remote address. The web
  server and the websocket library are outside; a connection is a number, a request is a
  record, and whether an upgrade or a write succeeds is an argument.

  The list of controller addresses is a Go slice whose backing array is shared with the
  slices \<^verbatim>\<open>findAController\<close> derives from it, and \<^verbatim>\<open>append(s[:n], s[n+1:]...)\<close> writes to that
  array. A \<open>slice\<close> therefore is a pair: the elements it shows, and the rest of the array.
\<close>

section \<open>Slices\<close>

type_synonym slice = "string list \<times> string list"

definition slice_append :: "slice \<Rightarrow> string \<Rightarrow> slice" where
  "slice_append sl a = (case sl of (vs, sp) \<Rightarrow> (vs @ [a], tl sp))"

text \<open>What a slice of length \<open>l\<close> on the same array shows after a write.\<close>

definition reslice :: "nat \<Rightarrow> slice \<Rightarrow> slice" where
  "reslice l sl = (case sl of (vs, sp) \<Rightarrow> (take l (vs @ sp), drop l (vs @ sp)))"

definition index_of :: "string \<Rightarrow> string list \<Rightarrow> nat" where
  "index_of s vs = length (takeWhile (\<lambda>v. v \<noteq> s) vs)"

definition removeFromSliceByValue :: "slice \<Rightarrow> string \<Rightarrow> slice" where
  "removeFromSliceByValue sl s =
     (case sl of (vs, sp) \<Rightarrow>
        let n = index_of s vs in
        if n = length vs then (vs, sp)
        else (take n vs @ drop (Suc n) vs, last vs # sp))"

section \<open>The tunnel\<close>

type_synonym conn = nat

record cloudTunnel =
  clients :: "(string, conn) gomap"
  controllers :: "(string, conn) gomap"
  controllersKey :: slice

definition NewCloudTunnel :: cloudTunnel where
  "NewCloudTunnel = \<lparr>clients = [], controllers = [], controllersKey = ([], [])\<rparr>"

datatype tunnel_error = ClientNotFound string | NoController | WriteFailed

text \<open>The writes \<^verbatim>\<open>Broadcast\<close> starts, one for each client.\<close>

definition Broadcast :: "bytes \<Rightarrow> cloudTunnel \<Rightarrow> (conn \<times> bytes) list" where
  "Broadcast msg t = map (\<lambda>(_, client). (client, msg)) (clients t)"

definition CloudTunnel_Send ::
  "(conn \<Rightarrow> bytes \<Rightarrow> bool) \<Rightarrow> string \<Rightarrow> bytes \<Rightarrow> cloudTunnel \<Rightarrow> tunnel_error option" where
  "CloudTunnel_Send write clusterName msg t =
     (case go_get (clients t) clusterName of
        Some client \<Rightarrow> if write client msg then None else Some WriteFailed
      | None \<Rightarrow> Some (ClientNotFound clusterName))"

text \<open>\<open>rnd l\<close> is the value \<^verbatim>\<open>rand.Intn(l)\<close> returns; taken modulo \<open>l\<close>, any function will do.\<close>

function findAController ::
  "(string, conn) gomap \<Rightarrow> (nat \<Rightarrow> nat) \<Rightarrow> slice \<Rightarrow> conn option \<times> slice" where
  "findAController clientMap rnd clientKey =
     (let vs = fst clientKey in
      if vs = [] then (None, clientKey)
      else
        let clientName = vs ! (rnd (length vs) mod length vs) in
        (case go_get clientMap clientName of
           Some client \<Rightarrow> (Some client, clientKey)
         | None \<Rightarrow> findAController clientMap rnd (removeFromSliceByValue clientKey clientName)))"
  by pat_completeness auto

lemma index_of_less: "s \<in> set vs \<Longrightarrow> index_of s vs < length vs"
  unfolding index_of_def by (induction vs) auto

lemma index_of_eq [simp]: "index_of s vs = length vs \<longleftrightarrow> s \<notin> set vs"
  unfolding index_of_def by (induction vs) auto

lemma removeFromSlice_fst:
  "fst (removeFromSliceByValue (vs, sp) s) = remove1 s vs"
proof -
  have "take (index_of s vs) vs @ drop (Suc (index_of s vs)) vs = remove1 s vs" if "s \<in> set vs"
    using that by (induction vs) (auto simp: index_of_def)
  then show ?thesis
    by (auto simp: removeFromSliceByValue_def Let_def remove1_idem split: if_splits)
qed

termination findAController
proof (relation "measure (\<lambda>(_, _, sl). length (fst sl))")
  fix clientMap :: "(string, conn) gomap" and rnd :: "nat \<Rightarrow> nat" and clientKey :: slice and vs name
  assume "vs = fst clientKey" "vs \<noteq> []" "name = vs ! (rnd (length vs) mod length vs)"
  moreover from this have "name \<in> set vs" by simp
  ultimately show "((clientMap, rnd, removeFromSliceByValue clientKey name),
      clientMap, rnd, clientKey) \<in> measure (\<lambda>(_, _, sl). length (fst sl))"
    by (cases clientKey) (auto simp: removeFromSlice_fst length_remove1)
qed simp

declare findAController.simps [simp del]

definition SendToControllerManager ::
  "(conn \<Rightarrow> bytes \<Rightarrow> bool) \<Rightarrow> (nat \<Rightarrow> nat) \<Rightarrow> bytes \<Rightarrow> cloudTunnel \<Rightarrow>
   tunnel_error option \<times> cloudTunnel" where
  "SendToControllerManager write rnd msg t =
     (case findAController (controllers t) rnd (controllersKey t) of
        (client, array) \<Rightarrow>
          let t' = t\<lparr>controllersKey := reslice (length (fst (controllersKey t))) array\<rparr> in
          (case client of
             None \<Rightarrow> (Some NoController, t')
           | Some c \<Rightarrow> (if write c msg then None else Some WriteFailed, t')))"

section \<open>Children\<close>

record request =
  reqURI :: string
  reqCluster :: string
  reqListenAddr :: string
  reqUserDefineName :: string
  reqRemoteAddr :: string

datatype response =
    Found string string
  | BadRequest
  | Forbidden
  | InternalServerError
  | Upgraded

text \<open>
  The handler of a child's request. \<open>check\<close> is the registered name checker, which fills in
  the record and may start work of its own; its actions are returned. The record is the one
  \<^verbatim>\<open>connect\<close> is started with when the upgrade succeeds.
\<close>

definition accessHandler ::
  "string \<Rightarrow> (ClusterRegistry \<Rightarrow> bool \<times> ClusterRegistry \<times> 'a list) \<Rightarrow> bool \<Rightarrow> int \<Rightarrow> request \<Rightarrow>
   cloudTunnel \<Rightarrow> response \<times> ClusterRegistry option \<times> 'a list" where
  "accessHandler redirectAddr check upgradeOk unixTime r t =
     (if redirectAddr \<noteq> [] then (Found redirectAddr (reqURI r), None, [])
      else if reqListenAddr r = [] then (BadRequest, None, [])
      else if reqUserDefineName r = [] then (BadRequest, None, [])
      else if go_has (clients t) (reqCluster r) then (Forbidden, None, [])
      else
        (case check \<lparr>RegName = reqCluster r, RegUserDefineName = reqUserDefineName r,
                     RegListen = reqListenAddr r, RegTime = unixTime, RegParentName = []\<rparr> of
           (ok, cr, as) \<Rightarrow>
             if \<not> ok then (Forbidden, None, as)
             else if \<not> upgradeOk then (InternalServerError, None, as)
             else (Upgraded, Some cr, as)))"

text \<open>\<^verbatim>\<open>connect\<close> up to its read loop, and after it. The read loop hands every message to the
  registered handler under the client's name.\<close>

definition connect_begin :: "ClusterRegistry \<Rightarrow> conn \<Rightarrow> cloudTunnel \<Rightarrow> bool \<times> cloudTunnel" where
  "connect_begin cr wsclient t =
     (if go_has (clients t) (RegName cr) then (False, t)
      else (True, t\<lparr>clients := go_put (RegName cr) wsclient (clients t)\<rparr>))"

definition connect_end ::
  "ClusterRegistry \<Rightarrow> int \<Rightarrow> cloudTunnel \<Rightarrow> ClusterRegistry \<times> cloudTunnel" where
  "connect_end cr unixTime t =
     (cr\<lparr>RegTime := unixTime\<rparr>, t\<lparr>clients := go_del (RegName cr) (clients t)\<rparr>)"

section \<open>Controller managers\<close>

definition controllerHandler ::
  "string \<Rightarrow> bool \<Rightarrow> conn \<Rightarrow> request \<Rightarrow> cloudTunnel \<Rightarrow> response \<times> cloudTunnel" where
  "controllerHandler redirectAddr upgradeOk wsclient r t =
     (if redirectAddr \<noteq> [] then (Found redirectAddr (reqURI r), t)
      else if \<not> upgradeOk then (InternalServerError, t)
      else if go_has (controllers t) (reqRemoteAddr r) then (Upgraded, t)
      else (Upgraded, t\<lparr>controllers := go_put (reqRemoteAddr r) wsclient (controllers t),
                        controllersKey := slice_append (controllersKey t) (reqRemoteAddr r)\<rparr>))"

text \<open>What is left to do when the read loop of a controller manager ends.\<close>

definition handleControlMsg_end :: "string \<Rightarrow> cloudTunnel \<Rightarrow> cloudTunnel" where
  "handleControlMsg_end client t =
     t\<lparr>controllers := go_del client (controllers t),
       controllersKey := removeFromSliceByValue (controllersKey t) client\<rparr>"

section \<open>Listening\<close>

text \<open>\<^verbatim>\<open>Start\<close> binds the tunnel's address; \<open>bound\<close> are the addresses the process has bound so far, and
  \<open>listen\<close> says whether the operating system grants one more. The goroutine that serves the
  requests ends the process when serving ends.\<close>

definition CloudTunnel_Start ::
  "(string \<Rightarrow> string list \<Rightarrow> bool) \<Rightarrow> string \<Rightarrow> string list \<Rightarrow> bool \<times> string list" where
  "CloudTunnel_Start listen address bound =
     (if listen address bound then (True, address # bound) else (False, bound))"

section \<open>Lemmas\<close>

text \<open>Key list and map agree: no key twice, and a key for each controller and no other.\<close>

definition keys_inv :: "cloudTunnel \<Rightarrow> bool" where
  "keys_inv t \<longleftrightarrow> go_wf (controllers t) \<and> distinct (fst (controllersKey t)) \<and>
     set (fst (controllersKey t)) = dom (go_get (controllers t))"

lemma nth_mod_in_set: "vs \<noteq> [] \<Longrightarrow> vs ! (i mod length vs) \<in> set vs"
  by simp

lemma findAController_result:
  "(case fst (findAController m rnd sl) of
      None \<Rightarrow> set (fst sl) \<inter> dom (go_get m) = {}
    | Some c \<Rightarrow> \<exists>k\<in>set (fst sl). go_get m k = Some c)"
proof (induction m rnd sl rule: findAController.induct)
  case (1 m rnd sl)
  obtain vs sp where sl: "sl = (vs, sp)" by fastforce
  define name where "name = vs ! (rnd (length vs) mod length vs)"
  show ?case
  proof (cases "vs = [] \<or> go_get m name \<noteq> None")
    case True
    have "name \<in> set vs" if "vs \<noteq> []" using that nth_mod_in_set by (simp add: name_def)
    with True show ?thesis
      by (subst findAController.simps) (auto simp: sl Let_def name_def [symmetric])
  next
    case False
    then have n: "vs \<noteq> []" "go_get m name = None" by auto
    have rm: "fst (removeFromSliceByValue sl name) = remove1 name vs"
      by (simp add: sl removeFromSlice_fst)
    from 1 [OF refl, of name] n have "case fst (findAController m rnd (removeFromSliceByValue sl name)) of
        None \<Rightarrow> set (remove1 name vs) \<inter> dom (go_get m) = {}
      | Some c \<Rightarrow> \<exists>k\<in>set (remove1 name vs). go_get m k = Some c"
      unfolding rm by (simp add: sl name_def)
    moreover have "k \<in> set vs \<longleftrightarrow> k \<in> set (remove1 name vs)" if "go_get m k \<noteq> None" for k
      using that n(2) by (metis in_set_remove1)
    then have "set vs \<inter> dom (go_get m) = set (remove1 name vs) \<inter> dom (go_get m)"
      "\<And>c. (\<exists>k\<in>set vs. go_get m k = Some c) = (\<exists>k\<in>set (remove1 name vs). go_get m k = Some c)"
      by (auto simp: domIff)
    moreover have "findAController m rnd sl =
        findAController m rnd (removeFromSliceByValue sl name)"
      using n by (subst findAController.simps) (simp add: sl Let_def name_def)
    ultimately show ?thesis by (simp only: sl fst_conv)
  qed
qed

lemma findAController_live:
  assumes "set vs \<subseteq> dom (go_get m)"
  shows "snd (findAController m rnd (vs, sp)) = (vs, sp)"
proof (cases "vs = []")
  case False
  with nth_mod_in_set [OF this] assms have "go_get m (vs ! (rnd (length vs) mod length vs)) \<noteq> None"
    by blast
  with False show ?thesis by (subst findAController.simps) (auto simp: Let_def)
qed (simp add: findAController.simps)

lemma keys_inv_new [simp]: "keys_inv NewCloudTunnel"
  by (simp add: keys_inv_def NewCloudTunnel_def)

lemma keys_inv_handler: "keys_inv t \<Longrightarrow> keys_inv (snd (controllerHandler red up c r t))"
  by (auto simp: keys_inv_def controllerHandler_def slice_append_def go_has_iff
      split: prod.splits)

lemma keys_inv_end: "keys_inv t \<Longrightarrow> keys_inv (handleControlMsg_end client t)"
  by (cases "controllersKey t")
     (auto simp: keys_inv_def handleControlMsg_end_def removeFromSlice_fst set_remove1_eq)

lemma keys_inv_send: "keys_inv t \<Longrightarrow> snd (SendToControllerManager write rnd msg t) = t"
  using findAController_live [of "fst (controllersKey t)" "controllers t" rnd "snd (controllersKey t)"]
  by (cases "controllersKey t")
     (auto simp: keys_inv_def SendToControllerManager_def reslice_def Let_def
       split: prod.splits option.splits)

end
