(* ===== verification/TunnelLoops.thy ===== *)
theory TunnelLoops
  imports EdgeTunnel CloudTunnel
begin

text \<open>
  The loops that read from the tunnels: of the two tunnels that dial (\<^verbatim>\<open>edgetunnel.go\<close>,
  \<^verbatim>\<open>controller_tunnel.go\<close>: \<^verbatim>\<open>Start\<close> and \<^verbatim>\<open>handleReceiveMessage\<close>), which reconnect when a read fails,
  and of the cloud tunnel (\<^verbatim>\<open>cloudtunnel.go\<close>: \<^verbatim>\<open>handleReceiveMessage\<close>, \<^verbatim>\<open>handleControlMsg\<close>), which
  forget the connection. What a connection yields is a list: a message, or \<open>None\<close> for an error.
  A list that ends without an error is a connection that is still being read.
\<close>

section \<open>Registered functions\<close>

text \<open>The functions the handlers register, on a state of theirs; the names end in the source's.\<close>

record 's cloudFuncs =
  cf_redirect :: "'s \<Rightarrow> string"
  cf_clusterNameCheck :: "ClusterRegistry \<Rightarrow> 's \<Rightarrow> bool \<times> 's"
  cf_receiveMessageHandler :: "string \<Rightarrow> bytes \<Rightarrow> 's \<Rightarrow> 's"
  cf_notifyClientClosed :: "ClusterRegistry \<Rightarrow> 's \<Rightarrow> 's"
  cf_afterConnectHook :: "ClusterRegistry \<Rightarrow> 's \<Rightarrow> 's"
  cf_controlMsgHandler :: "string \<Rightarrow> bytes \<Rightarrow> 's \<Rightarrow> 's"

definition defaultClusterNameChecker :: "ClusterRegistry \<Rightarrow> 's \<Rightarrow> bool \<times> 's" where
  "defaultClusterNameChecker cr s = (True, s)"

definition defaultAfterConnectHook :: "ClusterRegistry \<Rightarrow> 's \<Rightarrow> 's" where
  "defaultAfterConnectHook cr s = s"

definition defaultControlMsgHandler :: "string \<Rightarrow> bytes \<Rightarrow> 's \<Rightarrow> 's" where
  "defaultControlMsgHandler remote msg s = s"

definition defaultCloudFuncs :: "'s cloudFuncs" where
  "defaultCloudFuncs = \<lparr>cf_redirect = (\<lambda>_. []), cf_clusterNameCheck = defaultClusterNameChecker,
     cf_receiveMessageHandler = (\<lambda>_ _ s. s), cf_notifyClientClosed = (\<lambda>_ s. s),
     cf_afterConnectHook = defaultAfterConnectHook, cf_controlMsgHandler = defaultControlMsgHandler\<rparr>"

definition RegistRedirectFunc :: "('s \<Rightarrow> string) \<Rightarrow> 's cloudFuncs \<Rightarrow> 's cloudFuncs" where
  "RegistRedirectFunc fn t = t\<lparr>cf_redirect := fn\<rparr>"

definition RegistCheckNameValidFunc :: "(ClusterRegistry \<Rightarrow> 's \<Rightarrow> bool \<times> 's) \<Rightarrow> 's cloudFuncs \<Rightarrow> 's cloudFuncs" where
  "RegistCheckNameValidFunc fn t = t\<lparr>cf_clusterNameCheck := fn\<rparr>"

definition RegistReturnMessageFunc :: "(string \<Rightarrow> bytes \<Rightarrow> 's \<Rightarrow> 's) \<Rightarrow> 's cloudFuncs \<Rightarrow> 's cloudFuncs" where
  "RegistReturnMessageFunc fn t = t\<lparr>cf_receiveMessageHandler := fn\<rparr>"

definition RegistClientCloseHandler :: "(ClusterRegistry \<Rightarrow> 's \<Rightarrow> 's) \<Rightarrow> 's cloudFuncs \<Rightarrow> 's cloudFuncs" where
  "RegistClientCloseHandler fn t = t\<lparr>cf_notifyClientClosed := fn\<rparr>"

definition RegistAfterConnectHook :: "(ClusterRegistry \<Rightarrow> 's \<Rightarrow> 's) \<Rightarrow> 's cloudFuncs \<Rightarrow> 's cloudFuncs" where
  "RegistAfterConnectHook fn t = t\<lparr>cf_afterConnectHook := fn\<rparr>"

definition RegistControllerManagerMsgHandler :: "(string \<Rightarrow> bytes \<Rightarrow> 's \<Rightarrow> 's) \<Rightarrow> 's cloudFuncs \<Rightarrow> 's cloudFuncs" where
  "RegistControllerManagerMsgHandler fn t = t\<lparr>cf_controlMsgHandler := fn\<rparr>"

section \<open>Reading\<close>

fun read_messages :: "bytes option list \<Rightarrow> bytes list \<times> bool" where
  "read_messages [] = ([], False)"
| "read_messages (None # _) = ([], True)"
| "read_messages (Some msg # reads) = (case read_messages reads of (msgs, ended) \<Rightarrow> (msg # msgs, ended))"

lemma read_messages_broken [simp]: "read_messages (map Some msgs @ None # rest) = (msgs, True)"
  by (induction msgs) simp_all

lemma read_messages_open [simp]: "read_messages (map Some msgs) = (msgs, False)"
  by (induction msgs) simp_all

text \<open>What the registered functions see, in order. The hook of a new connection and, for a
  controller manager, the handler of each message run as goroutines; the list has their starts.\<close>

datatype tevent = ConnectedTo | Received string bytes | DisconnectedFrom

section \<open>The dialling tunnels\<close>

definition edge_handleReceiveMessage :: "string \<Rightarrow> bytes option list \<Rightarrow> tevent list \<times> bool" where
  "edge_handleReceiveMessage name reads =
     (case read_messages reads of
        (msgs, ended) \<Rightarrow> (map (Received name) msgs @ (if ended then [DisconnectedFrom] else []), ended))"

definition controller_handleReceiveMessage :: "string \<Rightarrow> bytes option list \<Rightarrow> tevent list \<times> bool" where
  "controller_handleReceiveMessage name reads =
     (case read_messages reads of (msgs, ended) \<Rightarrow> (map (Received name) msgs, ended))"

text \<open>The loops of both \<^verbatim>\<open>Start\<close> functions, for the connections one after the other. \<open>None\<close>: a
  reconnect does not return, or there is no client to read from, a panic.\<close>

fun edge_loop ::
  "world \<Rightarrow> bytes option list list \<Rightarrow> nat \<Rightarrow> edgeTunnel \<Rightarrow> CloudBlackList \<Rightarrow>
   (tevent list \<times> nat \<times> edgeTunnel \<times> CloudBlackList) option" where
  "edge_loop w [] n e bl = Some ([], n, e, bl)"
| "edge_loop w (reads # conns) n e bl =
     (case etClient e of
        None \<Rightarrow> None
      | Some name \<Rightarrow>
          (case edge_handleReceiveMessage name reads of
             (tr, False) \<Rightarrow> Some (tr, n, e, bl)
           | (tr, True) \<Rightarrow>
               (case edge_reconnect w n e bl of
                  None \<Rightarrow> None
                | Some (n1, e1, bl1) \<Rightarrow>
                    map_option (\<lambda>(tr', r). (tr @ ConnectedTo # tr', r)) (edge_loop w conns n1 e1 bl1))))"

definition edgeTunnel_Start ::
  "world \<Rightarrow> bytes option list list \<Rightarrow> edgeTunnel \<Rightarrow> CloudBlackList \<Rightarrow>
   (dial_error option \<times> tevent list \<times> nat \<times> edgeTunnel \<times> CloudBlackList) option" where
  "edgeTunnel_Start w conns e bl =
     (case edge_connect (dials w) 0 e of
        None \<Rightarrow> None
      | Some (Some err, n, e1) \<Rightarrow> Some (Some err, [], n, e1, bl)
      | Some (None, n, e1) \<Rightarrow> map_option (\<lambda>(tr, r). (None, ConnectedTo # tr, r)) (edge_loop w conns n e1 bl))"

fun controller_loop ::
  "(nat \<Rightarrow> string \<Rightarrow> dial) \<Rightarrow> bytes option list list \<Rightarrow> nat \<Rightarrow> controllerTunnel \<Rightarrow>
   (tevent list \<times> nat \<times> controllerTunnel) option" where
  "controller_loop d [] n e = Some ([], n, e)"
| "controller_loop d (reads # conns) n e =
     (case ctClient e of
        None \<Rightarrow> None
      | Some name \<Rightarrow>
          (case controller_handleReceiveMessage name reads of
             (tr, False) \<Rightarrow> Some (tr, n, e)
           | (tr, True) \<Rightarrow>
               (case controller_reconnect d n e of
                  None \<Rightarrow> None
                | Some (n1, e1) \<Rightarrow>
                    map_option (\<lambda>(tr', r). (tr @ ConnectedTo # tr', r)) (controller_loop d conns n1 e1))))"

definition controllerTunnel_Start ::
  "(nat \<Rightarrow> string \<Rightarrow> dial) \<Rightarrow> bytes option list list \<Rightarrow> controllerTunnel \<Rightarrow>
   (dial_error option \<times> tevent list \<times> nat \<times> controllerTunnel) option" where
  "controllerTunnel_Start d conns e =
     (case controller_connect d 0 e of
        None \<Rightarrow> None
      | Some (Some err, n, e1) \<Rightarrow> Some (Some err, [], n, e1)
      | Some (None, n, e1) \<Rightarrow>
          map_option (\<lambda>(tr, r). (None, ConnectedTo # tr, r)) (controller_loop d conns n (e1\<lparr>connectionHealth := True\<rparr>)))"

section \<open>The cloud tunnel\<close>

text \<open>The registered handler is called in the reading goroutine. A client that is nil is not read.\<close>

definition cloud_handleReceiveMessage ::
  "'s cloudFuncs \<Rightarrow> string option \<Rightarrow> bytes option list \<Rightarrow> 's \<Rightarrow> bool \<times> 's" where
  "cloud_handleReceiveMessage fs client reads s =
     (case client of
        None \<Rightarrow> (True, s)
      | Some name \<Rightarrow> (case read_messages reads of (msgs, ended) \<Rightarrow> (ended, fold (cf_receiveMessageHandler fs name) msgs s)))"

definition handleControlMsg ::
  "'s cloudFuncs \<Rightarrow> string option \<Rightarrow> bytes option list \<Rightarrow> cloudTunnel \<times> 's \<Rightarrow> cloudTunnel \<times> 's" where
  "handleControlMsg fs client reads ts =
     (case (client, ts) of
        (None, _) \<Rightarrow> ts
      | (Some name, (t, s)) \<Rightarrow>
          (case read_messages reads of
             (msgs, ended) \<Rightarrow>
               (if ended then handleControlMsg_end name t else t, fold (cf_controlMsgHandler fs name) msgs s)))"

section \<open>Lemmas\<close>

fun received :: "tevent list \<Rightarrow> (string \<times> bytes) list" where
  "received [] = []"
| "received (Received name msg # tr) = (name, msg) # received tr"
| "received (_ # tr) = received tr"

fun tsignals :: "tevent list \<Rightarrow> bool list" where
  "tsignals [] = []"
| "tsignals (ConnectedTo # tr) = True # tsignals tr"
| "tsignals (DisconnectedFrom # tr) = False # tsignals tr"
| "tsignals (Received _ _ # tr) = tsignals tr"

lemma received_append [simp]: "received (tr @ tr') = received tr @ received tr'"
  by (induction tr rule: received.induct) simp_all

lemma received_map [simp]: "received (map (Received name) msgs) = map (Pair name) msgs"
  by (induction msgs) simp_all

lemma tsignals_append [simp]: "tsignals (tr @ tr') = tsignals tr @ tsignals tr'"
  by (induction tr rule: tsignals.induct) simp_all

lemma tsignals_map [simp]: "tsignals (map (Received name) msgs) = []"
  by (induction msgs) simp_all

lemma length_sessions: "length (concat (replicate k [False, True])) = 2 * k"
  by (induction k) simp_all

lemma alternate_sessions: "alternate (True # concat (replicate k [False, True]))"
proof (induction k)
  case (Suc k)
  let ?s = "concat (replicate k [False, True])"
  have "concat (replicate (Suc k) [False, True]) = ?s @ [False, True]" by (induction k) simp_all
  then have "True # concat (replicate (Suc k) [False, True]) = ((True # ?s) @ [False]) @ [True]" by simp
  with Suc length_sessions [of k] show ?case by (simp only: alternate_snoc) simp
qed (use alternate_snoc [of "[]" True] in simp)

text \<open>The tunnel dials again after each broken connection, and loses nothing a connection
  yielded.\<close>

lemma edge_connect_named:
  assumes "\<And>m a. N \<le> m \<Longrightarrow> dials w m a = DialOk" "edge_connect (dials w) n e = Some (None, n1, e1)"
  shows "etClient e1 = Some (etName e) \<and> etName e1 = etName e"
proof -
  have "\<not> is_redirect (dials w (max n N) a)" for a by (simp add: assms(1))
  from et.connect_returns [where P = "\<lambda>s. etName s = etName e" and m = "max n N" and n = n and s = e
      and d = "dials w", OF _ this] assms(2)
  show ?thesis by auto
qed

lemma edge_loop_survives:
  assumes acc: "\<And>m a. N \<le> m \<Longrightarrow> dials w m a = DialOk"
  shows "etClient e = Some name \<Longrightarrow> etName e = name \<Longrightarrow>
    \<exists>tr n' e' bl'. edge_loop w (map (\<lambda>msgs. map Some msgs @ [None]) mss) n e bl = Some (tr, n', e', bl') \<and>
      received tr = map (Pair name) (concat mss) \<and> tsignals tr = concat (replicate (length mss) [False, True]) \<and>
      etClient e' = Some name"
proof (induction mss arbitrary: n e bl)
  case (Cons msgs mss)
  from edge_reconnect_returns [OF acc, of N n e bl] Cons.prems obtain n1 e1 where
    re: "edge_reconnect w n e bl = Some (n1, e1, emptyBlackList)" "etClient e1 = Some name" "etName e1 = name"
    by auto
  from Cons.IH [OF re(2,3), of n1 emptyBlackList] obtain tr n' e' bl' where
    "edge_loop w (map (\<lambda>msgs. map Some msgs @ [None]) mss) n1 e1 emptyBlackList = Some (tr, n', e', bl')"
    "received tr = map (Pair name) (concat mss)" "tsignals tr = concat (replicate (length mss) [False, True])"
    "etClient e' = Some name"
    by blast
  with Cons.prems re show ?case by (simp add: edge_handleReceiveMessage_def)
qed simp

end
