(* ===== verification/TunnelProps.thy ===== *)
theory TunnelProps
  imports TunnelLoops EdgeHandler SampleEnv
begin

text \<open>Properties of the tunnels and of the edge handler.\<close>

section \<open>Finding a parent\<close>

text \<open>Reconnecting succeeds as soon as parents accept again: if from some attempt on every
  address accepts, the loop ends, however many redirects, refusals and changes of parent came
  before. It ends connected under the cluster's own name at an address that has accepted,
  with an empty blacklist.\<close>

theorem reconnect_succeeds:
  assumes "\<And>m a. N \<le> m \<Longrightarrow> dials w m a = DialOk"
  shows "\<exists>k e'. edge_reconnect w n e bl = Some (Suc k, e', emptyBlackList) \<and> n \<le> k \<and>
    dials w k (cloudAddr e') = DialOk \<and> etClient e' = Some (etName e) \<and>
    etConfClusterName e' = etName e"
  using edge_reconnect_returns [OF assms, of N n e bl] by blast

definition sample_world :: world where
  "sample_world = \<lparr>dials = (\<lambda>n a. if n = 0 then DialRedirect ''b:1'' else if n < 4 then DialFailed else DialOk),
     clock = (\<lambda>n. int n * 10 ^ 9), neighbours = (\<lambda>_. [''p:1'', ''p:2''])\<rparr>"

definition sample_restart :: world where
  "sample_restart = \<lparr>dials = (\<lambda>n a. if n = 1 then DialRedirect ''b:1'' else if n = 2 then DialFailed else DialOk),
     clock = (\<lambda>n. int n * 10 ^ 9), neighbours = (\<lambda>_. [''p:1'', ''p:2''])\<rparr>"

theorem reconnect_succeeds_witness:
  "\<exists>k e'. edge_reconnect sample_world 0 (NewEdgeTunnel ''c1'' ''a:1'' '':1'') emptyBlackList =
     Some (Suc k, e', emptyBlackList) \<and> dials sample_world k (cloudAddr e') = DialOk \<and>
     etClient e' = Some ''c1''"
proof -
  have acc: "dials sample_world m a = DialOk" if "4 \<le> m" for m a
    using that by (simp add: sample_world_def)
  have "etName (NewEdgeTunnel ''c1'' ''a:1'' '':1'') = ''c1''" by (simp add: NewEdgeTunnel_def)
  with reconnect_succeeds [OF acc, where n = 0 and e = "NewEdgeTunnel ''c1'' ''a:1'' '':1''"
      and bl = emptyBlackList] show ?thesis
    by metis
qed

text \<open>C17: A cluster controller outlives its connections. Once the tunnel has started, and if from
  some attempt on every address accepts, then however many connections break it is connected
  again under its own name; every message of every connection was handed to the handler, once
  and in order; and the hooks for connecting and disconnecting were called in turn, the first
  and the last call being for a connection.\<close>

theorem edge_tunnel_survives:
  assumes acc: "\<And>m a. N \<le> m \<Longrightarrow> dials w m a = DialOk"
    and "edge_connect (dials w) 0 e = Some (None, n, e1)"
  shows "\<exists>tr n' e' bl'.
    edgeTunnel_Start w (map (\<lambda>msgs. map Some msgs @ [None]) mss) e bl = Some (None, tr, n', e', bl') \<and>
    received tr = map (Pair (etName e)) (concat mss) \<and> alternate (tsignals tr) \<and>
    length (tsignals tr) = 2 * length mss + 1 \<and> etClient e' = Some (etName e)"
proof -
  from edge_connect_named [OF acc assms(2)] have "etClient e1 = Some (etName e)" "etName e1 = etName e"
    by blast+
  from edge_loop_survives [OF acc this, of N mss n bl] assms(2) show ?thesis
    by (auto simp: edgeTunnel_Start_def alternate_sessions length_sessions)
qed

theorem edge_tunnel_survives_witness:
  "\<exists>tr n' e' bl'. edgeTunnel_Start sample_restart [[Some ''a'', Some ''b'', None], [None], [Some ''c'', None]]
      (NewEdgeTunnel ''c1'' ''a:1'' '':1'') emptyBlackList = Some (None, tr, n', e', bl') \<and>
    received tr = [(''c1'', ''a''), (''c1'', ''b''), (''c1'', ''c'')] \<and> alternate (tsignals tr) \<and>
    etClient e' = Some ''c1''"
proof -
  have acc: "dials sample_restart m a = DialOk" if "3 \<le> m" for m a
    using that by (simp add: sample_restart_def)
  have con: "edge_connect (dials sample_restart) 0 (NewEdgeTunnel ''c1'' ''a:1'' '':1'') = Some (None, 1,
      (NewEdgeTunnel ''c1'' ''a:1'' '':1'')\<lparr>etUuid := ''c1'', etConfClusterName := ''c1'', etClient := Some ''c1''\<rparr>)"
    by (subst edge_connect.simps) (simp add: sample_restart_def NewEdgeTunnel_def Let_def)
  have "etName (NewEdgeTunnel ''c1'' ''a:1'' '':1'') = ''c1''" by (simp add: NewEdgeTunnel_def)
  with edge_tunnel_survives [of 3, OF acc con, where mss = "[[''a'', ''b''], [], [''c'']]" and bl = emptyBlackList] show ?thesis by auto
qed

text \<open>The choice of the next parent after a failed connection. If some neighbour of the
  parent is neither the current address nor blacklisted, one of these is chosen. Otherwise
  the address that has been on the blacklist longest is taken off and chosen, if it has been
  there for more than ten seconds; if not, the parent stays.\<close>

theorem chooseParentNeighbor_next:
  assumes inv: "blacklist_inv bl" and "chooseParentNeighbor t1 t2 addrs e bl = (ok, e', bl')"
    and "[] \<notin> set addrs" and "[] \<notin> set (addrList bl)" and "cloudAddr e \<noteq> []"
  shows "blacklist_inv bl' \<and>
    (if set addrs \<subseteq> insert (cloudAddr e) (set (addrList bl))
     then let q = (if cloudAddr e \<in> set (addrList bl) then blacklist_abs bl
                   else blacklist_abs bl @ [(cloudAddr e, t1)])
          in if t2 - snd (hd q) \<le> 10 * 10 ^ 9 then \<not> ok \<and> e' = e \<and> blacklist_abs bl' = q
             else ok \<and> e' = e\<lparr>cloudAddr := fst (hd q)\<rparr> \<and> blacklist_abs bl' = tl q
     else ok \<and> cloudAddr e' \<in> set addrs - insert (cloudAddr e) (set (addrList bl)))"
proof -
  obtain a where pick: "cbl.pick_parent t1 t2 addrs (cloudAddr e) bl = (ok, a, bl')"
    "e' = e\<lparr>cloudAddr := a\<rparr>"
    using assms(2) by (auto simp: chooseParentNeighbor_pick split: prod.splits)
  have "[] \<notin> fst ` set (blacklist_abs bl)" using assms(4) by (simp add: fst_blacklist_abs)
  from cbl.pick_parent_cases [OF inv pick(1) assms(3) this assms(5)]
    cbl.pick_parent_inv [OF inv pick(1)]
  show ?thesis
    unfolding fst_blacklist_abs blacklistSeconds_def
    by (elim disjE) (auto simp: pick(2) Let_def)
qed

theorem chooseParentNeighbor_next_witness:
  "chooseParentNeighbor 0 0 [''a'', ''b''] (NewEdgeTunnel ''c1'' ''a'' '':1'') emptyBlackList =
     (True, (NewEdgeTunnel ''c1'' ''a'' '':1'')\<lparr>cloudAddr := ''b''\<rparr>,
      \<lparr>addrList = [''a''], addrMap = [(''a'', 0)]\<rparr>) \<and>
   blacklist_inv \<lparr>addrList = [''a''], addrMap = [(''a'', 0)]\<rparr>"
proof -
  have c: "chooseParentNeighbor 0 0 [''a'', ''b''] (NewEdgeTunnel ''c1'' ''a'' '':1'') emptyBlackList =
     (True, (NewEdgeTunnel ''c1'' ''a'' '':1'')\<lparr>cloudAddr := ''b''\<rparr>,
      \<lparr>addrList = [''a''], addrMap = [(''a'', 0)]\<rparr>)"
    by code_simp
  with chooseParentNeighbor_next [OF _ c] show ?thesis
    by (simp add: emptyBlackList_def NewEdgeTunnel_def blacklist_inv_empty [unfolded emptyBlackList_def])
qed

text \<open>Two redirects in a row make the tunnel forget the configured parent: the address it
  falls back to is the first redirection target, while the field is documented to hold the
  configured address.\<close>

theorem redirect_forgets_parent:
  "map_option (\<lambda>(err, n, e). (err, originCloudAddr e, cloudAddr e))
     (edge_connect (\<lambda>n a. if a = ''A'' then DialRedirect ''B'' else if a = ''B'' then DialRedirect ''C''
                         else DialFailed) 0 (NewEdgeTunnel ''c1'' ''A'' '':1'')) =
   Some (Some NoConnection, ''B'', ''C'')"
  by (simp add: et.connect_step NewEdgeTunnel_def)

section \<open>Sending to the root as a controller manager\<close>

text \<open>A message whose first transmission fails is retransmitted until either a healthy
  connection takes it, or the sender sees a broken connection together with a full channel;
  only in the latter case is it dropped. What happens is decided by the first moment at
  which one of the two holds.\<close>

theorem resend_decided_by_first:
  "recoverAndReSend ws =
     (case dropWhile (\<lambda>w. if wHealth w then \<not> wSendOk w else wChanLen w \<noteq> 1000) ws of
        [] \<Rightarrow> None
      | w # _ \<Rightarrow> Some (if wHealth w then Sent else Dropped))"
  by (simp add: recoverAndReSend_decisive ControllerSendChanBufferSize_def)

section \<open>Choosing a controller manager\<close>

text \<open>The random choice of a controller manager ends, and finds one whenever one of the
  listed addresses is connected, whatever the random numbers and however many stale addresses
  the list has.\<close>

theorem findAController_finds:
  "(case fst (findAController m rnd sl) of
      None \<Rightarrow> set (fst sl) \<inter> dom (go_get m) = {}
    | Some c \<Rightarrow> \<exists>k\<in>set (fst sl). go_get m k = Some c)"
  by (rule findAController_result)

theorem findAController_finds_witness:
  "\<exists>c. fst (findAController [(''b'', 7)] (\<lambda>_. 0) ([''a'', ''b''], [])) = Some c \<and> c = 7"
  using findAController_finds [where m = "[(''b'', 7)]" and rnd = "\<lambda>_. 0" and sl = "([''a'', ''b''], [])"]
  by (auto split: option.splits if_splits)

inductive tunnel_run :: "cloudTunnel \<Rightarrow> bool" where
  run_new: "tunnel_run NewCloudTunnel"
| run_controller: "tunnel_run t \<Longrightarrow> tunnel_run (snd (controllerHandler red up c r t))"
| run_gone: "tunnel_run t \<Longrightarrow> tunnel_run (handleControlMsg_end client t)"
| run_send: "tunnel_run t \<Longrightarrow> tunnel_run (snd (SendToControllerManager write rnd msg t))"

text \<open>When the handlers of controller managers run one after the other, the list of
  addresses always holds each connected controller manager exactly once and no other
  address, and sending a message leaves it alone.\<close>

theorem controllers_keys_agree:
  assumes "tunnel_run t"
  shows "distinct (fst (controllersKey t)) \<and>
    set (fst (controllersKey t)) = dom (go_get (controllers t)) \<and>
    snd (SendToControllerManager write rnd msg t) = t"
proof -
  from assms have "keys_inv t"
    by (induction rule: tunnel_run.induct)
       (auto simp: keys_inv_send intro: keys_inv_handler keys_inv_end)
  from keys_inv_send [OF this] this show ?thesis by (simp add: keys_inv_def)
qed

definition sample_cm_req :: request where
  "sample_cm_req = \<lparr>reqURI = ''/controller'', reqCluster = [], reqListenAddr = [],
     reqUserDefineName = [], reqRemoteAddr = ''m:1''\<rparr>"

theorem controllers_keys_agree_witness:
  "let t = snd (controllerHandler [] True 3 sample_cm_req NewCloudTunnel) in
   fst (controllersKey t) = [''m:1''] \<and> set (fst (controllersKey t)) = dom (go_get (controllers t))"
proof -
  have "tunnel_run (snd (controllerHandler [] True 3 sample_cm_req NewCloudTunnel))"
    by (intro run_controller run_new)
  from controllers_keys_agree [OF this] show ?thesis
    by (simp add: Let_def controllerHandler_def sample_cm_req_def NewCloudTunnel_def
        slice_append_def go_has_def)
qed

text \<open>While a controller manager is just going, the removal of its stale address writes into
  the array under the tunnel's own list: an address there is lost, and the last one doubled.\<close>

theorem send_corrupts_keys:
  "fst (controllersKey (snd (SendToControllerManager (\<lambda>_ _. True) (\<lambda>_. 0) ''x''
     \<lparr>clients = [], controllers = [(''b'', 1), (''c'', 2)], controllersKey = ([''a'', ''b'', ''c''], [])\<rparr>))) =
   [''b'', ''c'', ''c'']"
  by code_simp

section \<open>Admitting a child\<close>

text \<open>A child is admitted exactly when no redirect is configured, it gives its address and
  its name, no child of that name is connected, the name check agrees and the connection can
  be upgraded. Only then is a connection started, for the record the check has filled in.\<close>

theorem accessHandler_admits:
  "accessHandler redirectAddr check upgradeOk t0 r t = (Upgraded, Some cr, as) \<longleftrightarrow>
     redirectAddr = [] \<and> reqListenAddr r \<noteq> [] \<and> reqUserDefineName r \<noteq> [] \<and>
     go_get (clients t) (reqCluster r) = None \<and> upgradeOk \<and>
     check \<lparr>RegName = reqCluster r, RegUserDefineName = reqUserDefineName r,
       RegListen = reqListenAddr r, RegTime = t0, RegParentName = []\<rparr> = (True, cr, as)"
proof -
  obtain ok cr' as' where "check \<lparr>RegName = reqCluster r, RegUserDefineName = reqUserDefineName r,
      RegListen = reqListenAddr r, RegTime = t0, RegParentName = []\<rparr> = (ok, cr', as')"
    by (rule prod_cases3)
  then show ?thesis by (simp add: accessHandler_def go_has_def)
qed

section \<open>The edge handler\<close>

text \<open>However the parent's connection comes and goes, exactly one goroutine reports the
  subtree while it is up, not counting those that still have to take their stop token, of
  which there is at most one; while it is down, all of them are about to stop.\<close>

theorem reporters_balanced:
  assumes "report_run up e"
  shows "eReporters e = stopReportSubtree e + (if up then 1 else 0) \<and> stopReportSubtree e \<le> 1"
  by (rule report_run_balance) (rule assms)

theorem reporters_balanced_witness:
  "eReporters (afterConnect (NewEdgeHandler sample_edge_conf)) =
     stopReportSubtree (afterConnect (NewEdgeHandler sample_edge_conf)) + 1"
  using reporters_balanced [OF run_connect [OF report_run.run_new [of sample_edge_conf]]] by simp

end
