(* ===== verification/Resources.thy ===== *)
theory Resources
  imports K8sClient
begin

text \<open>
  The Kubernetes objects the controller manager mirrors from edge clusters
  (\<^verbatim>\<open>pkg/controllermanager/upstream_processor.go\<close>): their metadata, the naming and version
  rules, and the typed client of one kind of object as a record \<open>kindapi\<close>, an argument of
  the processors. Parts of an object the code never looks into are kept as one value.
\<close>

section \<open>Objects\<close>

record ObjectMeta =
  omNamespace :: string
  omName :: string
  omLabels :: "strmap option"
  omAnnotations :: "strmap option"
  omResourceVersion :: string
  omUID :: string
  omDeletionTimestamp :: "int option"

record 'spec resource =
  rMeta :: ObjectMeta
  rSpec :: 'spec
  rStatus :: bytes

record podSpec =
  ServiceAccountName :: string
  ActiveDeadlineSeconds :: "int option"
  Tolerations :: "string list"
  psRest :: bytes

type_synonym pod = "podSpec resource"
type_synonym object = "bytes resource"

definition ClusterLabel :: string where "ClusterLabel = ''ote-cluster''"
definition EdgeVersionLabel :: string where "EdgeVersionLabel = ''edge-version''"
definition UniqueResourceNameSeparator :: string where "UniqueResourceNameSeparator = ''-''"

text \<open>Reading a label; a missing one, also of a nil map, reads as the empty string.\<close>

definition label :: "ObjectMeta \<Rightarrow> string \<Rightarrow> string" where
  "label m l =
     (case omLabels m of
        None \<Rightarrow> [] | Some ls \<Rightarrow> (case go_get ls l of None \<Rightarrow> [] | Some v \<Rightarrow> v))"

datatype upstream_error =
    NoClusterLabel | BadReport | NotSupported | NoHead | BadMessage | EdgeVersionCheck
  | Api api_error | NoLabel | UnsupportedKind

definition UniqueResourceName :: "ObjectMeta \<Rightarrow> upstream_error + ObjectMeta" where
  "UniqueResourceName obj =
     (if label obj ClusterLabel = [] then Inl NoClusterLabel
      else Inr (obj\<lparr>omName := omName obj @ UniqueResourceNameSeparator @ label obj ClusterLabel\<rparr>))"

definition UniqueFullResourceName :: "string \<Rightarrow> string \<Rightarrow> string" where
  "UniqueFullResourceName name clusterName = name @ UniqueResourceNameSeparator @ clusterName"

definition checkEdgeVersion :: "ObjectMeta \<Rightarrow> ObjectMeta \<Rightarrow> bool" where
  "checkEdgeVersion reportResource storedResource =
     (if omLabels reportResource = None \<or> omLabels storedResource = None then False
      else if label reportResource EdgeVersionLabel = [] \<or> label storedResource EdgeVersionLabel = []
      then False
      else (case strconv_Atoi (label reportResource EdgeVersionLabel) of
              None \<Rightarrow> False
            | Some edgeVersion \<Rightarrow>
                (case strconv_Atoi (label storedResource EdgeVersionLabel) of
                   None \<Rightarrow> False
                 | Some storedVersion \<Rightarrow> \<not> edgeVersion < storedVersion)))"

definition adaptToCentralResource :: "ObjectMeta \<Rightarrow> ObjectMeta \<Rightarrow> ObjectMeta" where
  "adaptToCentralResource reportResource storedResource =
     reportResource\<lparr>omResourceVersion := omResourceVersion storedResource,
       omUID := omUID storedResource\<rparr>"

text \<open>\<^verbatim>\<open>cache.MetaNamespaceKeyFunc\<close> of \<^verbatim>\<open>client-go\<close>: the namespace, if any, a slash, the name.\<close>

definition MetaNamespaceKey :: "ObjectMeta \<Rightarrow> string" where
  "MetaNamespaceKey m = (if omNamespace m = [] then omName m else omNamespace m @ ''/'' @ omName m)"

text \<open>What an informer hands to a handler: an object of the kind, or something else, such as
  \<^verbatim>\<open>DeletedFinalStateUnknown\<close>.\<close>

datatype 'o iobj = Typed 'o | Untyped

section \<open>The typed client of a kind\<close>

text \<open>\<open>kList\<close> takes the label selector; \<open>kRetry\<close> is \<^verbatim>\<open>RetryOnConflict\<close>, whose closures change
  the object they are about as well as the server.\<close>

record ('r, 'k) kindapi =
  kGet :: "string \<Rightarrow> string \<Rightarrow> 'k \<Rightarrow> api_error + 'r"
  kCreate :: "string \<Rightarrow> 'r \<Rightarrow> 'k \<Rightarrow> api_error option \<times> 'k"
  kUpdate :: "string \<Rightarrow> 'r \<Rightarrow> 'k \<Rightarrow> api_error option \<times> 'k"
  kUpdateStatus :: "string \<Rightarrow> 'r \<Rightarrow> 'k \<Rightarrow> api_error option \<times> 'k"
  kDelete :: "string \<Rightarrow> string \<Rightarrow> 'k \<Rightarrow> api_error option \<times> 'k"
  kList :: "string \<Rightarrow> 'k \<Rightarrow> 'r list option"
  kRetry :: "('r \<times> 'k \<Rightarrow> upstream_error option \<times> 'r \<times> 'k) \<Rightarrow> 'r \<times> 'k \<Rightarrow>
    upstream_error option \<times> 'r \<times> 'k"

text \<open>
  Documented behaviour. An object is found under the namespace and name it carries. A write
  that fails changes nothing. A write that succeeds stores the object under its name: an
  update needs the resource version of the stored object, changes the version, and, as the
  status is a subresource, takes everything but the status. \<^verbatim>\<open>UpdateStatus\<close> takes the
  status; the labels become those given or stay, depending on the kind. Deleting removes the
  object. No call touches another object.
\<close>

definition same_object :: "'spec resource \<Rightarrow> 'spec resource \<Rightarrow> bool" where
  "same_object a b \<longleftrightarrow> omNamespace (rMeta a) = omNamespace (rMeta b) \<and>
     omName (rMeta a) = omName (rMeta b) \<and> omLabels (rMeta a) = omLabels (rMeta b)"

definition frame ::
  "('spec resource, 'k) kindapi \<Rightarrow> string \<Rightarrow> string \<Rightarrow> 'k \<Rightarrow> 'k \<Rightarrow> bool" where
  "frame K ns n k k' \<longleftrightarrow> (\<forall>ns' n'. (ns', n') \<noteq> (ns, n) \<longrightarrow> kGet K ns' n' k' = kGet K ns' n' k)"

definition kwrite_ok ::
  "('spec resource, 'k) kindapi \<Rightarrow> (string \<Rightarrow> 'spec resource \<Rightarrow> 'k \<Rightarrow> api_error option \<times> 'k) \<Rightarrow> bool"
  where
  "kwrite_ok K w \<longleftrightarrow>
     (\<forall>ns r k e k'. w ns r k = (e, k') \<longrightarrow>
        (if e \<noteq> None then k' = k
         else frame K ns (omName (rMeta r)) k k' \<and>
           (\<exists>r'. kGet K ns (omName (rMeta r)) k' = Inr r' \<and> same_object r' r)))"

definition kstatus_ok ::
  "('spec resource, 'k) kindapi \<Rightarrow> (string \<Rightarrow> 'spec resource \<Rightarrow> 'k \<Rightarrow> api_error option \<times> 'k) \<Rightarrow> bool"
  where
  "kstatus_ok K w \<longleftrightarrow>
     (\<forall>ns r k e k'. w ns r k = (e, k') \<longrightarrow>
        (if e \<noteq> None then k' = k
         else frame K ns (omName (rMeta r)) k k' \<and>
           (\<exists>r'. kGet K ns (omName (rMeta r)) k' = Inr r' \<and>
              (omLabels (rMeta r') = omLabels (rMeta r) \<or>
               (\<exists>old. kGet K ns (omName (rMeta r)) k = Inr old \<and>
                  omLabels (rMeta r') = omLabels (rMeta old))))))"

definition kdelete_ok :: "('spec resource, 'k) kindapi \<Rightarrow> bool" where
  "kdelete_ok K \<longleftrightarrow>
     (\<forall>ns n k e k'. kDelete K ns n k = (e, k') \<longrightarrow>
        (if e \<noteq> None then k' = k else frame K ns n k k' \<and> kGet K ns n k' = Inl NotFound))"

definition kget_ok :: "('spec resource, 'k) kindapi \<Rightarrow> bool" where
  "kget_ok K \<longleftrightarrow>
     (\<forall>ns n k r. kGet K ns n k = Inr r \<longrightarrow> omNamespace (rMeta r) = ns \<and> omName (rMeta r) = n)"

text \<open>Listing with an equality selector on a label value, a nonempty string of letters, digits
  and the characters \<open>- _ .\<close>, returns the stored objects with that label.\<close>

definition label_char :: "char \<Rightarrow> bool" where
  "label_char c = (let n = of_char c :: nat in
     97 \<le> n \<and> n \<le> 122 \<or> 65 \<le> n \<and> n \<le> 90 \<or> 48 \<le> n \<and> n \<le> 57 \<or> c \<in> set ''-_.'')"

definition label_value :: "string \<Rightarrow> bool" where
  "label_value v \<longleftrightarrow> v \<noteq> [] \<and> list_all label_char v"

definition klist_ok :: "('spec resource, 'k) kindapi \<Rightarrow> bool" where
  "klist_ok K \<longleftrightarrow>
     (\<forall>l v k rs. kList K (l @ ''='' @ v) k = Some rs \<longrightarrow> CHR ''='' \<notin> set l \<longrightarrow> label_value v \<longrightarrow>
        (\<forall>r. r \<in> set rs \<longleftrightarrow>
           kGet K (omNamespace (rMeta r)) (omName (rMeta r)) k = Inr r \<and> label (rMeta r) l = v))"

fun kretry_runs ::
  "nat \<Rightarrow> ('s \<Rightarrow> upstream_error option \<times> 's) \<Rightarrow> 's \<Rightarrow> upstream_error option \<times> 's" where
  "kretry_runs 0 f s = f s"
| "kretry_runs (Suc n) f s =
     (case f s of (e, s') \<Rightarrow> if e = Some (Api Conflict) then kretry_runs n f s' else (e, s'))"

definition kretry_ok :: "('spec resource, 'k) kindapi \<Rightarrow> bool" where
  "kretry_ok K \<longleftrightarrow> (\<forall>f s. \<exists>n. kRetry K f s = kretry_runs n f s)"

definition kind_ok :: "('spec resource, 'k) kindapi \<Rightarrow> bool" where
  "kind_ok K \<longleftrightarrow> kget_ok K \<and> kwrite_ok K (kCreate K) \<and> kwrite_ok K (kUpdate K) \<and>
     kstatus_ok K (kUpdateStatus K) \<and> kdelete_ok K \<and> klist_ok K \<and> kretry_ok K"

end
