(* ===== verification/Upstream.thy ===== *)
theory Upstream
  imports Resources Message
begin

text \<open>
  The controller manager's upstream processor (\<^verbatim>\<open>pkg/controllermanager\<close>): reports of edge
  clusters are mirrored into the central API server. Deployments, daemon sets and services
  are handled by three copies of the same code, nodes by a fourth with another way of
  creating, and pods by a fifth with rules for the spec and for pods being deleted. The
  copies are instances of the operations \<open>res_...\<close> below.

  A report is decoded by JSON, an argument. A map of a report may hold a nil object, whose
  metadata the code dereferences: such a handler returns \<open>None\<close>, the panic.
\<close>

section \<open>The shared code\<close>

text \<open>\<open>nsOf\<close> yields the namespace the client is asked for: the object's, or none for nodes.\<close>

definition res_Get ::
  "(ObjectMeta \<Rightarrow> string) \<Rightarrow> ('spec resource, 'k) kindapi \<Rightarrow> 'spec resource \<Rightarrow> 'k \<Rightarrow>
   api_error + 'spec resource" where
  "res_Get nsOf K r k = kGet K (nsOf (rMeta r)) (omName (rMeta r)) k"

definition clearedVersion :: "'spec resource \<Rightarrow> 'spec resource" where
  "clearedVersion r = r\<lparr>rMeta := (rMeta r)\<lparr>omResourceVersion := []\<rparr>\<rparr>"

definition res_Create ::
  "(ObjectMeta \<Rightarrow> string) \<Rightarrow> ('spec resource, 'k) kindapi \<Rightarrow> 'spec resource \<Rightarrow> 'k \<Rightarrow>
   upstream_error option \<times> 'k" where
  "res_Create nsOf K r k =
     (case kCreate K (nsOf (rMeta r)) (clearedVersion r) k of (e, k') \<Rightarrow> (map_option Api e, k'))"

text \<open>The closure of the two retried writes: \<open>write\<close> is the update or the update of the
  status, given the stored and the new object, \<open>adapt\<close> what is taken over from the stored
  object.\<close>

definition res_updateOnce ::
  "('spec resource \<Rightarrow> 'k \<Rightarrow> api_error + 'spec resource) \<Rightarrow>
   ('spec resource \<Rightarrow> 'spec resource \<Rightarrow> 'spec resource) \<Rightarrow>
   ('spec resource \<Rightarrow> 'spec resource \<Rightarrow> 'k \<Rightarrow> api_error option \<times> 'k) \<Rightarrow>
   'spec resource \<times> 'k \<Rightarrow> upstream_error option \<times> 'spec resource \<times> 'k" where
  "res_updateOnce get adapt write s =
     (case s of (r, k) \<Rightarrow>
        case get r k of
          Inl e \<Rightarrow> (Some (Api e), r, k)
        | Inr storedObj \<Rightarrow>
            if \<not> checkEdgeVersion (rMeta r) (rMeta storedObj) then (Some EdgeVersionCheck, r, k)
            else
              let r' = adapt r storedObj in
              (case write storedObj r' k of (e, k') \<Rightarrow> (map_option Api e, r', k')))"

definition adaptMeta :: "'spec resource \<Rightarrow> 'spec resource \<Rightarrow> 'spec resource" where
  "adaptMeta r storedObj = r\<lparr>rMeta := adaptToCentralResource (rMeta r) (rMeta storedObj)\<rparr>"

definition res_updateWith ::
  "('spec resource, 'k) kindapi \<Rightarrow> ('spec resource \<Rightarrow> 'k \<Rightarrow> api_error + 'spec resource) \<Rightarrow>
   ('spec resource \<Rightarrow> 'spec resource \<Rightarrow> 'spec resource) \<Rightarrow>
   ('spec resource \<Rightarrow> 'spec resource \<Rightarrow> string) \<Rightarrow>
   'spec resource \<Rightarrow> 'k \<Rightarrow> upstream_error option \<times> 'k" where
  "res_updateWith K get adapt wns r k =
     (case kRetry K (res_updateOnce get adapt (\<lambda>st r. kUpdate K (wns st r) r)) (r, k) of
        (Some e, _, k1) \<Rightarrow> (Some e, k1)
      | (None, r1, k1) \<Rightarrow>
          (case kRetry K (res_updateOnce get adaptMeta (\<lambda>st r. kUpdateStatus K (wns st r) r)) (r1, k1) of
             (e, _, k2) \<Rightarrow> (e, k2)))"

definition res_Update ::
  "(ObjectMeta \<Rightarrow> string) \<Rightarrow> ('spec resource, 'k) kindapi \<Rightarrow> 'spec resource \<Rightarrow> 'k \<Rightarrow>
   upstream_error option \<times> 'k" where
  "res_Update nsOf K r k =
     res_updateWith K (res_Get nsOf K) adaptMeta (\<lambda>st r. nsOf (rMeta r)) r k"

definition res_CreateOrUpdate ::
  "(ObjectMeta \<Rightarrow> string) \<Rightarrow> ('spec resource, 'k) kindapi \<Rightarrow> 'spec resource \<Rightarrow> 'k \<Rightarrow>
   upstream_error option \<times> 'k" where
  "res_CreateOrUpdate nsOf K r k =
     (case res_Get nsOf K r k of
        Inl NotFound \<Rightarrow>
          (case res_Create nsOf K r k of
             (Some e, k1) \<Rightarrow> (Some e, k1)
           | (None, k1) \<Rightarrow> res_Update nsOf K (clearedVersion r) k1)
      | Inl e \<Rightarrow> (Some (Api e), k)
      | Inr _ \<Rightarrow> res_Update nsOf K r k)"

definition res_Delete ::
  "(ObjectMeta \<Rightarrow> string) \<Rightarrow> ('spec resource, 'k) kindapi \<Rightarrow> 'spec resource \<Rightarrow> 'k \<Rightarrow>
   upstream_error option \<times> 'k" where
  "res_Delete nsOf K r k =
     (case kDelete K (nsOf (rMeta r)) (omName (rMeta r)) k of (e, k') \<Rightarrow> (map_option Api e, k'))"

text \<open>The loop over one of the maps of a report.\<close>

fun eachObj :: "('r \<Rightarrow> 'k \<Rightarrow> 'k) \<Rightarrow> (string, 'r option) gomap \<Rightarrow> 'k \<Rightarrow> 'k option" where
  "eachObj f [] k = Some k"
| "eachObj f ((_, None) # m) k = None"
| "eachObj f ((_, Some r) # m) k = eachObj f m (f r k)"

text \<open>Its body: rename the object, then apply the operation; errors are logged only.\<close>

definition renamedDo ::
  "('spec resource \<Rightarrow> 'k \<Rightarrow> upstream_error option \<times> 'k) \<Rightarrow> 'spec resource \<Rightarrow> 'k \<Rightarrow> 'k" where
  "renamedDo f r k =
     (case UniqueResourceName (rMeta r) of
        Inl _ \<Rightarrow> k
      | Inr meta \<Rightarrow> snd (f (r\<lparr>rMeta := meta\<rparr>) k))"

definition res_UpdateMap ::
  "('spec resource \<Rightarrow> 'k \<Rightarrow> upstream_error option \<times> 'k) \<Rightarrow> (string, 'spec resource option) gomap \<Rightarrow>
   'k \<Rightarrow> 'k option" where
  "res_UpdateMap createOrUpdate updateMap k = eachObj (renamedDo createOrUpdate) updateMap k"

definition res_DelMap ::
  "('spec resource \<Rightarrow> 'k \<Rightarrow> upstream_error option \<times> 'k) \<Rightarrow> (string, 'spec resource option) gomap \<Rightarrow>
   'k \<Rightarrow> 'k option" where
  "res_DelMap delete delMap k = eachObj (renamedDo delete) delMap k"

definition res_FullList ::
  "('spec resource, 'k) kindapi \<Rightarrow> ('spec resource \<Rightarrow> 'k \<Rightarrow> upstream_error option \<times> 'k) \<Rightarrow>
   string \<Rightarrow> string list \<Rightarrow> 'k \<Rightarrow> 'k" where
  "res_FullList K delete clusterName fullList k =
     (let edgeList = map (\<lambda>key. UniqueFullResourceName key clusterName) fullList in
      case kList K (ClusterLabel @ ''='' @ clusterName) k of
        None \<Rightarrow> k
      | Some items \<Rightarrow>
          fold (\<lambda>r k. if MetaNamespaceKey (rMeta r) \<in> set edgeList then k else snd (delete r k))
            items k)"

record 'r reportStatus =
  UpdateMap :: "(string, 'r option) gomap option"
  DelMap :: "(string, 'r option) gomap option"
  FullList :: "string list option"

text \<open>A report: the full list first, then the updates, then the deletions. \<open>skipEmpty\<close> holds
  for pods only, whose handler ignores an empty list.\<close>

definition res_Report ::
  "bool \<Rightarrow> (string list \<Rightarrow> 'k \<Rightarrow> 'k) \<Rightarrow> ((string, 'r option) gomap \<Rightarrow> 'k \<Rightarrow> 'k option) \<Rightarrow>
   ((string, 'r option) gomap \<Rightarrow> 'k \<Rightarrow> 'k option) \<Rightarrow> 'r reportStatus \<Rightarrow> 'k \<Rightarrow> 'k option" where
  "res_Report skipEmpty handleFullList handleUpdateMap handleDelMap rs k =
     (let k1 = (case FullList rs of
                  None \<Rightarrow> k
                | Some l \<Rightarrow> if skipEmpty \<and> l = [] then k else handleFullList l k)
      in case (case UpdateMap rs of None \<Rightarrow> Some k1 | Some m \<Rightarrow> handleUpdateMap m k1) of
           None \<Rightarrow> None
         | Some k2 \<Rightarrow> (case DelMap rs of None \<Rightarrow> Some k2 | Some m \<Rightarrow> handleDelMap m k2))"

text \<open>With the decoding in front; a body that does not decode is an error without effect.\<close>

definition decoded ::
  "(bytes \<Rightarrow> 'r reportStatus option) \<Rightarrow> ('r reportStatus \<Rightarrow> 'k \<Rightarrow> 'k option) \<Rightarrow> bytes \<Rightarrow> 'k \<Rightarrow>
   (upstream_error option \<times> 'k) option" where
  "decoded dec handle b k =
     (case dec b of
        None \<Rightarrow> Some (Some BadReport, k)
      | Some rs \<Rightarrow> map_option (\<lambda>k'. (None, k')) (handle rs k))"

section \<open>Deployments\<close>

definition GetDeployment :: "(object, 'k) kindapi \<Rightarrow> object \<Rightarrow> 'k \<Rightarrow> api_error + object" where
  "GetDeployment K r k = res_Get omNamespace K r k"

definition CreateDeployment :: "(object, 'k) kindapi \<Rightarrow> object \<Rightarrow> 'k \<Rightarrow> upstream_error option \<times> 'k" where
  "CreateDeployment K r k = res_Create omNamespace K r k"

definition UpdateDeployment :: "(object, 'k) kindapi \<Rightarrow> object \<Rightarrow> 'k \<Rightarrow> upstream_error option \<times> 'k" where
  "UpdateDeployment K r k = res_Update omNamespace K r k"

definition CreateOrUpdateDeployment ::
  "(object, 'k) kindapi \<Rightarrow> object \<Rightarrow> 'k \<Rightarrow> upstream_error option \<times> 'k" where
  "CreateOrUpdateDeployment K r k = res_CreateOrUpdate omNamespace K r k"

definition DeleteDeployment :: "(object, 'k) kindapi \<Rightarrow> object \<Rightarrow> 'k \<Rightarrow> upstream_error option \<times> 'k" where
  "DeleteDeployment K r k = res_Delete omNamespace K r k"

definition handleDeploymentFullList :: "(object, 'k) kindapi \<Rightarrow> string \<Rightarrow> string list \<Rightarrow> 'k \<Rightarrow> 'k" where
  "handleDeploymentFullList K clusterName fullList k =
     res_FullList K (DeleteDeployment K) clusterName fullList k"

definition handleDeploymentUpdateMap ::
  "(object, 'k) kindapi \<Rightarrow> (string, object option) gomap \<Rightarrow> 'k \<Rightarrow> 'k option" where
  "handleDeploymentUpdateMap K updateMap k = res_UpdateMap (CreateOrUpdateDeployment K) updateMap k"

definition handleDeploymentDelMap ::
  "(object, 'k) kindapi \<Rightarrow> (string, object option) gomap \<Rightarrow> 'k \<Rightarrow> 'k option" where
  "handleDeploymentDelMap K delMap k = res_DelMap (DeleteDeployment K) delMap k"

definition handleDeploymentReport ::
  "(object, 'k) kindapi \<Rightarrow> (bytes \<Rightarrow> object reportStatus option) \<Rightarrow> string \<Rightarrow> bytes \<Rightarrow> 'k \<Rightarrow>
   (upstream_error option \<times> 'k) option" where
  "handleDeploymentReport K dec clusterName b k =
     decoded dec
       (res_Report False (handleDeploymentFullList K clusterName) (handleDeploymentUpdateMap K)
         (handleDeploymentDelMap K)) b k"

section \<open>Daemon sets\<close>

definition GetDaemonset :: "(object, 'k) kindapi \<Rightarrow> object \<Rightarrow> 'k \<Rightarrow> api_error + object" where
  "GetDaemonset K r k = res_Get omNamespace K r k"

definition CreateDaemonset :: "(object, 'k) kindapi \<Rightarrow> object \<Rightarrow> 'k \<Rightarrow> upstream_error option \<times> 'k" where
  "CreateDaemonset K r k = res_Create omNamespace K r k"

definition UpdateDaemonset :: "(object, 'k) kindapi \<Rightarrow> object \<Rightarrow> 'k \<Rightarrow> upstream_error option \<times> 'k" where
  "UpdateDaemonset K r k = res_Update omNamespace K r k"

definition CreateOrUpdateDaemonset ::
  "(object, 'k) kindapi \<Rightarrow> object \<Rightarrow> 'k \<Rightarrow> upstream_error option \<times> 'k" where
  "CreateOrUpdateDaemonset K r k = res_CreateOrUpdate omNamespace K r k"

definition DeleteDaemonset :: "(object, 'k) kindapi \<Rightarrow> object \<Rightarrow> 'k \<Rightarrow> upstream_error option \<times> 'k" where
  "DeleteDaemonset K r k = res_Delete omNamespace K r k"

definition handleDaemonsetFullList :: "(object, 'k) kindapi \<Rightarrow> string \<Rightarrow> string list \<Rightarrow> 'k \<Rightarrow> 'k" where
  "handleDaemonsetFullList K clusterName fullList k =
     res_FullList K (DeleteDaemonset K) clusterName fullList k"

definition handleDaemonsetUpdateMap ::
  "(object, 'k) kindapi \<Rightarrow> (string, object option) gomap \<Rightarrow> 'k \<Rightarrow> 'k option" where
  "handleDaemonsetUpdateMap K updateMap k = res_UpdateMap (CreateOrUpdateDaemonset K) updateMap k"

definition handleDaemonsetDelMap ::
  "(object, 'k) kindapi \<Rightarrow> (string, object option) gomap \<Rightarrow> 'k \<Rightarrow> 'k option" where
  "handleDaemonsetDelMap K delMap k = res_DelMap (DeleteDaemonset K) delMap k"

definition handleDaemonsetReport ::
  "(object, 'k) kindapi \<Rightarrow> (bytes \<Rightarrow> object reportStatus option) \<Rightarrow> string \<Rightarrow> bytes \<Rightarrow> 'k \<Rightarrow>
   (upstream_error option \<times> 'k) option" where
  "handleDaemonsetReport K dec clusterName b k =
     decoded dec
       (res_Report False (handleDaemonsetFullList K clusterName) (handleDaemonsetUpdateMap K)
         (handleDaemonsetDelMap K)) b k"

section \<open>Services\<close>

definition GetService :: "(object, 'k) kindapi \<Rightarrow> object \<Rightarrow> 'k \<Rightarrow> api_error + object" where
  "GetService K r k = res_Get omNamespace K r k"

definition CreateService :: "(object, 'k) kindapi \<Rightarrow> object \<Rightarrow> 'k \<Rightarrow> upstream_error option \<times> 'k" where
  "CreateService K r k = res_Create omNamespace K r k"

definition UpdateService :: "(object, 'k) kindapi \<Rightarrow> object \<Rightarrow> 'k \<Rightarrow> upstream_error option \<times> 'k" where
  "UpdateService K r k = res_Update omNamespace K r k"

definition CreateOrUpdateService ::
  "(object, 'k) kindapi \<Rightarrow> object \<Rightarrow> 'k \<Rightarrow> upstream_error option \<times> 'k" where
  "CreateOrUpdateService K r k = res_CreateOrUpdate omNamespace K r k"

definition DeleteService :: "(object, 'k) kindapi \<Rightarrow> object \<Rightarrow> 'k \<Rightarrow> upstream_error option \<times> 'k" where
  "DeleteService K r k = res_Delete omNamespace K r k"

definition handleServiceFullList :: "(object, 'k) kindapi \<Rightarrow> string \<Rightarrow> string list \<Rightarrow> 'k \<Rightarrow> 'k" where
  "handleServiceFullList K clusterName fullList k =
     res_FullList K (DeleteService K) clusterName fullList k"

definition handleServiceUpdateMap ::
  "(object, 'k) kindapi \<Rightarrow> (string, object option) gomap \<Rightarrow> 'k \<Rightarrow> 'k option" where
  "handleServiceUpdateMap K updateMap k = res_UpdateMap (CreateOrUpdateService K) updateMap k"

definition handleServiceDelMap ::
  "(object, 'k) kindapi \<Rightarrow> (string, object option) gomap \<Rightarrow> 'k \<Rightarrow> 'k option" where
  "handleServiceDelMap K delMap k = res_DelMap (DeleteService K) delMap k"

definition handleServiceReport ::
  "(object, 'k) kindapi \<Rightarrow> (bytes \<Rightarrow> object reportStatus option) \<Rightarrow> string \<Rightarrow> bytes \<Rightarrow> 'k \<Rightarrow>
   (upstream_error option \<times> 'k) option" where
  "handleServiceReport K dec clusterName b k =
     decoded dec
       (res_Report False (handleServiceFullList K clusterName) (handleServiceUpdateMap K)
         (handleServiceDelMap K)) b k"

section \<open>Nodes\<close>

text \<open>Nodes have no namespace, and a node that has just been created is not updated.\<close>

definition GetNode :: "(object, 'k) kindapi \<Rightarrow> object \<Rightarrow> 'k \<Rightarrow> api_error + object" where
  "GetNode K r k = res_Get (\<lambda>_. []) K r k"

definition CreateNode :: "(object, 'k) kindapi \<Rightarrow> object \<Rightarrow> 'k \<Rightarrow> upstream_error option \<times> 'k" where
  "CreateNode K r k = res_Create (\<lambda>_. []) K r k"

definition UpdateNode :: "(object, 'k) kindapi \<Rightarrow> object \<Rightarrow> 'k \<Rightarrow> upstream_error option \<times> 'k" where
  "UpdateNode K r k = res_Update (\<lambda>_. []) K r k"

definition CreateOrUpdateNode ::
  "(object, 'k) kindapi \<Rightarrow> object \<Rightarrow> 'k \<Rightarrow> upstream_error option \<times> 'k" where
  "CreateOrUpdateNode K r k =
     (case GetNode K r k of
        Inl NotFound \<Rightarrow> CreateNode K r k
      | Inl e \<Rightarrow> (Some (Api e), k)
      | Inr _ \<Rightarrow> UpdateNode K r k)"

definition DeleteNode :: "(object, 'k) kindapi \<Rightarrow> object \<Rightarrow> 'k \<Rightarrow> upstream_error option \<times> 'k" where
  "DeleteNode K r k = res_Delete (\<lambda>_. []) K r k"

definition handleNodeFullList :: "(object, 'k) kindapi \<Rightarrow> string \<Rightarrow> string list \<Rightarrow> 'k \<Rightarrow> 'k" where
  "handleNodeFullList K clusterName fullList k =
     res_FullList K (DeleteNode K) clusterName fullList k"

definition handleNodeUpdateMap ::
  "(object, 'k) kindapi \<Rightarrow> (string, object option) gomap \<Rightarrow> 'k \<Rightarrow> 'k option" where
  "handleNodeUpdateMap K updateMap k = res_UpdateMap (CreateOrUpdateNode K) updateMap k"

definition handleNodeDelMap ::
  "(object, 'k) kindapi \<Rightarrow> (string, object option) gomap \<Rightarrow> 'k \<Rightarrow> 'k option" where
  "handleNodeDelMap K delMap k = res_DelMap (DeleteNode K) delMap k"

definition handleNodeReport ::
  "(object, 'k) kindapi \<Rightarrow> (bytes \<Rightarrow> object reportStatus option) \<Rightarrow> string \<Rightarrow> bytes \<Rightarrow> 'k \<Rightarrow>
   (upstream_error option \<times> 'k) option" where
  "handleNodeReport K dec clusterName b k =
     decoded dec
       (res_Report False (handleNodeFullList K clusterName) (handleNodeUpdateMap K)
         (handleNodeDelMap K)) b k"

section \<open>Pods\<close>

definition GetPod :: "(pod, 'k) kindapi \<Rightarrow> pod \<Rightarrow> 'k \<Rightarrow> api_error + pod" where
  "GetPod K r k = res_Get omNamespace K r k"

text \<open>What \<^verbatim>\<open>CreatePod\<close> clears in the pod it is given.\<close>

definition clearedPod :: "pod \<Rightarrow> pod" where
  "clearedPod r = r\<lparr>rMeta := (rMeta r)\<lparr>omResourceVersion := []\<rparr>,
     rSpec := (rSpec r)\<lparr>ServiceAccountName := []\<rparr>\<rparr>"

definition CreatePod :: "(pod, 'k) kindapi \<Rightarrow> pod \<Rightarrow> 'k \<Rightarrow> upstream_error option \<times> 'k" where
  "CreatePod K r k =
     (case kCreate K (omNamespace (rMeta r)) (clearedPod r) k of (e, k') \<Rightarrow> (map_option Api e, k'))"

text \<open>The spec of the stored pod with the two fields that may change, from the copy of the pod
  taken at the start.\<close>

definition adaptPod :: "pod \<Rightarrow> pod \<Rightarrow> pod \<Rightarrow> pod" where
  "adaptPod copyPod r storedPod =
     (adaptMeta r storedPod)\<lparr>rSpec := (rSpec storedPod)
        \<lparr>ActiveDeadlineSeconds := ActiveDeadlineSeconds (rSpec copyPod),
         Tolerations := Tolerations (rSpec copyPod)\<rparr>\<rparr>"

definition UpdatePod :: "(pod, 'k) kindapi \<Rightarrow> pod \<Rightarrow> 'k \<Rightarrow> upstream_error option \<times> 'k" where
  "UpdatePod K r k = res_updateWith K (GetPod K) (adaptPod r) (\<lambda>st r. omNamespace (rMeta st)) r k"

definition DeletePod :: "(pod, 'k) kindapi \<Rightarrow> pod \<Rightarrow> 'k \<Rightarrow> upstream_error option \<times> 'k" where
  "DeletePod K r k = res_Delete omNamespace K r k"

definition CreateOrUpdatePod :: "(pod, 'k) kindapi \<Rightarrow> pod \<Rightarrow> 'k \<Rightarrow> upstream_error option \<times> 'k" where
  "CreateOrUpdatePod K r k =
     (if omDeletionTimestamp (rMeta r) \<noteq> None then DeletePod K r k
      else (case GetPod K r k of
              Inl NotFound \<Rightarrow>
                (case CreatePod K r k of
                   (Some e, k1) \<Rightarrow> (Some e, k1)
                 | (None, k1) \<Rightarrow> UpdatePod K (clearedPod r) k1)
            | Inl e \<Rightarrow> (Some (Api e), k)
            | Inr _ \<Rightarrow> UpdatePod K r k))"

definition handlePodFullList :: "(pod, 'k) kindapi \<Rightarrow> string \<Rightarrow> string list \<Rightarrow> 'k \<Rightarrow> 'k" where
  "handlePodFullList K clusterName fullList k =
     res_FullList K (DeletePod K) clusterName fullList k"

definition handlePodUpdateMap ::
  "(pod, 'k) kindapi \<Rightarrow> (string, pod option) gomap \<Rightarrow> 'k \<Rightarrow> 'k option" where
  "handlePodUpdateMap K updateMap k = res_UpdateMap (CreateOrUpdatePod K) updateMap k"

definition handlePodDelMap ::
  "(pod, 'k) kindapi \<Rightarrow> (string, pod option) gomap \<Rightarrow> 'k \<Rightarrow> 'k option" where
  "handlePodDelMap K delMap k = res_DelMap (DeletePod K) delMap k"

definition handlePodReport ::
  "(pod, 'k) kindapi \<Rightarrow> (bytes \<Rightarrow> pod reportStatus option) \<Rightarrow> string \<Rightarrow> bytes \<Rightarrow> 'k \<Rightarrow>
   (upstream_error option \<times> 'k) option" where
  "handlePodReport K dec clusterName b k =
     decoded dec
       (res_Report True (handlePodFullList K clusterName) (handlePodUpdateMap K)
         (handlePodDelMap K)) b k"

section \<open>Events\<close>

record objectRef =
  refKind :: string
  refNamespace :: string
  refName :: string
  refUID :: string
  refRest :: bytes

record eventSpec =
  InvolvedObject :: objectRef
  evRest :: bytes

type_synonym event = "eventSpec resource"

definition MirrorPodAnnotationKey :: string where
  "MirrorPodAnnotationKey = ''kubernetes.io/config.mirror''"

text \<open>\<open>podRef\<close> and \<open>nodeRef\<close> are \<^verbatim>\<open>ref.GetReference\<close> of \<^verbatim>\<open>client-go\<close> at the two types.\<close>

definition relateToPodOrNode ::
  "(pod, 'k) kindapi \<Rightarrow> (object, 'k) kindapi \<Rightarrow> (pod \<Rightarrow> objectRef option) \<Rightarrow>
   (object \<Rightarrow> objectRef option) \<Rightarrow> event \<Rightarrow> 'k \<Rightarrow> upstream_error + event" where
  "relateToPodOrNode pods nodes podRef nodeRef ev k =
     (if label (rMeta ev) ClusterLabel = [] then Inl NoLabel
      else
        let io = InvolvedObject (rSpec ev);
            resourceName = refName io @ UniqueResourceNameSeparator @ label (rMeta ev) ClusterLabel
        in if refKind io = ''Pod''
           then (case kGet pods (refNamespace io) resourceName k of
                   Inl e \<Rightarrow> Inl (Api e)
                 | Inr storedPod \<Rightarrow>
                     (case podRef storedPod of
                        None \<Rightarrow> Inl BadReport
                      | Some obj \<Rightarrow>
                          let uid = (case omAnnotations (rMeta storedPod) of
                                       None \<Rightarrow> None | Some a \<Rightarrow> go_get a MirrorPodAnnotationKey);
                              obj' = (case uid of None \<Rightarrow> obj | Some u \<Rightarrow> obj\<lparr>refUID := u\<rparr>)
                          in Inr (ev\<lparr>rSpec := (rSpec ev)\<lparr>InvolvedObject := obj'\<rparr>\<rparr>)))
           else if refKind io = ''Node''
           then (case kGet nodes [] resourceName k of
                   Inl e \<Rightarrow> Inl (Api e)
                 | Inr storedNode \<Rightarrow>
                     (case nodeRef storedNode of
                        None \<Rightarrow> Inl BadReport
                      | Some obj \<Rightarrow>
                          Inr (ev\<lparr>rSpec := (rSpec ev)\<lparr>InvolvedObject := obj\<lparr>refUID := refName obj\<rparr>\<rparr>\<rparr>)))
           else Inl UnsupportedKind)"

definition CreateEvent :: "(event, 'k) kindapi \<Rightarrow> event \<Rightarrow> 'k \<Rightarrow> upstream_error option \<times> 'k" where
  "CreateEvent K r k = res_Create omNamespace K r k"

definition DeleteEvent :: "(event, 'k) kindapi \<Rightarrow> event \<Rightarrow> 'k \<Rightarrow> upstream_error option \<times> 'k" where
  "DeleteEvent K r k = res_Delete omNamespace K r k"

section \<open>The processor\<close>

record report =
  ResourceType :: int
  ReportBody :: bytes

definition ResourceTypeNode :: int where "ResourceTypeNode = 1"
definition ResourceTypePod :: int where "ResourceTypePod = 2"
definition ResourceTypeDeployment :: int where "ResourceTypeDeployment = 3"
definition ResourceTypeDaemonset :: int where "ResourceTypeDaemonset = 4"
definition ResourceTypeService :: int where "ResourceTypeService = 5"
definition ResourceTypeStatefulset :: int where "ResourceTypeStatefulset = 6"
definition ResourceTypeClusterStatus :: int where "ResourceTypeClusterStatus = 7"
definition ResourceTypeEvent :: int where "ResourceTypeEvent = 8"

lemmas resource_type_defs =
  ResourceTypeNode_def ResourceTypePod_def ResourceTypeDeployment_def ResourceTypeDaemonset_def
  ResourceTypeService_def ResourceTypeStatefulset_def ResourceTypeClusterStatus_def
  ResourceTypeEvent_def

text \<open>The clients and the decoders the processor uses.\<close>

record 'k upenv =
  upCodec :: codecs
  upPods :: "(pod, 'k) kindapi"
  upNodes :: "(object, 'k) kindapi"
  upDeployments :: "(object, 'k) kindapi"
  upDaemonsets :: "(object, 'k) kindapi"
  upServices :: "(object, 'k) kindapi"
  upEvents :: "(event, 'k) kindapi"
  upOte :: "'k oteapi"
  upPodRef :: "pod \<Rightarrow> objectRef option"
  upNodeRef :: "object \<Rightarrow> objectRef option"
  decReports :: "bytes \<Rightarrow> report list option"
  decPods :: "bytes \<Rightarrow> pod reportStatus option"
  decNodes :: "bytes \<Rightarrow> object reportStatus option"
  decDeployments :: "bytes \<Rightarrow> object reportStatus option"
  decDaemonsets :: "bytes \<Rightarrow> object reportStatus option"
  decServices :: "bytes \<Rightarrow> object reportStatus option"
  decEvents :: "bytes \<Rightarrow> event reportStatus option"
  decStatus :: "bytes \<Rightarrow> ClusterStatus option"

definition CenterCreateEvent :: "'k upenv \<Rightarrow> (string, event option) gomap \<Rightarrow> 'k \<Rightarrow> 'k option" where
  "CenterCreateEvent env updateMap k =
     eachObj (renamedDo (\<lambda>ev k.
         case relateToPodOrNode (upPods env) (upNodes env) (upPodRef env) (upNodeRef env) ev k of
           Inl e \<Rightarrow> (Some e, k)
         | Inr ev' \<Rightarrow> CreateEvent (upEvents env) ev' k))
       updateMap k"

definition CenterDeleteEvent :: "'k upenv \<Rightarrow> (string, event option) gomap \<Rightarrow> 'k \<Rightarrow> 'k option" where
  "CenterDeleteEvent env delMap k = eachObj (renamedDo (DeleteEvent (upEvents env))) delMap k"

definition handleEventReport :: "'k upenv \<Rightarrow> bytes \<Rightarrow> 'k \<Rightarrow> (upstream_error option \<times> 'k) option" where
  "handleEventReport env b k =
     decoded (decEvents env) (\<lambda>rs k.
       case (case UpdateMap rs of None \<Rightarrow> Some k | Some m \<Rightarrow> CenterCreateEvent env m k) of
         None \<Rightarrow> None
       | Some k1 \<Rightarrow> (case DelMap rs of None \<Rightarrow> Some k1 | Some m \<Rightarrow> CenterDeleteEvent env m k1)) b k"

definition UpdateClusterStatus ::
  "'k oteapi \<Rightarrow> string \<Rightarrow> ClusterStatus \<Rightarrow> 'k \<Rightarrow> api_error option \<times> 'k" where
  "UpdateClusterStatus ote clustername status k =
     ClusterCRD_PatchStatus ote \<lparr>clNamespace = ClusterNamespace, clName = clustername,
       clResourceVersion = [], clSpecName = [], clStatus = status\<rparr> k"

definition handleClusterStatusReport ::
  "'k upenv \<Rightarrow> string \<Rightarrow> bytes \<Rightarrow> 'k \<Rightarrow> upstream_error option \<times> 'k" where
  "handleClusterStatusReport env clustername b k =
     (case decStatus env b of
        None \<Rightarrow> (Some BadReport, k)
      | Some status \<Rightarrow>
          (case UpdateClusterStatus (upOte env) clustername status k of
             (e, k') \<Rightarrow> (map_option Api e, k')))"

text \<open>The switch over the type of one report; the outer \<open>None\<close> of the first component means
  that the type is unknown, which leaves the error variable of the loop alone.\<close>

definition handleOneReport ::
  "'k upenv \<Rightarrow> string \<Rightarrow> report \<Rightarrow> 'k \<Rightarrow> (upstream_error option option \<times> 'k) option" where
  "handleOneReport env cn r k =
     (let known = map_option (\<lambda>(e, k'). (Some e, k')) in
      if ResourceType r = ResourceTypePod
      then known (handlePodReport (upPods env) (decPods env) cn (ReportBody r) k)
      else if ResourceType r = ResourceTypeNode
      then known (handleNodeReport (upNodes env) (decNodes env) cn (ReportBody r) k)
      else if ResourceType r = ResourceTypeClusterStatus
      then known (Some (handleClusterStatusReport env cn (ReportBody r) k))
      else if ResourceType r = ResourceTypeDeployment
      then known (handleDeploymentReport (upDeployments env) (decDeployments env) cn (ReportBody r) k)
      else if ResourceType r = ResourceTypeDaemonset
      then known (handleDaemonsetReport (upDaemonsets env) (decDaemonsets env) cn (ReportBody r) k)
      else if ResourceType r = ResourceTypeService
      then known (handleServiceReport (upServices env) (decServices env) cn (ReportBody r) k)
      else if ResourceType r = ResourceTypeEvent
      then known (handleEventReport env (ReportBody r) k)
      else Some (None, k))"

fun reportsLoop ::
  "'k upenv \<Rightarrow> string \<Rightarrow> report list \<Rightarrow> upstream_error option \<Rightarrow> 'k \<Rightarrow>
   (upstream_error option \<times> 'k) option" where
  "reportsLoop env cn [] err k = Some (err, k)"
| "reportsLoop env cn (r # rs) err k =
     (case handleOneReport env cn r k of
        None \<Rightarrow> None
      | Some (None, k') \<Rightarrow> reportsLoop env cn rs err k'
      | Some (Some e, k') \<Rightarrow> reportsLoop env cn rs e k')"

definition processEdgeReport ::
  "'k upenv \<Rightarrow> MessageHead \<Rightarrow> bytes \<Rightarrow> 'k \<Rightarrow> (upstream_error option \<times> 'k) option" where
  "processEdgeReport env head body k =
     (case decReports env body of
        None \<Rightarrow> Some (Some BadReport, k)
      | Some reports \<Rightarrow> reportsLoop env (ClusterName head) reports None k)"

definition HandleReceivedMessage ::
  "'k upenv \<Rightarrow> bytes \<Rightarrow> 'k \<Rightarrow> (upstream_error option \<times> 'k) option" where
  "HandleReceivedMessage env data k =
     (case Deserialize (upCodec env) (Some data) of
        Inl _ \<Rightarrow> Some (Some BadMessage, k)
      | Inr msg \<Rightarrow>
          (case Head msg of
             None \<Rightarrow> Some (Some NoHead, k)
           | Some head \<Rightarrow>
               if Command head = EdgeReport then processEdgeReport env head (Body msg) k
               else Some (Some NotSupported, k)))"

end
