(* ===== verification/UpstreamLemmas.thy ===== *)
theory UpstreamLemmas
  imports Upstream
begin

text \<open>
  What the upstream processors guarantee. The loops over a report's maps are verified once,
  for any kind of object whose operations obey the laws of \<open>resource_processor\<close>; each of the
  five kinds is an instance.
\<close>

section \<open>Versions\<close>

definition edgeVersion :: "'spec resource \<Rightarrow> int option" where
  "edgeVersion r = strconv_Atoi (label (rMeta r) EdgeVersionLabel)"

text \<open>A stored object is replaced by one with the same labels or a version at least as high.\<close>

definition not_older :: "'spec resource \<Rightarrow> 'spec resource \<Rightarrow> bool" where
  "not_older old new \<longleftrightarrow> edgeVersion new = edgeVersion old \<or>
     (\<exists>a b. edgeVersion old = Some a \<and> edgeVersion new = Some b \<and> a \<le> b)"

lemma not_older_refl [simp, intro]: "not_older r r"
  by (simp add: not_older_def)

lemma not_older_trans: "not_older a b \<Longrightarrow> not_older b c \<Longrightarrow> not_older a c"
  by (auto simp: not_older_def)

lemma checkEdgeVersion_not_older:
  "checkEdgeVersion (rMeta new) (rMeta old) \<Longrightarrow> not_older old new"
  by (auto simp: checkEdgeVersion_def not_older_def edgeVersion_def split: if_splits option.splits)

lemma not_older_labels:
  "not_older old new \<Longrightarrow> omLabels (rMeta new') = omLabels (rMeta new) \<Longrightarrow> not_older old new'"
  by (simp add: not_older_def edgeVersion_def label_def)

section \<open>One object\<close>

definition evolves ::
  "('spec resource, 'k) kindapi \<Rightarrow> string \<Rightarrow> string \<Rightarrow> 'k \<Rightarrow> 'k \<Rightarrow> bool" where
  "evolves K ns n k k' \<longleftrightarrow> frame K ns n k k' \<and>
     (\<forall>old. kGet K ns n k = Inr old \<longrightarrow> (\<exists>new. kGet K ns n k' = Inr new \<and> not_older old new))"

lemma evolves_refl [simp, intro]: "evolves K ns n k k"
  by (simp add: evolves_def frame_def)

lemma frame_trans: "frame K ns n k1 k2 \<Longrightarrow> frame K ns n k2 k3 \<Longrightarrow> frame K ns n k1 k3"
  by (simp add: frame_def)

lemma evolves_trans:
  assumes "evolves K ns n k1 k2" and "evolves K ns n k2 k3"
  shows "evolves K ns n k1 k3"
proof -
  have "\<exists>c. kGet K ns n k3 = Inr c \<and> not_older a c" if a: "kGet K ns n k1 = Inr a" for a
  proof -
    from assms(1) a obtain b where b: "kGet K ns n k2 = Inr b" "not_older a b"
      unfolding evolves_def by blast
    from assms(2) b(1) obtain c where "kGet K ns n k3 = Inr c" "not_older b c"
      unfolding evolves_def by blast
    with not_older_trans [OF b(2)] show ?thesis by blast
  qed
  with assms show ?thesis unfolding evolves_def by (blast intro: frame_trans)
qed

lemma kind_okD:
  assumes "kind_ok K"
  shows "kget_ok K" "kwrite_ok K (kCreate K)" "kwrite_ok K (kUpdate K)"
    "kstatus_ok K (kUpdateStatus K)" "kdelete_ok K" "klist_ok K" "kretry_ok K"
  using assms by (simp_all add: kind_ok_def)

lemma kwrite_failed: "kwrite_ok K w \<Longrightarrow> w ns r k = (Some e, k') \<Longrightarrow> k' = k"
  unfolding kwrite_ok_def by (metis option.distinct(1))

lemma kwrite_done:
  assumes "kwrite_ok K w" "w ns r k = (None, k')"
  shows "frame K ns (omName (rMeta r)) k k'"
    "\<exists>r'. kGet K ns (omName (rMeta r)) k' = Inr r' \<and> same_object r' r"
proof -
  from assms have "frame K ns (omName (rMeta r)) k k' \<and>
      (\<exists>r'. kGet K ns (omName (rMeta r)) k' = Inr r' \<and> same_object r' r)"
    unfolding kwrite_ok_def by presburger
  then show "frame K ns (omName (rMeta r)) k k'"
    "\<exists>r'. kGet K ns (omName (rMeta r)) k' = Inr r' \<and> same_object r' r" by blast+
qed

lemma kwrite_ok_status:
  assumes "kwrite_ok K w"
  shows "kstatus_ok K w"
  unfolding kstatus_ok_def
proof (intro allI impI)
  fix ns r k e k'
  assume w: "w ns r k = (e, k')"
  show "if e \<noteq> None then k' = k
        else frame K ns (omName (rMeta r)) k k' \<and>
          (\<exists>r'. kGet K ns (omName (rMeta r)) k' = Inr r' \<and>
             (omLabels (rMeta r') = omLabels (rMeta r) \<or>
              (\<exists>old. kGet K ns (omName (rMeta r)) k = Inr old \<and>
                 omLabels (rMeta r') = omLabels (rMeta old))))"
  proof (cases e)
    case None
    with w have wd: "w ns r k = (None, k')" by simp
    from kwrite_done [OF assms wd] None show ?thesis by (auto simp: same_object_def)
  next
    case (Some x)
    with kwrite_failed [OF assms] w show ?thesis by auto
  qed
qed

lemma kstatus_failed: "kstatus_ok K w \<Longrightarrow> w ns r k = (Some e, k') \<Longrightarrow> k' = k"
  unfolding kstatus_ok_def by (metis option.distinct(1))

lemma kstatus_done:
  assumes "kstatus_ok K w" "w ns r k = (None, k')"
  shows "frame K ns (omName (rMeta r)) k k'"
    "\<exists>r'. kGet K ns (omName (rMeta r)) k' = Inr r' \<and> (omLabels (rMeta r') = omLabels (rMeta r) \<or>
       (\<exists>old. kGet K ns (omName (rMeta r)) k = Inr old \<and> omLabels (rMeta r') = omLabels (rMeta old)))"
  using assms unfolding kstatus_ok_def by presburger+

text \<open>A write of an object that passed the version check is an evolution of the stored one.\<close>

lemma kstatus_evolves:
  assumes w: "kstatus_ok K w" "w ns r k = (e, k')"
    and get: "kGet K ns (omName (rMeta r)) k = Inr old" and "not_older old r"
  shows "evolves K ns (omName (rMeta r)) k k'"
proof (cases e)
  case None
  with w have wd: "w ns r k = (None, k')" by simp
  from kstatus_done(2) [OF w(1) wd] get obtain r' where r': "kGet K ns (omName (rMeta r)) k' = Inr r'"
    "omLabels (rMeta r') = omLabels (rMeta r) \<or> omLabels (rMeta r') = omLabels (rMeta old)" by auto
  have "not_older old r'"
    using r'(2) not_older_labels [OF assms(4), of r'] not_older_labels [OF not_older_refl, of r' old]
    by blast
  with kstatus_done(1) [OF w(1) wd] get r'(1) show ?thesis by (simp add: evolves_def)
next
  case (Some x)
  with w show ?thesis by (auto dest: kstatus_failed)
qed

text \<open>The objects the retried closures carry along keep name and labels.\<close>

definition same_key :: "'spec resource \<Rightarrow> 'spec resource \<Rightarrow> bool" where
  "same_key a b \<longleftrightarrow> omNamespace (rMeta a) = omNamespace (rMeta b) \<and>
     omName (rMeta a) = omName (rMeta b) \<and> omLabels (rMeta a) = omLabels (rMeta b)"

lemma same_key_refl [simp]: "same_key r r"
  by (simp add: same_key_def)

lemma same_key_adapt [simp]:
  "same_key (adaptMeta r st) r" "same_key (adaptPod c p st') p" "same_key (clearedVersion r) r"
  "same_key (clearedPod p) p"
  by (simp_all add: same_key_def adaptMeta_def adaptPod_def adaptToCentralResource_def
      clearedVersion_def clearedPod_def)

lemma kretry_runs_rel:
  assumes "\<And>s e s'. f s = (e, s') \<Longrightarrow> R s s'" and "\<And>a b c. R a b \<Longrightarrow> R b c \<Longrightarrow> R a c"
  shows "kretry_runs n f s = (e, s') \<Longrightarrow> R s s'"
proof (induction n arbitrary: s)
  case (Suc n)
  obtain e1 s1 where f: "f s = (e1, s1)" by fastforce
  show ?case
  proof (cases "e1 = Some (Api Conflict)")
    case True
    with Suc.prems f have "kretry_runs n f s1 = (e, s')" by simp
    from assms(2) [OF assms(1) [OF f] Suc.IH [OF this]] show ?thesis .
  next
    case False
    with Suc.prems f have "(e1, s1) = (e, s')" by simp
    with assms(1) [OF f] show ?thesis by simp
  qed
qed (use assms(1) in simp)

lemma kRetry_rel:
  assumes "kretry_ok K" and "kRetry K f s = (e, s')"
    and "\<And>s e s'. f s = (e, s') \<Longrightarrow> R s s'" and "\<And>a b c. R a b \<Longrightarrow> R b c \<Longrightarrow> R a c"
  shows "R s s'"
proof -
  from assms(1) have "\<exists>n. kRetry K f s = kretry_runs n f s" unfolding kretry_ok_def by blast
  with assms(2) obtain n where "kretry_runs n f s = (e, s')" by auto
  show ?thesis
    by (rule kretry_runs_rel [where f = f and n = n and e = e]) (fact assms(3), fact assms(4), fact)
qed

definition carries ::
  "('spec resource, 'k) kindapi \<Rightarrow> (ObjectMeta \<Rightarrow> string) \<Rightarrow> 'spec resource \<times> 'k \<Rightarrow>
   'spec resource \<times> 'k \<Rightarrow> bool" where
  "carries K nsOf s s' \<longleftrightarrow> same_key (fst s') (fst s) \<and>
     nsOf (rMeta (fst s')) = nsOf (rMeta (fst s)) \<and>
     evolves K (nsOf (rMeta (fst s))) (omName (rMeta (fst s))) (snd s) (snd s')"

lemma carries_trans: "carries K nsOf a b \<Longrightarrow> carries K nsOf b c \<Longrightarrow> carries K nsOf a c"
  by (auto simp: carries_def same_key_def intro: evolves_trans)

text \<open>\<open>nsOf\<close> depends on what the processors keep of an object only.\<close>

definition key_fun :: "(ObjectMeta \<Rightarrow> string) \<Rightarrow> bool" where
  "key_fun nsOf \<longleftrightarrow> (\<forall>a b. omNamespace a = omNamespace b \<longrightarrow> nsOf a = nsOf b)"

lemma key_funD: "key_fun nsOf \<Longrightarrow> omNamespace a = omNamespace b \<Longrightarrow> nsOf a = nsOf b"
  unfolding key_fun_def by blast

lemma updateOnce_carries:
  assumes "key_fun nsOf" and w: "kstatus_ok K w"
    and adapt: "\<And>r st. same_key (adapt r st) r"
    and wns: "\<And>r st k. kGet K (nsOf (rMeta r)) (omName (rMeta r)) k = Inr st \<Longrightarrow>
      wns st (adapt r st) = nsOf (rMeta r)"
    and u: "res_updateOnce (res_Get nsOf K) adapt (\<lambda>st r. w (wns st r) r) s = (e, s')"
  shows "carries K nsOf s s'"
proof -
  obtain r k where s: "s = (r, k)" by fastforce
  show ?thesis
  proof (cases "res_Get nsOf K r k")
    case (Inl x)
    with u s show ?thesis by (auto simp: res_updateOnce_def carries_def)
  next
    case (Inr st)
    show ?thesis
    proof (cases "checkEdgeVersion (rMeta r) (rMeta st)")
      case False
      with u s Inr show ?thesis by (auto simp: res_updateOnce_def carries_def)
    next
      case True
      let ?r = "adapt r st"
      obtain e1 k1 where w1: "w (wns st ?r) ?r k = (e1, k1)" by fastforce
      with u s Inr True have s': "s' = (?r, k1)" by (auto simp: res_updateOnce_def)
      have keys: "omName (rMeta ?r) = omName (rMeta r)" "omLabels (rMeta ?r) = omLabels (rMeta r)"
        "nsOf (rMeta ?r) = nsOf (rMeta r)"
        using adapt [of r st] key_funD [OF assms(1), of "rMeta ?r" "rMeta r"]
        by (auto simp: same_key_def)
      have get: "kGet K (nsOf (rMeta r)) (omName (rMeta r)) k = Inr st"
        using Inr by (simp add: res_Get_def)
      from w1 wns [OF get] have "w (nsOf (rMeta r)) ?r k = (e1, k1)" by simp
      moreover have "not_older st ?r"
        using checkEdgeVersion_not_older [OF True] keys(2) by (rule not_older_labels)
      ultimately have "evolves K (nsOf (rMeta r)) (omName (rMeta r)) k k1"
        using kstatus_evolves [OF w, of "nsOf (rMeta r)" ?r k e1 k1 st] get keys(1) by simp
      with adapt keys show ?thesis by (simp add: s s' carries_def)
    qed
  qed
qed

lemma updateWith_evolves:
  assumes ok: "kind_ok K" and ns: "key_fun nsOf" and adapt: "\<And>r st. same_key (adapt r st) r"
    and wns: "\<And>r r' st k. kGet K (nsOf (rMeta r)) (omName (rMeta r)) k = Inr st \<Longrightarrow> same_key r' r \<Longrightarrow>
      wns st r' = nsOf (rMeta r)"
    and u: "res_updateWith K (res_Get nsOf K) adapt wns r k = (e, k')"
  shows "evolves K (nsOf (rMeta r)) (omName (rMeta r)) k k'"
proof -
  let ?f1 = "res_updateOnce (res_Get nsOf K) adapt (\<lambda>st r. kUpdate K (wns st r) r)"
  let ?f2 = "res_updateOnce (res_Get nsOf K) adaptMeta (\<lambda>st r. kUpdateStatus K (wns st r) r)"
  obtain e1 r1 k1 where f1: "kRetry K ?f1 (r, k) = (e1, r1, k1)" by (rule prod_cases3)
  obtain e2 r2 k2 where f2: "kRetry K ?f2 (r1, k1) = (e2, r2, k2)" by (rule prod_cases3)
  have c1: "carries K nsOf (r, k) (r1, k1)"
  proof (rule kRetry_rel [OF kind_okD(7) [OF ok] f1])
    show "carries K nsOf s s'" if "?f1 s = (e, s')" for s e s'
      using ns kwrite_ok_status [OF kind_okD(3) [OF ok]] adapt wns [OF _ adapt] that by (rule updateOnce_carries)
  qed (rule carries_trans)
  have c2: "carries K nsOf (r1, k1) (r2, k2)"
  proof (rule kRetry_rel [OF kind_okD(7) [OF ok] f2])
    show "carries K nsOf s s'" if "?f2 s = (e, s')" for s e s'
      using ns kind_okD(4) [OF ok] same_key_adapt(1) wns [OF _ same_key_adapt(1)] that
      by (rule updateOnce_carries)
  qed (rule carries_trans)
  from u f1 f2 have "k' = (if e1 = None then k2 else k1)"
    by (auto simp: res_updateWith_def split: option.splits)
  with c1 carries_trans [OF c1 c2] show ?thesis by (auto simp: carries_def split: if_splits)
qed

lemma Update_evolves:
  assumes "kind_ok K" "key_fun nsOf" and "res_Update nsOf K r k = (e, k')"
  shows "evolves K (nsOf (rMeta r)) (omName (rMeta r)) k k'"
  using assms(1,2) same_key_adapt(1) _ assms(3) [unfolded res_Update_def]
proof (rule updateWith_evolves)
  show "nsOf (rMeta r') = nsOf (rMeta r)" if "same_key r' r" for r r' :: "'a resource"
    using that key_funD [OF assms(2), of "rMeta r'" "rMeta r"] by (simp add: same_key_def)
qed

lemma frame_evolves: "frame K ns n k k' \<Longrightarrow> kGet K ns n k = Inl e \<Longrightarrow> evolves K ns n k k'"
  by (simp add: evolves_def)

lemma write_evolves_new:
  assumes "kwrite_ok K w" "w ns r k = (e, k')" "kGet K ns (omName (rMeta r)) k = Inl x"
  shows "evolves K ns (omName (rMeta r)) k k'"
proof (cases e)
  case None
  with assms show ?thesis by (blast intro: frame_evolves kwrite_done(1))
next
  case (Some y)
  with assms(2) have "k' = k" by (blast intro: kwrite_failed [OF assms(1)])
  then show ?thesis by simp
qed

lemma cleared_keys [simp]:
  "omName (rMeta (clearedVersion r)) = omName (rMeta r)"
  "omNamespace (rMeta (clearedVersion r)) = omNamespace (rMeta r)"
  "omName (rMeta (clearedPod p)) = omName (rMeta p)"
  "omNamespace (rMeta (clearedPod p)) = omNamespace (rMeta p)"
  by (simp_all add: clearedVersion_def clearedPod_def)

lemma Create_evolves:
  assumes "kind_ok K" "kGet K (nsOf (rMeta r)) (omName (rMeta r)) k = Inl x"
    and "res_Create nsOf K r k = (e, k')"
  shows "evolves K (nsOf (rMeta r)) (omName (rMeta r)) k k'"
proof -
  from assms(3) obtain e1 where "kCreate K (nsOf (rMeta r)) (clearedVersion r) k = (e1, k')"
    by (auto simp: res_Create_def split: prod.splits)
  from write_evolves_new [OF kind_okD(2) [OF assms(1)] this] assms(2) show ?thesis by simp
qed

lemma CreateOrUpdate_evolves:
  assumes ok: "kind_ok K" and ns: "key_fun nsOf" and u: "res_CreateOrUpdate nsOf K r k = (e, k')"
  shows "evolves K (nsOf (rMeta r)) (omName (rMeta r)) k k'"
proof (cases "res_Get nsOf K r k")
  case (Inr old)
  with u show ?thesis by (auto simp: res_CreateOrUpdate_def intro: Update_evolves [OF ok ns])
next
  case (Inl x)
  have key: "nsOf (rMeta (clearedVersion r)) = nsOf (rMeta r)"
    by (rule key_funD [OF ns]) simp
  show ?thesis
  proof (cases "x = NotFound")
    case True
    obtain e1 k1 where c: "res_Create nsOf K r k = (e1, k1)" by fastforce
    from Inl have c1: "evolves K (nsOf (rMeta r)) (omName (rMeta r)) k k1"
      by (intro Create_evolves [OF ok _ c]) (simp add: res_Get_def)
    have "evolves K (nsOf (rMeta r)) (omName (rMeta r)) k1 k'" if "e1 = None"
      using u Inl True c that Update_evolves [OF ok ns, of "clearedVersion r" k1 e k']
      by (simp add: res_CreateOrUpdate_def key)
    with c1 u Inl True c show ?thesis
      by (cases e1) (auto simp: res_CreateOrUpdate_def intro: evolves_trans)
  next
    case False
    with u Inl have "k' = k" by (cases x) (auto simp: res_CreateOrUpdate_def)
    then show ?thesis by simp
  qed
qed

lemma Delete_failed: "kind_ok K \<Longrightarrow> res_Delete nsOf K r k = (Some e, k') \<Longrightarrow> k' = k"
  using kind_okD(5) [of K]
  by (auto simp: res_Delete_def kdelete_ok_def split: prod.splits)

lemma Delete_done:
  assumes "kind_ok K" "res_Delete nsOf K r k = (None, k')"
  shows "frame K (nsOf (rMeta r)) (omName (rMeta r)) k k'"
    "kGet K (nsOf (rMeta r)) (omName (rMeta r)) k' = Inl NotFound"
proof -
  have "kDelete K (nsOf (rMeta r)) (omName (rMeta r)) k = (None, k')"
    using assms(2) by (auto simp: res_Delete_def split: prod.splits)
  with kind_okD(5) [OF assms(1)]
  have "frame K (nsOf (rMeta r)) (omName (rMeta r)) k k' \<and>
      kGet K (nsOf (rMeta r)) (omName (rMeta r)) k' = Inl NotFound"
    unfolding kdelete_ok_def by presburger
  then show "frame K (nsOf (rMeta r)) (omName (rMeta r)) k k'"
    "kGet K (nsOf (rMeta r)) (omName (rMeta r)) k' = Inl NotFound" by blast+
qed

section \<open>The contract of a kind\<close>

text \<open>Every stored object stays stored, in a version at least as high.\<close>

definition store_grows :: "('spec resource, 'k) kindapi \<Rightarrow> 'k \<Rightarrow> 'k \<Rightarrow> bool" where
  "store_grows K k k' \<longleftrightarrow>
     (\<forall>ns n old. kGet K ns n k = Inr old \<longrightarrow> (\<exists>new. kGet K ns n k' = Inr new \<and> not_older old new))"

lemma store_grows_refl [simp, intro]: "store_grows K k k"
  by (auto simp: store_grows_def)

lemma store_growsD:
  "store_grows K k k' \<Longrightarrow> kGet K ns n k = Inr old \<Longrightarrow> \<exists>new. kGet K ns n k' = Inr new \<and> not_older old new"
  unfolding store_grows_def by blast

lemma store_grows_trans:
  assumes "store_grows K a b" "store_grows K b c"
  shows "store_grows K a c"
  unfolding store_grows_def
proof (intro allI impI)
  fix ns n old
  assume "kGet K ns n a = Inr old"
  from store_growsD [OF assms(1) this] obtain x where x: "kGet K ns n b = Inr x" "not_older old x"
    by blast
  from store_growsD [OF assms(2) x(1)] not_older_trans [OF x(2)]
  show "\<exists>new. kGet K ns n c = Inr new \<and> not_older old new" by blast
qed

lemma evolves_store_grows:
  assumes "evolves K ns n k k'"
  shows "store_grows K k k'"
  unfolding store_grows_def
proof (intro allI impI)
  fix ns' n' old
  assume old: "kGet K ns' n' k = Inr old"
  show "\<exists>new. kGet K ns' n' k' = Inr new \<and> not_older old new"
  proof (cases "(ns', n') = (ns, n)")
    case True
    with assms old show ?thesis by (simp add: evolves_def)
  next
    case False
    with assms old show ?thesis by (auto simp: evolves_def frame_def)
  qed
qed

lemma eachObj_invariant:
  assumes "eachObj f m k = Some k'" and "P k"
    and "\<And>r k. Some r \<in> snd ` set m \<Longrightarrow> P k \<Longrightarrow> P (f r k)"
  shows "P k'"
  using assms by (induction f m k rule: eachObj.induct) auto

definition renamed :: "'spec resource \<Rightarrow> string" where
  "renamed r = omName (rMeta r) @ ''-'' @ label (rMeta r) ClusterLabel"

lemma renamedDo_cases:
  "renamedDo f r k = k \<or> renamedDo f r k = snd (f (r\<lparr>rMeta := (rMeta r)\<lparr>omName := renamed r\<rparr>\<rparr>) k)"
  by (simp add: renamedDo_def UniqueResourceName_def renamed_def UniqueResourceNameSeparator_def)

locale resource_processor =
  fixes nsOf :: "ObjectMeta \<Rightarrow> string"
    and live :: "'spec resource \<Rightarrow> bool"
    and createOrUpdate :: "('spec resource, 'k) kindapi \<Rightarrow> 'spec resource \<Rightarrow> 'k \<Rightarrow>
      upstream_error option \<times> 'k"
    and delete :: "('spec resource, 'k) kindapi \<Rightarrow> 'spec resource \<Rightarrow> 'k \<Rightarrow>
      upstream_error option \<times> 'k"
  assumes key_fun: "key_fun nsOf"
    and live_renamed: "live (r\<lparr>rMeta := (rMeta r)\<lparr>omName := n\<rparr>\<rparr>) = live r"
    and createOrUpdate_evolves: "kind_ok K \<Longrightarrow> live r \<Longrightarrow> createOrUpdate K r k = (e, k') \<Longrightarrow>
      evolves K (nsOf (rMeta r)) (omName (rMeta r)) k k'"
    and delete_failed: "kind_ok K \<Longrightarrow> delete K r k = (Some x, k') \<Longrightarrow> k' = k"
    and delete_done: "kind_ok K \<Longrightarrow> delete K r k = (None, k') \<Longrightarrow>
      frame K (nsOf (rMeta r)) (omName (rMeta r)) k k' \<and>
      kGet K (nsOf (rMeta r)) (omName (rMeta r)) k' = Inl NotFound"
begin

lemma nsOf_renamed: "nsOf ((rMeta r)\<lparr>omName := n\<rparr>) = nsOf (rMeta r)"
  by (rule key_funD [OF key_fun]) simp

lemma renamed_createOrUpdate:
  assumes "kind_ok K" "live r"
  shows "evolves K (nsOf (rMeta r)) (renamed r) k (renamedDo (createOrUpdate K) r k)"
proof -
  let ?r = "r\<lparr>rMeta := (rMeta r)\<lparr>omName := renamed r\<rparr>\<rparr>"
  have "evolves K (nsOf (rMeta r)) (renamed r) k (snd (createOrUpdate K ?r k))"
    using createOrUpdate_evolves [OF assms(1), of ?r k] assms(2)
    by (cases "createOrUpdate K ?r k") (simp add: live_renamed nsOf_renamed)
  with renamedDo_cases [of "createOrUpdate K" r k] show ?thesis by auto
qed

lemma updateMap_grows:
  assumes "kind_ok K" and "\<And>r. Some r \<in> snd ` set m \<Longrightarrow> live r"
    and "res_UpdateMap (createOrUpdate K) m k = Some k'"
  shows "store_grows K k k'"
  using assms(3) unfolding res_UpdateMap_def
proof (rule eachObj_invariant)
  fix r k1
  assume "Some r \<in> snd ` set m" "store_grows K k k1"
  with renamed_createOrUpdate [OF assms(1) assms(2)]
  show "store_grows K k (renamedDo (createOrUpdate K) r k1)"
    by (blast intro: store_grows_trans evolves_store_grows)
qed simp

lemma updateMap_frame:
  assumes "kind_ok K" and "\<And>r. Some r \<in> snd ` set m \<Longrightarrow> live r"
    and "res_UpdateMap (createOrUpdate K) m k = Some k'"
    and other: "\<And>r. Some r \<in> snd ` set m \<Longrightarrow> (ns, n) \<noteq> (nsOf (rMeta r), renamed r)"
  shows "kGet K ns n k' = kGet K ns n k"
  using assms(3) unfolding res_UpdateMap_def
proof (rule eachObj_invariant)
  fix r k1
  assume r: "Some r \<in> snd ` set m" and "kGet K ns n k1 = kGet K ns n k"
  with renamed_createOrUpdate [OF assms(1) assms(2) [OF r], of k1] other [OF r]
  show "kGet K ns n (renamedDo (createOrUpdate K) r k1) = kGet K ns n k"
    by (simp add: evolves_def frame_def)
qed simp

lemma delete_only:
  assumes "kind_ok K"
  shows "kGet K ns n (snd (delete K r k)) =
    (if (ns, n) = (nsOf (rMeta r), omName (rMeta r)) \<and> fst (delete K r k) = None then Inl NotFound
     else kGet K ns n k)"
proof -
  obtain e k' where d: "delete K r k = (e, k')" by fastforce
  with delete_failed [OF assms, of r k] delete_done [OF assms, of r k k'] show ?thesis
    by (cases e) (auto simp: frame_def)
qed

lemma renamed_delete:
  assumes "kind_ok K"
  shows "kGet K ns n (renamedDo (delete K) r k) = kGet K ns n k \<or>
    (ns, n) = (nsOf (rMeta r), renamed r) \<and> kGet K ns n (renamedDo (delete K) r k) = Inl NotFound"
  using renamedDo_cases [of "delete K" r k]
  by (auto simp: delete_only [OF assms] nsOf_renamed split: if_splits)

lemma delMap_frame:
  assumes "kind_ok K" and "res_DelMap (delete K) m k = Some k'"
    and other: "\<And>r. Some r \<in> snd ` set m \<Longrightarrow> (ns, n) \<noteq> (nsOf (rMeta r), renamed r)"
  shows "kGet K ns n k' = kGet K ns n k"
  using assms(2) unfolding res_DelMap_def
proof (rule eachObj_invariant)
  fix r k1
  assume "Some r \<in> snd ` set m" and "kGet K ns n k1 = kGet K ns n k"
  with renamed_delete [OF assms(1)] other [of r]
  show "kGet K ns n (renamedDo (delete K) r k1) = kGet K ns n k" by metis
qed simp

text \<open>Among the listed objects, those whose key is not in the report are deleted; \<open>del_ok\<close> says
  that a stored object can be deleted.\<close>

lemma delete_absent:
  assumes "kind_ok K" "kGet K ns n k = Inl NotFound"
  shows "kGet K ns n (snd (delete K q k)) = Inl NotFound"
  using assms by (simp add: delete_only)

lemma deletes_absent:
  assumes "kind_ok K" "kGet K ns n k = Inl NotFound"
  shows "kGet K ns n (fold (\<lambda>q k. if keep q then k else snd (delete K q k)) qs k) = Inl NotFound"
  using assms(2) by (induction qs arbitrary: k) (simp_all add: delete_absent [OF assms(1)])

lemma deletes_get:
  assumes ok: "kind_ok K"
    and del_ok: "\<And>q k r. kGet K (nsOf (rMeta q)) (omName (rMeta q)) k = Inr r \<Longrightarrow> fst (delete K q k) = None"
    and get: "kGet K ns n k = Inr r"
  shows "kGet K ns n (fold (\<lambda>q k. if keep q then k else snd (delete K q k)) qs k) =
    (if \<exists>q\<in>set qs. (ns, n) = (nsOf (rMeta q), omName (rMeta q)) \<and> \<not> keep q
     then Inl NotFound else Inr r)"
  using get
proof (induction qs arbitrary: k)
  case (Cons q qs)
  show ?case
  proof (cases "\<not> keep q \<and> (ns, n) = (nsOf (rMeta q), omName (rMeta q))")
    case True
    with Cons.prems del_ok have "fst (delete K q k) = None" by blast
    with True delete_only [OF ok, of ns n q k] have "kGet K ns n (snd (delete K q k)) = Inl NotFound"
      by simp
    with True deletes_absent [OF ok this] show ?thesis by simp
  next
    case False
    let ?k = "if keep q then k else snd (delete K q k)"
    have "kGet K ns n ?k = Inr r"
      using False Cons.prems delete_only [OF ok, of ns n q k] by auto
    from Cons.IH [OF this] False show ?thesis by auto
  qed
qed simp

lemma fullList_get:
  assumes ok: "kind_ok K" and cn: "label_value cn"
    and del_ok: "\<And>q k r. kGet K (nsOf (rMeta q)) (omName (rMeta q)) k = Inr r \<Longrightarrow> fst (delete K q k) = None"
    and get: "kGet K ns n k = Inr r" and ns: "\<And>m. nsOf m = omNamespace m"
    and items: "kList K (ClusterLabel @ ''='' @ cn) k = Some items"
  shows "kGet K ns n (res_FullList K (delete K) cn fullList k) =
    (if label (rMeta r) ClusterLabel = cn \<and>
        MetaNamespaceKey (rMeta r) \<notin> (\<lambda>key. UniqueFullResourceName key cn) ` set fullList
     then Inl NotFound else Inr r)"
proof -
  let ?keep = "\<lambda>q. MetaNamespaceKey (rMeta q) \<in> set (map (\<lambda>key. UniqueFullResourceName key cn) fullList)"
  have r: "omNamespace (rMeta r) = ns" "omName (rMeta r) = n"
    using kind_okD(1) [OF ok] get by (auto simp: kget_ok_def)
  have lab: "CHR ''='' \<notin> set ClusterLabel" by (simp add: ClusterLabel_def)
  have mem: "q \<in> set items \<longleftrightarrow>
      kGet K (omNamespace (rMeta q)) (omName (rMeta q)) k = Inr q \<and> label (rMeta q) ClusterLabel = cn" for q
    using kind_okD(6) [OF ok] items lab cn unfolding klist_ok_def by blast
  have "(\<exists>q\<in>set items. (ns, n) = (nsOf (rMeta q), omName (rMeta q)) \<and> \<not> ?keep q) \<longleftrightarrow>
      label (rMeta r) ClusterLabel = cn \<and> \<not> ?keep r"
    using get r by (auto simp: mem ns)
  moreover have "res_FullList K (delete K) cn fullList k =
      fold (\<lambda>q k. if ?keep q then k else snd (delete K q k)) items k"
    using items by (simp add: res_FullList_def)
  ultimately show ?thesis
    using deletes_get [where keep = ?keep and qs = items, OF ok del_ok get] by simp
qed

lemma deletes_frame:
  assumes "kind_ok K" and "\<And>q. q \<in> set qs \<Longrightarrow> (ns, n) \<noteq> (nsOf (rMeta q), omName (rMeta q))"
  shows "kGet K ns n (fold (\<lambda>q k. if keep q then k else snd (delete K q k)) qs k) = kGet K ns n k"
  using assms(2)
proof (induction qs arbitrary: k)
  case (Cons q qs)
  then have "(ns, n) \<noteq> (nsOf (rMeta q), omName (rMeta q))" by simp
  with delete_only [OF assms(1), of ns n q k] Cons show ?case by auto
qed simp

lemma fullList_frame:
  assumes ok: "kind_ok K" and cn: "label_value cn" and ns: "\<And>m. nsOf m = omNamespace m"
    and get: "kGet K ns n k = Inr r" and other: "label (rMeta r) ClusterLabel \<noteq> cn"
  shows "kGet K ns n (res_FullList K (delete K) cn fullList k) = Inr r"
proof (cases "kList K (ClusterLabel @ ''='' @ cn) k")
  case (Some items)
  have lab: "CHR ''='' \<notin> set ClusterLabel" by (simp add: ClusterLabel_def)
  have "(ns, n) \<noteq> (nsOf (rMeta q), omName (rMeta q))" if "q \<in> set items" for q
  proof -
    from kind_okD(6) [OF ok] Some lab cn that
    have "kGet K (omNamespace (rMeta q)) (omName (rMeta q)) k = Inr q" "label (rMeta q) ClusterLabel = cn"
      unfolding klist_ok_def by blast+
    with get other ns show ?thesis by auto
  qed
  from deletes_frame [OF ok this] Some get show ?thesis by (simp add: res_FullList_def)
qed (use get in \<open>simp add: res_FullList_def\<close>)

lemma delete_gone:
  assumes "kind_ok K" "\<forall>x. kGet K ns n k \<noteq> Inr x"
  shows "\<forall>x. kGet K ns n (renamedDo (delete K) r k) \<noteq> Inr x"
  using renamed_delete [OF assms(1), of ns n r k] assms(2) by auto

lemma delMap_gone_stays:
  assumes "kind_ok K" "eachObj (renamedDo (delete K)) m k = Some k'" "\<forall>x. kGet K ns n k \<noteq> Inr x"
  shows "\<forall>x. kGet K ns n k' \<noteq> Inr x"
  using assms(2,3) by (rule eachObj_invariant) (rule delete_gone [OF assms(1)])

lemma delMap_gone:
  assumes ok: "kind_ok K"
    and del_ok: "\<And>q k r. kGet K (nsOf (rMeta q)) (omName (rMeta q)) k = Inr r \<Longrightarrow> fst (delete K q k) = None"
    and r: "Some r \<in> snd ` set m" "label (rMeta r) ClusterLabel \<noteq> []"
    and d: "res_DelMap (delete K) m k = Some k'"
  shows "\<forall>x. kGet K (nsOf (rMeta r)) (renamed r) k' \<noteq> Inr x"
  using r(1) d unfolding res_DelMap_def
proof (induction "renamedDo (delete K)" m k rule: eachObj.induct)
  case (3 key q m k)
  show ?case
  proof (cases "q = r")
    case True
    let ?q = "r\<lparr>rMeta := (rMeta r)\<lparr>omName := renamed r\<rparr>\<rparr>"
    have "renamedDo (delete K) r k = snd (delete K ?q k)"
      using r(2) by (simp add: renamedDo_def UniqueResourceName_def renamed_def UniqueResourceNameSeparator_def)
    moreover have "\<forall>x. kGet K (nsOf (rMeta r)) (renamed r) (snd (delete K ?q k)) \<noteq> Inr x"
      using del_ok [of ?q k] delete_only [OF ok, of "nsOf (rMeta r)" "renamed r" ?q k] nsOf_renamed [where r = r]
      by auto
    ultimately show ?thesis using delMap_gone_stays [OF ok] 3(3) True by simp
  next
    case False
    with 3 show ?thesis by auto
  qed
qed auto

end

lemma key_fun_instances [simp]: "key_fun omNamespace" "key_fun (\<lambda>_. [])"
  by (simp_all add: key_fun_def)

lemmas kind_defs =
  CreateOrUpdateDeployment_def DeleteDeployment_def CreateOrUpdateDaemonset_def
  DeleteDaemonset_def CreateOrUpdateService_def DeleteService_def DeleteNode_def DeletePod_def

interpretation deployments: resource_processor omNamespace "\<lambda>_. True" CreateOrUpdateDeployment
  DeleteDeployment
  by unfold_locales (auto simp: kind_defs intro: CreateOrUpdate_evolves dest: Delete_failed Delete_done)

interpretation daemonsets: resource_processor omNamespace "\<lambda>_. True" CreateOrUpdateDaemonset
  DeleteDaemonset
  by unfold_locales (auto simp: kind_defs intro: CreateOrUpdate_evolves dest: Delete_failed Delete_done)

interpretation services: resource_processor omNamespace "\<lambda>_. True" CreateOrUpdateService
  DeleteService
  by unfold_locales (auto simp: kind_defs intro: CreateOrUpdate_evolves dest: Delete_failed Delete_done)

lemma CreateOrUpdateNode_evolves:
  assumes ok: "kind_ok K" and u: "CreateOrUpdateNode K r k = (e, k')"
  shows "evolves K [] (omName (rMeta r)) k k'"
proof (cases "GetNode K r k")
  case (Inr old)
  with u Update_evolves [OF ok, of "\<lambda>_. []" r k e k'] show ?thesis
    by (simp add: CreateOrUpdateNode_def UpdateNode_def)
next
  case (Inl x)
  with Create_evolves [OF ok, of "\<lambda>_. []" r k x e k'] u show ?thesis
    by (cases x) (auto simp: CreateOrUpdateNode_def CreateNode_def GetNode_def res_Get_def)
qed

interpretation nodes: resource_processor "\<lambda>_. []" "\<lambda>_. True" CreateOrUpdateNode DeleteNode
  by unfold_locales (auto simp: kind_defs intro: CreateOrUpdateNode_evolves
    dest: Delete_failed Delete_done)

text \<open>A pod that is not being deleted.\<close>

definition pod_live :: "pod \<Rightarrow> bool" where
  "pod_live r = (omDeletionTimestamp (rMeta r) = None)"

lemma UpdatePod_evolves:
  assumes ok: "kind_ok K" and u: "UpdatePod K r k = (e, k')"
  shows "evolves K (omNamespace (rMeta r)) (omName (rMeta r)) k k'"
proof (rule updateWith_evolves [OF ok key_fun_instances(1), where adapt = "adaptPod r"])
  show "same_key (adaptPod r q st) q" for q st by simp
  show "omNamespace (rMeta st) = omNamespace (rMeta q)"
    if "kGet K (omNamespace (rMeta q)) (omName (rMeta q)) k = Inr st" "same_key q' q" for q q' st k
    using that kind_okD(1) [OF ok] by (simp add: kget_ok_def)
  have "GetPod K = res_Get omNamespace K" by (simp add: GetPod_def fun_eq_iff)
  with u show "res_updateWith K (res_Get omNamespace K) (adaptPod r)
      (\<lambda>st r. omNamespace (rMeta st)) r k = (e, k')"
    by (simp add: UpdatePod_def)
qed

lemma CreateOrUpdatePod_evolves:
  assumes ok: "kind_ok K" and live: "pod_live r" and u: "CreateOrUpdatePod K r k = (e, k')"
  shows "evolves K (omNamespace (rMeta r)) (omName (rMeta r)) k k'"
proof (cases "GetPod K r k")
  case (Inr old)
  with u live show ?thesis
    by (auto simp: CreateOrUpdatePod_def pod_live_def intro: UpdatePod_evolves [OF ok])
next
  case (Inl x)
  show ?thesis
  proof (cases "x = NotFound")
    case True
    obtain e1 k1 where c: "kCreate K (omNamespace (rMeta r)) (clearedPod r) k = (e1, k1)" by fastforce
    from write_evolves_new [OF kind_okD(2) [OF ok] c] Inl
    have c1: "evolves K (omNamespace (rMeta r)) (omName (rMeta r)) k k1"
      by (simp add: GetPod_def res_Get_def)
    have "evolves K (omNamespace (rMeta r)) (omName (rMeta r)) k1 k'" if "e1 = None"
      using u live Inl True c that UpdatePod_evolves [OF ok, of "clearedPod r" k1 e k']
      by (simp add: CreateOrUpdatePod_def CreatePod_def pod_live_def)
    with c1 u live Inl True c show ?thesis
      by (cases e1) (auto simp: CreateOrUpdatePod_def CreatePod_def pod_live_def intro: evolves_trans)
  next
    case False
    with u live Inl have "k' = k" by (cases x) (auto simp: CreateOrUpdatePod_def pod_live_def)
    then show ?thesis by simp
  qed
qed

interpretation pods: resource_processor omNamespace pod_live CreateOrUpdatePod DeletePod
  by unfold_locales (auto simp: kind_defs pod_live_def intro: CreateOrUpdatePod_evolves
    dest: Delete_failed Delete_done)

section \<open>Stale reports\<close>

lemma kRetry_stops:
  assumes "kretry_ok K" "f s = (Some e, s')" "e \<noteq> Api Conflict"
  shows "kRetry K f s = (Some e, s')"
proof -
  have "kretry_runs n f s = (Some e, s')" for n using assms(2,3) by (cases n) simp_all
  with assms(1) show ?thesis unfolding kretry_ok_def by metis
qed

lemma updateWith_stale:
  assumes "kretry_ok K" "get r k = Inr old" "\<not> checkEdgeVersion (rMeta r) (rMeta old)"
  shows "res_updateWith K get adapt wns r k = (Some EdgeVersionCheck, k)"
proof -
  let ?f = "res_updateOnce get adapt (\<lambda>st r. kUpdate K (wns st r) r)"
  have "?f (r, k) = (Some EdgeVersionCheck, r, k)" using assms(2,3) by (simp add: res_updateOnce_def)
  from kRetry_stops [where f = ?f, OF assms(1) this] show ?thesis by (simp add: res_updateWith_def)
qed

end
