(* ===== verification/SampleKinds.thy ===== *)
theory SampleKinds
  imports UpstreamLemmas
begin

text \<open>
  A concrete client of one kind of object over an in-memory store, with optimistic locking on
  resource versions and the status as a subresource. It obeys every law of \<open>kind_ok\<close>, so the
  properties of the upstream processors apply to it; the witnesses evaluate the processors on
  it.
\<close>

type_synonym 'spec kstore = "(string \<times> string, 'spec resource) gomap"

definition sk_get :: "string \<Rightarrow> string \<Rightarrow> 'spec kstore \<Rightarrow> api_error + 'spec resource" where
  "sk_get ns n k =
     (case go_get k (ns, n) of
        None \<Rightarrow> Inl NotFound
      | Some r \<Rightarrow> if omNamespace (rMeta r) = ns \<and> omName (rMeta r) = n then Inr r else Inl NotFound)"

definition sk_put :: "string \<Rightarrow> 'spec resource \<Rightarrow> string \<Rightarrow> 'spec kstore \<Rightarrow> 'spec kstore" where
  "sk_put ns r v k = go_put (ns, omName (rMeta r)) (r\<lparr>rMeta := (rMeta r)\<lparr>omResourceVersion := v\<rparr>\<rparr>) k"

definition sk_create :: "string \<Rightarrow> 'spec resource \<Rightarrow> 'spec kstore \<Rightarrow> api_error option \<times> 'spec kstore"
  where
  "sk_create ns r k =
     (if omNamespace (rMeta r) \<noteq> ns then (Some (ApiError ''namespace''), k)
      else (case sk_get ns (omName (rMeta r)) k of
              Inr _ \<Rightarrow> (Some (ApiError ''exists''), k)
            | Inl _ \<Rightarrow> (None, sk_put ns r ''1'' k)))"

definition sk_update :: "string \<Rightarrow> 'spec resource \<Rightarrow> 'spec kstore \<Rightarrow> api_error option \<times> 'spec kstore"
  where
  "sk_update ns r k =
     (if omNamespace (rMeta r) \<noteq> ns then (Some (ApiError ''namespace''), k)
      else (case sk_get ns (omName (rMeta r)) k of
              Inl e \<Rightarrow> (Some e, k)
            | Inr old \<Rightarrow>
                if omResourceVersion (rMeta r) \<noteq> omResourceVersion (rMeta old) then (Some Conflict, k)
                else (None, sk_put ns (r\<lparr>rStatus := rStatus old\<rparr>)
                       (CHR ''1'' # omResourceVersion (rMeta old)) k)))"

definition sk_status :: "string \<Rightarrow> 'spec resource \<Rightarrow> 'spec kstore \<Rightarrow> api_error option \<times> 'spec kstore"
  where
  "sk_status ns r k =
     (if omNamespace (rMeta r) \<noteq> ns then (Some (ApiError ''namespace''), k)
      else (case sk_get ns (omName (rMeta r)) k of
              Inl e \<Rightarrow> (Some e, k)
            | Inr old \<Rightarrow>
                if omResourceVersion (rMeta r) \<noteq> omResourceVersion (rMeta old) then (Some Conflict, k)
                else (None, sk_put ns (old\<lparr>rStatus := rStatus r\<rparr>)
                       (CHR ''1'' # omResourceVersion (rMeta old)) k)))"

definition sk_delete :: "string \<Rightarrow> string \<Rightarrow> 'spec kstore \<Rightarrow> api_error option \<times> 'spec kstore" where
  "sk_delete ns n k =
     (case sk_get ns n k of Inl e \<Rightarrow> (Some e, k) | Inr _ \<Rightarrow> (None, go_del (ns, n) k))"

definition sk_list :: "string \<Rightarrow> 'spec kstore \<Rightarrow> 'spec resource list option" where
  "sk_list sel k =
     (let l = takeWhile (\<lambda>c. c \<noteq> CHR ''='') sel; v = drop (Suc (length l)) sel in
      Some (filter (\<lambda>r. sk_get (omNamespace (rMeta r)) (omName (rMeta r)) k = Inr r \<and>
        label (rMeta r) l = v) (map snd k)))"

definition sample_kind :: "('spec resource, 'spec kstore) kindapi" where
  "sample_kind = \<lparr>kGet = sk_get, kCreate = sk_create, kUpdate = sk_update,
     kUpdateStatus = sk_status, kDelete = sk_delete, kList = sk_list, kRetry = kretry_runs 4\<rparr>"

lemma sample_kind_simps [simp]:
  "kGet sample_kind = sk_get" "kCreate sample_kind = sk_create" "kUpdate sample_kind = sk_update"
  "kUpdateStatus sample_kind = sk_status" "kDelete sample_kind = sk_delete"
  "kList sample_kind = sk_list" "kRetry sample_kind = kretry_runs 4"
  by (simp_all add: sample_kind_def)

lemma sk_get_key: "sk_get ns n k = Inr r \<Longrightarrow> omNamespace (rMeta r) = ns \<and> omName (rMeta r) = n"
  by (auto simp: sk_get_def split: option.splits if_splits)

lemma sk_get_put:
  "sk_get ns' n' (sk_put ns r v k) =
     (if (ns', n') = (ns, omName (rMeta r))
      then (if omNamespace (rMeta r) = ns then Inr (r\<lparr>rMeta := (rMeta r)\<lparr>omResourceVersion := v\<rparr>\<rparr>)
            else Inl NotFound)
      else sk_get ns' n' k)"
  by (auto simp: sk_get_def sk_put_def)

lemma sk_get_del:
  "sk_get ns' n' (go_del (ns, n) k) = (if (ns', n') = (ns, n) then Inl NotFound else sk_get ns' n' k)"
  by (simp add: sk_get_def)

lemma sample_kind_writes:
  "kwrite_ok sample_kind sk_create" "kwrite_ok sample_kind sk_update"
  "kstatus_ok sample_kind sk_status" "kdelete_ok sample_kind"
  by (auto simp: kwrite_ok_def kstatus_ok_def kdelete_ok_def sk_create_def sk_update_def sk_status_def
      sk_delete_def frame_def same_object_def sk_get_put sk_get_del
      split: sum.splits if_splits dest: sk_get_key)

lemma sample_kind_list: "klist_ok sample_kind"
proof -
  have sel: "takeWhile (\<lambda>c. c \<noteq> CHR ''='') (l @ CHR ''='' # v) = l" if "CHR ''='' \<notin> set l" for l v :: string
    using that by (subst takeWhile_append2) auto
  have stored: "r \<in> snd ` set k" if "sk_get ns n k = Inr r" for ns n r and k :: "'a kstore"
    using that by (auto simp: sk_get_def split: option.splits if_splits
        dest!: map_of_SomeD intro: rev_image_eqI)
  show ?thesis
    by (auto simp: klist_ok_def sk_list_def sel Let_def dest: stored)
qed

lemma sample_kind_ok: "kind_ok sample_kind"
  by (auto simp: kind_ok_def kget_ok_def kretry_ok_def sample_kind_writes sample_kind_list dest: sk_get_key)

section \<open>Sample objects\<close>

definition sample_object :: "string \<Rightarrow> string \<Rightarrow> string \<Rightarrow> string \<Rightarrow> object" where
  "sample_object n cluster version status =
     \<lparr>rMeta = \<lparr>omNamespace = ''default'', omName = n,
        omLabels = Some [(ClusterLabel, cluster), (EdgeVersionLabel, version)], omAnnotations = None,
        omResourceVersion = [], omUID = [], omDeletionTimestamp = None\<rparr>,
      rSpec = ''spec'', rStatus = status\<rparr>"

definition sample_store :: "bytes kstore" where
  "sample_store =
     [((''default'', ''web-c1''), sample_object ''web-c1'' ''c1'' ''3'' ''ready''),
      ((''default'', ''db-c1''), sample_object ''db-c1'' ''c1'' ''4'' ''ready''),
      ((''default'', ''web-c2''), sample_object ''web-c2'' ''c2'' ''9'' ''ready'')]"

end
