(* ===== verification/UpstreamProps.thy ===== *)
theory UpstreamProps
  imports SampleKinds SampleEnv
begin

text \<open>
  The properties of the controller manager's upstream processor: reports never bring back an
  older object, a full list removes exactly what the edge no longer has, clusters do not touch
  each other's objects, and bad or stale reports change nothing.
\<close>

lemmas deployment_defs =
  handleDeploymentReport_def handleDeploymentFullList_def handleDeploymentUpdateMap_def
  handleDeploymentDelMap_def

lemma updateMaps_grow:
  assumes "kind_ok K"
  shows "handleDeploymentUpdateMap K m k = Some k' \<Longrightarrow> store_grows K k k'"
    "handleDaemonsetUpdateMap K m k = Some k' \<Longrightarrow> store_grows K k k'"
    "handleServiceUpdateMap K m k = Some k' \<Longrightarrow> store_grows K k k'"
    "handleNodeUpdateMap K m k = Some k' \<Longrightarrow> store_grows K k k'"
  using deployments.updateMap_grows [OF assms, of m k k'] daemonsets.updateMap_grows [OF assms, of m k k']
    services.updateMap_grows [OF assms, of m k k'] nodes.updateMap_grows [OF assms, of m k k']
  by (simp_all add: handleDeploymentUpdateMap_def handleDaemonsetUpdateMap_def
      handleServiceUpdateMap_def handleNodeUpdateMap_def)

text \<open>C7: handling the update map of a report of deployments, daemon sets, services or nodes
  never removes an object of the central server and never replaces one by an object with a
  lower edge version, whatever the map holds and whichever calls of the API fail.\<close>

theorem update_maps_never_regress:
  assumes "kind_ok K" and "kGet K ns n k = Inr old"
    and "Some k' \<in> {handleDeploymentUpdateMap K m k, handleDaemonsetUpdateMap K m k,
      handleServiceUpdateMap K m k, handleNodeUpdateMap K m k}"
  shows "\<exists>new. kGet K ns n k' = Inr new \<and> not_older old new"
  using updateMaps_grow [OF assms(1), of m k k'] assms(2,3) by (auto intro: store_growsD)

text \<open>A map with a stale and a new deployment, and one from a cluster that left out its label.\<close>

definition sample_updates :: "(string, object option) gomap" where
  "sample_updates =
     [(''default/web'', Some (sample_object ''web'' ''c1'' ''2'' ''stale'')),
      (''default/db'', Some (sample_object ''db'' ''c1'' ''5'' ''scaling'')),
      (''default/api'', Some (sample_object ''api'' ''c1'' ''1'' ''new'')),
      (''default/bad'', Some (sample_object ''bad'' [] ''1'' ''new''))]"

definition sample_after :: "bytes kstore" where
  "sample_after = the (handleDeploymentUpdateMap sample_kind sample_updates sample_store)"

lemma sample_after_some:
  "handleDeploymentUpdateMap sample_kind sample_updates sample_store = Some sample_after"
  "map (\<lambda>n. case sk_get ''default'' n sample_after of Inl _ \<Rightarrow> None | Inr r \<Rightarrow> Some (edgeVersion r, rStatus r))
     [''web-c1'', ''db-c1'', ''api-c1'', ''web-c2'', ''bad''] =
   [Some (Some 3, ''ready''), Some (Some 5, ''scaling''), Some (Some 1, ''new''), Some (Some 9, ''ready''), None]"
  by code_simp+

lemma sample_db:
  "sk_get ''default'' ''db-c1'' sample_store = Inr (sample_object ''db-c1'' ''c1'' ''4'' ''ready'')"
  by code_simp

theorem update_maps_never_regress_witness:
  "\<exists>new. sk_get ''default'' ''db-c1'' sample_after = Inr new \<and>
     not_older (sample_object ''db-c1'' ''c1'' ''4'' ''ready'') new"
  using update_maps_never_regress [OF sample_kind_ok, of "''default''" "''db-c1''" sample_store
      "sample_object ''db-c1'' ''c1'' ''4'' ''ready''" sample_after sample_updates]
  by (simp add: sample_db sample_after_some(1))

text \<open>C10: the full list of a cluster's deployments removes exactly the stored deployments that
  carry the cluster's label and whose key is not a listed key with the cluster's name
  appended; every other deployment stays as it is. Listing must succeed, and stored objects
  must be deletable.\<close>

theorem full_list_exact:
  assumes "kind_ok K" "label_value cn"
    and "\<And>ns n k r. kGet K ns n k = Inr r \<Longrightarrow> fst (kDelete K ns n k) = None"
    and "kList K (ClusterLabel @ ''='' @ cn) k = Some items" and "kGet K ns n k = Inr r"
  shows "kGet K ns n (handleDeploymentFullList K cn fullList k) =
    (if label (rMeta r) ClusterLabel = cn \<and>
        MetaNamespaceKey (rMeta r) \<notin> (\<lambda>key. UniqueFullResourceName key cn) ` set fullList
     then Inl NotFound else Inr r)"
proof -
  have "fst (DeleteDeployment K q k) = None"
    if "kGet K (omNamespace (rMeta q)) (omName (rMeta q)) k = Inr r" for q k r
    using assms(3) [OF that] by (simp add: DeleteDeployment_def res_Delete_def split_beta)
  from deployments.fullList_get [OF assms(1,2) this assms(5) refl assms(4)]
  show ?thesis by (simp add: handleDeploymentFullList_def)
qed

lemma sk_delete_stored: "sk_get ns n k = Inr r \<Longrightarrow> fst (sk_delete ns n k) = None"
  by (simp add: sk_delete_def)

theorem full_list_exact_witness:
  "sk_get ''default'' ''web-c1'' (handleDeploymentFullList sample_kind ''c1'' [''default/db''] sample_store)
     = Inl NotFound \<and>
   sk_get ''default'' ''db-c1'' (handleDeploymentFullList sample_kind ''c1'' [''default/db''] sample_store)
     = Inr (sample_object ''db-c1'' ''c1'' ''4'' ''ready'') \<and>
   sk_get ''default'' ''web-c2'' (handleDeploymentFullList sample_kind ''c1'' [''default/db''] sample_store)
     = Inr (sample_object ''web-c2'' ''c2'' ''9'' ''ready'')"
proof -
  have l: "label_value ''c1''" by code_simp
  have i: "sk_list (ClusterLabel @ ''='' @ ''c1'') sample_store =
      Some [sample_object ''web-c1'' ''c1'' ''3'' ''ready'', sample_object ''db-c1'' ''c1'' ''4'' ''ready'']"
    by code_simp
  let ?k = "handleDeploymentFullList sample_kind ''c1'' [''default/db''] sample_store"
  have f: "sk_get ''default'' n ?k =
      (if label (rMeta r) ClusterLabel = ''c1'' \<and>
          MetaNamespaceKey (rMeta r) \<notin> (\<lambda>key. UniqueFullResourceName key ''c1'') ` set [''default/db'']
       then Inl NotFound else Inr r)" if g: "sk_get ''default'' n sample_store = Inr r" for n r
    by (rule full_list_exact [where K = sample_kind, unfolded sample_kind_simps, OF sample_kind_ok l _ i g])
      (rule sk_delete_stored)
  have w: "sk_get ''default'' ''web-c1'' sample_store = Inr (sample_object ''web-c1'' ''c1'' ''3'' ''ready'')"
    and w2: "sk_get ''default'' ''web-c2'' sample_store = Inr (sample_object ''web-c2'' ''c2'' ''9'' ''ready'')"
    by code_simp+
  show ?thesis
    unfolding f [OF w] f [OF w2] f [OF sample_db] by code_simp
qed


definition sample_report :: "object reportStatus" where
  "sample_report = \<lparr>UpdateMap = Some sample_updates,
     DelMap = Some [(''default/db'', Some (sample_object ''db'' ''c1'' ''4'' ''ready''))],
     FullList = Some [''default/db'', ''default/api'']\<rparr>"

definition sample_reported :: "bytes kstore" where
  "sample_reported =
     (case handleDeploymentReport sample_kind (\<lambda>_. Some sample_report) ''c1'' [] sample_store of
        Some (_, k) \<Rightarrow> k | None \<Rightarrow> [])"

lemma sample_reported_some:
  "handleDeploymentReport sample_kind (\<lambda>_. Some sample_report) ''c1'' [] sample_store =
     Some (None, sample_reported)"
  by code_simp


text \<open>The deletions of a report are applied after its updates. A deployment that a report
  lists as deleted is not stored afterwards, also when the same report carries a newer state
  of it.\<close>

theorem deletion_wins:
  assumes "kind_ok K" and "\<And>ns n k r. kGet K ns n k = Inr r \<Longrightarrow> fst (kDelete K ns n k) = None"
    and "dec b = Some rs" "DelMap rs = Some m"
    and "Some r \<in> snd ` set m" "label (rMeta r) ClusterLabel \<noteq> []"
    and "handleDeploymentReport K dec cn b k = Some (e, k')"
  shows "\<forall>x. kGet K (omNamespace (rMeta r)) (renamed r) k' \<noteq> Inr x"
proof -
  have d: "fst (DeleteDeployment K q k) = None"
    if "kGet K (omNamespace (rMeta q)) (omName (rMeta q)) k = Inr r" for q k r
    using assms(2) [OF that] by (simp add: DeleteDeployment_def res_Delete_def split_beta)
  from assms(3,4,7) obtain k2 where "res_DelMap (DeleteDeployment K) m k2 = Some k'"
    by (auto simp: deployment_defs decoded_def res_Report_def Let_def split: option.splits if_splits)
  from deployments.delMap_gone [OF assms(1) d assms(5,6) this] show ?thesis .
qed

theorem deletion_wins_witness:
  "\<forall>x. sk_get ''default'' ''db-c1'' sample_reported \<noteq> Inr x"
proof -
  let ?r = "sample_object ''db'' ''c1'' ''4'' ''ready''"
  have "\<forall>x. sk_get (omNamespace (rMeta ?r)) (renamed ?r) sample_reported \<noteq> Inr x"
  proof (rule deletion_wins [where K = sample_kind, unfolded sample_kind_simps,
        OF sample_kind_ok _ refl _ _ _ sample_reported_some])
    show "fst (sk_delete ns n k) = None" if "sk_get ns n k = Inr r" for ns n r and k :: "bytes kstore"
      using that by (rule sk_delete_stored)
    show "DelMap sample_report = Some [(''default/db'', Some ?r)]" by (simp add: sample_report_def)
  qed (simp_all add: sample_object_def label_def ClusterLabel_def)
  moreover have "omNamespace (rMeta ?r) = ''default''" "renamed ?r = ''db-c1''" by code_simp+
  ultimately show ?thesis by simp
qed

text \<open>A report with a version below the stored one, or whose version or that of the stored
  object is missing or not a number, is refused with an error and changes nothing.\<close>

theorem stale_update_refused:
  assumes "kind_ok K" "kGet K (omNamespace (rMeta r)) (omName (rMeta r)) k = Inr old"
    and "case (edgeVersion r, edgeVersion old) of (Some new, Some stored) \<Rightarrow> new < stored | _ \<Rightarrow> True"
  shows "CreateOrUpdateDeployment K r k = (Some EdgeVersionCheck, k)"
proof -
  have "\<not> checkEdgeVersion (rMeta r) (rMeta old)"
    using assms(3) by (auto simp: checkEdgeVersion_def edgeVersion_def split: option.splits)
  with updateWith_stale [OF kind_okD(7) [OF assms(1)], of "res_Get omNamespace K" r k old] assms(2)
  show ?thesis
    by (simp add: CreateOrUpdateDeployment_def res_CreateOrUpdate_def res_Update_def res_Get_def)
qed

theorem stale_update_refused_witness:
  "CreateOrUpdateDeployment sample_kind (sample_object ''db-c1'' ''c1'' ''3'' ''stale'') sample_store =
     (Some EdgeVersionCheck, sample_store)"
  by (rule stale_update_refused [OF sample_kind_ok, where old = "sample_object ''db-c1'' ''c1'' ''4'' ''ready''"];
      code_simp)

text \<open>Objects of clusters whose names have no dash keep their identity: two reported objects
  that get the same central name have the same name and come from the same cluster.\<close>

theorem unique_names_injective:
  assumes "UniqueResourceName a = Inr a'" "UniqueResourceName b = Inr b'" "omName a' = omName b'"
    and "CHR ''-'' \<notin> set (label a ClusterLabel)" "CHR ''-'' \<notin> set (label b ClusterLabel)"
  shows "omName a = omName b \<and> label a ClusterLabel = label b ClusterLabel"
proof -
  have tail: "takeWhile (\<lambda>c. c \<noteq> CHR ''-'') (rev (xs @ CHR ''-'' # us)) = rev us"
    if "CHR ''-'' \<notin> set us" for xs us :: string
    using that by (simp, subst takeWhile_append2) auto
  have split: "xs = ys \<and> us = vs" if e: "xs @ CHR ''-'' # us = ys @ CHR ''-'' # vs"
      and "CHR ''-'' \<notin> set us" "CHR ''-'' \<notin> set vs" for xs ys us vs :: string
  proof -
    have "rev us = rev vs" using tail [OF that(2), of xs] tail [OF that(3), of ys] e by simp
    with e show ?thesis by simp
  qed
  from assms show ?thesis
    by (intro split) (auto simp: UniqueResourceName_def UniqueResourceNameSeparator_def split: if_splits)
qed

theorem unique_names_injective_witness:
  "omName (rMeta (sample_object ''web'' ''c1'' ''1'' [])) = omName (rMeta (sample_object ''web'' ''c1'' ''2'' []))"
  by (rule conjunct1 [OF unique_names_injective [where
        a' = "(rMeta (sample_object ''web'' ''c1'' ''1'' []))\<lparr>omName := ''web-c1''\<rparr>" and
        b' = "(rMeta (sample_object ''web'' ''c1'' ''2'' []))\<lparr>omName := ''web-c1''\<rparr>"]])
    (simp_all add: UniqueResourceName_def UniqueResourceNameSeparator_def sample_object_def label_def
      ClusterLabel_def)

text \<open>With a dash in a cluster's name the central names are not unique: an object \<open>a-b\<close> of
  cluster \<open>c\<close> and an object \<open>a\<close> of cluster \<open>b-c\<close> become the same central object.\<close>

theorem unique_names_collide:
  "\<exists>a b. label a ClusterLabel \<noteq> label b ClusterLabel \<and> omName a \<noteq> omName b \<and>
     map_sum id omName (UniqueResourceName a) = Inr ''a-b-c'' \<and>
     map_sum id omName (UniqueResourceName b) = Inr ''a-b-c''"
  by (rule exI [of _ "rMeta (sample_object ''a-b'' ''c'' ''1'' [])"],
      rule exI [of _ "rMeta (sample_object ''a'' ''b-c'' ''1'' [])"])
    (simp add: UniqueResourceName_def UniqueResourceNameSeparator_def sample_object_def label_def
      ClusterLabel_def)

end
