(* ===== verification/LoadBalancer.thy ===== *)
theory LoadBalancer
  imports Prelude "HOL-Library.Char_ord" "HOL-Library.List_Lexorder" "HOL-Library.Multiset"
begin

text \<open>
  The load balancer of the edge hub (\<^verbatim>\<open>pkg/loadbalancer\<close>): it spreads connections over the API
  servers of the center, checks their health and tells the syncer when the center comes and
  goes. A connection is a number. Dialling and shuffling are arguments. The search for a
  backend runs while other goroutines may replace the list of servers: \<open>interfere\<close> is what they
  do before each round, and the loop has fuel, so that not returning is \<open>None\<close>.
\<close>

type_synonym conn = nat

record LoadBalancer =
  tcpConnection :: "(string, (conn, unit) gomap) gomap"
  serverHealthStatus :: "(string, bool) gomap"
  originalServerAddress :: string
  nextServerIndex :: nat
  currentServerAddress :: string
  ServerAddresses :: "string list"
  randomServers :: "string list"
  lbRemoteEnable :: bool
  closedConns :: "conn list"

section \<open>The list of servers\<close>

fun sortLoop :: "string \<Rightarrow> string list \<Rightarrow> string list \<Rightarrow> string list \<Rightarrow> bool \<Rightarrow> string list \<times> bool" where
  "sortLoop search [] skip result found = (result, found)"
| "sortLoop search (entry # input) skip result found =
     (if entry \<in> set skip then sortLoop search input skip result found
      else sortLoop search input (entry # skip) (result @ [entry]) (found \<or> search = entry))"

definition sortServers :: "string list \<Rightarrow> string \<Rightarrow> string list \<times> bool" where
  "sortServers input search =
     (case sortLoop search input [[]] [] False of (result, found) \<Rightarrow> (sort result, found))"

definition setServers ::
  "(string list \<Rightarrow> string list) \<Rightarrow> string list \<Rightarrow> LoadBalancer \<Rightarrow> bool \<times> LoadBalancer" where
  "setServers shuffle serverAddresses lb =
     (case sortServers serverAddresses (originalServerAddress lb) of
        (addrs, hasOriginalServer) \<Rightarrow>
          if addrs = [] then (False, lb)
          else if addrs = ServerAddresses lb then (False, lb)
          else
            let rs = shuffle addrs @ (if hasOriginalServer then [] else [originalServerAddress lb]) in
            (True, lb\<lparr>ServerAddresses := addrs, randomServers := rs,
               currentServerAddress := rs ! 0, nextServerIndex := 1\<rparr>))"

datatype lb_error = NoServers | AllServersFailed

definition nextServer :: "string \<Rightarrow> LoadBalancer \<Rightarrow> (lb_error + string) \<times> LoadBalancer" where
  "nextServer failedServer lb =
     (if randomServers lb = [] then (Inl NoServers, lb)
      else if length (randomServers lb) = 1 then (Inr (currentServerAddress lb), lb)
      else if failedServer \<noteq> currentServerAddress lb then (Inr (currentServerAddress lb), lb)
      else
        let i = (if nextServerIndex lb \<ge> length (randomServers lb) then 0 else nextServerIndex lb);
            s = randomServers lb ! i
        in (Inr s, lb\<lparr>currentServerAddress := s, nextServerIndex := i + 1\<rparr>))"

text \<open>\<^verbatim>\<open>strconv.Itoa\<close> and \<^verbatim>\<open>net.JoinHostPort\<close> of Go.\<close>

function itoaPos :: "int \<Rightarrow> string" where
  "itoaPos n = (if n < 10 then [] else itoaPos (n div 10)) @ [char_of (48 + n mod 10)]"
  by auto
termination by (relation "measure nat") auto

declare itoaPos.simps [simp del]

definition Itoa :: "int \<Rightarrow> string" where
  "Itoa i = (if i < 0 then CHR ''-'' # itoaPos (- i) else itoaPos i)"

definition JoinHostPort :: "string \<Rightarrow> string \<Rightarrow> string" where
  "JoinHostPort host port =
     (if CHR '':'' \<in> set host \<or> CHR ''%'' \<in> set host then ''['' @ host @ '']:'' @ port
      else host @ '':'' @ port)"

record EndpointSubset =
  epAddresses :: "string list"
  epPorts :: "int list"

definition getAddresses :: "EndpointSubset list option \<Rightarrow> string list" where
  "getAddresses endpoint =
     (case endpoint of
        None \<Rightarrow> []
      | Some subsets \<Rightarrow>
          concat (map (\<lambda>subset.
            let port = (case epPorts subset of [] \<Rightarrow> [] | p # _ \<Rightarrow> Itoa p);
                port' = (if port = [] then ''443'' else port)
            in map (\<lambda>ip. JoinHostPort ip port') (epAddresses subset)) subsets))"

definition lb_update :: "(string list \<Rightarrow> string list) \<Rightarrow> string list \<Rightarrow> LoadBalancer \<Rightarrow> LoadBalancer" where
  "lb_update shuffle serverAddress lb = snd (setServers shuffle serverAddress lb)"

definition newLoadBalancer :: "string \<Rightarrow> LoadBalancer" where
  "newLoadBalancer server =
     \<lparr>tcpConnection = [], serverHealthStatus = [], originalServerAddress = server,
      nextServerIndex = 0, currentServerAddress = [], ServerAddresses = [], randomServers = [],
      lbRemoteEnable = False, closedConns = []\<rparr>"

text \<open>Finding the backends: the endpoints at the start, then the events of the watch, which
  compare with the addresses seen last. An event without endpoints is ignored.\<close>

definition findBackend_init ::
  "(string list \<Rightarrow> string list) \<Rightarrow> EndpointSubset list option \<Rightarrow> LoadBalancer \<Rightarrow>
   string list \<times> LoadBalancer" where
  "findBackend_init shuffle endpoint lb =
     (if endpoint \<noteq> None then (getAddresses endpoint, lb_update shuffle (getAddresses endpoint) lb)
      else ([], lb))"

definition findBackend_event ::
  "(string list \<Rightarrow> string list) \<Rightarrow> EndpointSubset list option \<Rightarrow> string list \<times> LoadBalancer \<Rightarrow>
   string list \<times> LoadBalancer" where
  "findBackend_event shuffle endpoint s =
     (case s of (addresses, lb) \<Rightarrow>
        if endpoint = None then s
        else
          let newAddresses = getAddresses endpoint in
          if newAddresses = addresses then s
          else (newAddresses, lb_update shuffle newAddresses lb))"

definition lb_Start ::
  "(string list \<Rightarrow> string list) \<Rightarrow> string \<Rightarrow> EndpointSubset list option \<Rightarrow> string list \<times> LoadBalancer" where
  "lb_Start shuffle server endpoint =
     findBackend_init shuffle endpoint (snd (setServers shuffle [server] (newLoadBalancer server)))"

section \<open>Connections and health\<close>

definition addTcpConnection :: "string \<Rightarrow> conn list \<Rightarrow> LoadBalancer \<Rightarrow> LoadBalancer" where
  "addTcpConnection addr cs lb =
     (let old = (case go_get (tcpConnection lb) addr of None \<Rightarrow> [] | Some m \<Rightarrow> m) in
      lb\<lparr>tcpConnection := go_put addr (fold (\<lambda>c. go_put c ()) cs old) (tcpConnection lb)\<rparr>)"

definition deleteTcpConnection :: "string \<Rightarrow> conn list \<Rightarrow> LoadBalancer \<Rightarrow> LoadBalancer" where
  "deleteTcpConnection addr cs lb =
     lb\<lparr>closedConns := closedConns lb @ cs,
        tcpConnection := (case go_get (tcpConnection lb) addr of
           None \<Rightarrow> tcpConnection lb
         | Some m \<Rightarrow> go_put addr (fold go_del cs m) (tcpConnection lb))\<rparr>"

definition getTcpConnection :: "string \<Rightarrow> LoadBalancer \<Rightarrow> (conn, unit) gomap" where
  "getTcpConnection addr lb = (case go_get (tcpConnection lb) addr of None \<Rightarrow> [] | Some m \<Rightarrow> m)"

definition setHealthStatus :: "string \<Rightarrow> bool \<Rightarrow> LoadBalancer \<Rightarrow> LoadBalancer" where
  "setHealthStatus addr status lb =
     lb\<lparr>serverHealthStatus := go_put addr status (serverHealthStatus lb)\<rparr>"

definition getHealthStatus :: "string \<Rightarrow> LoadBalancer \<Rightarrow> bool" where
  "getHealthStatus addr lb =
     (case go_get (serverHealthStatus lb) addr of None \<Rightarrow> False | Some status \<Rightarrow> status)"

definition getCurrentServerList :: "LoadBalancer \<Rightarrow> string list" where
  "getCurrentServerList lb = randomServers lb"

definition RemoteReady :: string where "RemoteReady = ''ready''"
definition RemoteNotReady :: string where "RemoteNotReady = ''not_ready''"

text \<open>The second component is what is sent on the health channel.\<close>

definition sendSignalToSyncer :: "string \<Rightarrow> LoadBalancer \<Rightarrow> LoadBalancer \<times> bool list" where
  "sendSignalToSyncer signal lb =
     (if signal = RemoteReady
      then (if \<not> lbRemoteEnable lb then (lb\<lparr>lbRemoteEnable := True\<rparr>, [True]) else (lb, []))
      else if signal = RemoteNotReady
      then (if lbRemoteEnable lb then (lb\<lparr>lbRemoteEnable := False\<rparr>, [False]) else (lb, []))
      else (lb, []))"

definition checkServer :: "(string \<Rightarrow> conn option) \<Rightarrow> string \<Rightarrow> LoadBalancer \<times> bool \<Rightarrow> LoadBalancer \<times> bool"
  where
  "checkServer dial addr s =
     (case s of (lb, isRemoteHealth) \<Rightarrow>
        if dial addr = None
        then (setHealthStatus addr False
                (fold (\<lambda>c. deleteTcpConnection addr [c]) (go_keys (getTcpConnection addr lb)) lb),
              isRemoteHealth)
        else (setHealthStatus addr True lb, True))"

definition healthCheck :: "(string \<Rightarrow> conn option) \<Rightarrow> LoadBalancer \<Rightarrow> LoadBalancer \<times> bool list" where
  "healthCheck dial lb =
     (case fold (checkServer dial) (getCurrentServerList lb) (lb, False) of
        (lb', isRemoteHealth) \<Rightarrow>
          sendSignalToSyncer (if \<not> isRemoteHealth then RemoteNotReady else RemoteReady) lb')"

section \<open>Choosing a backend\<close>

fun availLoop ::
  "nat \<Rightarrow> (nat \<Rightarrow> LoadBalancer \<Rightarrow> LoadBalancer) \<Rightarrow> (nat \<Rightarrow> string \<Rightarrow> conn option) \<Rightarrow> nat \<Rightarrow> LoadBalancer \<Rightarrow>
   ((lb_error + string \<times> conn) \<times> LoadBalancer) option" where
  "availLoop 0 interfere dial startIndex lb = None"
| "availLoop (Suc fuel) interfere dial startIndex lb0 =
     (let lb = interfere startIndex lb0 in
      if startIndex = length (randomServers lb) then Some (Inl AllServersFailed, lb)
      else
        let targetServer = currentServerAddress lb in
        if \<not> getHealthStatus targetServer lb
        then (case nextServer targetServer lb of
                (Inl e, lb') \<Rightarrow> Some (Inl e, lb')
              | (Inr _, lb') \<Rightarrow> availLoop fuel interfere dial (startIndex + 1) lb')
        else (case dial startIndex targetServer of
                Some c \<Rightarrow> Some (Inr (targetServer, c), snd (nextServer targetServer lb))
              | None \<Rightarrow>
                  (case nextServer targetServer lb of
                     (Inl e, lb') \<Rightarrow> Some (Inl e, lb')
                   | (Inr _, lb') \<Rightarrow> availLoop fuel interfere dial (startIndex + 1) lb')))"

definition getAvailableBackend ::
  "nat \<Rightarrow> (nat \<Rightarrow> LoadBalancer \<Rightarrow> LoadBalancer) \<Rightarrow> (nat \<Rightarrow> string \<Rightarrow> conn option) \<Rightarrow> LoadBalancer \<Rightarrow>
   ((lb_error + string \<times> conn) \<times> LoadBalancer) option" where
  "getAvailableBackend fuel interfere dial lb = availLoop fuel interfere dial 0 lb"

text \<open>One accepted connection, and what copying from one side to the other does: \<open>reads\<close> are
  the results of reading, \<open>writes\<close> whether each write succeeds.\<close>

definition proxyAccept ::
  "nat \<Rightarrow> (nat \<Rightarrow> LoadBalancer \<Rightarrow> LoadBalancer) \<Rightarrow> (nat \<Rightarrow> string \<Rightarrow> conn option) \<Rightarrow> conn \<Rightarrow>
   LoadBalancer \<Rightarrow> LoadBalancer option" where
  "proxyAccept fuel interfere dial proxyConn lb =
     (case getAvailableBackend fuel interfere dial lb of
        None \<Rightarrow> None
      | Some (Inl _, lb') \<Rightarrow> Some (lb'\<lparr>closedConns := closedConns lb' @ [proxyConn]\<rparr>)
      | Some (Inr (targetAddr, targetConn), lb') \<Rightarrow>
          Some (addTcpConnection targetAddr [proxyConn, targetConn] lb'))"

fun copyLoop :: "bytes option list \<Rightarrow> bool list \<Rightarrow> bytes list" where
  "copyLoop (Some b # reads) (True # writes) = b # copyLoop reads writes"
| "copyLoop _ _ = []"

definition proxyRequest ::
  "string \<Rightarrow> conn \<Rightarrow> conn \<Rightarrow> bytes option list \<Rightarrow> bool list \<Rightarrow> LoadBalancer \<Rightarrow> bytes list \<times> LoadBalancer"
  where
  "proxyRequest ip r w reads writes lb =
     (copyLoop reads writes,
      deleteTcpConnection ip [r, w] (lb\<lparr>closedConns := closedConns lb @ [r, w]\<rparr>))"

end
