(* ===== verification/LoadBalancerProps.thy ===== *)
theory LoadBalancerProps
  imports LoadBalancer
begin

text \<open>
  The load balancer keeps a rotation through its servers: a position in the shuffled list. The
  search for a backend goes once around; the health signals alternate.
\<close>

section \<open>The rotation\<close>

definition lb_wf :: "LoadBalancer \<Rightarrow> bool" where
  "lb_wf lb \<longleftrightarrow> 1 \<le> nextServerIndex lb \<and> nextServerIndex lb \<le> length (randomServers lb) \<and>
     currentServerAddress lb = randomServers lb ! (nextServerIndex lb - 1) \<and>
     distinct (randomServers lb) \<and>
     set (randomServers lb) = set (ServerAddresses lb) \<union> {originalServerAddress lb}"

text \<open>The server \<open>k\<close> turns after the current one, and the state after \<open>k\<close> turns.\<close>

definition turn :: "LoadBalancer \<Rightarrow> nat \<Rightarrow> nat" where
  "turn lb k = (nextServerIndex lb - 1 + k) mod length (randomServers lb)"

definition serverAt :: "LoadBalancer \<Rightarrow> nat \<Rightarrow> string" where
  "serverAt lb k = randomServers lb ! turn lb k"

definition advance :: "nat \<Rightarrow> LoadBalancer \<Rightarrow> LoadBalancer" where
  "advance k lb = lb\<lparr>currentServerAddress := serverAt lb k, nextServerIndex := turn lb k + 1\<rparr>"

lemma lb_wf_pos: "lb_wf lb \<Longrightarrow> 0 < length (randomServers lb)"
  by (auto simp: lb_wf_def)

lemma turn_less: "lb_wf lb \<Longrightarrow> turn lb k < length (randomServers lb)"
  unfolding turn_def by (rule mod_less_divisor) (rule lb_wf_pos)

lemma turn_0: "lb_wf lb \<Longrightarrow> turn lb 0 = nextServerIndex lb - 1"
  by (auto simp: turn_def lb_wf_def intro!: mod_less)

lemma serverAt_0: "lb_wf lb \<Longrightarrow> serverAt lb 0 = currentServerAddress lb"
  by (simp add: serverAt_def turn_0 lb_wf_def)

lemma advance_simps [simp]:
  "randomServers (advance k lb) = randomServers lb"
  "serverHealthStatus (advance k lb) = serverHealthStatus lb"
  "ServerAddresses (advance k lb) = ServerAddresses lb"
  "originalServerAddress (advance k lb) = originalServerAddress lb"
  "lbRemoteEnable (advance k lb) = lbRemoteEnable lb"
  "getHealthStatus a (advance k lb) = getHealthStatus a lb"
  by (simp_all add: advance_def getHealthStatus_def)

lemma advance_0: "lb_wf lb \<Longrightarrow> advance 0 lb = lb"
  by (simp add: advance_def serverAt_def turn_0 lb_wf_def)

lemma turn_advance: "lb_wf lb \<Longrightarrow> turn (advance j lb) k = turn lb (j + k)"
  by (simp add: turn_def advance_def mod_add_left_eq add.assoc)

lemma serverAt_advance: "lb_wf lb \<Longrightarrow> serverAt (advance j lb) k = serverAt lb (j + k)"
  by (simp add: serverAt_def turn_advance)

lemma advance_advance: "lb_wf lb \<Longrightarrow> advance k (advance j lb) = advance (j + k) lb"
  by (simp add: advance_def [of k] serverAt_advance turn_advance) (simp add: advance_def)

lemma advance_wf: "lb_wf lb \<Longrightarrow> lb_wf (advance k lb)"
  using turn_less [of lb k] by (auto simp: lb_wf_def advance_def serverAt_def)

lemma nextServer_current:
  assumes "lb_wf lb"
  shows "nextServer (currentServerAddress lb) lb = (Inr (serverAt lb 1), advance 1 lb)"
proof (cases "length (randomServers lb) = 1")
  case True
  with assms have i: "nextServerIndex lb = 1" by (auto simp: lb_wf_def)
  with True have "turn lb 1 = 0" by (simp add: turn_def)
  with i True assms show ?thesis
    by (auto simp: nextServer_def advance_def serverAt_def lb_wf_def)
next
  case False
  let ?n = "length (randomServers lb)"
  have "turn lb 1 = (if nextServerIndex lb \<ge> ?n then 0 else nextServerIndex lb)"
    using assms by (auto simp: turn_def lb_wf_def)
  with False assms show ?thesis
    by (auto simp: nextServer_def advance_def serverAt_def Let_def lb_wf_def)
qed

lemma all_turns:
  assumes "lb_wf lb" "a \<in> set (randomServers lb)"
  shows "\<exists>j < length (randomServers lb). serverAt lb j = a"
proof -
  let ?n = "length (randomServers lb)" and ?p = "nextServerIndex lb - 1"
  from assms(2) obtain i where i: "i < ?n" "randomServers lb ! i = a" by (auto simp: in_set_conv_nth)
  have p: "?p < ?n" using assms(1) by (auto simp: lb_wf_def)
  let ?j = "(i + (?n - ?p)) mod ?n"
  have "(?p + ?j) mod ?n = (?p + (i + (?n - ?p))) mod ?n" by (simp add: mod_add_right_eq)
  also have "?p + (i + (?n - ?p)) = i + ?n" using p by simp
  finally have "(?p + ?j) mod ?n = i" using i(1) by simp
  with i lb_wf_pos [OF assms(1)] show ?thesis
    by (intro exI [of _ ?j]) (simp add: serverAt_def turn_def)
qed

section \<open>The search\<close>

text \<open>The outcome of a search over the next \<open>m\<close> servers that ends \<open>k\<close> turns later: the first
  server that is healthy and answers, or none is.\<close>

definition usable :: "(string \<Rightarrow> conn option) \<Rightarrow> LoadBalancer \<Rightarrow> string \<Rightarrow> bool" where
  "usable D lb t \<longleftrightarrow> getHealthStatus t lb \<and> D t \<noteq> None"

definition found ::
  "(string \<Rightarrow> conn option) \<Rightarrow> LoadBalancer \<Rightarrow> nat \<Rightarrow> lb_error + string \<times> conn \<Rightarrow> nat \<Rightarrow> bool" where
  "found D lb m r k \<longleftrightarrow>
     (case r of
        Inl _ \<Rightarrow> \<forall>j < m. \<not> usable D lb (serverAt lb j)
      | Inr (t, c) \<Rightarrow> 0 < k \<and> k \<le> m \<and> t = serverAt lb (k - 1) \<and> usable D lb t \<and> D t = Some c \<and>
          (\<forall>j < k - 1. \<not> usable D lb (serverAt lb j)))"

lemma found_Suc:
  assumes wf: "lb_wf lb" and no: "\<not> usable D lb (currentServerAddress lb)"
    and f: "found D (advance (Suc 0) lb) m r k"
  shows "found D lb (Suc m) r (Suc k)"
proof -
  have at: "serverAt (advance (Suc 0) lb) j = serverAt lb (Suc j)" for j
    using serverAt_advance [OF wf, of "Suc 0" j] by simp
  have u: "usable D (advance (Suc 0) lb) = usable D lb" by (auto simp: usable_def)
  have no0: "\<not> usable D lb (serverAt lb 0)" using no serverAt_0 [OF wf] by simp
  have less: "(\<forall>j < Suc m. Q j) \<longleftrightarrow> Q 0 \<and> (\<forall>j < m. Q (Suc j))" for m and Q :: "nat \<Rightarrow> bool"
    by (auto simp: less_Suc_eq_0_disj)
  show ?thesis
  proof (cases r)
    case (Inl e)
    with f no0 show ?thesis by (simp add: found_def at u less)
  next
    case (Inr tc)
    with f no0 show ?thesis
      by (cases k) (auto simp: found_def at u less less_Suc_eq_0_disj)
  qed
qed

lemma availLoop_skip:
  assumes "lb_wf lb" "i < length (randomServers lb)" "\<not> usable D lb (currentServerAddress lb)"
  shows "availLoop (Suc fuel) (\<lambda>_ l. l) (\<lambda>_. D) i lb =
    availLoop fuel (\<lambda>_ l. l) (\<lambda>_. D) (Suc i) (advance (Suc 0) lb)"
  using assms by (auto simp: usable_def nextServer_current Let_def)

lemma availLoop_found:
  assumes "lb_wf lb" "i \<le> length (randomServers lb)" "length (randomServers lb) - i < fuel"
  shows "\<exists>r k. availLoop fuel (\<lambda>_ l. l) (\<lambda>_. D) i lb = Some (r, advance k lb) \<and>
    found D lb (length (randomServers lb) - i) r k"
  using assms
proof (induction fuel arbitrary: i lb)
  case (Suc fuel)
  let ?n = "length (randomServers lb)" and ?cur = "currentServerAddress lb"
  consider "i = ?n" | "i < ?n" "usable D lb ?cur" | "i < ?n" "\<not> usable D lb ?cur"
    using Suc.prems(2) by fastforce
  then show ?case
  proof cases
    case 1
    with Suc.prems(1) show ?thesis
      by (intro exI [of _ "Inl AllServersFailed"] exI [of _ 0]) (simp add: advance_0 found_def)
  next
    case 2
    then obtain c where "D ?cur = Some c" by (auto simp: usable_def)
    with 2 Suc.prems(1) show ?thesis
      by (intro exI [of _ "Inr (?cur, c)"] exI [of _ "Suc 0"])
        (auto simp: nextServer_current serverAt_0 found_def usable_def Let_def)
  next
    case 3
    let ?lb = "advance (Suc 0) lb"
    have "?n - Suc i < fuel" using 3(1) Suc.prems(3) by linarith
    with Suc.IH [of ?lb "Suc i"] advance_wf [OF Suc.prems(1), of "Suc 0"] 3(1) Suc.prems(3) obtain r k where
      "availLoop fuel (\<lambda>_ l. l) (\<lambda>_. D) (Suc i) ?lb = Some (r, advance k ?lb)"
      "found D ?lb (?n - Suc i) r k"
      by auto
    with availLoop_skip [OF Suc.prems(1) 3, of fuel] found_Suc [OF Suc.prems(1) 3(2)] 3(1)
    show ?thesis
      by (intro exI [of _ r] exI [of _ "Suc k"])
        (simp add: advance_advance [OF Suc.prems(1)] Suc_diff_Suc [symmetric])
  qed
qed simp

lemma found_none:
  assumes "lb_wf lb" "found D lb (length (randomServers lb)) (Inl e) k" "a \<in> set (randomServers lb)"
  shows "\<not> usable D lb a"
  using all_turns [OF assms(1,3)] assms(2) by (auto simp: found_def)

lemma serverAt_mem: "lb_wf lb \<Longrightarrow> serverAt lb k \<in> set (randomServers lb)"
  by (simp add: serverAt_def turn_less)

text \<open>C11: when nothing replaces the list of servers meanwhile, the search for a backend ends after
  at most one round, and it returns a server of the list that is healthy and answers, unless
  there is none.\<close>

theorem backend_search_terminates:
  assumes "lb_wf lb" "length (randomServers lb) < fuel"
  shows "\<exists>r lb'. getAvailableBackend fuel (\<lambda>_ l. l) (\<lambda>_. dial) lb = Some (r, lb') \<and> lb_wf lb' \<and>
    (case r of
       Inl _ \<Rightarrow> list_all (\<lambda>a. \<not> getHealthStatus a lb \<or> dial a = None) (randomServers lb)
     | Inr (a, c) \<Rightarrow> a \<in> set (randomServers lb) \<and> getHealthStatus a lb \<and> dial a = Some c)"
proof -
  from availLoop_found [OF assms(1), of 0 fuel dial] assms(2) obtain r k where
    r: "availLoop fuel (\<lambda>_ l. l) (\<lambda>_. dial) 0 lb = Some (r, advance k lb)" and
    f: "found dial lb (length (randomServers lb)) r k" by auto
  have "case r of
       Inl _ \<Rightarrow> list_all (\<lambda>a. \<not> getHealthStatus a lb \<or> dial a = None) (randomServers lb)
     | Inr (a, c) \<Rightarrow> a \<in> set (randomServers lb) \<and> getHealthStatus a lb \<and> dial a = Some c"
  proof (cases r)
    case (Inl e)
    with found_none [OF assms(1)] f show ?thesis by (auto simp: list_all_iff usable_def)
  next
    case (Inr ac)
    with f serverAt_mem [OF assms(1)] show ?thesis by (auto simp: found_def usable_def)
  qed
  with r advance_wf [OF assms(1), of k] show ?thesis
    by (intro exI [of _ r] exI [of _ "advance k lb"]) (simp add: getAvailableBackend_def)
qed

section \<open>The list of servers\<close>

lemma sortLoop_spec:
  assumes "sortLoop search input skip result fd = (r, f)" "set result \<subseteq> set skip" "distinct result"
  shows "set r = set result \<union> (set input - set skip) \<and> distinct r \<and>
    (f \<longleftrightarrow> fd \<or> search \<in> set input - set skip)"
  using assms
proof (induction search input skip result fd rule: sortLoop.induct)
  case (2 search entry input skip result fd)
  show ?case
  proof (cases "entry \<in> set skip")
    case True
    with 2 show ?thesis by auto
  next
    case False
    have "set (result @ [entry]) \<subseteq> set (entry # skip)" "distinct (result @ [entry])"
      using False 2(4,5) by auto
    with 2(2) [OF False] 2(3) False show ?thesis by auto
  qed
qed simp

lemma sortServers_spec:
  assumes "sortServers input search = (addrs, f)"
  shows "set addrs = set input - {[]}" "distinct addrs" "f \<longleftrightarrow> search \<in> set addrs"
proof -
  obtain r where r: "sortLoop search input [[]] [] False = (r, f)" "addrs = sort r"
    using assms by (auto simp: sortServers_def split: prod.splits)
  from sortLoop_spec [OF r(1)] r(2)
  show "set addrs = set input - {[]}" "distinct addrs" "f \<longleftrightarrow> search \<in> set addrs" by auto
qed

definition shuffle_ok :: "(string list \<Rightarrow> string list) \<Rightarrow> bool" where
  "shuffle_ok shuffle \<longleftrightarrow> (\<forall>xs. mset (shuffle xs) = mset xs)"

lemma shuffle_okD:
  assumes "shuffle_ok shuffle"
  shows "set (shuffle xs) = set xs" "distinct (shuffle xs) = distinct xs"
proof -
  have m: "mset (shuffle xs) = mset xs" using assms unfolding shuffle_ok_def by blast
  show "set (shuffle xs) = set xs" using m by (rule mset_eq_setD)
  show "distinct (shuffle xs) = distinct xs" using m by (rule mset_eq_imp_distinct_iff)
qed

lemma setServers_wf:
  assumes sh: "shuffle_ok shuffle" and s: "setServers shuffle addrs lb = (b, lb')"
    and "b \<or> lb_wf lb"
  shows "lb_wf lb'"
proof (cases b)
  case True
  obtain as f where a: "sortServers addrs (originalServerAddress lb) = (as, f)" by fastforce
  let ?rs = "shuffle as @ (if f then [] else [originalServerAddress lb])"
  from s a True have ne: "as \<noteq> []" and lb': "lb' = lb\<lparr>ServerAddresses := as, randomServers := ?rs,
      currentServerAddress := ?rs ! 0, nextServerIndex := 1\<rparr>"
    by (auto simp: setServers_def Let_def split: if_splits)
  note sp = sortServers_spec [OF a]
  have "?rs \<noteq> []" using ne shuffle_okD(1) [OF sh, of as] by auto
  moreover have "distinct ?rs" using sp(2,3) shuffle_okD [OF sh, of as] by auto
  moreover have "set ?rs = set as \<union> {originalServerAddress lb}"
    using sp(3) shuffle_okD(1) [OF sh, of as] by auto
  ultimately show ?thesis unfolding lb' lb_wf_def by (simp add: Suc_le_eq)
next
  case False
  with s assms(3) show ?thesis by (auto simp: setServers_def Let_def split: prod.splits if_splits)
qed

lemma setServers_keeps:
  "setServers shuffle addrs lb = (b, lb') \<Longrightarrow> lbRemoteEnable lb' = lbRemoteEnable lb"
  by (auto simp: setServers_def Let_def split: prod.splits if_splits)

lemma nextServer_wf:
  assumes "lb_wf lb" "nextServer failed lb = (r, lb')"
  shows "lb_wf lb'" "lbRemoteEnable lb' = lbRemoteEnable lb"
  using assms advance_wf [OF assms(1), of 1] nextServer_current [OF assms(1)]
  by (cases "failed = currentServerAddress lb"; auto simp: nextServer_def split: if_splits)+

lemma availLoop_wf:
  "availLoop fuel (\<lambda>_ l. l) dial i lb = Some (r, lb') \<Longrightarrow> lb_wf lb \<Longrightarrow>
     lb_wf lb' \<and> lbRemoteEnable lb' = lbRemoteEnable lb"
proof (induction fuel arbitrary: i lb)
  case (Suc fuel)
  obtain x lb1 where n: "nextServer (currentServerAddress lb) lb = (x, lb1)" by fastforce
  from nextServer_wf [OF Suc.prems(2) n] Suc.IH [of "Suc i" lb1] Suc.prems n show ?case
    by (auto simp: Let_def split: if_splits sum.splits option.splits)
qed simp

section \<open>Runs\<close>

text \<open>What does not touch the rotation or the signals.\<close>

definition same_rotation :: "LoadBalancer \<Rightarrow> LoadBalancer \<Rightarrow> bool" where
  "same_rotation a b \<longleftrightarrow> randomServers a = randomServers b \<and> nextServerIndex a = nextServerIndex b \<and>
     currentServerAddress a = currentServerAddress b \<and> ServerAddresses a = ServerAddresses b \<and>
     originalServerAddress a = originalServerAddress b \<and> lbRemoteEnable a = lbRemoteEnable b"

lemma same_rotation_wf: "same_rotation a b \<Longrightarrow> lb_wf b \<Longrightarrow> lb_wf a"
  by (simp add: same_rotation_def lb_wf_def)

lemma same_rotation_ops [simp]:
  "same_rotation lb lb" "same_rotation (setHealthStatus a h lb') lb = same_rotation lb' lb"
  "same_rotation (deleteTcpConnection a cs lb') lb = same_rotation lb' lb"
  "same_rotation (addTcpConnection a cs lb') lb = same_rotation lb' lb"
  "same_rotation (lb'\<lparr>closedConns := ccs\<rparr>) lb = same_rotation lb' lb"
  by (simp_all add: same_rotation_def setHealthStatus_def deleteTcpConnection_def addTcpConnection_def Let_def)

lemma same_rotation_deletes:
  "same_rotation lb' lb \<Longrightarrow> same_rotation (fold (\<lambda>c. deleteTcpConnection a [c]) cs lb') lb"
  by (induction cs arbitrary: lb') simp_all

lemma checks_same_rotation:
  "same_rotation (fst s) lb \<Longrightarrow> same_rotation (fst (fold (checkServer dial) as s)) lb"
  by (induction as arbitrary: s) (auto simp: checkServer_def same_rotation_deletes split: prod.splits)

lemma healthCheck_effect:
  assumes "healthCheck dial lb = (lb', sig)"
  shows "lb_wf lb \<Longrightarrow> lb_wf lb'"
    "sig = (if lbRemoteEnable lb' = lbRemoteEnable lb then [] else [lbRemoteEnable lb'])"
proof -
  obtain lb1 h where f: "fold (checkServer dial) (getCurrentServerList lb) (lb, False) = (lb1, h)" by fastforce
  have s: "same_rotation lb1 lb" using checks_same_rotation [of "(lb, False)" lb dial] f by (metis fst_conv same_rotation_ops(1))
  from assms f have e: "(lb', sig) = sendSignalToSyncer (if \<not> h then RemoteNotReady else RemoteReady) lb1"
    by (simp add: healthCheck_def)
  then have "same_rotation (lb'\<lparr>lbRemoteEnable := lbRemoteEnable lb\<rparr>) lb"
    using s by (auto simp: sendSignalToSyncer_def same_rotation_def split: if_splits)
  then show "lb_wf lb'" if "lb_wf lb" using that by (auto simp: same_rotation_def lb_wf_def)
  show "sig = (if lbRemoteEnable lb' = lbRemoteEnable lb then [] else [lbRemoteEnable lb'])"
    using e s by (auto simp: sendSignalToSyncer_def same_rotation_def RemoteReady_def RemoteNotReady_def split: if_splits)
qed

text \<open>A run of the load balancer: endpoints change, servers are checked, connections come and
  end. The list holds the signals sent so far.\<close>

inductive lb_run ::
  "(string list \<Rightarrow> string list) \<Rightarrow> string \<Rightarrow> string list \<times> LoadBalancer \<Rightarrow> bool list \<Rightarrow> bool"
  for shuffle server where
  run_start: "lb_run shuffle server (lb_Start shuffle server ep) []"
| run_endpoints: "lb_run shuffle server s tr \<Longrightarrow> lb_run shuffle server (findBackend_event shuffle ep s) tr"
| run_check: "lb_run shuffle server (as, lb) tr \<Longrightarrow> healthCheck dial lb = (lb', sig) \<Longrightarrow>
    lb_run shuffle server (as, lb') (tr @ sig)"
| run_accept: "lb_run shuffle server (as, lb) tr \<Longrightarrow>
    proxyAccept fuel (\<lambda>_ l. l) dials c lb = Some lb' \<Longrightarrow> lb_run shuffle server (as, lb') tr"
| run_end: "lb_run shuffle server (as, lb) tr \<Longrightarrow> proxyRequest ip r w reads writes lb = (out, lb') \<Longrightarrow>
    lb_run shuffle server (as, lb') tr"

lemma lb_update_keeps:
  assumes "shuffle_ok shuffle" "lb_wf lb"
  shows "lb_wf (lb_update shuffle as lb)" "lbRemoteEnable (lb_update shuffle as lb) = lbRemoteEnable lb"
proof -
  obtain b lb' where s: "setServers shuffle as lb = (b, lb')" by fastforce
  with setServers_wf [OF assms(1) s] setServers_keeps [OF s] assms(2)
  show "lb_wf (lb_update shuffle as lb)" "lbRemoteEnable (lb_update shuffle as lb) = lbRemoteEnable lb"
    by (simp_all add: lb_update_def)
qed

lemma lb_Start_wf:
  assumes "shuffle_ok shuffle" "server \<noteq> []"
  shows "lb_wf (snd (lb_Start shuffle server ep))" "\<not> lbRemoteEnable (snd (lb_Start shuffle server ep))"
proof -
  obtain b lb where s: "setServers shuffle [server] (newLoadBalancer server) = (b, lb)" by fastforce
  moreover from s assms(2) have "b"
    by (auto simp: setServers_def sortServers_def newLoadBalancer_def Let_def split: if_splits)
  ultimately have wf: "lb_wf lb" using setServers_wf [OF assms(1) s] by simp
  have r: "\<not> lbRemoteEnable lb" using setServers_keeps [OF s] by (simp add: newLoadBalancer_def)
  show "lb_wf (snd (lb_Start shuffle server ep))" "\<not> lbRemoteEnable (snd (lb_Start shuffle server ep))"
    using lb_update_keeps [OF assms(1) wf] wf r by (simp_all add: lb_Start_def findBackend_init_def s)
qed

lemma proxyAccept_keeps:
  assumes "proxyAccept fuel (\<lambda>_ l. l) dials c lb = Some lb'" "lb_wf lb"
  shows "lb_wf lb' \<and> lbRemoteEnable lb' = lbRemoteEnable lb"
proof -
  from assms(1) obtain r lb1 where g: "availLoop fuel (\<lambda>_ l. l) dials 0 lb = Some (r, lb1)"
    and s: "same_rotation lb' lb1"
    by (auto simp: proxyAccept_def getAvailableBackend_def split: option.splits sum.splits)
  from availLoop_wf [OF g assms(2)] same_rotation_wf [OF s] s show ?thesis
    by (simp add: same_rotation_def)
qed

lemma proxyRequest_keeps:
  "proxyRequest ip r w reads writes lb = (out, lb') \<Longrightarrow> same_rotation lb' lb"
  by (auto simp: proxyRequest_def)

lemma lb_run_signals:
  assumes "lb_run shuffle server s tr" "shuffle_ok shuffle" "server \<noteq> []"
  shows "lb_wf (snd s) \<and> alternate tr \<and> lbRemoteEnable (snd s) = odd (length tr)"
  using assms(1)
proof induction
  case (run_start ep)
  from lb_Start_wf [OF assms(2,3)] show ?case by (simp add: alternate_def)
next
  case (run_endpoints s tr ep)
  then show ?case
    using lb_update_keeps [OF assms(2)] by (auto simp: findBackend_event_def Let_def split: prod.splits)
next
  case (run_check as lb tr dial lb' sig)
  from healthCheck_effect [OF run_check.hyps(2)] run_check.IH show ?case
    by (auto intro: alternate_snoc [THEN iffD2])
next
  case (run_accept as lb tr fuel dials c lb')
  with proxyAccept_keeps [OF run_accept.hyps(2)] show ?case by simp
next
  case (run_end as lb tr ip r w reads writes out lb')
  with proxyRequest_keeps [OF run_end.hyps(2)] show ?case
    by (auto intro: same_rotation_wf simp: same_rotation_def)
qed

text \<open>C13: at every moment of a run the current server is the one before the next index in the
  list, the list holds every known server and the configured one once, and the signals sent to
  the syncer alternate, beginning with \<open>True\<close>; the last one is the state the balancer
  reports.\<close>

theorem lb_run_invariant:
  assumes "lb_run shuffle server s tr" "shuffle_ok shuffle" "server \<noteq> []"
  shows "lb_wf (snd s) \<and> alternate tr \<and> lbRemoteEnable (snd s) = odd (length tr)"
  using assms by (rule lb_run_signals)

text \<open>A sample: two API servers and the configured one, of which one answers.\<close>

definition sample_endpoints :: "EndpointSubset list option" where
  "sample_endpoints = Some [\<lparr>epAddresses = [''10.0.0.2'', ''10.0.0.1''], epPorts = [6443]\<rparr>]"

definition sample_dial :: "string \<Rightarrow> conn option" where
  "sample_dial a = (if a = ''10.0.0.2:6443'' then Some 7 else None)"

definition sample_lb :: LoadBalancer where
  "sample_lb = snd (lb_Start rev ''m:443'' sample_endpoints)"

lemma sample_shuffle: "shuffle_ok rev"
  by (simp add: shuffle_ok_def)

lemma sample_servers:
  "randomServers (fst (healthCheck sample_dial sample_lb)) = [''10.0.0.2:6443'', ''10.0.0.1:6443'', ''m:443'']"
  "snd (healthCheck sample_dial sample_lb) = [True]"
  by code_simp+

lemma sample_run:
  "lb_run rev ''m:443'' (fst (lb_Start rev ''m:443'' sample_endpoints), fst (healthCheck sample_dial sample_lb))
     [True]"
proof -
  have "lb_run rev ''m:443'' (fst (lb_Start rev ''m:443'' sample_endpoints), sample_lb) []"
    using run_start [of rev "''m:443''" sample_endpoints] by (simp add: sample_lb_def)
  from run_check [OF this, of sample_dial "fst (healthCheck sample_dial sample_lb)" "[True]"]
  show ?thesis using sample_servers(2) by (metis append_Nil prod.collapse)
qed

theorem lb_run_invariant_witness:
  "lbRemoteEnable (fst (healthCheck sample_dial sample_lb)) \<and> lb_wf (fst (healthCheck sample_dial sample_lb))"
  using lb_run_invariant [OF sample_run sample_shuffle] by simp

lemma sample_checked_wf: "lb_wf (fst (healthCheck sample_dial sample_lb))"
proof -
  have "lb_wf sample_lb" unfolding sample_lb_def by (rule lb_Start_wf(1) [OF sample_shuffle]) simp
  then show ?thesis
    using healthCheck_effect(1) [of sample_dial sample_lb] by (metis prod.collapse)
qed

theorem backend_search_terminates_witness:
  "\<exists>r lb'. getAvailableBackend 4 (\<lambda>_ l. l) (\<lambda>_. sample_dial) (fst (healthCheck sample_dial sample_lb)) =
     Some (r, lb') \<and> lb_wf lb'"
  using backend_search_terminates [OF sample_checked_wf, of 4 sample_dial] sample_servers(1) by auto

text \<open>With every server healthy and answering, consecutive connections go around: the server
  of the next connection is the current one, and after it the next in the list is current.\<close>

theorem round_robin:
  assumes "lb_wf lb" "\<And>a. a \<in> set (randomServers lb) \<Longrightarrow> getHealthStatus a lb"
    and "\<And>a. a \<in> set (randomServers lb) \<Longrightarrow> dial a = Some (conn a)" and "0 < fuel"
  shows "((\<lambda>l. snd (the (getAvailableBackend fuel (\<lambda>_ l. l) (\<lambda>_. dial) l))) ^^ k) lb = advance k lb \<and>
    getAvailableBackend fuel (\<lambda>_ l. l) (\<lambda>_. dial) (advance k lb) =
      Some (Inr (serverAt lb k, conn (serverAt lb k)), advance (Suc k) lb)"
proof -
  have one: "getAvailableBackend fuel (\<lambda>_ l. l) (\<lambda>_. dial) (advance k lb) =
      Some (Inr (serverAt lb k, conn (serverAt lb k)), advance (Suc k) lb)" for k
  proof -
    let ?l = "advance k lb"
    have wf: "lb_wf ?l" using assms(1) by (rule advance_wf)
    have cur: "currentServerAddress ?l = serverAt lb k" by (simp add: advance_def)
    obtain f where f: "fuel = Suc f" using assms(4) by (cases fuel) auto
    have "serverAt lb k \<in> set (randomServers lb)" using assms(1) by (rule serverAt_mem)
    with assms(2,3) cur nextServer_current [OF wf] advance_advance [OF assms(1), of 1 k] lb_wf_pos [OF assms(1)]
    show ?thesis by (simp add: getAvailableBackend_def f Let_def)
  qed
  have "((\<lambda>l. snd (the (getAvailableBackend fuel (\<lambda>_ l. l) (\<lambda>_. dial) l))) ^^ k) lb = advance k lb"
    by (induction k) (simp_all add: advance_0 [OF assms(1)] one)
  with one show ?thesis by simp
qed

theorem round_robin_witness:
  "getAvailableBackend 1 (\<lambda>_ l. l) (\<lambda>_ a. Some 0)
     (advance 4 (fst (healthCheck (\<lambda>a. Some 0) sample_lb))) =
   Some (Inr (''10.0.0.1:6443'', 0), advance 5 (fst (healthCheck (\<lambda>a. Some 0) sample_lb)))"
proof -
  let ?lb = "fst (healthCheck (\<lambda>a. Some 0) sample_lb)"
  have "lb_wf sample_lb" unfolding sample_lb_def by (rule lb_Start_wf(1) [OF sample_shuffle]) simp
  then have wf: "lb_wf ?lb"
    using healthCheck_effect(1) [of "\<lambda>a. Some 0" sample_lb] by (metis prod.collapse)
  have "list_all (\<lambda>a. getHealthStatus a ?lb) (randomServers ?lb)" by code_simp
  moreover have "serverAt ?lb 4 = ''10.0.0.1:6443''" by code_simp
  ultimately show ?thesis
    using round_robin [OF wf, of "\<lambda>a. Some 0" "\<lambda>a. 0" 1 4] by (simp add: list_all_iff)
qed

text \<open>The search compares its counter with the length of a list that another goroutine may
  replace by a shorter one. Then the counter can pass the length, and when no server answers,
  the search never returns.\<close>

theorem backend_search_diverges:
  "getAvailableBackend fuel (\<lambda>i lb. if i = 2 then lb_update rev [''m:443''] lb else lb) (\<lambda>_ _. None) sample_lb
     = None"
proof -
  let ?f = "\<lambda>(i::nat) lb. if i = 2 then lb_update rev [''m:443''] lb else lb"
  have stuck: "availLoop fuel ?f (\<lambda>_ _. None) i lb = None"
    if "2 < i" "length (randomServers lb) = 1" for fuel i lb
    using that
  proof (induction fuel arbitrary: i)
    case (Suc fuel)
    then have "nextServer (currentServerAddress lb) lb = (Inr (currentServerAddress lb), lb)"
      by (auto simp: nextServer_def)
    with Suc show ?case by (simp add: Let_def)
  qed simp
  have step: "availLoop (Suc fuel) ?f (\<lambda>_ _. None) i lb =
      availLoop fuel ?f (\<lambda>_ _. None) (Suc i) (snd (nextServer (currentServerAddress (?f i lb)) (?f i lb)))"
    if "i \<noteq> length (randomServers (?f i lb))" "randomServers (?f i lb) \<noteq> []" for fuel i lb
    using that by (simp add: Let_def nextServer_def)
  let ?g = "\<lambda>(i::nat) lb. snd (nextServer (currentServerAddress (?f i lb)) (?f i lb))"
  have unroll: "availLoop fuel ?f (\<lambda>_ _. None) i lb = None"
    if "\<And>fuel. availLoop fuel ?f (\<lambda>_ _. None) (Suc i) (?g i lb) = None"
      "i \<noteq> length (randomServers (?f i lb))" "randomServers (?f i lb) \<noteq> []" for fuel i lb
    using that(1) step [OF that(2,3)] by (cases fuel) (simp_all del: availLoop.simps(2))
  have l: "0 \<noteq> length (randomServers (?f 0 sample_lb))" "randomServers (?f 0 sample_lb) \<noteq> []"
    "Suc 0 \<noteq> length (randomServers (?f (Suc 0) (?g 0 sample_lb)))"
    "randomServers (?f (Suc 0) (?g 0 sample_lb)) \<noteq> []"
    "Suc (Suc 0) \<noteq> length (randomServers (?f (Suc (Suc 0)) (?g (Suc 0) (?g 0 sample_lb))))"
    "randomServers (?f (Suc (Suc 0)) (?g (Suc 0) (?g 0 sample_lb))) \<noteq> []"
    "length (randomServers (?g (Suc (Suc 0)) (?g (Suc 0) (?g 0 sample_lb)))) = 1" by code_simp+
  have "2 < Suc (Suc (Suc 0))" by simp
  note stuck [OF this l(7)]
  from unroll [OF unroll [OF unroll [OF this l(5,6)] l(3,4)] l(1,2)]
  show ?thesis unfolding getAvailableBackend_def .
qed

end
