(* ===== verification/Storage.thy ===== *)
theory Storage
  imports Resources
begin

text \<open>
  The local storage of an edge node (\<^verbatim>\<open>pkg/storage\<close>, \<^verbatim>\<open>pkg/util\<close>): a cache per resource type
  in front of a LevelDB that survives restarts. The indexers of client-go, LevelDB and JSON are
  arguments; the laws the code relies on are \<open>indexer_ok\<close>, \<open>leveldb_ok\<close> and \<open>json_ok\<close>.
\<close>

section \<open>Objects and their types\<close>

text \<open>An object of any of the resource types; \<open>hoType\<close> is its Go type, named by its resource
  type. \<open>hoNodeName\<close> is \<^verbatim>\<open>Spec.NodeName\<close> of a pod, \<open>hoRest\<close> everything the code does not look
  into.\<close>

record hubobj =
  hoType :: string
  hoAPIVersion :: string
  hoKind :: string
  hoMeta :: ObjectMeta
  hoNodeName :: string
  hoRest :: bytes

definition ResourcePod :: string where "ResourcePod = ''pods''"
definition ResourceNode :: string where "ResourceNode = ''nodes''"
definition ResourceNodeLease :: string where "ResourceNodeLease = ''leases''"
definition ResourceEndpoint :: string where "ResourceEndpoint = ''endpoints''"
definition ResourceService :: string where "ResourceService = ''services''"
definition ResourceConfigMap :: string where "ResourceConfigMap = ''configmaps''"
definition ResourceSecret :: string where "ResourceSecret = ''secrets''"
definition ResourceEvent :: string where "ResourceEvent = ''events''"
definition ResourceNamespace :: string where "ResourceNamespace = ''namespaces''"
definition ResourceNetworkPolicy :: string where "ResourceNetworkPolicy = ''networkpolicies''"
definition ResourceCSIDriver :: string where "ResourceCSIDriver = ''csidrivers''"
definition ResourceCSINode :: string where "ResourceCSINode = ''csinodes''"
definition ResourceRuntimeClass :: string where "ResourceRuntimeClass = ''runtimeclasses''"
definition ResourceTokenReview :: string where "ResourceTokenReview = ''tokenreviews''"
definition ResourceSubjectAccessReview :: string where
  "ResourceSubjectAccessReview = ''subjectaccessreviews''"
definition ResourceCSR :: string where "ResourceCSR = ''certificatesigningrequests''"

lemmas resource_name_defs =
  ResourcePod_def ResourceNode_def ResourceNodeLease_def ResourceEndpoint_def ResourceService_def
  ResourceConfigMap_def ResourceSecret_def ResourceEvent_def ResourceNamespace_def
  ResourceNetworkPolicy_def ResourceCSIDriver_def ResourceCSINode_def ResourceRuntimeClass_def
  ResourceTokenReview_def ResourceSubjectAccessReview_def ResourceCSR_def

definition SplitByte :: string where "SplitByte = ''/''"

definition FormKeyName :: "string \<Rightarrow> string \<Rightarrow> string" where
  "FormKeyName namespace name = (if namespace = [] then name else namespace @ SplitByte @ name)"

datatype storage_error =
    NoIndexer | IndexerError string | ObjNotFound | MarshalError | UnmarshalError
  | UnsupportedType | BadConfig | OpenFailed | BadKeyName | DbError

text \<open>The cases of the switch, one per type, differ in the type that is decoded only.\<close>

definition decodableTypes :: "string list" where
  "decodableTypes =
     [ResourcePod, ResourceNode, ResourceNodeLease, ResourceEndpoint, ResourceService,
      ResourceConfigMap, ResourceSecret, ResourceEvent, ResourceNamespace, ResourceNetworkPolicy,
      ResourceCSIDriver, ResourceCSINode, ResourceRuntimeClass, ResourceTokenReview,
      ResourceSubjectAccessReview, ResourceCSR]"

definition GetObjectFromSerializeData ::
  "(string \<Rightarrow> bytes \<Rightarrow> hubobj option) \<Rightarrow> string \<Rightarrow> bytes \<Rightarrow> storage_error + hubobj" where
  "GetObjectFromSerializeData unmarshal objType data =
     (if objType \<in> set decodableTypes
      then (case unmarshal objType data of None \<Rightarrow> Inl UnmarshalError | Some obj \<Rightarrow> Inr obj)
      else Inl UnsupportedType)"

section \<open>The libraries\<close>

record 'i indexerapi =
  ixNew :: 'i
  ixGetByKey :: "string \<Rightarrow> 'i \<Rightarrow> string + hubobj option"
  ixAdd :: "hubobj \<Rightarrow> 'i \<Rightarrow> bool \<times> 'i"
  ixUpdate :: "hubobj \<Rightarrow> 'i \<Rightarrow> bool \<times> 'i"
  ixDelete :: "hubobj \<Rightarrow> 'i \<Rightarrow> bool \<times> 'i"
  ixList :: "'i \<Rightarrow> hubobj list"

record 'd leveldb =
  ldbOpen :: "string \<Rightarrow> 'd option"
  ldbGet :: "bytes \<Rightarrow> 'd \<Rightarrow> bytes option"
  ldbPut :: "bytes \<Rightarrow> bytes \<Rightarrow> 'd \<Rightarrow> bool \<times> 'd"
  ldbDelete :: "bytes \<Rightarrow> 'd \<Rightarrow> bool \<times> 'd"
  ldbKeys :: "bytes \<Rightarrow> 'd \<Rightarrow> bytes list"
  ldbWriteDeletes :: "bytes list \<Rightarrow> 'd \<Rightarrow> bool \<times> 'd"

record ('i, 'd) hubenv =
  hubIx :: "'i indexerapi"
  hubDB :: "'d leveldb"
  hubUnmarshal :: "string \<Rightarrow> bytes \<Rightarrow> hubobj option"
  hubMarshal :: "hubobj \<Rightarrow> bytes option"

text \<open>An indexer maps the key of an object, its namespace and name, to the object; its calls
  do not fail on objects with metadata.\<close>

definition objKey :: "hubobj \<Rightarrow> string" where
  "objKey obj = MetaNamespaceKey (hoMeta obj)"

definition indexer_ok :: "'i indexerapi \<Rightarrow> bool" where
  "indexer_ok I \<longleftrightarrow>
     (\<forall>k. ixGetByKey I k (ixNew I) = Inr None) \<and>
     (\<forall>k obj ix. fst (ixAdd I obj ix) \<and>
        ixGetByKey I k (snd (ixAdd I obj ix)) = (if k = objKey obj then Inr (Some obj) else ixGetByKey I k ix)) \<and>
     (\<forall>k obj ix. fst (ixUpdate I obj ix) \<and>
        ixGetByKey I k (snd (ixUpdate I obj ix)) = (if k = objKey obj then Inr (Some obj) else ixGetByKey I k ix)) \<and>
     (\<forall>k obj ix. fst (ixDelete I obj ix) \<and>
        ixGetByKey I k (snd (ixDelete I obj ix)) = (if k = objKey obj then Inr None else ixGetByKey I k ix)) \<and>
     (\<forall>k ix. \<exists>r. ixGetByKey I k ix = Inr r \<and> (\<forall>obj. r = Some obj \<longrightarrow> objKey obj = k))"

text \<open>A write of LevelDB takes effect as a whole or fails without effect; the iterator runs over
  the keys with a prefix.\<close>

definition leveldb_ok :: "'d leveldb \<Rightarrow> bool" where
  "leveldb_ok D \<longleftrightarrow>
     (\<forall>k v d. if fst (ldbPut D k v d)
        then \<forall>k'. ldbGet D k' (snd (ldbPut D k v d)) = (if k' = k then Some v else ldbGet D k' d)
        else snd (ldbPut D k v d) = d) \<and>
     (\<forall>k d. if fst (ldbDelete D k d)
        then \<forall>k'. ldbGet D k' (snd (ldbDelete D k d)) = (if k' = k then None else ldbGet D k' d)
        else snd (ldbDelete D k d) = d) \<and>
     (\<forall>ks d. if fst (ldbWriteDeletes D ks d)
        then \<forall>k'. ldbGet D k' (snd (ldbWriteDeletes D ks d)) = (if k' \<in> set ks then None else ldbGet D k' d)
        else snd (ldbWriteDeletes D ks d) = d) \<and>
     (\<forall>p d. distinct (ldbKeys D p d) \<and>
        set (ldbKeys D p d) = {k. ldbGet D k d \<noteq> None \<and> take (length p) k = p})"

text \<open>JSON decodes what it encoded, into an object of the asked type.\<close>

definition json_ok :: "('i, 'd) hubenv \<Rightarrow> bool" where
  "json_ok E \<longleftrightarrow>
     (\<forall>obj data. hubMarshal E obj = Some data \<longrightarrow> hubUnmarshal E (hoType obj) data = Some obj) \<and>
     (\<forall>t data obj. hubUnmarshal E t data = Some obj \<longrightarrow> hoType obj = t)"

definition hub_ok :: "('i, 'd) hubenv \<Rightarrow> bool" where
  "hub_ok E \<longleftrightarrow> indexer_ok (hubIx E) \<and> leveldb_ok (hubDB E) \<and> json_ok E"

section \<open>Names of stored objects\<close>

definition Speration :: string where "Speration = ''-''"

definition formKeyName :: "string \<Rightarrow> string \<Rightarrow> string" where
  "formKeyName objType name = objType @ Speration @ name"

definition splitKeyName :: "string \<Rightarrow> (string \<times> string) option" where
  "splitKeyName name =
     (let pos = length (takeWhile (\<lambda>c. c \<noteq> CHR ''-'') name) in
      if pos = length name then None else Some (take pos name, drop (pos + 1) name))"

section \<open>The persistent storage\<close>

definition LevelDB_Get :: "('i, 'd) hubenv \<Rightarrow> string \<Rightarrow> string \<Rightarrow> 'd \<Rightarrow> storage_error + bytes" where
  "LevelDB_Get E objType key d =
     (case ldbGet (hubDB E) (formKeyName objType key) d of None \<Rightarrow> Inl DbError | Some data \<Rightarrow> Inr data)"

definition LevelDB_List :: "('i, 'd) hubenv \<Rightarrow> string \<Rightarrow> 'd \<Rightarrow> bytes list" where
  "LevelDB_List E objType d =
     concat (map (\<lambda>k. case ldbGet (hubDB E) k d of None \<Rightarrow> [] | Some data \<Rightarrow> [data])
       (ldbKeys (hubDB E) (objType @ Speration) d))"

definition LevelDB_Update ::
  "('i, 'd) hubenv \<Rightarrow> string \<Rightarrow> string \<Rightarrow> bytes \<Rightarrow> 'd \<Rightarrow> storage_error option \<times> 'd" where
  "LevelDB_Update E objType key data d =
     (case ldbPut (hubDB E) (formKeyName objType key) data d of
        (True, d') \<Rightarrow> (None, d') | (False, d') \<Rightarrow> (Some DbError, d'))"

definition LevelDB_Delete ::
  "('i, 'd) hubenv \<Rightarrow> string \<Rightarrow> string \<Rightarrow> 'd \<Rightarrow> storage_error option \<times> 'd" where
  "LevelDB_Delete E objType key d =
     (case ldbDelete (hubDB E) (formKeyName objType key) d of
        (True, d') \<Rightarrow> (None, d') | (False, d') \<Rightarrow> (Some DbError, d'))"

section \<open>The storage\<close>

record ('i, 'd) EdgehubStorage =
  Cache :: "(string, 'i) gomap"
  LevelDB :: 'd
  RemoteEnable :: bool

definition rebuildOne ::
  "('i, 'd) hubenv \<Rightarrow> 'd \<Rightarrow> bytes \<Rightarrow> (string, 'i) gomap \<Rightarrow> (string, 'i) gomap" where
  "rebuildOne E d name indexer =
     (case ldbGet (hubDB E) name d of
        None \<Rightarrow> indexer
      | Some data \<Rightarrow>
          (case splitKeyName name of
             None \<Rightarrow> indexer
           | Some (objType, _) \<Rightarrow>
               let ix = (case go_get indexer objType of None \<Rightarrow> ixNew (hubIx E) | Some ix \<Rightarrow> ix) in
               (case GetObjectFromSerializeData (hubUnmarshal E) objType data of
                  Inl _ \<Rightarrow> go_put objType ix indexer
                | Inr obj \<Rightarrow> go_put objType (snd (ixAdd (hubIx E) obj ix)) indexer)))"

definition RebuildCache :: "('i, 'd) hubenv \<Rightarrow> 'd \<Rightarrow> (string, 'i) gomap" where
  "RebuildCache E d = fold (rebuildOne E d) (ldbKeys (hubDB E) [] d) []"

definition NewEdgehubStore ::
  "('i, 'd) hubenv \<Rightarrow> string \<Rightarrow> storage_error + ('i, 'd) EdgehubStorage" where
  "NewEdgehubStore E path =
     (if path = [] then Inl BadConfig
      else (case ldbOpen (hubDB E) path of
              None \<Rightarrow> Inl OpenFailed
            | Some db \<Rightarrow> Inr \<lparr>Cache = RebuildCache E db, LevelDB = db, RemoteEnable = False\<rparr>))"

definition storage_Get ::
  "('i, 'd) hubenv \<Rightarrow> string \<Rightarrow> string \<Rightarrow> bool \<Rightarrow> ('i, 'd) EdgehubStorage \<Rightarrow>
   storage_error + (bytes + hubobj)" where
  "storage_Get E objType key isNeedSerialize s =
     (case go_get (Cache s) objType of
        None \<Rightarrow> Inl NoIndexer
      | Some ix \<Rightarrow>
          (case ixGetByKey (hubIx E) key ix of
             Inl e \<Rightarrow> Inl (IndexerError e)
           | Inr None \<Rightarrow> Inl ObjNotFound
           | Inr (Some obj) \<Rightarrow>
               if isNeedSerialize
               then (case hubMarshal E obj of None \<Rightarrow> Inl MarshalError | Some data \<Rightarrow> Inr (Inl data))
               else Inr (Inr obj)))"

definition storage_List :: "('i, 'd) hubenv \<Rightarrow> string \<Rightarrow> ('i, 'd) EdgehubStorage \<Rightarrow> hubobj list" where
  "storage_List E objType s =
     (case go_get (Cache s) objType of None \<Rightarrow> [] | Some ix \<Rightarrow> ixList (hubIx E) ix)"

definition storage_Update ::
  "('i, 'd) hubenv \<Rightarrow> string \<Rightarrow> string \<Rightarrow> bytes \<Rightarrow> ('i, 'd) EdgehubStorage \<Rightarrow>
   storage_error option \<times> ('i, 'd) EdgehubStorage" where
  "storage_Update E objType key data s =
     (let cache =
        (if RemoteEnable s then Cache s
         else (case go_get (Cache s) objType of
                 None \<Rightarrow> Cache s
               | Some ix \<Rightarrow>
                   (case GetObjectFromSerializeData (hubUnmarshal E) objType data of
                      Inl _ \<Rightarrow> Cache s
                    | Inr obj \<Rightarrow> go_put objType (snd (ixUpdate (hubIx E) obj ix)) (Cache s))))
      in case LevelDB_Update E objType key data (LevelDB s) of
           (e, d) \<Rightarrow> (e, s\<lparr>Cache := cache, LevelDB := d\<rparr>))"

definition storage_Delete ::
  "('i, 'd) hubenv \<Rightarrow> string \<Rightarrow> string \<Rightarrow> ('i, 'd) EdgehubStorage \<Rightarrow>
   storage_error option \<times> ('i, 'd) EdgehubStorage" where
  "storage_Delete E objType key s =
     (let cache =
        (if RemoteEnable s then Cache s
         else (case go_get (Cache s) objType of
                 None \<Rightarrow> Cache s
               | Some ix \<Rightarrow>
                   (case ixGetByKey (hubIx E) key ix of
                      Inr (Some obj) \<Rightarrow> go_put objType (snd (ixDelete (hubIx E) obj ix)) (Cache s)
                    | _ \<Rightarrow> Cache s)))
      in case LevelDB_Delete E objType key (LevelDB s) of
           (e, d) \<Rightarrow> (e, s\<lparr>Cache := cache, LevelDB := d\<rparr>))"

text \<open>The loop of \<^verbatim>\<open>MergeDelete\<close> collects the keys to delete; an error leaves the loop before
  anything is written.\<close>

fun mergeBatch ::
  "('i, 'd) hubenv \<Rightarrow> (string, 'i) gomap \<Rightarrow> bytes list \<Rightarrow> bytes list \<Rightarrow> storage_error + bytes list" where
  "mergeBatch E cache [] batch = Inr batch"
| "mergeBatch E cache (name # names) batch =
     (case splitKeyName name of
        None \<Rightarrow> Inl BadKeyName
      | Some (objType, key) \<Rightarrow>
          (case go_get cache objType of
             None \<Rightarrow> mergeBatch E cache names (batch @ [name])
           | Some ix \<Rightarrow>
               (case ixGetByKey (hubIx E) key ix of
                  Inl e \<Rightarrow> Inl (IndexerError e)
                | Inr None \<Rightarrow> mergeBatch E cache names (batch @ [name])
                | Inr (Some _) \<Rightarrow> mergeBatch E cache names batch)))"

definition MergeDelete ::
  "('i, 'd) hubenv \<Rightarrow> ('i, 'd) EdgehubStorage \<Rightarrow> storage_error option \<times> ('i, 'd) EdgehubStorage" where
  "MergeDelete E s =
     (case mergeBatch E (Cache s) (ldbKeys (hubDB E) [] (LevelDB s)) [] of
        Inl e \<Rightarrow> (Some e, s)
      | Inr batch \<Rightarrow> (None, s\<lparr>LevelDB := snd (ldbWriteDeletes (hubDB E) batch (LevelDB s))\<rparr>))"

end
