(* ===== verification/StorageLemmas.thy ===== *)
theory StorageLemmas
  imports Storage
begin

text \<open>
  What the storage promises. Its abstract state is a map from types and keys to objects, read
  from the cache; \<open>in_sync\<close> says that LevelDB holds the same map.
\<close>

section \<open>Names\<close>

lemma takeWhile_dash:
  assumes "CHR ''-'' \<notin> set t"
  shows "takeWhile (\<lambda>c. c \<noteq> CHR ''-'') (t @ CHR ''-'' # k) = t"
  using assms by (subst takeWhile_append2) auto

lemma splitKeyName_form [simp]:
  assumes "CHR ''-'' \<notin> set t"
  shows "splitKeyName (formKeyName t k) = Some (t, k)"
  using takeWhile_dash [OF assms] by (simp add: splitKeyName_def formKeyName_def Speration_def)

lemma splitKeyName_SomeD:
  assumes "splitKeyName n = Some (t, k)"
  shows "n = formKeyName t k" "CHR ''-'' \<notin> set t"
proof -
  let ?t = "takeWhile (\<lambda>c. c \<noteq> CHR ''-'') n"
  from assms have less: "length ?t < length n" and t: "t = take (length ?t) n"
    and k: "k = drop (Suc (length ?t)) n"
    by (auto simp: splitKeyName_def Let_def length_takeWhile_le le_neq_implies_less split: if_splits)
  have "t = ?t" using t takeWhile_eq_take by metis
  moreover have "n ! length ?t = CHR ''-''" using nth_length_takeWhile [OF less] by simp
  ultimately show "n = formKeyName t k"
    using id_take_nth_drop [OF less] t k by (simp add: formKeyName_def Speration_def)
  show "CHR ''-'' \<notin> set t" using set_takeWhileD unfolding \<open>t = ?t\<close> by fastforce
qed

lemma formKeyName_eq_iff:
  assumes "CHR ''-'' \<notin> set t" "CHR ''-'' \<notin> set t'"
  shows "formKeyName t k = formKeyName t' k' \<longleftrightarrow> t = t' \<and> k = k'"
proof
  assume eq: "formKeyName t k = formKeyName t' k'"
  have "Some (t, k) = Some (t', k')"
    by (simp only: splitKeyName_form [OF assms(1), symmetric] splitKeyName_form [OF assms(2), symmetric] eq)
  then show "t = t' \<and> k = k'" by simp
qed simp

section \<open>Laws of the libraries\<close>

lemma hub_okD:
  assumes "hub_ok E"
  shows "indexer_ok (hubIx E)" "leveldb_ok (hubDB E)" "json_ok E"
  using assms by (simp_all add: hub_ok_def)

lemma indexer_okD:
  assumes "indexer_ok I"
  shows "\<forall>k. ixGetByKey I k (ixNew I) = Inr None"
    "\<forall>k obj ix. fst (ixAdd I obj ix) \<and>
       ixGetByKey I k (snd (ixAdd I obj ix)) = (if k = objKey obj then Inr (Some obj) else ixGetByKey I k ix)"
    "\<forall>k obj ix. fst (ixUpdate I obj ix) \<and>
       ixGetByKey I k (snd (ixUpdate I obj ix)) = (if k = objKey obj then Inr (Some obj) else ixGetByKey I k ix)"
    "\<forall>k obj ix. fst (ixDelete I obj ix) \<and>
       ixGetByKey I k (snd (ixDelete I obj ix)) = (if k = objKey obj then Inr None else ixGetByKey I k ix)"
    "\<forall>k ix. \<exists>r. ixGetByKey I k ix = Inr r \<and> (\<forall>obj. r = Some obj \<longrightarrow> objKey obj = k)"
  using assms unfolding indexer_ok_def by blast+

lemma indexerD:
  assumes "indexer_ok I"
  shows "ixGetByKey I k (ixNew I) = Inr None"
    "ixGetByKey I k (snd (ixAdd I obj ix)) = (if k = objKey obj then Inr (Some obj) else ixGetByKey I k ix)"
    "ixGetByKey I k (snd (ixUpdate I obj ix)) = (if k = objKey obj then Inr (Some obj) else ixGetByKey I k ix)"
    "ixGetByKey I k (snd (ixDelete I obj ix)) = (if k = objKey obj then Inr None else ixGetByKey I k ix)"
    "\<exists>r. ixGetByKey I k ix = Inr r"
    "ixGetByKey I k ix = Inr (Some obj) \<Longrightarrow> objKey obj = k"
proof -
  note ok = indexer_okD [OF assms]
  show "ixGetByKey I k (ixNew I) = Inr None" using ok(1) by (rule spec)
  show "ixGetByKey I k (snd (ixAdd I obj ix)) = (if k = objKey obj then Inr (Some obj) else ixGetByKey I k ix)"
    using ok(2) [rule_format, THEN conjunct2] .
  show "ixGetByKey I k (snd (ixUpdate I obj ix)) = (if k = objKey obj then Inr (Some obj) else ixGetByKey I k ix)"
    using ok(3) [rule_format, THEN conjunct2] .
  show "ixGetByKey I k (snd (ixDelete I obj ix)) = (if k = objKey obj then Inr None else ixGetByKey I k ix)"
    using ok(4) [rule_format, THEN conjunct2] .
  from ok(5) obtain r where r: "ixGetByKey I k ix = Inr r" "\<forall>obj. r = Some obj \<longrightarrow> objKey obj = k" by blast
  then show "\<exists>r. ixGetByKey I k ix = Inr r" by blast
  from r show "ixGetByKey I k ix = Inr (Some obj) \<Longrightarrow> objKey obj = k" by simp
qed

lemma leveldbD:
  assumes "leveldb_ok D"
  shows "ldbPut D k v d = (True, d') \<Longrightarrow> ldbGet D k' d' = (if k' = k then Some v else ldbGet D k' d)"
    "ldbPut D k v d = (False, d') \<Longrightarrow> d' = d"
    "ldbDelete D k d = (True, d') \<Longrightarrow> ldbGet D k' d' = (if k' = k then None else ldbGet D k' d)"
    "ldbDelete D k d = (False, d') \<Longrightarrow> d' = d"
    "ldbWriteDeletes D ks d = (True, d') \<Longrightarrow>
       ldbGet D k' d' = (if k' \<in> set ks then None else ldbGet D k' d)"
    "k \<in> set (ldbKeys D [] d) \<longleftrightarrow> ldbGet D k d \<noteq> None"
proof -
  from assms have p: "if fst (ldbPut D k v d)
      then \<forall>k'. ldbGet D k' (snd (ldbPut D k v d)) = (if k' = k then Some v else ldbGet D k' d)
      else snd (ldbPut D k v d) = d" unfolding leveldb_ok_def by blast
  from assms have q: "if fst (ldbDelete D k d)
      then \<forall>k'. ldbGet D k' (snd (ldbDelete D k d)) = (if k' = k then None else ldbGet D k' d)
      else snd (ldbDelete D k d) = d" unfolding leveldb_ok_def by blast
  from assms have w: "if fst (ldbWriteDeletes D ks d)
      then \<forall>k'. ldbGet D k' (snd (ldbWriteDeletes D ks d)) = (if k' \<in> set ks then None else ldbGet D k' d)
      else snd (ldbWriteDeletes D ks d) = d" unfolding leveldb_ok_def by blast
  show "ldbPut D k v d = (True, d') \<Longrightarrow> ldbGet D k' d' = (if k' = k then Some v else ldbGet D k' d)"
    "ldbPut D k v d = (False, d') \<Longrightarrow> d' = d" using p by auto
  show "ldbDelete D k d = (True, d') \<Longrightarrow> ldbGet D k' d' = (if k' = k then None else ldbGet D k' d)"
    "ldbDelete D k d = (False, d') \<Longrightarrow> d' = d" using q by auto
  show "ldbWriteDeletes D ks d = (True, d') \<Longrightarrow>
       ldbGet D k' d' = (if k' \<in> set ks then None else ldbGet D k' d)" using w by auto
  have "set (ldbKeys D p d) = {k. ldbGet D k d \<noteq> None \<and> take (length p) k = p}" for p
    using assms unfolding leveldb_ok_def by blast
  from this [of "[]"] show "k \<in> set (ldbKeys D [] d) \<longleftrightarrow> ldbGet D k d \<noteq> None" by auto
qed

section \<open>The abstract state\<close>

definition cachedIn :: "('i, 'd) hubenv \<Rightarrow> (string, 'i) gomap \<Rightarrow> string \<Rightarrow> string \<Rightarrow> hubobj option" where
  "cachedIn E c t k =
     (case go_get c t of
        None \<Rightarrow> None
      | Some ix \<Rightarrow> (case ixGetByKey (hubIx E) k ix of Inr r \<Rightarrow> r | Inl _ \<Rightarrow> None))"

definition cached :: "('i, 'd) hubenv \<Rightarrow> ('i, 'd) EdgehubStorage \<Rightarrow> string \<times> string \<Rightarrow> hubobj option" where
  "cached E s = (\<lambda>(t, k). cachedIn E (Cache s) t k)"

definition persisted :: "('i, 'd) hubenv \<Rightarrow> 'd \<Rightarrow> string \<Rightarrow> string \<Rightarrow> hubobj option" where
  "persisted E d t k =
     (case ldbGet (hubDB E) (formKeyName t k) d of
        None \<Rightarrow> None
      | Some data \<Rightarrow>
          (case GetObjectFromSerializeData (hubUnmarshal E) t data of Inl _ \<Rightarrow> None | Inr obj \<Rightarrow> Some obj))"

definition in_sync :: "('i, 'd) hubenv \<Rightarrow> ('i, 'd) EdgehubStorage \<Rightarrow> bool" where
  "in_sync E s \<longleftrightarrow>
     (\<forall>t k. CHR ''-'' \<notin> set t \<longrightarrow> cachedIn E (Cache s) t k = persisted E (LevelDB s) t k)"

lemma in_syncD: "in_sync E s \<Longrightarrow> CHR ''-'' \<notin> set t \<Longrightarrow>
    cachedIn E (Cache s) t k = persisted E (LevelDB s) t k"
  by (simp add: in_sync_def)

lemma cachedIn_key:
  assumes "indexer_ok (hubIx E)" "cachedIn E c t k = Some obj"
  shows "objKey obj = k"
  using assms(2) indexerD(6) [OF assms(1)]
  by (auto simp: cachedIn_def split: option.splits sum.splits)

lemma cachedIn_put:
  "cachedIn E (go_put t ix c) t' k =
     (if t' = t then (case ixGetByKey (hubIx E) k ix of Inr r \<Rightarrow> r | Inl _ \<Rightarrow> None) else cachedIn E c t' k)"
  by (simp add: cachedIn_def)

lemma persisted_put:
  assumes "leveldb_ok (hubDB E)" "ldbPut (hubDB E) (formKeyName t k) data d = (True, d')"
    and "CHR ''-'' \<notin> set t" "CHR ''-'' \<notin> set t'"
  shows "persisted E d' t' k' =
    (if t' = t \<and> k' = k
     then (case GetObjectFromSerializeData (hubUnmarshal E) t data of Inl _ \<Rightarrow> None | Inr obj \<Rightarrow> Some obj)
     else persisted E d t' k')"
  using leveldbD(1) [OF assms(1,2)] formKeyName_eq_iff [OF assms(4,3), of k' k]
  by (simp add: persisted_def)

lemma persisted_delete:
  assumes "leveldb_ok (hubDB E)" "ldbDelete (hubDB E) (formKeyName t k) d = (True, d')"
    and "CHR ''-'' \<notin> set t" "CHR ''-'' \<notin> set t'"
  shows "persisted E d' t' k' = (if t' = t \<and> k' = k then None else persisted E d t' k')"
  using leveldbD(3) [OF assms(1,2)] formKeyName_eq_iff [OF assms(4,3), of k' k]
  by (simp add: persisted_def)

section \<open>Writing while the center is out of reach\<close>

lemma Update_refines:
  assumes ok: "hub_ok E" and sync: "in_sync E s" and "\<not> RemoteEnable s"
    and t: "CHR ''-'' \<notin> set t" "go_get (Cache s) t \<noteq> None"
    and obj: "GetObjectFromSerializeData (hubUnmarshal E) t data = Inr obj" "objKey obj = k"
    and u: "storage_Update E t k data s = (None, s')"
  shows "cached E s' = (cached E s)((t, k) \<mapsto> obj)" "in_sync E s'" "\<not> RemoteEnable s'"
    "dom (go_get (Cache s')) = dom (go_get (Cache s))"
proof -
  from t(2) obtain ix where ix: "go_get (Cache s) t = Some ix" by blast
  from u obtain d where d: "ldbPut (hubDB E) (formKeyName t k) data (LevelDB s) = (True, d)"
    and s': "s' = s\<lparr>Cache := go_put t (snd (ixUpdate (hubIx E) obj ix)) (Cache s), LevelDB := d\<rparr>"
    using ix obj(1) assms(3)
    by (auto simp: storage_Update_def LevelDB_Update_def Let_def split: prod.splits bool.splits)
  have c: "cachedIn E (Cache s') t' k' = (if t' = t \<and> k' = k then Some obj else cachedIn E (Cache s) t' k')"
    for t' k'
    using ix obj(2) indexerD(3) [OF hub_okD(1) [OF ok]] by (simp add: s' cachedIn_put cachedIn_def)
  then show "cached E s' = (cached E s)((t, k) \<mapsto> obj)" by (auto simp: cached_def)
  show "in_sync E s'"
    using c persisted_put [OF hub_okD(2) [OF ok] d t(1)] in_syncD [OF sync] obj(1)
    by (simp add: in_sync_def s')
  show "\<not> RemoteEnable s'" "dom (go_get (Cache s')) = dom (go_get (Cache s))"
    using assms(3) ix by (auto simp: s')
qed

lemma Delete_refines:
  assumes ok: "hub_ok E" and sync: "in_sync E s" and "\<not> RemoteEnable s" and t: "CHR ''-'' \<notin> set t"
    and u: "storage_Delete E t k s = (None, s')"
  shows "cached E s' = (cached E s)((t, k) := None)" "in_sync E s'" "\<not> RemoteEnable s'"
    "dom (go_get (Cache s')) = dom (go_get (Cache s))"
proof -
  let ?c = "case go_get (Cache s) t of None \<Rightarrow> Cache s
    | Some ix \<Rightarrow> (case ixGetByKey (hubIx E) k ix of
         Inr (Some obj) \<Rightarrow> go_put t (snd (ixDelete (hubIx E) obj ix)) (Cache s) | _ \<Rightarrow> Cache s)"
  from u obtain d where d: "ldbDelete (hubDB E) (formKeyName t k) (LevelDB s) = (True, d)"
    and s': "s' = s\<lparr>Cache := ?c, LevelDB := d\<rparr>"
    using assms(3) by (auto simp: storage_Delete_def LevelDB_Delete_def Let_def split: prod.splits bool.splits)
  have c: "cachedIn E (Cache s') t' k' = (if t' = t \<and> k' = k then None else cachedIn E (Cache s) t' k')"
    for t' k'
    using indexerD(4) [OF hub_okD(1) [OF ok]] indexerD(6) [OF hub_okD(1) [OF ok]]
    by (auto simp: s' cachedIn_put cachedIn_def split: option.splits sum.splits)
  then show "cached E s' = (cached E s)((t, k) := None)" by (auto simp: cached_def)
  show "in_sync E s'"
    using c persisted_delete [OF hub_okD(2) [OF ok] d t] in_syncD [OF sync] by (simp add: in_sync_def s')
  show "\<not> RemoteEnable s'" "dom (go_get (Cache s')) = dom (go_get (Cache s))"
    using assms(3) by (auto simp: s' split: option.splits sum.splits)
qed

section \<open>Restarting\<close>

definition well_keyed :: "('i, 'd) hubenv \<Rightarrow> 'd \<Rightarrow> bool" where
  "well_keyed E d \<longleftrightarrow>
     (\<forall>t k obj. CHR ''-'' \<notin> set t \<longrightarrow> persisted E d t k = Some obj \<longrightarrow> objKey obj = k)"

lemma in_sync_well_keyed: "hub_ok E \<Longrightarrow> in_sync E s \<Longrightarrow> well_keyed E (LevelDB s)"
  by (auto simp: well_keyed_def in_syncD [symmetric] intro: cachedIn_key [OF hub_okD(1)])

lemma rebuildOne_cached:
  assumes ok: "hub_ok E" and wk: "well_keyed E d" and t: "CHR ''-'' \<notin> set t"
  shows "cachedIn E (rebuildOne E d name c) t k =
    (if name = formKeyName t k \<and> persisted E d t k \<noteq> None then persisted E d t k else cachedIn E c t k)"
proof (cases "splitKeyName name")
  case None
  then have "name \<noteq> formKeyName t k" using splitKeyName_form [OF t] by auto
  with None show ?thesis by (simp add: rebuildOne_def split: option.split)
next
  case (Some p)
  obtain t0 k0 where p: "p = (t0, k0)" by fastforce
  note n = splitKeyName_SomeD [OF Some [unfolded p]]
  have eq: "name = formKeyName t k \<longleftrightarrow> t0 = t \<and> k0 = k" using formKeyName_eq_iff [OF n(2) t] n(1) by simp
  have get: "(case ixGetByKey (hubIx E) k (case go_get c t of None \<Rightarrow> ixNew (hubIx E) | Some ix \<Rightarrow> ix) of
      Inl _ \<Rightarrow> None | Inr r \<Rightarrow> r) = cachedIn E c t k"
    using indexerD(1) [OF hub_okD(1) [OF ok]] by (auto simp: cachedIn_def split: option.split)
  have key: "objKey obj = k0" if "ldbGet (hubDB E) name d = Some data"
      "GetObjectFromSerializeData (hubUnmarshal E) t0 data = Inr obj" for data obj
    using wk n that by (auto simp: well_keyed_def persisted_def)
  let ?ix = "case go_get c t0 of None \<Rightarrow> ixNew (hubIx E) | Some ix \<Rightarrow> ix"
  show ?thesis
  proof (cases "ldbGet (hubDB E) name d")
    case None
    with n(1) eq show ?thesis by (auto simp: rebuildOne_def persisted_def)
  next
    case data: (Some data)
    show ?thesis
    proof (cases "GetObjectFromSerializeData (hubUnmarshal E) t0 data")
      case (Inl e)
      have "rebuildOne E d name c = go_put t0 ?ix c"
        using Some p data Inl by (simp add: rebuildOne_def)
      moreover have "persisted E d t0 k0 = None" using n(1) data Inl by (simp add: persisted_def)
      ultimately show ?thesis using eq get by (auto simp: cachedIn_put)
    next
      case (Inr obj)
      have "rebuildOne E d name c = go_put t0 (snd (ixAdd (hubIx E) obj ?ix)) c"
        using Some p data Inr by (simp add: rebuildOne_def)
      moreover have "persisted E d t0 k0 = Some obj" using n(1) data Inr by (simp add: persisted_def)
      ultimately show ?thesis
        using eq get key [OF data Inr] by (auto simp: cachedIn_put indexerD(2) [OF hub_okD(1) [OF ok]])
    qed
  qed
qed

lemma RebuildCache_cached:
  assumes ok: "hub_ok E" and wk: "well_keyed E d" and t: "CHR ''-'' \<notin> set t"
  shows "cachedIn E (RebuildCache E d) t k = persisted E d t k"
proof -
  have "cachedIn E (fold (rebuildOne E d) names c) t k =
      (if formKeyName t k \<in> set names \<and> persisted E d t k \<noteq> None then persisted E d t k else cachedIn E c t k)"
    for names c
    by (induction names arbitrary: c) (auto simp: rebuildOne_cached [OF assms])
  moreover have "formKeyName t k \<in> set (ldbKeys (hubDB E) [] d)" if "persisted E d t k \<noteq> None"
    using that leveldbD(6) [OF hub_okD(2) [OF ok]] by (auto simp: persisted_def split: option.splits)
  moreover have "cachedIn E [] t k = None" by (simp add: cachedIn_def)
  ultimately show ?thesis by (cases "persisted E d t k") (simp_all add: RebuildCache_def)
qed

section \<open>After the center is back\<close>

definition stale :: "('i, 'd) hubenv \<Rightarrow> (string, 'i) gomap \<Rightarrow> bytes \<Rightarrow> bool" where
  "stale E c name =
     (case splitKeyName name of None \<Rightarrow> False | Some (t, k) \<Rightarrow> cachedIn E c t k = None)"

lemma mergeBatch_step:
  "mergeBatch E c (name # names) batch = Inr b \<Longrightarrow>
     mergeBatch E c names (if stale E c name then batch @ [name] else batch) = Inr b"
  by (auto simp: stale_def cachedIn_def split: option.splits sum.splits)

lemma mergeBatch_set:
  "mergeBatch E c names batch = Inr b \<Longrightarrow> set b = set batch \<union> {name \<in> set names. stale E c name}"
proof (induction names arbitrary: batch)
  case (Cons name names)
  from Cons.IH [OF mergeBatch_step [OF Cons.prems]] show ?case by auto
qed simp

lemma mergeBatch_returns:
  assumes "indexer_ok (hubIx E)" and "\<And>name. name \<in> set names \<Longrightarrow> splitKeyName name \<noteq> None"
  shows "\<exists>b. mergeBatch E c names batch = Inr b"
  using assms(2)
proof (induction names arbitrary: batch)
  case (Cons name names)
  obtain t k where tk: "splitKeyName name = Some (t, k)" using Cons.prems [of name] by auto
  have IH: "\<exists>b. mergeBatch E c names batch = Inr b" for batch using Cons by simp
  show ?case
  proof (cases "go_get c t")
    case None
    with tk IH show ?thesis by simp
  next
    case (Some ix)
    from indexerD(5) [OF assms(1), of k ix] obtain r where "ixGetByKey (hubIx E) k ix = Inr r" by blast
    with tk Some IH show ?thesis by (cases r) simp_all
  qed
qed simp

lemma MergeDelete_get:
  assumes ok: "hub_ok E" and m: "MergeDelete E s = (None, s')"
    and w: "\<And>ks d. fst (ldbWriteDeletes (hubDB E) ks d)" and t: "CHR ''-'' \<notin> set t"
  shows "ldbGet (hubDB E) (formKeyName t k) (LevelDB s') =
      (if cachedIn E (Cache s) t k = None then None else ldbGet (hubDB E) (formKeyName t k) (LevelDB s))"
    "Cache s' = Cache s" "RemoteEnable s' = RemoteEnable s"
proof -
  let ?names = "ldbKeys (hubDB E) [] (LevelDB s)"
  from m obtain b where b: "mergeBatch E (Cache s) ?names [] = Inr b"
    and s': "s' = s\<lparr>LevelDB := snd (ldbWriteDeletes (hubDB E) b (LevelDB s))\<rparr>"
    by (auto simp: MergeDelete_def split: sum.splits)
  obtain d where d: "ldbWriteDeletes (hubDB E) b (LevelDB s) = (True, d)"
    using w [of b "LevelDB s"] by (metis prod.collapse)
  from mergeBatch_set [OF b] splitKeyName_form [OF t]
  have "formKeyName t k \<in> set b \<longleftrightarrow> formKeyName t k \<in> set ?names \<and> cachedIn E (Cache s) t k = None"
    by (simp add: stale_def)
  with leveldbD(5) [OF hub_okD(2) [OF ok] d] leveldbD(6) [OF hub_okD(2) [OF ok]]
  show "ldbGet (hubDB E) (formKeyName t k) (LevelDB s') =
      (if cachedIn E (Cache s) t k = None then None else ldbGet (hubDB E) (formKeyName t k) (LevelDB s))"
    by (auto simp: s' d)
  show "Cache s' = Cache s" "RemoteEnable s' = RemoteEnable s" by (simp_all add: s')
qed

lemma MergeDelete_in_sync:
  assumes "hub_ok E" "MergeDelete E s = (None, s')" "\<And>ks d. fst (ldbWriteDeletes (hubDB E) ks d)"
    and sub: "\<And>t k obj. CHR ''-'' \<notin> set t \<Longrightarrow> cachedIn E (Cache s) t k = Some obj \<Longrightarrow>
      persisted E (LevelDB s) t k = Some obj"
  shows "in_sync E s'"
  unfolding in_sync_def
proof (intro allI impI)
  fix t k
  assume t: "CHR ''-'' \<notin> set (t :: string)"
  show "cachedIn E (Cache s') t k = persisted E (LevelDB s') t k"
    using MergeDelete_get(1) [OF assms(1-3) t, where k = k] MergeDelete_get(2) [OF assms(1-3) t] sub [OF t, of k]
    by (cases "cachedIn E (Cache s) t k") (auto simp: persisted_def)
qed

end
