(* ===== verification/Syncer.thy ===== *)
theory Syncer
  imports Storage
begin

text \<open>
  The syncers of the edge hub (\<^verbatim>\<open>pkg/syncer\<close>): informers of the center feed the local storage
  and the watchers of the node. The fourteen syncers are copies that differ in the resource
  type, the informer factory and the kind they stamp on an object; a syncer is a record of
  these, as the code's interface value, and the handlers are written once. The informers are
  client-go's: what their indexers hold and whether they synced are arguments. A failed type
  assertion panics, \<open>None\<close>.
\<close>

section \<open>Watchers\<close>

datatype watchAction = Added | Modified | Deleted | OtherAction string

record WatchEvent =
  weType :: watchAction
  weObject :: hubobj

text \<open>A watch channel is a number; what is sent is a list of channels and events.\<close>

type_synonym watchchan = nat
type_synonym EdgeWatcher = "(string, watchchan) gomap"
type_synonym Subscriber = "(string, EdgeWatcher) gomap"

text \<open>Storing into the map of a type that has none panics.\<close>

definition Subscriber_Add :: "string \<Rightarrow> string \<Rightarrow> watchchan \<Rightarrow> Subscriber \<Rightarrow> Subscriber option" where
  "Subscriber_Add objType key watchChan sub =
     (case go_get sub objType of
        None \<Rightarrow> None
      | Some w \<Rightarrow> if go_has w key then Some sub else Some (go_put objType (go_put key watchChan w) sub))"

definition Subscriber_Delete :: "string \<Rightarrow> string \<Rightarrow> Subscriber \<Rightarrow> Subscriber" where
  "Subscriber_Delete objType key sub =
     (case go_get sub objType of
        None \<Rightarrow> sub
      | Some w \<Rightarrow> if go_has w key then go_put objType (go_del key w) sub else sub)"

definition InitSubscriber :: Subscriber where
  "InitSubscriber = map (\<lambda>t. (t, []))
     [ResourcePod, ResourceNode, ResourceNodeLease, ResourceEndpoint, ResourceService,
      ResourceNamespace, ResourceNetworkPolicy, ResourceConfigMap, ResourceSecret,
      ResourceCSIDriver, ResourceCSINode, ResourceRuntimeClass, ResourceCSR]"

section \<open>The context\<close>

definition DefaultInformerFatory :: string where "DefaultInformerFatory = ''defaultInformer''"
definition NodeInformerFactory :: string where "NodeInformerFactory = ''nodeInformer''"

text \<open>\<open>StopChan\<close> is nil or a channel that is closed or not; of the clients and factories only
  their presence matters.\<close>

record ('i, 'd) SyncContext =
  InformerFactory :: "(string, unit) gomap option"
  StopChan :: "bool option"
  KubeClient :: "unit option"
  Store :: "('i, 'd) EdgehubStorage option"

definition SyncContext_IsValid :: "('i, 'd) SyncContext option \<Rightarrow> bool" where
  "SyncContext_IsValid c =
     (case c of
        None \<Rightarrow> False
      | Some ctx \<Rightarrow>
          if KubeClient ctx = None then False
          else if StopChan ctx = None then False
          else if InformerFactory ctx = None then False
          else if Store ctx = None then False
          else True)"

definition isChanClose :: "bool \<Rightarrow> bool" where
  "isChanClose ch = ch"

section \<open>Storing and publishing an event\<close>

definition syncToStorage ::
  "('i, 'd) hubenv \<Rightarrow> watchAction \<Rightarrow> string \<Rightarrow> hubobj \<Rightarrow> ('i, 'd) EdgehubStorage \<Rightarrow>
   ('i, 'd) EdgehubStorage" where
  "syncToStorage E action objType obj s =
     (let key = MetaNamespaceKey (hoMeta obj) in
      case hubMarshal E obj of
        None \<Rightarrow> s
      | Some data \<Rightarrow>
          (case action of
             Added \<Rightarrow> snd (storage_Update E objType key data s)
           | Modified \<Rightarrow> snd (storage_Update E objType key data s)
           | Deleted \<Rightarrow> snd (storage_Delete E objType key s)
           | OtherAction _ \<Rightarrow> s))"

definition syncToNode ::
  "watchAction \<Rightarrow> string \<Rightarrow> hubobj \<Rightarrow> Subscriber \<Rightarrow> (watchchan \<times> WatchEvent) list" where
  "syncToNode action objType obj sub =
     map (\<lambda>(_, ch). (ch, \<lparr>weType = action, weObject = obj\<rparr>))
       (case go_get sub objType of None \<Rightarrow> [] | Some w \<Rightarrow> w)"

section \<open>The syncers\<close>

record syncer =
  syFactory :: string
  syType :: string
  syAPIVersion :: string
  syKind :: string

definition newSyncer ::
  "('i, 'd) SyncContext \<Rightarrow> string \<Rightarrow> string \<Rightarrow> string \<Rightarrow> string \<Rightarrow> syncer option" where
  "newSyncer ctx factory objType apiVersion kind =
     (case InformerFactory ctx of
        None \<Rightarrow> None
      | Some fs \<Rightarrow>
          if go_has fs factory
          then Some \<lparr>syFactory = factory, syType = objType, syAPIVersion = apiVersion, syKind = kind\<rparr>
          else None)"

definition NewPodSyncer :: "('i, 'd) SyncContext \<Rightarrow> syncer option" where
  "NewPodSyncer ctx = newSyncer ctx DefaultInformerFatory ResourcePod ''v1'' ''Pod''"

definition NewNodeSyncer :: "('i, 'd) SyncContext \<Rightarrow> syncer option" where
  "NewNodeSyncer ctx = newSyncer ctx NodeInformerFactory ResourceNode ''v1'' ''Node''"

definition NewServiceSyncer :: "('i, 'd) SyncContext \<Rightarrow> syncer option" where
  "NewServiceSyncer ctx = newSyncer ctx DefaultInformerFatory ResourceService ''v1'' ''Service''"

definition NewEndpointSyncer :: "('i, 'd) SyncContext \<Rightarrow> syncer option" where
  "NewEndpointSyncer ctx = newSyncer ctx DefaultInformerFatory ResourceEndpoint ''v1'' ''Endpoints''"

definition NewConfigMapSyncer :: "('i, 'd) SyncContext \<Rightarrow> syncer option" where
  "NewConfigMapSyncer ctx = newSyncer ctx DefaultInformerFatory ResourceConfigMap ''v1'' ''ConfigMap''"

definition NewSecretSyncer :: "('i, 'd) SyncContext \<Rightarrow> syncer option" where
  "NewSecretSyncer ctx = newSyncer ctx DefaultInformerFatory ResourceSecret ''v1'' ''Secret''"

definition NewNamespaceSyncer :: "('i, 'd) SyncContext \<Rightarrow> syncer option" where
  "NewNamespaceSyncer ctx = newSyncer ctx DefaultInformerFatory ResourceNamespace ''v1'' ''Namespace''"

definition NewEventSyncer :: "('i, 'd) SyncContext \<Rightarrow> syncer option" where
  "NewEventSyncer ctx = newSyncer ctx DefaultInformerFatory ResourceEvent ''v1'' ''Node''"

definition NewLeaseSyncer :: "('i, 'd) SyncContext \<Rightarrow> syncer option" where
  "NewLeaseSyncer ctx = newSyncer ctx NodeInformerFactory ResourceNodeLease ''coordination.k8s.io/v1'' ''Lease''"

definition NewNetworkPolicySyncer :: "('i, 'd) SyncContext \<Rightarrow> syncer option" where
  "NewNetworkPolicySyncer ctx = newSyncer ctx DefaultInformerFatory ResourceNetworkPolicy ''networking.k8s.io/v1'' ''NetworkPolicy''"

definition NewCSIDriverSyncer :: "('i, 'd) SyncContext \<Rightarrow> syncer option" where
  "NewCSIDriverSyncer ctx = newSyncer ctx DefaultInformerFatory ResourceCSIDriver ''storage.k8s.io/v1beta1'' ''CSIDriver''"

definition NewCSINodeSyncer :: "('i, 'd) SyncContext \<Rightarrow> syncer option" where
  "NewCSINodeSyncer ctx = newSyncer ctx DefaultInformerFatory ResourceCSINode ''storage.k8s.io/v1'' ''CSINode''"

definition NewRuntimeClassSyncer :: "('i, 'd) SyncContext \<Rightarrow> syncer option" where
  "NewRuntimeClassSyncer ctx = newSyncer ctx DefaultInformerFatory ResourceRuntimeClass ''node.k8s.io/v1beta1'' ''RuntimeClass''"

definition NewCSRSyncer :: "('i, 'd) SyncContext \<Rightarrow> syncer option" where
  "NewCSRSyncer ctx = newSyncer ctx DefaultInformerFatory ResourceCSR ''certificates.k8s.io/v1beta1'' ''CertificateSigningRequest''"

definition startSyncer :: "syncer \<Rightarrow> ('i, 'd) SyncContext \<Rightarrow> bool" where
  "startSyncer sy ctx = SyncContext_IsValid (Some ctx)"

definition addKindAndVersion :: "syncer \<Rightarrow> hubobj \<Rightarrow> hubobj" where
  "addKindAndVersion sy obj = obj\<lparr>hoAPIVersion := syAPIVersion sy, hoKind := syKind sy\<rparr>"

text \<open>What the three handlers share: stamp the object, publish it, store it. The state is the
  storage; the sends go to the watchers.\<close>

definition syncEvent ::
  "('i, 'd) hubenv \<Rightarrow> syncer \<Rightarrow> watchAction \<Rightarrow> hubobj \<Rightarrow> Subscriber \<Rightarrow> ('i, 'd) EdgehubStorage \<Rightarrow>
   (watchchan \<times> WatchEvent) list \<times> ('i, 'd) EdgehubStorage" where
  "syncEvent E sy action obj sub s =
     (let obj' = addKindAndVersion sy obj in
      (syncToNode action (syType sy) obj' sub, syncToStorage E action (syType sy) obj' s))"

definition handleAddEvent ::
  "('i, 'd) hubenv \<Rightarrow> syncer \<Rightarrow> hubobj \<Rightarrow> Subscriber \<Rightarrow> ('i, 'd) EdgehubStorage \<Rightarrow>
   ((watchchan \<times> WatchEvent) list \<times> ('i, 'd) EdgehubStorage) option" where
  "handleAddEvent E sy obj sub s =
     (if hoType obj \<noteq> syType sy then None else Some (syncEvent E sy Added obj sub s))"

definition handleUpdateEvent ::
  "('i, 'd) hubenv \<Rightarrow> syncer \<Rightarrow> hubobj \<Rightarrow> hubobj \<Rightarrow> Subscriber \<Rightarrow> ('i, 'd) EdgehubStorage \<Rightarrow>
   ((watchchan \<times> WatchEvent) list \<times> ('i, 'd) EdgehubStorage) option" where
  "handleUpdateEvent E sy old new sub s =
     (if hoType new \<noteq> syType sy \<or> hoType old \<noteq> syType sy then None
      else if omResourceVersion (hoMeta new) = omResourceVersion (hoMeta old) then Some ([], s)
      else Some (syncEvent E sy Modified new sub s))"

text \<open>A deleted object may come as the tombstone of client-go.\<close>

datatype deleted = DelObj hubobj | Tombstone "hubobj option" | NoTombstone

definition handleDeleteEvent ::
  "('i, 'd) hubenv \<Rightarrow> syncer \<Rightarrow> deleted \<Rightarrow> Subscriber \<Rightarrow> ('i, 'd) EdgehubStorage \<Rightarrow>
   (watchchan \<times> WatchEvent) list \<times> ('i, 'd) EdgehubStorage" where
  "handleDeleteEvent E sy d sub s =
     (let obj = (case d of DelObj obj \<Rightarrow> Some obj | Tombstone obj \<Rightarrow> obj | NoTombstone \<Rightarrow> None) in
      case obj of
        None \<Rightarrow> ([], s)
      | Some obj \<Rightarrow> if hoType obj \<noteq> syType sy then ([], s) else syncEvent E sy Deleted obj sub s)"

section \<open>Starting and stopping\<close>

datatype sync_outcome = Synced | NotSynced | SyncTimeout

text \<open>The informers and the server they talk to: whether listing a type yields that it does not
  exist, how the caches of a factory sync, and the indexer of a type's informer.\<close>

record 'i informers =
  listNotFound :: "string \<Rightarrow> bool"
  cacheSync :: "string \<Rightarrow> sync_outcome"
  getIndexer :: "string \<Rightarrow> 'i"

definition checkResourceExist :: "'i informers \<Rightarrow> string \<Rightarrow> bool" where
  "checkResourceExist F resource =
     (if resource \<in> {ResourceCSIDriver, ResourceCSINode, ResourceCSR, ResourceNodeLease,
         ResourceNetworkPolicy, ResourceRuntimeClass}
      then \<not> listNotFound F resource
      else False)"

type_synonym syncers = "(string, syncer option) gomap"

definition registerSyncer :: "'i informers \<Rightarrow> ('i, 'd) SyncContext \<Rightarrow> syncers" where
  "registerSyncer F ctx =
     [(ResourcePod, NewPodSyncer ctx), (ResourceNode, NewNodeSyncer ctx),
      (ResourceService, NewServiceSyncer ctx), (ResourceEndpoint, NewEndpointSyncer ctx),
      (ResourceConfigMap, NewConfigMapSyncer ctx), (ResourceSecret, NewSecretSyncer ctx),
      (ResourceNamespace, NewNamespaceSyncer ctx), (ResourceEvent, NewEventSyncer ctx)] @
     filter (\<lambda>(t, _). checkResourceExist F t)
       [(ResourceNodeLease, NewLeaseSyncer ctx), (ResourceNetworkPolicy, NewNetworkPolicySyncer ctx),
        (ResourceCSIDriver, NewCSIDriverSyncer ctx), (ResourceCSINode, NewCSINodeSyncer ctx),
        (ResourceRuntimeClass, NewRuntimeClassSyncer ctx), (ResourceCSR, NewCSRSyncer ctx)]"

definition NewSyncerInformerFactory :: "('i, 'd) SyncContext \<Rightarrow> ('i, 'd) SyncContext" where
  "NewSyncerInformerFactory ctx =
     ctx\<lparr>InformerFactory := Some [(NodeInformerFactory, ()), (DefaultInformerFatory, ())]\<rparr>"

datatype sync_error =
  InvalidContext | SyncerNotSet string | StartFailed string | NilStopChan | FactoryFailed string
  | InvalidStopChan

fun startClients :: "('i, 'd) SyncContext \<Rightarrow> syncers \<Rightarrow> sync_error option" where
  "startClients ctx [] = None"
| "startClients ctx ((n, sy) # sys) =
     (case sy of
        None \<Rightarrow> Some (SyncerNotSet n)
      | Some y \<Rightarrow> if startSyncer y ctx then startClients ctx sys else Some (StartFailed n))"

text \<open>The state: the context, the global \<^verbatim>\<open>Syncers\<close> (nil when stopped) and the watchers.\<close>

record ('i, 'd) hubstate =
  hubCtx :: "('i, 'd) SyncContext"
  Syncers :: "syncers option"
  EdgeSubscriber :: Subscriber

definition startSyncClient ::
  "'i informers \<Rightarrow> ('i, 'd) hubstate \<Rightarrow> sync_error option \<times> ('i, 'd) hubstate" where
  "startSyncClient F h =
     (let sys = registerSyncer F (hubCtx h) in (startClients (hubCtx h) sys, h\<lparr>Syncers := Some sys\<rparr>))"

fun waitFactories :: "'i informers \<Rightarrow> (string, unit) gomap \<Rightarrow> sync_error option" where
  "waitFactories F [] = None"
| "waitFactories F ((name, _) # fs) =
     (if cacheSync F name = Synced then waitFactories F fs else Some (FactoryFailed name))"

text \<open>Syncers that are nil are left out of the new cache.\<close>

definition RefreshStorage ::
  "('i, 'd) hubenv \<Rightarrow> 'i informers \<Rightarrow> syncers \<Rightarrow> ('i, 'd) EdgehubStorage \<Rightarrow> ('i, 'd) EdgehubStorage" where
  "RefreshStorage E F sys s =
     (let indexer = map (\<lambda>(t, _). (t, getIndexer F t)) (filter (\<lambda>(_, sy). sy \<noteq> None) sys) in
      snd (MergeDelete E (s\<lparr>Cache := indexer\<rparr>)))"

definition startSyncInformerFatory ::
  "('i, 'd) hubenv \<Rightarrow> 'i informers \<Rightarrow> ('i, 'd) hubstate \<Rightarrow> sync_error option \<times> ('i, 'd) hubstate" where
  "startSyncInformerFatory E F h =
     (if StopChan (hubCtx h) = None then (Some NilStopChan, h)
      else (case waitFactories F (case InformerFactory (hubCtx h) of None \<Rightarrow> [] | Some fs \<Rightarrow> fs) of
              Some e \<Rightarrow> (Some e, h)
            | None \<Rightarrow>
                (None, h\<lparr>hubCtx := (hubCtx h)\<lparr>Store := map_option
                   (RefreshStorage E F (case Syncers h of None \<Rightarrow> [] | Some sys \<Rightarrow> sys))
                   (Store (hubCtx h))\<rparr>\<rparr>)))"

definition StartSyncer ::
  "('i, 'd) hubenv \<Rightarrow> 'i informers \<Rightarrow> ('i, 'd) hubstate \<Rightarrow> sync_error option \<times> ('i, 'd) hubstate" where
  "StartSyncer E F h =
     (let ctx = (NewSyncerInformerFactory (hubCtx h))\<lparr>StopChan := Some False\<rparr>;
          h1 = h\<lparr>hubCtx := ctx\<rparr>
      in if \<not> SyncContext_IsValid (Some ctx) then (Some InvalidContext, h1)
         else (case startSyncClient F h1 of
                 (Some e, h2) \<Rightarrow> (Some e, h2)
               | (None, h2) \<Rightarrow> startSyncInformerFatory E F h2))"

definition StopSyncer :: "('i, 'd) hubstate \<Rightarrow> sync_error option \<times> ('i, 'd) hubstate" where
  "StopSyncer h =
     (case StopChan (hubCtx h) of
        None \<Rightarrow> (Some InvalidStopChan, h)
      | Some ch \<Rightarrow>
          if isChanClose ch then (Some InvalidStopChan, h)
          else (None, h\<lparr>hubCtx := (hubCtx h)\<lparr>StopChan := Some True, InformerFactory := None\<rparr>,
                  Syncers := None\<rparr>))"

section \<open>The loop over the health of the center\<close>

definition setRemote :: "bool \<Rightarrow> ('i, 'd) hubstate \<Rightarrow> ('i, 'd) hubstate" where
  "setRemote b h =
     h\<lparr>hubCtx := (hubCtx h)\<lparr>Store := map_option (\<lambda>s. s\<lparr>RemoteEnable := b\<rparr>) (Store (hubCtx h))\<rparr>\<rparr>"

definition healthSignal ::
  "('i, 'd) hubenv \<Rightarrow> 'i informers \<Rightarrow> bool \<Rightarrow> ('i, 'd) hubstate \<Rightarrow> ('i, 'd) hubstate" where
  "healthSignal E F isRemoteEnable h =
     (if isRemoteEnable
      then (case StartSyncer E F (setRemote True h) of
              (Some _, h1) \<Rightarrow> snd (StopSyncer h1)
            | (None, h1) \<Rightarrow> h1)
      else (case StopSyncer h of
              (Some _, h1) \<Rightarrow> h1
            | (None, h1) \<Rightarrow> setRemote False h1))"

end
