(* ===== verification/HubServer.thy ===== *)
theory HubServer
  imports Syncer
begin

text \<open>
  The API server of the edge hub (\<^verbatim>\<open>pkg/server/handler\<close> and the resources of the API groups): the
  node's agents talk to it as to the center. While the center is reachable, writes go there;
  otherwise they go to the local storage, from which reads are always answered. The REST client
  and JSON are arguments; a request is a record of its parameters.
\<close>

section \<open>Responses and contexts\<close>

definition StatusOK :: int where "StatusOK = 200"
definition StatusBadRequest :: int where "StatusBadRequest = 400"
definition StatusNotFound :: int where "StatusNotFound = 404"
definition StatusConflict :: int where "StatusConflict = 409"
definition StatusInternalServerError :: int where "StatusInternalServerError = 500"

datatype server_error =
    RestError string | StoreError storage_error | DecodeError storage_error | AlreadyExists string
  | NotFoundError string | ListMarshalError | UnsupportedResource | BodyReadError

record Response =
  rspCode :: int
  rspErr :: "server_error option"
  rspBody :: bytes

record objList =
  olKind :: string
  olAPIVersion :: string
  olSelfLink :: string
  olResourceVersion :: string
  olItems :: "hubobj list"

text \<open>The endpoints of a service: of each subset the addresses and the ports (name, number,
  protocol); \<open>epRest\<close> is the rest.\<close>

record Endpoints =
  epSubsets :: "(string list \<times> (string \<times> int \<times> string) list) list"
  epRest :: bytes

datatype verb = PostVerb | PutVerb | PatchVerb | DeleteVerb

record ('i, 'd, 'k) srvenv =
  srvHub :: "('i, 'd) hubenv"
  srvRest :: "verb \<Rightarrow> string \<Rightarrow> bytes \<Rightarrow> 'k \<Rightarrow> (int \<times> (string + bytes)) \<times> 'k"
  srvMarshalList :: "objList \<Rightarrow> bytes option"
  srvDecodeEndpoints :: "bytes \<Rightarrow> Endpoints option"
  srvEncodeEndpoints :: "Endpoints \<Rightarrow> bytes option"

record ('i, 'd, 'k) srvstate =
  srvStore :: "('i, 'd) EdgehubStorage"
  srvRemote :: bool
  srvCenter :: 'k

definition CheckResponseCode :: "int \<Rightarrow> bool" where
  "CheckResponseCode code = (if code < 100 \<or> code > 999 then False else True)"

definition ObjectNameField :: string where "ObjectNameField = ''metadata.name''"
definition SpecNodeNameField :: string where "SpecNodeNameField = ''spec.nodeName''"

definition IsFilterFromQueryParams :: "string \<Rightarrow> string \<Rightarrow> string \<Rightarrow> bool" where
  "IsFilterFromQueryParams fieldSelector nodeName name =
     (if fieldSelector \<noteq> []
      then (case strings_Split fieldSelector (CHR ''='') of
              f # v # _ \<Rightarrow>
                if f = ObjectNameField then v = name
                else if f = SpecNodeNameField then v = nodeName
                else True
            | _ \<Rightarrow> True)
      else True)"

section \<open>The operations\<close>

definition viaCenter ::
  "('i, 'd, 'k) srvenv \<Rightarrow> verb \<Rightarrow> string \<Rightarrow> bytes \<Rightarrow> ('i, 'd, 'k) srvstate \<Rightarrow>
   Response \<times> ('i, 'd, 'k) srvstate" where
  "viaCenter V v uri body s =
     (case srvRest V v uri body (srvCenter s) of
        ((code, Inl e), k) \<Rightarrow>
          (\<lparr>rspCode = code, rspErr = Some (RestError e), rspBody = []\<rparr>, s\<lparr>srvCenter := k\<rparr>)
      | ((_, Inr raw), k) \<Rightarrow> (\<lparr>rspCode = 0, rspErr = None, rspBody = raw\<rparr>, s\<lparr>srvCenter := k\<rparr>))"

definition failed :: "int \<Rightarrow> server_error \<Rightarrow> Response" where
  "failed code e = \<lparr>rspCode = code, rspErr = Some e, rspBody = []\<rparr>"

definition DoCreate ::
  "('i, 'd, 'k) srvenv \<Rightarrow> string \<Rightarrow> string \<Rightarrow> string \<Rightarrow> bytes \<Rightarrow> ('i, 'd, 'k) srvstate \<Rightarrow>
   Response \<times> ('i, 'd, 'k) srvstate" where
  "DoCreate V objType key uri body s =
     (if srvRemote s then viaCenter V PostVerb uri body s
      else (case storage_Get (srvHub V) objType key False (srvStore s) of
              Inr _ \<Rightarrow> (failed StatusConflict (AlreadyExists key), s)
            | Inl _ \<Rightarrow>
                (case storage_Update (srvHub V) objType key body (srvStore s) of
                   (Some e, st) \<Rightarrow> (failed StatusInternalServerError (StoreError e), s\<lparr>srvStore := st\<rparr>)
                 | (None, st) \<Rightarrow> (\<lparr>rspCode = 0, rspErr = None, rspBody = body\<rparr>, s\<lparr>srvStore := st\<rparr>))))"

definition DoDelete ::
  "('i, 'd, 'k) srvenv \<Rightarrow> string \<Rightarrow> string \<Rightarrow> string \<Rightarrow> bytes \<Rightarrow> ('i, 'd, 'k) srvstate \<Rightarrow>
   Response \<times> ('i, 'd, 'k) srvstate" where
  "DoDelete V objType key uri body s =
     (if srvRemote s then viaCenter V DeleteVerb uri body s
      else (case storage_Delete (srvHub V) objType key (srvStore s) of
              (Some e, st) \<Rightarrow> (failed StatusInternalServerError (StoreError e), s\<lparr>srvStore := st\<rparr>)
            | (None, st) \<Rightarrow> (\<lparr>rspCode = StatusOK, rspErr = None, rspBody = []\<rparr>, s\<lparr>srvStore := st\<rparr>)))"

definition DoUpdatePut ::
  "('i, 'd, 'k) srvenv \<Rightarrow> string \<Rightarrow> string \<Rightarrow> string \<Rightarrow> bytes \<Rightarrow> ('i, 'd, 'k) srvstate \<Rightarrow>
   Response \<times> ('i, 'd, 'k) srvstate" where
  "DoUpdatePut V objType key uri body s =
     (if srvRemote s then viaCenter V PutVerb uri body s
      else (case storage_Update (srvHub V) objType key body (srvStore s) of
              (Some e, st) \<Rightarrow> (failed StatusInternalServerError (StoreError e), s\<lparr>srvStore := st\<rparr>)
            | (None, st) \<Rightarrow> (\<lparr>rspCode = 0, rspErr = None, rspBody = body\<rparr>, s\<lparr>srvStore := st\<rparr>)))"

text \<open>A stored object asked for in serialized form is bytes.\<close>

definition DoUpdatePatch ::
  "('i, 'd, 'k) srvenv \<Rightarrow> string \<Rightarrow> string \<Rightarrow> string \<Rightarrow> bytes \<Rightarrow> ('i, 'd, 'k) srvstate \<Rightarrow>
   Response \<times> ('i, 'd, 'k) srvstate" where
  "DoUpdatePatch V objType key uri body s =
     (if srvRemote s then viaCenter V PatchVerb uri body s
      else (case storage_Get (srvHub V) objType key True (srvStore s) of
              Inl e \<Rightarrow> (failed StatusInternalServerError (StoreError e), s)
            | Inr (Inl data) \<Rightarrow> (\<lparr>rspCode = 0, rspErr = None, rspBody = data\<rparr>, s)
            | Inr (Inr _) \<Rightarrow> (failed StatusInternalServerError (StoreError MarshalError), s)))"

definition DoGet ::
  "('i, 'd, 'k) srvenv \<Rightarrow> string \<Rightarrow> string \<Rightarrow> ('i, 'd, 'k) srvstate \<Rightarrow> Response \<times> ('i, 'd, 'k) srvstate"
  where
  "DoGet V objType key s =
     (case storage_Get (srvHub V) objType key True (srvStore s) of
        Inr (Inl data) \<Rightarrow> (\<lparr>rspCode = 0, rspErr = None, rspBody = data\<rparr>, s)
      | _ \<Rightarrow> (failed StatusNotFound (NotFoundError key), s))"

section \<open>The resources\<close>

record ('i, 'd, 'k) Handler =
  hCreate :: "bytes \<Rightarrow> string \<Rightarrow> ('i, 'd, 'k) srvstate \<Rightarrow> Response \<times> ('i, 'd, 'k) srvstate"
  hDelete :: "string \<Rightarrow> string \<Rightarrow> bytes \<Rightarrow> ('i, 'd, 'k) srvstate \<Rightarrow> Response \<times> ('i, 'd, 'k) srvstate"
  hList :: "string \<Rightarrow> string \<Rightarrow> string \<Rightarrow> ('i, 'd, 'k) srvstate \<Rightarrow> Response \<times> ('i, 'd, 'k) srvstate"
  hGet :: "string \<Rightarrow> ('i, 'd, 'k) srvstate \<Rightarrow> Response \<times> ('i, 'd, 'k) srvstate"
  hUpdatePut :: "string \<Rightarrow> string \<Rightarrow> bytes \<Rightarrow> ('i, 'd, 'k) srvstate \<Rightarrow> Response \<times> ('i, 'd, 'k) srvstate"
  hUpdatePatch :: "string \<Rightarrow> string \<Rightarrow> bytes \<Rightarrow> ('i, 'd, 'k) srvstate \<Rightarrow> Response \<times> ('i, 'd, 'k) srvstate"
  hGetInitWatchEvent :: "string \<Rightarrow> string \<Rightarrow> string \<Rightarrow> ('i, 'd, 'k) srvstate \<Rightarrow> WatchEvent list"

definition createDecoded ::
  "('i, 'd, 'k) srvenv \<Rightarrow> string \<Rightarrow> bytes \<Rightarrow> string \<Rightarrow> ('i, 'd, 'k) srvstate \<Rightarrow>
   Response \<times> ('i, 'd, 'k) srvstate" where
  "createDecoded V objType body uri s =
     (case GetObjectFromSerializeData (hubUnmarshal (srvHub V)) objType body of
        Inl e \<Rightarrow> (failed StatusBadRequest (DecodeError e), s)
      | Inr obj \<Rightarrow> DoCreate V objType (MetaNamespaceKey (hoMeta obj)) uri body s)"

text \<open>The objects a list or a watch with these parameters shows; \<open>byNamespace\<close> is false for nodes
  and namespaces, \<open>nodeName\<close> is looked at for pods only.\<close>

definition shown :: "string \<Rightarrow> bool \<Rightarrow> string \<Rightarrow> string \<Rightarrow> hubobj \<Rightarrow> bool" where
  "shown objType byNamespace fieldSelector namespace obj =
     (\<not> (byNamespace \<and> namespace \<noteq> [] \<and> omNamespace (hoMeta obj) \<noteq> namespace) \<and>
      IsFilterFromQueryParams fieldSelector (if objType = ResourcePod then hoNodeName obj else [])
        (omName (hoMeta obj)))"

definition listHandlerOf ::
  "('i, 'd, 'k) srvenv \<Rightarrow> string \<Rightarrow> string \<Rightarrow> string \<Rightarrow> string \<Rightarrow> bool \<Rightarrow> string \<Rightarrow> string \<Rightarrow> string \<Rightarrow>
   ('i, 'd, 'k) srvstate \<Rightarrow> Response \<times> ('i, 'd, 'k) srvstate" where
  "listHandlerOf V objType kind apiVersion version byNamespace fieldSelector namespace uri s =
     (let items = filter (shown objType byNamespace fieldSelector namespace)
            (storage_List (srvHub V) objType (srvStore s))
      in case srvMarshalList V \<lparr>olKind = kind, olAPIVersion = apiVersion, olSelfLink = uri,
                olResourceVersion = version, olItems = items\<rparr> of
           None \<Rightarrow> (failed StatusInternalServerError ListMarshalError, s)
         | Some data \<Rightarrow> (\<lparr>rspCode = 0, rspErr = None, rspBody = data\<rparr>, s))"

definition initWatchOf ::
  "('i, 'd, 'k) srvenv \<Rightarrow> string \<Rightarrow> bool \<Rightarrow> string \<Rightarrow> string \<Rightarrow> string \<Rightarrow> ('i, 'd, 'k) srvstate \<Rightarrow>
   WatchEvent list" where
  "initWatchOf V objType byNamespace fieldSelector namespace name s =
     map (\<lambda>obj. \<lparr>weType = Added, weObject = obj\<rparr>)
       (filter (\<lambda>obj. shown objType byNamespace fieldSelector namespace obj \<and>
            \<not> (name \<noteq> [] \<and> omName (hoMeta obj) \<noteq> name))
          (storage_List (srvHub V) objType (srvStore s)))"

definition NewPodHandler :: "('i, 'd, 'k) srvenv \<Rightarrow> ('i, 'd, 'k) Handler" where
  "NewPodHandler V =
     \<lparr>hCreate = (\<lambda>body uri. createDecoded V ResourcePod body uri),
      hDelete = (\<lambda>key uri body. DoDelete V ResourcePod key uri body),
      hList = (\<lambda>sel ns uri. listHandlerOf V ResourcePod ''PodList'' ''v1'' [] True sel ns uri),
      hGet = (\<lambda>key. DoGet V ResourcePod key),
      hUpdatePut = (\<lambda>key uri body. DoUpdatePut V ResourcePod key uri body),
      hUpdatePatch = (\<lambda>key uri body. DoUpdatePatch V ResourcePod key uri body),
      hGetInitWatchEvent = (\<lambda>sel ns name. initWatchOf V ResourcePod True sel ns name)\<rparr>"

definition NewNodeHandler :: "('i, 'd, 'k) srvenv \<Rightarrow> ('i, 'd, 'k) Handler" where
  "NewNodeHandler V =
     \<lparr>hCreate = (\<lambda>body uri. createDecoded V ResourceNode body uri),
      hDelete = (\<lambda>key uri body. DoDelete V ResourceNode key uri body),
      hList = (\<lambda>sel ns uri. listHandlerOf V ResourceNode ''NodeList'' ''v1'' [] False sel ns uri),
      hGet = (\<lambda>key. DoGet V ResourceNode key),
      hUpdatePut = (\<lambda>key uri body. DoUpdatePut V ResourceNode key uri body),
      hUpdatePatch = (\<lambda>key uri body. DoUpdatePatch V ResourceNode key uri body),
      hGetInitWatchEvent = (\<lambda>sel ns name. initWatchOf V ResourceNode False sel ns name)\<rparr>"

definition NewServiceHandler :: "('i, 'd, 'k) srvenv \<Rightarrow> ('i, 'd, 'k) Handler" where
  "NewServiceHandler V =
     \<lparr>hCreate = (\<lambda>body uri. createDecoded V ResourceService body uri),
      hDelete = (\<lambda>key uri body. DoDelete V ResourceService key uri body),
      hList = (\<lambda>sel ns uri. listHandlerOf V ResourceService ''ServiceList'' ''v1'' [] True sel ns uri),
      hGet = (\<lambda>key. DoGet V ResourceService key),
      hUpdatePut = (\<lambda>key uri body. DoUpdatePut V ResourceService key uri body),
      hUpdatePatch = (\<lambda>key uri body. DoUpdatePatch V ResourceService key uri body),
      hGetInitWatchEvent = (\<lambda>sel ns name. initWatchOf V ResourceService True sel ns name)\<rparr>"

definition NewEndpointHandler :: "('i, 'd, 'k) srvenv \<Rightarrow> ('i, 'd, 'k) Handler" where
  "NewEndpointHandler V =
     \<lparr>hCreate = (\<lambda>body uri. createDecoded V ResourceEndpoint body uri),
      hDelete = (\<lambda>key uri body. DoDelete V ResourceEndpoint key uri body),
      hList = (\<lambda>sel ns uri. listHandlerOf V ResourceEndpoint ''EndpointsList'' ''v1'' [] True sel ns uri),
      hGet = (\<lambda>key. DoGet V ResourceEndpoint key),
      hUpdatePut = (\<lambda>key uri body. DoUpdatePut V ResourceEndpoint key uri body),
      hUpdatePatch = (\<lambda>key uri body. DoUpdatePatch V ResourceEndpoint key uri body),
      hGetInitWatchEvent = (\<lambda>sel ns name s.
        if ns = ''default'' \<and> sel = ''metadata.name=kubernetes'' then []
        else initWatchOf V ResourceEndpoint True sel ns name s)\<rparr>"

definition NewConfigMapHandler :: "('i, 'd, 'k) srvenv \<Rightarrow> ('i, 'd, 'k) Handler" where
  "NewConfigMapHandler V =
     \<lparr>hCreate = (\<lambda>body uri. DoCreate V ResourceConfigMap [] uri body),
      hDelete = (\<lambda>key uri body. DoDelete V ResourceConfigMap key uri body),
      hList = (\<lambda>sel ns uri. listHandlerOf V ResourceConfigMap ''ConfigMapList'' ''v1'' ''1'' True sel ns uri),
      hGet = (\<lambda>key. DoGet V ResourceConfigMap key),
      hUpdatePut = (\<lambda>key uri body. DoUpdatePut V ResourceConfigMap key uri body),
      hUpdatePatch = (\<lambda>key uri body. DoUpdatePatch V ResourceConfigMap key uri body),
      hGetInitWatchEvent = (\<lambda>sel ns name. initWatchOf V ResourceConfigMap True sel ns name)\<rparr>"

definition NewSecretHandler :: "('i, 'd, 'k) srvenv \<Rightarrow> ('i, 'd, 'k) Handler" where
  "NewSecretHandler V =
     \<lparr>hCreate = (\<lambda>body uri. DoCreate V ResourceSecret [] uri body),
      hDelete = (\<lambda>key uri body. DoDelete V ResourceSecret key uri body),
      hList = (\<lambda>sel ns uri. listHandlerOf V ResourceSecret ''SecretList'' ''v1'' ''1'' True sel ns uri),
      hGet = (\<lambda>key. DoGet V ResourceSecret key),
      hUpdatePut = (\<lambda>key uri body. DoUpdatePut V ResourceSecret key uri body),
      hUpdatePatch = (\<lambda>key uri body. DoUpdatePatch V ResourceSecret key uri body),
      hGetInitWatchEvent = (\<lambda>sel ns name. initWatchOf V ResourceSecret True sel ns name)\<rparr>"

definition NewNamespaceHandler :: "('i, 'd, 'k) srvenv \<Rightarrow> ('i, 'd, 'k) Handler" where
  "NewNamespaceHandler V =
     \<lparr>hCreate = (\<lambda>body uri. createDecoded V ResourceNamespace body uri),
      hDelete = (\<lambda>key uri body. DoDelete V ResourceNamespace key uri body),
      hList = (\<lambda>sel ns uri. listHandlerOf V ResourceNamespace ''NamespaceList'' ''v1'' [] False sel ns uri),
      hGet = (\<lambda>key. DoGet V ResourceNamespace key),
      hUpdatePut = (\<lambda>key uri body. DoUpdatePut V ResourceNamespace key uri body),
      hUpdatePatch = (\<lambda>key uri body. DoUpdatePatch V ResourceNamespace key uri body),
      hGetInitWatchEvent = (\<lambda>sel ns name. initWatchOf V ResourceNamespace False sel ns name)\<rparr>"

definition NewLeaseHandler :: "('i, 'd, 'k) srvenv \<Rightarrow> ('i, 'd, 'k) Handler" where
  "NewLeaseHandler V =
     \<lparr>hCreate = (\<lambda>body uri. createDecoded V ResourceNodeLease body uri),
      hDelete = (\<lambda>key uri body. DoDelete V ResourceNodeLease key uri body),
      hList = (\<lambda>sel ns uri. listHandlerOf V ResourceNodeLease ''LeaseList'' ''coordination.k8s.io/v1'' [] True sel ns uri),
      hGet = (\<lambda>key. DoGet V ResourceNodeLease key),
      hUpdatePut = (\<lambda>key uri body. DoUpdatePut V ResourceNodeLease key uri body),
      hUpdatePatch = (\<lambda>key uri body. DoUpdatePatch V ResourceNodeLease key uri body),
      hGetInitWatchEvent = (\<lambda>sel ns name. initWatchOf V ResourceNodeLease True sel ns name)\<rparr>"

definition NewNetworkPolicyHandler :: "('i, 'd, 'k) srvenv \<Rightarrow> ('i, 'd, 'k) Handler" where
  "NewNetworkPolicyHandler V =
     \<lparr>hCreate = (\<lambda>body uri. createDecoded V ResourceNetworkPolicy body uri),
      hDelete = (\<lambda>key uri body. DoDelete V ResourceNetworkPolicy key uri body),
      hList = (\<lambda>sel ns uri. listHandlerOf V ResourceNetworkPolicy ''NetworkPolicyList'' ''networking.k8s.io/v1'' [] True sel ns uri),
      hGet = (\<lambda>key. DoGet V ResourceNetworkPolicy key),
      hUpdatePut = (\<lambda>key uri body. DoUpdatePut V ResourceNetworkPolicy key uri body),
      hUpdatePatch = (\<lambda>key uri body. DoUpdatePatch V ResourceNetworkPolicy key uri body),
      hGetInitWatchEvent = (\<lambda>sel ns name. initWatchOf V ResourceNetworkPolicy True sel ns name)\<rparr>"

definition NewCSIDriverHandler :: "('i, 'd, 'k) srvenv \<Rightarrow> ('i, 'd, 'k) Handler" where
  "NewCSIDriverHandler V =
     \<lparr>hCreate = (\<lambda>body uri. createDecoded V ResourceCSIDriver body uri),
      hDelete = (\<lambda>key uri body. DoDelete V ResourceCSIDriver key uri body),
      hList = (\<lambda>sel ns uri. listHandlerOf V ResourceCSIDriver ''CSIDriverList'' ''storage.k8s.io/v1beta1'' [] True sel ns uri),
      hGet = (\<lambda>key. DoGet V ResourceCSIDriver key),
      hUpdatePut = (\<lambda>key uri body. DoUpdatePut V ResourceCSIDriver key uri body),
      hUpdatePatch = (\<lambda>key uri body. DoUpdatePatch V ResourceCSIDriver key uri body),
      hGetInitWatchEvent = (\<lambda>sel ns name. initWatchOf V ResourceCSIDriver True sel ns name)\<rparr>"

definition NewCSINodeHandler :: "('i, 'd, 'k) srvenv \<Rightarrow> ('i, 'd, 'k) Handler" where
  "NewCSINodeHandler V =
     \<lparr>hCreate = (\<lambda>body uri. createDecoded V ResourceCSINode body uri),
      hDelete = (\<lambda>key uri body. DoDelete V ResourceCSINode key uri body),
      hList = (\<lambda>sel ns uri. listHandlerOf V ResourceCSINode ''CSINodeList'' ''storage.k8s.io/v1'' [] True sel ns uri),
      hGet = (\<lambda>key. DoGet V ResourceCSINode key),
      hUpdatePut = (\<lambda>key uri body. DoUpdatePut V ResourceCSINode key uri body),
      hUpdatePatch = (\<lambda>key uri body. DoUpdatePatch V ResourceCSINode key uri body),
      hGetInitWatchEvent = (\<lambda>sel ns name. initWatchOf V ResourceCSINode True sel ns name)\<rparr>"

definition NewRuntimeClassHandler :: "('i, 'd, 'k) srvenv \<Rightarrow> ('i, 'd, 'k) Handler" where
  "NewRuntimeClassHandler V =
     \<lparr>hCreate = (\<lambda>body uri. createDecoded V ResourceRuntimeClass body uri),
      hDelete = (\<lambda>key uri body. DoDelete V ResourceRuntimeClass key uri body),
      hList = (\<lambda>sel ns uri. listHandlerOf V ResourceRuntimeClass ''RuntimeClassList'' ''node.k8s.io/v1beta1'' [] True sel ns uri),
      hGet = (\<lambda>key. DoGet V ResourceRuntimeClass key),
      hUpdatePut = (\<lambda>key uri body. DoUpdatePut V ResourceRuntimeClass key uri body),
      hUpdatePatch = (\<lambda>key uri body. DoUpdatePatch V ResourceRuntimeClass key uri body),
      hGetInitWatchEvent = (\<lambda>sel ns name. initWatchOf V ResourceRuntimeClass True sel ns name)\<rparr>"

definition NewCertSigningRequestHandler :: "('i, 'd, 'k) srvenv \<Rightarrow> ('i, 'd, 'k) Handler" where
  "NewCertSigningRequestHandler V =
     \<lparr>hCreate = (\<lambda>body uri. createDecoded V ResourceCSR body uri),
      hDelete = (\<lambda>key uri body. DoDelete V ResourceCSR key uri body),
      hList = (\<lambda>sel ns uri. listHandlerOf V ResourceCSR ''CertificateSigningRequestList'' ''certificates.k8s.io/v1beta1'' [] True sel ns uri),
      hGet = (\<lambda>key. DoGet V ResourceCSR key),
      hUpdatePut = (\<lambda>key uri body. DoUpdatePut V ResourceCSR key uri body),
      hUpdatePatch = (\<lambda>key uri body. DoUpdatePatch V ResourceCSR key uri body),
      hGetInitWatchEvent = (\<lambda>sel ns name. initWatchOf V ResourceCSR True sel ns name)\<rparr>"

definition NewEventHandler :: "('i, 'd, 'k) srvenv \<Rightarrow> ('i, 'd, 'k) Handler" where
  "NewEventHandler V =
     \<lparr>hCreate = (\<lambda>body uri. createDecoded V ResourceEvent body uri),
      hDelete = (\<lambda>key uri body. DoDelete V ResourceEvent key uri body),
      hList = (\<lambda>sel ns uri s. (\<lparr>rspCode = 0, rspErr = None, rspBody = []\<rparr>, s)),
      hGet = (\<lambda>key. DoGet V ResourceEvent key),
      hUpdatePut = (\<lambda>key uri body. DoUpdatePut V ResourceEvent key uri body),
      hUpdatePatch = (\<lambda>key uri body. DoUpdatePatch V ResourceEvent key uri body),
      hGetInitWatchEvent = (\<lambda>sel ns name s. [])\<rparr>"

definition NewTokenReviewHandler :: "('i, 'd, 'k) srvenv \<Rightarrow> ('i, 'd, 'k) Handler" where
  "NewTokenReviewHandler V =
     \<lparr>hCreate = (\<lambda>body uri. createDecoded V ResourceTokenReview body uri),
      hDelete = (\<lambda>key uri body. DoDelete V ResourceTokenReview key uri body),
      hList = (\<lambda>sel ns uri s. (\<lparr>rspCode = StatusInternalServerError, rspErr = None, rspBody = []\<rparr>, s)),
      hGet = (\<lambda>key. DoGet V ResourceTokenReview key),
      hUpdatePut = (\<lambda>key uri body. DoUpdatePut V ResourceTokenReview key uri body),
      hUpdatePatch = (\<lambda>key uri body. DoUpdatePatch V ResourceTokenReview key uri body),
      hGetInitWatchEvent = (\<lambda>sel ns name s. [])\<rparr>"

definition NewSubjectAccessReviewHandler :: "('i, 'd, 'k) srvenv \<Rightarrow> ('i, 'd, 'k) Handler" where
  "NewSubjectAccessReviewHandler V =
     \<lparr>hCreate = (\<lambda>body uri. createDecoded V ResourceSubjectAccessReview body uri),
      hDelete = (\<lambda>key uri body. DoDelete V ResourceSubjectAccessReview key uri body),
      hList = (\<lambda>sel ns uri s. (\<lparr>rspCode = StatusOK, rspErr = None, rspBody = []\<rparr>, s)),
      hGet = (\<lambda>key. DoGet V ResourceSubjectAccessReview key),
      hUpdatePut = (\<lambda>key uri body. DoUpdatePut V ResourceSubjectAccessReview key uri body),
      hUpdatePatch = (\<lambda>key uri body. DoUpdatePatch V ResourceSubjectAccessReview key uri body),
      hGetInitWatchEvent = (\<lambda>sel ns name s. [])\<rparr>"

section \<open>The web service\<close>

text \<open>A request; the body is \<open>None\<close> when it cannot be read.\<close>

record request =
  rqResource :: string
  rqNamespace :: string
  rqName :: string
  rqFieldSelector :: string
  rqWatch :: string
  rqURI :: string
  rqBody :: "bytes option"

text \<open>What is written: a status and a body, or a status and an error.\<close>

record httpResponse =
  httpStatus :: int
  httpContent :: "server_error + bytes"

definition respond :: "Response \<Rightarrow> httpResponse" where
  "respond r =
     (case rspErr r of
        Some e \<Rightarrow>
          \<lparr>httpStatus = (if \<not> CheckResponseCode (rspCode r) then StatusInternalServerError else rspCode r),
           httpContent = Inl e\<rparr>
      | None \<Rightarrow> \<lparr>httpStatus = StatusOK, httpContent = Inr (rspBody r)\<rparr>)"

definition badRequest :: "server_error \<Rightarrow> httpResponse" where
  "badRequest e = \<lparr>httpStatus = StatusBadRequest, httpContent = Inl e\<rparr>"

type_synonym ('i, 'd, 'k) services = "(string, ('i, 'd, 'k) Handler) gomap"

definition withHandler ::
  "('i, 'd, 'k) services \<Rightarrow> request \<Rightarrow>
   (('i, 'd, 'k) Handler \<Rightarrow> ('i, 'd, 'k) srvstate \<Rightarrow> Response \<times> ('i, 'd, 'k) srvstate) \<Rightarrow>
   ('i, 'd, 'k) srvstate \<Rightarrow> httpResponse \<times> ('i, 'd, 'k) srvstate" where
  "withHandler H rq op s =
     (case go_get H (rqResource rq) of
        None \<Rightarrow> (badRequest UnsupportedResource, s)
      | Some h \<Rightarrow> (case op h s of (r, s') \<Rightarrow> (respond r, s')))"

definition createHandler ::
  "('i, 'd, 'k) services \<Rightarrow> request \<Rightarrow> ('i, 'd, 'k) srvstate \<Rightarrow> httpResponse \<times> ('i, 'd, 'k) srvstate" where
  "createHandler H rq s =
     (case rqBody rq of
        None \<Rightarrow> (badRequest BodyReadError, s)
      | Some body \<Rightarrow> withHandler H rq (\<lambda>h. hCreate h body (rqURI rq)) s)"

definition deleteHandler ::
  "('i, 'd, 'k) services \<Rightarrow> request \<Rightarrow> ('i, 'd, 'k) srvstate \<Rightarrow> httpResponse \<times> ('i, 'd, 'k) srvstate" where
  "deleteHandler H rq s =
     (let key = FormKeyName (rqNamespace rq) (rqName rq) in
      case rqBody rq of
        None \<Rightarrow> (badRequest BodyReadError, s)
      | Some body \<Rightarrow> withHandler H rq (\<lambda>h. hDelete h key (rqURI rq) body) s)"

definition updatePatchHandler ::
  "('i, 'd, 'k) services \<Rightarrow> request \<Rightarrow> ('i, 'd, 'k) srvstate \<Rightarrow> httpResponse \<times> ('i, 'd, 'k) srvstate" where
  "updatePatchHandler H rq s =
     (let key = FormKeyName (rqNamespace rq) (rqName rq) in
      case rqBody rq of
        None \<Rightarrow> (badRequest BodyReadError, s)
      | Some body \<Rightarrow> withHandler H rq (\<lambda>h. hUpdatePatch h key (rqURI rq) body) s)"

definition updatePutHandler ::
  "('i, 'd, 'k) services \<Rightarrow> request \<Rightarrow> ('i, 'd, 'k) srvstate \<Rightarrow> httpResponse \<times> ('i, 'd, 'k) srvstate" where
  "updatePutHandler H rq s =
     (let key = FormKeyName (rqNamespace rq) (rqName rq) in
      case rqBody rq of
        None \<Rightarrow> (badRequest BodyReadError, s)
      | Some body \<Rightarrow> withHandler H rq (\<lambda>h. hUpdatePut h key (rqURI rq) body) s)"

text \<open>A list or a get with \<open>watch=true\<close> is a watch, see below.\<close>

datatype served = Answered httpResponse | Watching

definition listHandler ::
  "('i, 'd, 'k) services \<Rightarrow> request \<Rightarrow> ('i, 'd, 'k) srvstate \<Rightarrow> served \<times> ('i, 'd, 'k) srvstate" where
  "listHandler H rq s =
     (if rqWatch rq = ''true'' then (Watching, s)
      else
        (case withHandler H rq
            (\<lambda>h. hList h (rqFieldSelector rq) (rqNamespace rq) (hd (strings_Split (rqURI rq) (CHR ''?'')))) s of
           (r, s') \<Rightarrow> (Answered r, s')))"

text \<open>A get of the center's own endpoint is answered with the address of the hub.\<close>

definition changeEdgehubEndpoint :: "Endpoints \<Rightarrow> Endpoints" where
  "changeEdgehubEndpoint ep =
     ep\<lparr>epSubsets := [([''127.0.0.1''], [(''https'', 8778, ''TCP'')])]\<rparr>"

definition handleK3sGetEndpoint :: "('i, 'd, 'k) srvenv \<Rightarrow> bytes \<Rightarrow> bytes" where
  "handleK3sGetEndpoint V data =
     (case srvDecodeEndpoints V data of
        None \<Rightarrow> []
      | Some ep \<Rightarrow>
          (case srvEncodeEndpoints V (changeEdgehubEndpoint ep) of None \<Rightarrow> [] | Some ret \<Rightarrow> ret))"

definition getHandler ::
  "('i, 'd, 'k) srvenv \<Rightarrow> ('i, 'd, 'k) services \<Rightarrow> request \<Rightarrow> ('i, 'd, 'k) srvstate \<Rightarrow>
   served \<times> ('i, 'd, 'k) srvstate" where
  "getHandler V H rq s =
     (if rqWatch rq = ''true'' then (Watching, s)
      else
        let key = FormKeyName (rqNamespace rq) (rqName rq) in
        (case withHandler H rq (\<lambda>h s.
            case hGet h key s of
              (r, s') \<Rightarrow>
                (if rspErr r = None \<and> rqURI rq = ''/api/v1/namespaces/default/endpoints/kubernetes''
                 then r\<lparr>rspBody := handleK3sGetEndpoint V (rspBody r)\<rparr> else r, s')) s of
           (r, s') \<Rightarrow> (Answered r, s')))"

definition apiv1_NewServiceHandler :: "('i, 'd, 'k) srvenv \<Rightarrow> ('i, 'd, 'k) services" where
  "apiv1_NewServiceHandler V =
     [(ResourcePod, NewPodHandler V), (ResourceNode, NewNodeHandler V),
      (ResourceService, NewServiceHandler V), (ResourceEndpoint, NewEndpointHandler V),
      (ResourceConfigMap, NewConfigMapHandler V), (ResourceSecret, NewSecretHandler V),
      (ResourceEvent, NewEventHandler V), (ResourceNamespace, NewNamespaceHandler V)]"

definition apisauthentication_NewServiceHandler :: "('i, 'd, 'k) srvenv \<Rightarrow> ('i, 'd, 'k) services" where
  "apisauthentication_NewServiceHandler V = [(ResourceTokenReview, NewTokenReviewHandler V)]"

definition apisauthorization_NewServiceHandler :: "('i, 'd, 'k) srvenv \<Rightarrow> ('i, 'd, 'k) services" where
  "apisauthorization_NewServiceHandler V = [(ResourceSubjectAccessReview, NewSubjectAccessReviewHandler V)]"

definition apiscertificates_NewServiceHandler :: "('i, 'd, 'k) srvenv \<Rightarrow> ('i, 'd, 'k) services" where
  "apiscertificates_NewServiceHandler V = [(ResourceCSR, NewCertSigningRequestHandler V)]"

definition apiscoordination_NewServiceHandler :: "('i, 'd, 'k) srvenv \<Rightarrow> ('i, 'd, 'k) services" where
  "apiscoordination_NewServiceHandler V = [(ResourceNodeLease, NewLeaseHandler V)]"

definition apisnetworking_NewServiceHandler :: "('i, 'd, 'k) srvenv \<Rightarrow> ('i, 'd, 'k) services" where
  "apisnetworking_NewServiceHandler V = [(ResourceNetworkPolicy, NewNetworkPolicyHandler V)]"

definition apisnode_NewServiceHandler :: "('i, 'd, 'k) srvenv \<Rightarrow> ('i, 'd, 'k) services" where
  "apisnode_NewServiceHandler V = [(ResourceRuntimeClass, NewRuntimeClassHandler V)]"

definition apisstorage_NewServiceHandler :: "('i, 'd, 'k) srvenv \<Rightarrow> ('i, 'd, 'k) services" where
  "apisstorage_NewServiceHandler V =
     [(ResourceCSIDriver, NewCSIDriverHandler V), (ResourceCSINode, NewCSINodeHandler V)]"

text \<open>The context of the handlers is complete when none of its pointers is nil.\<close>

record HandlerContext =
  hcStore :: "unit option"
  hcLb :: "unit option"
  hcK8sClient :: "unit option"
  hcEdgeSubscriber :: "unit option"

definition HandlerContext_IsValid :: "HandlerContext option \<Rightarrow> bool" where
  "HandlerContext_IsValid h =
     (case h of
        None \<Rightarrow> False
      | Some c \<Rightarrow>
          if hcStore c = None then False
          else if hcK8sClient c = None then False
          else if hcLb c = None then False
          else if hcEdgeSubscriber c = None then False
          else True)"

section \<open>Watching\<close>

text \<open>Whether an event is for this watch.\<close>

definition checkIsNeedToWatch ::
  "string \<Rightarrow> string \<Rightarrow> string \<Rightarrow> string \<Rightarrow> hubobj \<Rightarrow> bool" where
  "checkIsNeedToWatch objType fieldSelector namespace name obj =
     (let getNodeName = (if objType = ResourcePod then hoNodeName obj else []);
          getNamespace = omNamespace (hoMeta obj);
          getName = omName (hoMeta obj)
      in if fieldSelector = ''metadata.name=kubernetes'' \<and> objType = ResourceEndpoint then False
         else if \<not> IsFilterFromQueryParams fieldSelector getNodeName getName then False
         else if objType = ResourceNode then \<not> (name \<noteq> [] \<and> getName \<noteq> name)
         else \<not> (namespace \<noteq> [] \<and> getNamespace \<noteq> namespace \<or> name \<noteq> [] \<and> getName \<noteq> name))"

text \<open>A chunked watch writes the stored objects, then subscribes under a unique key and writes
  the events that are for it until the connection closes. The outcome is the events written
  and the watchers afterwards; subscribing to a type without watchers panics.\<close>

definition doChunkWatch ::
  "('i, 'd, 'k) Handler \<Rightarrow> string \<Rightarrow> string \<Rightarrow> string \<Rightarrow> string \<Rightarrow> string \<Rightarrow> watchchan \<Rightarrow>
   WatchEvent list \<Rightarrow> ('i, 'd, 'k) srvstate \<Rightarrow> Subscriber \<Rightarrow> (WatchEvent list \<times> Subscriber) option" where
  "doChunkWatch h objType fieldSelector namespace name key newChan events s sub =
     (let first = hGetInitWatchEvent h fieldSelector namespace name s in
      case Subscriber_Add objType key newChan sub of
        None \<Rightarrow> None
      | Some sub1 \<Rightarrow>
          Some (first @ filter (\<lambda>ev. checkIsNeedToWatch objType fieldSelector namespace name (weObject ev)) events,
                Subscriber_Delete objType key sub1))"

text \<open>A watch over a websocket subscribes first, under the current second, and ends only when an
  event cannot be sent: \<open>events\<close> pairs each event with whether it could. The watcher stays
  subscribed when no send fails.\<close>

fun websocketLoop ::
  "(WatchEvent \<Rightarrow> bool) \<Rightarrow> (WatchEvent \<times> bool) list \<Rightarrow> WatchEvent list \<times> bool" where
  "websocketLoop need [] = ([], True)"
| "websocketLoop need ((ev, sent) # events) =
     (if \<not> need ev then websocketLoop need events
      else if \<not> sent then ([], False)
      else (case websocketLoop need events of (written, isConnected) \<Rightarrow> (ev # written, isConnected)))"

definition doWebsocketWatch ::
  "('i, 'd, 'k) Handler \<Rightarrow> string \<Rightarrow> string \<Rightarrow> string \<Rightarrow> string \<Rightarrow> string \<Rightarrow> watchchan \<Rightarrow>
   (WatchEvent \<times> bool) list \<Rightarrow> ('i, 'd, 'k) srvstate \<Rightarrow> Subscriber \<Rightarrow> (WatchEvent list \<times> Subscriber) option" where
  "doWebsocketWatch h objType fieldSelector namespace name second newChan events s sub =
     (case Subscriber_Add objType second newChan sub of
        None \<Rightarrow> None
      | Some sub1 \<Rightarrow>
          let first = hGetInitWatchEvent h fieldSelector namespace name s in
          (case websocketLoop (\<lambda>ev. checkIsNeedToWatch objType fieldSelector namespace name (weObject ev)) events of
             (written, isConnected) \<Rightarrow>
               Some (first @ written, if isConnected then sub1 else Subscriber_Delete objType second sub1)))"

text \<open>What becomes of a request to watch: a websocket for an unknown resource is closed, a chunked
  watch of one is refused; \<open>upgrade\<close> and \<open>connection\<close> are the two headers, \<open>equalFold\<close> and
  \<open>toLower\<close> those of \<^verbatim>\<open>strings\<close>, \<open>matches\<close> the regular expression for the second.\<close>

datatype watchOutcome = WebsocketClosed | WatchRefused int | WebsocketWatch | ChunkWatch

definition isWebSocketRequest :: "(string \<Rightarrow> string \<Rightarrow> bool) \<Rightarrow> (string \<Rightarrow> string) \<Rightarrow> (string \<Rightarrow> bool) \<Rightarrow> string \<Rightarrow> string \<Rightarrow> bool" where
  "isWebSocketRequest equalFold toLower matches upgrade connection =
     (if \<not> equalFold upgrade ''websocket'' then False else matches (toLower connection))"

definition watchHandler :: "('i, 'd, 'k) services \<Rightarrow> bool \<Rightarrow> string \<Rightarrow> watchOutcome" where
  "watchHandler services isWebsocket resource =
     (if isWebsocket
      then (if go_has services resource then WebsocketWatch else WebsocketClosed)
      else if go_has services resource then ChunkWatch else WatchRefused 400)"

end
