(* ===== verification/SampleHub.thy ===== *)
theory SampleHub
  imports SampleEnv StorageLemmas HubServer
begin

text \<open>
  Concrete libraries for the edge hub: indexers and LevelDB as Go maps, and a JSON that encodes
  the objects without labels, annotations and deletion. They obey every law the hub's
  properties assume, and the witnesses run the hub on them.
\<close>

type_synonym sampleix = "(string, hubobj) gomap"
type_synonym sampledb = "(bytes, bytes) gomap"

definition six_get :: "string \<Rightarrow> sampleix \<Rightarrow> string + hubobj option" where
  "six_get k ix =
     Inr (case go_get ix k of None \<Rightarrow> None | Some obj \<Rightarrow> if objKey obj = k then Some obj else None)"

definition sample_indexer :: "sampleix indexerapi" where
  "sample_indexer = \<lparr>ixNew = [], ixGetByKey = six_get,
     ixAdd = (\<lambda>obj ix. (True, go_put (objKey obj) obj ix)),
     ixUpdate = (\<lambda>obj ix. (True, go_put (objKey obj) obj ix)),
     ixDelete = (\<lambda>obj ix. (True, go_del (objKey obj) ix)), ixList = map snd\<rparr>"

definition sample_db :: "sampledb leveldb" where
  "sample_db = \<lparr>ldbOpen = (\<lambda>path. Some []), ldbGet = (\<lambda>k d. go_get d k),
     ldbPut = (\<lambda>k v d. (True, go_put k v d)), ldbDelete = (\<lambda>k d. (True, go_del k d)),
     ldbKeys = (\<lambda>p d. remdups (filter (\<lambda>k. take (length p) k = p) (go_keys d))),
     ldbWriteDeletes = (\<lambda>ks d. (True, filter (\<lambda>(k, _). k \<notin> set ks) d))\<rparr>"

definition sample_marshal :: "hubobj \<Rightarrow> bytes option" where
  "sample_marshal obj =
     (if omLabels (hoMeta obj) = None \<and> omAnnotations (hoMeta obj) = None \<and>
         omDeletionTimestamp (hoMeta obj) = None
      then Some (pack [hoAPIVersion obj, hoKind obj, omNamespace (hoMeta obj), omName (hoMeta obj),
             omResourceVersion (hoMeta obj), omUID (hoMeta obj), hoNodeName obj, hoRest obj])
      else None)"

definition sample_unmarshal :: "string \<Rightarrow> bytes \<Rightarrow> hubobj option" where
  "sample_unmarshal t data =
     (case unpack data of
        None \<Rightarrow> None
      | Some xs \<Rightarrow>
          if length xs = 8
          then Some \<lparr>hoType = t, hoAPIVersion = xs ! 0, hoKind = xs ! 1,
            hoMeta = \<lparr>omNamespace = xs ! 2, omName = xs ! 3, omLabels = None, omAnnotations = None,
              omResourceVersion = xs ! 4, omUID = xs ! 5, omDeletionTimestamp = None\<rparr>,
            hoNodeName = xs ! 6, hoRest = xs ! 7\<rparr>
          else None)"

definition sample_hub :: "(sampleix, sampledb) hubenv" where
  "sample_hub = \<lparr>hubIx = sample_indexer, hubDB = sample_db, hubUnmarshal = sample_unmarshal,
     hubMarshal = sample_marshal\<rparr>"

lemma sample_hub_simps [simp]:
  "hubIx sample_hub = sample_indexer" "hubDB sample_hub = sample_db"
  "hubUnmarshal sample_hub = sample_unmarshal" "hubMarshal sample_hub = sample_marshal"
  by (simp_all add: sample_hub_def)

lemma sample_indexer_ok: "indexer_ok sample_indexer"
  by (auto simp: indexer_ok_def sample_indexer_def six_get_def split: option.splits)

lemma sample_db_ok: "leveldb_ok sample_db"
proof -
  have "set (go_keys d) = {k. go_get d k \<noteq> None}" for d :: sampledb
    by (simp add: go_keys_def map_of_eq_None_iff)
  moreover have "map_of (filter (\<lambda>(k, _). k \<notin> set ks) d) k' = (if k' \<in> set ks then None else map_of d k')"
    for ks k' and d :: sampledb
    by (induction d) auto
  ultimately show ?thesis by (auto simp: leveldb_ok_def sample_db_def)
qed

lemma sample_json_ok: "json_ok sample_hub"
  unfolding json_ok_def
proof (intro conjI allI impI)
  show "hubUnmarshal sample_hub (hoType obj) data = Some obj" if "hubMarshal sample_hub obj = Some data" for obj data
    using that by (auto simp: sample_marshal_def sample_unmarshal_def split: if_splits)
  show "hoType obj = t" if "hubUnmarshal sample_hub t data = Some obj" for t data obj
    using that by (auto simp: sample_unmarshal_def split: option.splits if_splits)
qed

lemma sample_hub_ok: "hub_ok sample_hub"
  by (simp add: hub_ok_def sample_indexer_ok sample_db_ok sample_json_ok)

section \<open>A sample storage\<close>

definition sample_pod :: "string \<Rightarrow> string \<Rightarrow> hubobj" where
  "sample_pod n rest = \<lparr>hoType = ResourcePod, hoAPIVersion = ''v1'', hoKind = ''Pod'',
     hoMeta = \<lparr>omNamespace = ''default'', omName = n, omLabels = None, omAnnotations = None,
       omResourceVersion = ''5'', omUID = [], omDeletionTimestamp = None\<rparr>,
     hoNodeName = ''edge1'', hoRest = rest\<rparr>"

definition sample_data :: "hubobj \<Rightarrow> bytes" where
  "sample_data obj = the (sample_marshal obj)"

text \<open>One pod, in the cache and in LevelDB.\<close>

definition sample_storage :: "bool \<Rightarrow> (sampleix, sampledb) EdgehubStorage" where
  "sample_storage remote =
     \<lparr>Cache = [(ResourcePod, [(''default/web'', sample_pod ''web'' ''old'')])],
      LevelDB = [(''pods-default/web'', sample_data (sample_pod ''web'' ''old''))],
      RemoteEnable = remote\<rparr>"

lemma sample_storage_sync: "in_sync sample_hub (sample_storage b)"
proof -
  have m: "sample_unmarshal ResourcePod (sample_data (sample_pod ''web'' ''old'')) = Some (sample_pod ''web'' ''old'')"
    by code_simp
  have k: "objKey (sample_pod ''web'' ''old'') = ''default/web''" by code_simp
  have p: "ResourcePod \<in> set decodableTypes" by code_simp
  have n: "''pods-default/web'' = formKeyName ResourcePod ''default/web''" "CHR ''-'' \<notin> set ResourcePod"
    by code_simp+
  show ?thesis
    unfolding in_sync_def
  proof (intro allI impI)
    fix t k' :: string
    assume t: "CHR ''-'' \<notin> set t"
    have "formKeyName t k' = ''pods-default/web'' \<longleftrightarrow> t = ResourcePod \<and> k' = ''default/web''"
      unfolding n(1) by (rule formKeyName_eq_iff [OF t n(2)])
    then show "cachedIn sample_hub (Cache (sample_storage b)) t k' =
        persisted sample_hub (LevelDB (sample_storage b)) t k'"
      using m k p by (auto simp: cachedIn_def persisted_def sample_storage_def sample_indexer_def sample_db_def
          six_get_def GetObjectFromSerializeData_def)
  qed
qed

end
