(* ===== verification/HubServerLemmas.thy ===== *)
theory HubServerLemmas
  imports StorageLemmas HubServer
begin

text \<open>
  The contract the resources of the hub's API share, and that all sixteen fulfil it: reads come
  from the storage alone, and writes while the center is out of reach are seen by reads.
\<close>

lemma decodable_no_dash: "t \<in> set decodableTypes \<Longrightarrow> CHR ''-'' \<notin> set t"
  by (auto simp: decodableTypes_def resource_name_defs)

locale resource_handler =
  fixes handler :: "('i, 'd, 'k) srvenv \<Rightarrow> ('i, 'd, 'k) Handler" and objType :: string
  assumes get: "hGet (handler V) key s = DoGet V objType key s"
    and put: "hUpdatePut (handler V) key uri body s = DoUpdatePut V objType key uri body s"
    and patch: "hUpdatePatch (handler V) key uri body s = DoUpdatePatch V objType key uri body s"
    and delete: "hDelete (handler V) key uri body s = DoDelete V objType key uri body s"
    and list_state: "snd (hList (handler V) fieldSelector namespace uri s) = s"
    and decodable: "objType \<in> set decodableTypes"
begin

text \<open>Reads change nothing and do not contact the center.\<close>

lemma reads_local:
  "snd (hGet (handler V) key s) = s" "snd (hList (handler V) fieldSelector namespace uri s) = s"
  by (simp_all add: get list_state DoGet_def split: sum.split)

lemma put_get:
  assumes ok: "hub_ok (srvHub V)" and sync: "in_sync (srvHub V) (srvStore s)"
    and off: "\<not> srvRemote s" "\<not> RemoteEnable (srvStore s)" and has: "go_has (Cache (srvStore s)) objType"
    and obj: "hubUnmarshal (srvHub V) objType body = Some obj" "hubMarshal (srvHub V) obj = Some data"
    and put_ok: "hUpdatePut (handler V) (objKey obj) uri body s = (r, s')" "rspErr r = None"
  shows "rspErr (fst (hGet (handler V) (objKey obj) s')) = None \<and>
    rspBody (fst (hGet (handler V) (objKey obj) s')) = data \<and> in_sync (srvHub V) (srvStore s')"
proof -
  let ?E = "srvHub V"
  have d: "GetObjectFromSerializeData (hubUnmarshal ?E) objType body = Inr obj"
    using decodable obj(1) by (simp add: GetObjectFromSerializeData_def)
  from put_ok off(1) obtain st where u: "storage_Update ?E objType (objKey obj) body (srvStore s) = (None, st)"
    and s': "srvStore s' = st"
    by (auto simp: put DoUpdatePut_def failed_def split: prod.splits option.splits)
  have has': "go_get (Cache (srvStore s)) objType \<noteq> None" using has by (simp add: go_has_def)
  note ref = Update_refines [OF ok sync off(2) decodable_no_dash [OF decodable] has' d refl u]
  obtain ix where ix: "go_get (Cache st) objType = Some ix" using ref(4) has' by auto
  have "cachedIn ?E (Cache st) objType (objKey obj) = Some obj"
    using fun_cong [OF ref(1), of "(objType, objKey obj)"] by (simp add: cached_def)
  with ix indexerD(5) [OF hub_okD(1) [OF ok], of "objKey obj" ix]
  have "storage_Get ?E objType (objKey obj) True st = Inr (Inl data)"
    using obj(2) by (auto simp: cachedIn_def storage_Get_def)
  with ref(2) s' show ?thesis by (simp add: get DoGet_def)
qed

lemma delete_get:
  assumes ok: "hub_ok (srvHub V)" and sync: "in_sync (srvHub V) (srvStore s)"
    and off: "\<not> srvRemote s" "\<not> RemoteEnable (srvStore s)"
    and del_ok: "hDelete (handler V) key uri body s = (r, s')" "rspErr r = None"
  shows "rspErr (fst (hGet (handler V) key s')) = Some (NotFoundError key)"
proof -
  let ?E = "srvHub V"
  from del_ok off(1) obtain st where u: "storage_Delete ?E objType key (srvStore s) = (None, st)"
    and s': "srvStore s' = st"
    by (auto simp: delete DoDelete_def failed_def split: prod.splits option.splits)
  have "cachedIn ?E (Cache st) objType key = None"
    using fun_cong [OF Delete_refines(1) [OF ok sync off(2) decodable_no_dash [OF decodable] u], of "(objType, key)"]
    by (simp add: cached_def)
  then have "\<exists>e. storage_Get ?E objType key True st = Inl e"
    by (auto simp: cachedIn_def storage_Get_def split: option.splits sum.splits)
  with s' show ?thesis by (auto simp: get DoGet_def failed_def)
qed

end

lemma list_states [simp]:
  "snd (listHandlerOf V t kind api version byNamespace sel ns uri s) = s"
  by (simp add: listHandlerOf_def Let_def split: option.split)

lemmas handler_defs =
  NewPodHandler_def NewNodeHandler_def NewServiceHandler_def NewEndpointHandler_def
  NewConfigMapHandler_def NewSecretHandler_def NewNamespaceHandler_def NewLeaseHandler_def
  NewNetworkPolicyHandler_def NewCSIDriverHandler_def NewCSINodeHandler_def
  NewRuntimeClassHandler_def NewCertSigningRequestHandler_def NewEventHandler_def
  NewTokenReviewHandler_def NewSubjectAccessReviewHandler_def

lemma all_decodable:
  "ResourcePod \<in> set decodableTypes" "ResourceNode \<in> set decodableTypes"
  "ResourceService \<in> set decodableTypes" "ResourceEndpoint \<in> set decodableTypes"
  "ResourceConfigMap \<in> set decodableTypes" "ResourceSecret \<in> set decodableTypes"
  "ResourceNamespace \<in> set decodableTypes" "ResourceNodeLease \<in> set decodableTypes"
  "ResourceNetworkPolicy \<in> set decodableTypes" "ResourceCSIDriver \<in> set decodableTypes"
  "ResourceCSINode \<in> set decodableTypes" "ResourceRuntimeClass \<in> set decodableTypes"
  "ResourceCSR \<in> set decodableTypes" "ResourceEvent \<in> set decodableTypes"
  "ResourceTokenReview \<in> set decodableTypes" "ResourceSubjectAccessReview \<in> set decodableTypes"
  by (simp_all add: decodableTypes_def)

interpretation pod_api: resource_handler NewPodHandler ResourcePod
  by unfold_locales (simp_all add: handler_defs all_decodable)

interpretation node_api: resource_handler NewNodeHandler ResourceNode
  by unfold_locales (simp_all add: handler_defs all_decodable)

interpretation service_api: resource_handler NewServiceHandler ResourceService
  by unfold_locales (simp_all add: handler_defs all_decodable)

interpretation endpoint_api: resource_handler NewEndpointHandler ResourceEndpoint
  by unfold_locales (simp_all add: handler_defs all_decodable)

interpretation configmap_api: resource_handler NewConfigMapHandler ResourceConfigMap
  by unfold_locales (simp_all add: handler_defs all_decodable)

interpretation secret_api: resource_handler NewSecretHandler ResourceSecret
  by unfold_locales (simp_all add: handler_defs all_decodable)

interpretation namespace_api: resource_handler NewNamespaceHandler ResourceNamespace
  by unfold_locales (simp_all add: handler_defs all_decodable)

interpretation lease_api: resource_handler NewLeaseHandler ResourceNodeLease
  by unfold_locales (simp_all add: handler_defs all_decodable)

interpretation networkpolicy_api: resource_handler NewNetworkPolicyHandler ResourceNetworkPolicy
  by unfold_locales (simp_all add: handler_defs all_decodable)

interpretation csidriver_api: resource_handler NewCSIDriverHandler ResourceCSIDriver
  by unfold_locales (simp_all add: handler_defs all_decodable)

interpretation csinode_api: resource_handler NewCSINodeHandler ResourceCSINode
  by unfold_locales (simp_all add: handler_defs all_decodable)

interpretation runtimeclass_api: resource_handler NewRuntimeClassHandler ResourceRuntimeClass
  by unfold_locales (simp_all add: handler_defs all_decodable)

interpretation csr_api: resource_handler NewCertSigningRequestHandler ResourceCSR
  by unfold_locales (simp_all add: handler_defs all_decodable)

interpretation event_api: resource_handler NewEventHandler ResourceEvent
  by unfold_locales (simp_all add: handler_defs all_decodable)

interpretation tokenreview_api: resource_handler NewTokenReviewHandler ResourceTokenReview
  by unfold_locales (simp_all add: handler_defs all_decodable)

interpretation accessreview_api: resource_handler NewSubjectAccessReviewHandler ResourceSubjectAccessReview
  by unfold_locales (simp_all add: handler_defs all_decodable)

text \<open>Every resource of the core API group is such a handler.\<close>

lemma apiv1_handlers:
  "go_get (apiv1_NewServiceHandler V) t = Some h \<Longrightarrow> \<exists>handler. h = handler V \<and> resource_handler handler t"
  using pod_api.resource_handler_axioms node_api.resource_handler_axioms
    service_api.resource_handler_axioms endpoint_api.resource_handler_axioms
    configmap_api.resource_handler_axioms secret_api.resource_handler_axioms
    namespace_api.resource_handler_axioms event_api.resource_handler_axioms
  by (auto simp: apiv1_NewServiceHandler_def split: if_splits)

end
