(* ===== verification/HubProps.thy ===== *)
theory HubProps
  imports SampleHub HubServerLemmas
begin

text \<open>
  The properties of the edge hub: its storage is a map that survives restarts, the syncers and
  the API server keep it so, and what goes wrong when the syncers fail to start.
\<close>

lemma storage_Get_cached:
  assumes "indexer_ok (hubIx E)" "go_has (Cache s) t"
  shows "storage_Get E t k False s = (case cached E s (t, k) of None \<Rightarrow> Inl ObjNotFound | Some obj \<Rightarrow> Inr (Inr obj))"
proof -
  from assms(2) obtain ix where "go_get (Cache s) t = Some ix" by (auto simp: go_has_def)
  with indexerD(5) [OF assms(1), of k ix] show ?thesis
    by (auto simp: storage_Get_def cached_def cachedIn_def split: option.split)
qed

text \<open>C8: while the center is out of reach, the storage implements a map from types and keys to
  objects, for the types it has a cache of: an update with the object's own key sets it, a delete
  removes it, a get reads it; and LevelDB stays in step with the cache.\<close>

theorem storage_refines_map:
  assumes "hub_ok E" "in_sync E s" "\<not> RemoteEnable s" "t \<in> set decodableTypes" "go_has (Cache s) t"
    and "hubUnmarshal E t data = Some obj" "objKey obj = k"
  shows "(\<forall>s'. storage_Update E t k data s = (None, s') \<longrightarrow>
       cached E s' = (cached E s)((t, k) \<mapsto> obj) \<and> in_sync E s') \<and>
    (\<forall>s'. storage_Delete E t k s = (None, s') \<longrightarrow>
       cached E s' = (cached E s)((t, k) := None) \<and> in_sync E s') \<and>
    storage_Get E t k False s =
      (case cached E s (t, k) of None \<Rightarrow> Inl ObjNotFound | Some obj \<Rightarrow> Inr (Inr obj))"
proof -
  have d: "CHR ''-'' \<notin> set t" using assms(4) by (rule decodable_no_dash)
  have o: "GetObjectFromSerializeData (hubUnmarshal E) t data = Inr obj"
    using assms(4,6) by (simp add: GetObjectFromSerializeData_def)
  have c: "go_get (Cache s) t \<noteq> None" using assms(5) by (simp add: go_has_def)
  show ?thesis
    using Update_refines(1,2) [OF assms(1-3) d c o assms(7)] Delete_refines(1,2) [OF assms(1-3) d]
      storage_Get_cached [OF hub_okD(1) [OF assms(1)] assms(5)] by blast
qed

definition sample_new :: hubobj where "sample_new = sample_pod ''web'' ''new''"

lemma sample_new_facts:
  "sample_unmarshal ResourcePod (sample_data sample_new) = Some sample_new"
  "objKey sample_new = ''default/web''" "go_has (Cache (sample_storage b)) ResourcePod"
  "ResourcePod \<in> set decodableTypes"
  by code_simp+

definition sample_written :: "(sampleix, sampledb) EdgehubStorage" where
  "sample_written =
     snd (storage_Update sample_hub ResourcePod ''default/web'' (sample_data sample_new) (sample_storage False))"

lemma sample_written_ok:
  "storage_Update sample_hub ResourcePod ''default/web'' (sample_data sample_new) (sample_storage False) =
     (None, sample_written)"
  unfolding sample_written_def by code_simp

theorem storage_refines_map_witness:
  "cached sample_hub sample_written (ResourcePod, ''default/web'') = Some sample_new \<and>
   in_sync sample_hub sample_written"
  using storage_refines_map [OF sample_hub_ok sample_storage_sync, of False ResourcePod "sample_data sample_new"
      sample_new "''default/web''"] sample_new_facts sample_written_ok
  by (simp add: sample_storage_def)

text \<open>C9: a restart loses nothing: the cache rebuilt from LevelDB holds, for every type without a
  dash in its name, exactly the objects the cache held before, if the two were in step.\<close>

theorem restart_recovers:
  assumes "hub_ok E" "in_sync E s" "path \<noteq> []" "ldbOpen (hubDB E) path = Some (LevelDB s)"
  shows "\<exists>s'. NewEdgehubStore E path = Inr s' \<and> in_sync E s' \<and> LevelDB s' = LevelDB s \<and>
    (\<forall>t\<in>set decodableTypes. \<forall>k. cached E s' (t, k) = cached E s (t, k))"
proof -
  let ?s = "\<lparr>Cache = RebuildCache E (LevelDB s), LevelDB = LevelDB s, RemoteEnable = False\<rparr>"
  have r: "cachedIn E (RebuildCache E (LevelDB s)) t k = persisted E (LevelDB s) t k"
    if "CHR ''-'' \<notin> set t" for t k
    using RebuildCache_cached [OF assms(1) in_sync_well_keyed [OF assms(1,2)] that] .
  have "in_sync E ?s" using r by (simp add: in_sync_def)
  moreover have "cached E ?s (t, k) = cached E s (t, k)" if "t \<in> set decodableTypes" for t k
    using r [OF decodable_no_dash [OF that]] in_syncD [OF assms(2) decodable_no_dash [OF that]]
    by (simp add: cached_def)
  moreover have "NewEdgehubStore E path = Inr ?s" using assms(3,4) by (simp add: NewEdgehubStore_def)
  ultimately show ?thesis by auto
qed

definition sample_hub_at :: "sampledb \<Rightarrow> (sampleix, sampledb) hubenv" where
  "sample_hub_at d = sample_hub\<lparr>hubDB := sample_db\<lparr>ldbOpen := (\<lambda>_. Some d)\<rparr>\<rparr>"

lemma sample_hub_at_simps [simp]:
  "hubIx (sample_hub_at d) = sample_indexer" "hubUnmarshal (sample_hub_at d) = sample_unmarshal"
  "hubMarshal (sample_hub_at d) = sample_marshal"
  "hubDB (sample_hub_at d) = sample_db\<lparr>ldbOpen := (\<lambda>_. Some d)\<rparr>"
  by (simp_all add: sample_hub_at_def sample_hub_def)

lemma sample_hub_at_ok: "hub_ok (sample_hub_at d)" "in_sync (sample_hub_at d) = in_sync sample_hub"
proof -
  show "hub_ok (sample_hub_at d)"
    using sample_hub_ok by (simp add: hub_ok_def leveldb_ok_def json_ok_def)
  show "in_sync (sample_hub_at d) = in_sync sample_hub"
    unfolding fun_eq_iff in_sync_def cachedIn_def persisted_def sample_hub_at_simps sample_hub_simps
    by simp
qed

theorem restart_recovers_witness:
  "\<exists>s'. NewEdgehubStore (sample_hub_at (LevelDB (sample_storage True))) ''/db'' = Inr s' \<and>
     cached (sample_hub_at (LevelDB (sample_storage True))) s' (ResourcePod, ''default/web'') =
     Some (sample_pod ''web'' ''old'')"
proof -
  let ?E = "sample_hub_at (LevelDB (sample_storage True))"
  have c: "cached ?E (sample_storage True) (ResourcePod, ''default/web'') = Some (sample_pod ''web'' ''old'')"
    by code_simp
  have "\<exists>s'. NewEdgehubStore ?E ''/db'' = Inr s' \<and> in_sync ?E s' \<and> LevelDB s' = LevelDB (sample_storage True) \<and>
      (\<forall>t\<in>set decodableTypes. \<forall>k. cached ?E s' (t, k) = cached ?E (sample_storage True) (t, k))"
    by (rule restart_recovers) (simp_all add: sample_hub_at_ok sample_storage_sync)
  with c sample_new_facts(4) show ?thesis by auto
qed

section \<open>Events of the center\<close>

lemma storage_Update_remote:
  "RemoteEnable s \<Longrightarrow> storage_Update E t k data s =
     (case LevelDB_Update E t k data (LevelDB s) of (e, d) \<Rightarrow> (e, s\<lparr>LevelDB := d\<rparr>))"
  by (simp add: storage_Update_def)

text \<open>While connected to the center, an added object is stamped with the syncer's kind and
  version, written to LevelDB under its own key, and sent once to every watcher of its type;
  the cache, which the informer owns, and all other stored objects stay as they are.\<close>

theorem added_event_persisted:
  assumes "hub_ok E" "RemoteEnable s" "syType sy \<in> set decodableTypes" "hoType obj = syType sy"
    and "hubMarshal E (addKindAndVersion sy obj) = Some data"
    and "\<And>k v d. fst (ldbPut (hubDB E) k v d)" and "go_get sub (syType sy) = Some w"
  shows "\<exists>sends s'. handleAddEvent E sy obj sub s = Some (sends, s') \<and> Cache s' = Cache s \<and>
    sends = map (\<lambda>(_, ch). (ch, \<lparr>weType = Added, weObject = addKindAndVersion sy obj\<rparr>)) w \<and>
    (\<forall>t\<in>set decodableTypes. \<forall>k. persisted E (LevelDB s') t k =
       (if (t, k) = (syType sy, objKey obj) then Some (addKindAndVersion sy obj)
        else persisted E (LevelDB s) t k))"
proof -
  let ?obj = "addKindAndVersion sy obj" and ?t = "syType sy"
  have key: "objKey ?obj = objKey obj" "hoType ?obj = ?t"
    using assms(4) by (simp_all add: objKey_def addKindAndVersion_def)
  obtain d where d: "ldbPut (hubDB E) (formKeyName ?t (objKey obj)) data (LevelDB s) = (True, d)"
    using assms(6) by (metis prod.collapse)
  have dec: "GetObjectFromSerializeData (hubUnmarshal E) ?t data = Inr ?obj"
  proof -
    have "hubUnmarshal E (hoType ?obj) data = Some ?obj"
      using hub_okD(3) [OF assms(1)] assms(5) unfolding json_ok_def by blast
    with assms(3) key(2) show ?thesis by (simp add: GetObjectFromSerializeData_def)
  qed
  have "persisted E d t k = (if (t, k) = (?t, objKey obj) then Some ?obj else persisted E (LevelDB s) t k)"
    if "t \<in> set decodableTypes" for t k
    using persisted_put [OF hub_okD(2) [OF assms(1)] d decodable_no_dash [OF assms(3)] decodable_no_dash [OF that]] dec
    by simp
  moreover have "syncToStorage E Added ?t ?obj s = s\<lparr>LevelDB := d\<rparr>"
    using assms(2,5) d key(1)
    by (simp add: syncToStorage_def storage_Update_remote LevelDB_Update_def objKey_def)
  ultimately show ?thesis
    using assms(4,7)
    by (simp add: handleAddEvent_def syncEvent_def syncToNode_def)
qed

definition sample_syncer :: syncer where
  "sample_syncer = \<lparr>syFactory = DefaultInformerFatory, syType = ResourcePod, syAPIVersion = ''v1'', syKind = ''Pod''\<rparr>"

theorem added_event_persisted_witness:
  "\<exists>sends s'. handleAddEvent sample_hub sample_syncer sample_new [(ResourcePod, [(''w1'', 3)])] (sample_storage True)
      = Some (sends, s') \<and> map fst sends = [3] \<and>
     persisted sample_hub (LevelDB s') ResourcePod ''default/web'' = Some sample_new"
proof -
  have a: "addKindAndVersion sample_syncer sample_new = sample_new"
    by (simp add: addKindAndVersion_def sample_syncer_def sample_new_def sample_pod_def)
  have m: "hubMarshal sample_hub (addKindAndVersion sample_syncer sample_new) = Some (sample_data sample_new)"
    unfolding a by code_simp
  have p: "fst (ldbPut (hubDB sample_hub) k v d)" for k v d by (simp add: sample_db_def)
  have t: "syType sample_syncer = ResourcePod" "hoType sample_new = ResourcePod"
    by (simp_all add: sample_syncer_def sample_new_def sample_pod_def)
  have "RemoteEnable (sample_storage True)" by (simp add: sample_storage_def)
  from added_event_persisted [OF sample_hub_ok this _ _ m p, of "[(ResourcePod, [(''w1'', 3)])]" "[(''w1'', 3)]"] a t
  show ?thesis using sample_new_facts(2,4) by auto
qed

text \<open>When the center is back, replacing the cache by the informers' and dropping the rest puts
  the storage in step again, provided the informers' objects have reached LevelDB, as the
  syncers make them, and every LevelDB key is one the hub wrote.\<close>

theorem refresh_in_sync:
  assumes "hub_ok E" "\<And>ks d. fst (ldbWriteDeletes (hubDB E) ks d)"
    and "\<And>name. ldbGet (hubDB E) name (LevelDB s) \<noteq> None \<Longrightarrow> splitKeyName name \<noteq> None"
    and "\<And>t sy k obj. (t, Some sy) \<in> set sys \<Longrightarrow> ixGetByKey (hubIx E) k (getIndexer F t) = Inr (Some obj) \<Longrightarrow>
      persisted E (LevelDB s) t k = Some obj"
  shows "in_sync E (RefreshStorage E F sys s)"
proof -
  let ?c = "map (\<lambda>(t, _). (t, getIndexer F t)) (filter (\<lambda>(_, sy). sy \<noteq> None) sys)"
  let ?s = "s\<lparr>Cache := ?c\<rparr>"
  have "splitKeyName name \<noteq> None" if "name \<in> set (ldbKeys (hubDB E) [] (LevelDB ?s))" for name
    using that assms(3) leveldbD(6) [OF hub_okD(2) [OF assms(1)]] by auto
  then obtain b where "mergeBatch E ?c (ldbKeys (hubDB E) [] (LevelDB ?s)) [] = Inr b"
    using mergeBatch_returns [OF hub_okD(1) [OF assms(1)]] by blast
  then obtain s' where m: "MergeDelete E ?s = (None, s')"
    by (simp add: MergeDelete_def)
  have cov: "persisted E (LevelDB ?s) t k = Some obj" if "cachedIn E (Cache ?s) t k = Some obj" for t k obj
  proof -
    from that obtain ix where ix: "go_get ?c t = Some ix" "ixGetByKey (hubIx E) k ix = Inr (Some obj)"
      by (auto simp: cachedIn_def split: option.splits sum.splits)
    from map_of_SomeD [OF ix(1)] obtain sy where "(t, Some sy) \<in> set sys" "ix = getIndexer F t" by auto
    with assms(4) ix(2) show ?thesis by simp
  qed
  have "in_sync E s'"
    using assms(1) m assms(2) cov by (rule MergeDelete_in_sync)
  with m show ?thesis by (simp add: RefreshStorage_def)
qed

definition sample_informers :: "sampleix informers" where
  "sample_informers = \<lparr>listNotFound = (\<lambda>_. True), cacheSync = (\<lambda>_. Synced), getIndexer = (\<lambda>_. [])\<rparr>"

theorem refresh_in_sync_witness:
  "in_sync sample_hub (RefreshStorage sample_hub sample_informers [(ResourcePod, Some sample_syncer)] (sample_storage True))"
proof (rule refresh_in_sync)
  show "splitKeyName name \<noteq> None" if "ldbGet (hubDB sample_hub) name (LevelDB (sample_storage True)) \<noteq> None" for name
  proof -
    have "splitKeyName ''pods-default/web'' \<noteq> None" by code_simp
    with that show ?thesis by (auto simp: sample_db_def sample_storage_def split: if_splits)
  qed
qed (simp_all add: sample_hub_ok sample_db_def sample_informers_def sample_indexer_def six_get_def)

section \<open>A start that fails\<close>

lemma StartSyncer_failed:
  assumes "StartSyncer E F h = (Some e, h')"
  shows "StopChan (hubCtx h') = Some False" "Store (hubCtx h') = Store (hubCtx h)"
  using assms
  by (auto simp: StartSyncer_def startSyncClient_def startSyncInformerFatory_def NewSyncerInformerFactory_def
      Let_def split: if_splits option.splits prod.splits)

lemma StopSyncer_open:
  "StopChan (hubCtx h) = Some False \<Longrightarrow>
     \<exists>h'. StopSyncer h = (None, h') \<and> StopChan (hubCtx h') = Some True \<and> Store (hubCtx h') = Store (hubCtx h)"
  by (auto simp: StopSyncer_def isChanClose_def)

lemma StopSyncer_closed: "StopChan (hubCtx h) = Some True \<Longrightarrow> StopSyncer h = (Some InvalidStopChan, h)"
  by (simp add: StopSyncer_def isChanClose_def)

lemma remote_write_unseen:
  assumes "RemoteEnable (srvStore s)" "\<not> srvRemote s" "DoUpdatePut V t key uri body s = (r, s')"
  shows "fst (DoGet V t' k' s') = fst (DoGet V t' k' s)"
proof -
  have "Cache (srvStore s') = Cache (srvStore s)"
    using assms by (auto simp: DoUpdatePut_def storage_Update_remote split: prod.splits option.splits)
  then have "storage_Get (srvHub V) t' k' True (srvStore s') = storage_Get (srvHub V) t' k' True (srvStore s)"
    by (simp add: storage_Get_def)
  then show ?thesis by (auto simp: DoGet_def split: sum.splits)
qed


definition sample_state :: "(sampleix, sampledb) hubstate" where
  "sample_state = \<lparr>hubCtx = \<lparr>InformerFactory = None, StopChan = None, KubeClient = Some (),
     Store = Some (sample_storage False)\<rparr>, Syncers = None, EdgeSubscriber = InitSubscriber\<rparr>"

definition slow_informers :: "sampleix informers" where
  "slow_informers = sample_informers\<lparr>cacheSync := (\<lambda>_. SyncTimeout)\<rparr>"


section \<open>The API server\<close>

lemma respond_status: "100 \<le> httpStatus (respond r) \<and> httpStatus (respond r) \<le> 999"
  by (auto simp: respond_def CheckResponseCode_def StatusInternalServerError_def StatusOK_def split: option.split)

lemma badRequest_status: "httpStatus (badRequest e) \<in> {100..999}"
  by (simp add: badRequest_def StatusBadRequest_def)

lemma withHandler_status: "httpStatus (fst (withHandler H rq op s)) \<in> {100..999}"
  using respond_status badRequest_status by (auto simp: withHandler_def split: option.splits prod.splits)

text \<open>While the center is out of reach, a successful put of an object through any resource of
  the core API is seen by the next get, which answers with the object's encoding, and the
  storage stays in step with its cache.\<close>

theorem offline_put_get:
  assumes "go_get (apiv1_NewServiceHandler V) t = Some h"
    and "hub_ok (srvHub V)" "in_sync (srvHub V) (srvStore s)"
    and "\<not> srvRemote s" "\<not> RemoteEnable (srvStore s)" "go_has (Cache (srvStore s)) t"
    and "hubUnmarshal (srvHub V) t body = Some obj" "hubMarshal (srvHub V) obj = Some data"
    and "hUpdatePut h (objKey obj) uri body s = (r, s')" "rspErr r = None"
  shows "rspErr (fst (hGet h (objKey obj) s')) = None \<and> rspBody (fst (hGet h (objKey obj) s')) = data \<and>
    in_sync (srvHub V) (srvStore s')"
proof -
  from apiv1_handlers [OF assms(1)] obtain handler where h: "h = handler V" "resource_handler handler t"
    by blast
  from resource_handler.put_get [OF h(2) assms(2-8) assms(9,10) [unfolded h(1)]] show ?thesis
    by (simp add: h(1))
qed

definition sample_srv :: "(sampleix, sampledb, unit) srvenv" where
  "sample_srv = \<lparr>srvHub = sample_hub, srvRest = (\<lambda>_ _ _ k. ((503, Inl ''offline''), k)),
     srvMarshalList = (\<lambda>l. Some (concat (map sample_data (olItems l)))),
     srvDecodeEndpoints = (\<lambda>_. None), srvEncodeEndpoints = (\<lambda>_. None)\<rparr>"

definition sample_srvstate :: "(sampleix, sampledb, unit) srvstate" where
  "sample_srvstate = \<lparr>srvStore = sample_storage False, srvRemote = False, srvCenter = ()\<rparr>"

definition sample_put :: "Response \<times> (sampleix, sampledb, unit) srvstate" where
  "sample_put = hUpdatePut (NewPodHandler sample_srv) ''default/web'' [] (sample_data sample_new) sample_srvstate"

theorem offline_put_get_witness:
  "rspBody (fst (hGet (NewPodHandler sample_srv) ''default/web'' (snd sample_put))) = sample_data sample_new \<and>
   in_sync sample_hub (srvStore (snd sample_put))"
proof -
  have h: "go_get (apiv1_NewServiceHandler sample_srv) ResourcePod = Some (NewPodHandler sample_srv)"
    by (simp add: apiv1_NewServiceHandler_def)
  have v: "srvHub sample_srv = sample_hub" by (simp add: sample_srv_def)
  have m: "sample_marshal sample_new = Some (sample_data sample_new)" "rspErr (fst sample_put) = None" by code_simp+
  have st: "srvStore sample_srvstate = sample_storage False" "\<not> srvRemote sample_srvstate"
    "\<not> RemoteEnable (sample_storage False)"
    by (simp_all add: sample_srvstate_def sample_storage_def)
  have p: "hUpdatePut (NewPodHandler sample_srv) (objKey sample_new) [] (sample_data sample_new) sample_srvstate =
      (fst sample_put, snd sample_put)"
    by (simp add: sample_put_def sample_new_facts(2))
  from offline_put_get [OF h, where s = sample_srvstate, unfolded v st(1) sample_hub_simps, OF sample_hub_ok sample_storage_sync st(2,3)
      sample_new_facts(3,1) m(1) p m(2)]
  show ?thesis by (simp add: sample_new_facts(2))
qed

text \<open>C26: whatever code the center or a resource's handler returns, the status the hub writes to
  the client has three digits, as HTTP asks.\<close>

theorem http_status_bounds:
  "httpStatus (fst (createHandler H rq s)) \<in> {100..999} \<and> httpStatus (fst (deleteHandler H rq s)) \<in> {100..999} \<and>
   httpStatus (fst (updatePatchHandler H rq s)) \<in> {100..999} \<and>
   httpStatus (fst (updatePutHandler H rq s)) \<in> {100..999} \<and>
   (case fst (listHandler H rq s) of Answered r \<Rightarrow> httpStatus r \<in> {100..999} | Watching \<Rightarrow> rqWatch rq = ''true'') \<and>
   (case fst (getHandler V H rq s) of Answered r \<Rightarrow> httpStatus r \<in> {100..999} | Watching \<Rightarrow> rqWatch rq = ''true'')"
  by (simp add: createHandler_def deleteHandler_def updatePatchHandler_def updatePutHandler_def
      listHandler_def getHandler_def Let_def badRequest_status [simplified] withHandler_status [simplified] split_beta split: option.split)

text \<open>Events can be watched, as the service has a handler for them, but no watchers are set up
  for their type: a watch on events panics, and so does one on any type without watchers.\<close>

theorem watch_panics_iff:
  "(doChunkWatch h t fieldSelector namespace name key ch events s sub = None \<longleftrightarrow> \<not> go_has sub t) \<and>
   go_has (apiv1_NewServiceHandler V) ResourceEvent \<and> \<not> go_has InitSubscriber ResourceEvent"
proof -
  have "go_has (apiv1_NewServiceHandler V) ResourceEvent"
    by (simp add: go_has_def apiv1_NewServiceHandler_def resource_name_defs)
  moreover have "\<not> go_has InitSubscriber ResourceEvent" by code_simp
  moreover have "doChunkWatch h t fieldSelector namespace name key ch events s sub = None \<longleftrightarrow> \<not> go_has sub t"
    by (auto simp: doChunkWatch_def Subscriber_Add_def go_has_def Let_def split: option.splits)
  ultimately show ?thesis by blast
qed

text \<open>Websocket watches of one type that start in the same second share their key: the later one is
  not subscribed, so that no event of that type ever goes to its channel.\<close>

lemma websocket_watch_silent:
  assumes w: "go_get sub t = Some w" "go_has w second" and fresh: "ch \<notin> snd ` set w"
  shows "doWebsocketWatch h t fieldSelector namespace name second ch [] s sub =
           Some (hGetInitWatchEvent h fieldSelector namespace name s, sub) \<and>
         ch \<notin> fst ` set (syncToNode action t obj sub)"
  using assms by (auto simp: doWebsocketWatch_def Subscriber_Add_def syncToNode_def image_iff split: if_splits)

end
