(* ===== verification/Reporters.thy ===== *)
theory Reporters
  imports Upstream
begin

text \<open>
  The reporters of an edge cluster (\<^verbatim>\<open>pkg/reporter\<close>): informer events about deployments,
  daemon sets, services, nodes, events and pods become report messages for the center, and the
  status of the cluster is summed up from its nodes. Deployments, daemon sets, services and
  nodes are handled by copies of the same code, the operations \<open>rep_...\<close>; pods are collected
  and sent in batches.

  The handlers label the object they are given in place, which is the one in the informer's
  cache; labelling it again changes nothing (\<open>addLabelToResource_idem\<close>), so that the handlers
  are functions of the object. JSON and the informers are arguments.
\<close>

section \<open>Context\<close>

text \<open>Channels, the informer factory and the client are references; \<open>None\<close> is nil.\<close>

type_synonym handle = nat

record ReporterContext =
  ctxClusterName :: string
  ctxSyncChan :: "handle option"
  ctxStopChan :: "handle option"
  IsLightweightReport :: bool
  ctxInformerFactory :: "handle option"
  ctxKubeClient :: "handle option"

definition BaseReporterContext_IsValid :: "ReporterContext \<Rightarrow> bool" where
  "BaseReporterContext_IsValid ctx =
     (if ctxSyncChan ctx = None then False else if ctxStopChan ctx = None then False else True)"

definition ReporterContext_IsValid :: "ReporterContext option \<Rightarrow> bool" where
  "ReporterContext_IsValid c =
     (case c of
        None \<Rightarrow> False
      | Some ctx \<Rightarrow>
          if \<not> BaseReporterContext_IsValid ctx then False
          else if ctxInformerFactory ctx = None then False else True)"

definition reporter_ToClusterMessage ::
  "(report list \<Rightarrow> bytes option) \<Rightarrow> string \<Rightarrow> report list \<Rightarrow> ClusterMessage option" where
  "reporter_ToClusterMessage js clusterName obj =
     (case js obj of
        None \<Rightarrow> None
      | Some body \<Rightarrow>
          Some \<lparr>Head = Some (emptyHead\<lparr>Command := EdgeReport, ClusterName := clusterName\<rparr>),
            Body = body\<rparr>)"

definition addLabelToResource :: "ObjectMeta \<Rightarrow> ReporterContext \<Rightarrow> ObjectMeta" where
  "addLabelToResource m ctx =
     (let labels = (case omLabels m of None \<Rightarrow> [] | Some ls \<Rightarrow> ls) in
      m\<lparr>omLabels := Some (go_put EdgeVersionLabel (omResourceVersion m)
          (go_put ClusterLabel (ctxClusterName ctx) labels))\<rparr>)"

section \<open>Objects at the edge\<close>

text \<open>The fields the reporters keep when they crop an object; the others are one value, \<open>[]\<close>
  when all of them are unset.\<close>

record ('s, 't) edgeobj =
  eTypeMeta :: bytes
  eMeta :: ObjectMeta
  eSpec :: 's
  eStatus :: 't

record deploymentSpec =
  dpTemplate :: bytes
  dpSelector :: bytes
  dpReplicas :: "int option"
  dpSpecRest :: bytes

record deploymentStatus =
  dpStReplicas :: int
  dpUpdatedReplicas :: int
  dpAvailableReplicas :: int
  dpStatusRest :: bytes

record daemonsetSpec =
  dmSelector :: bytes
  dmTemplate :: bytes
  dmSpecRest :: bytes

record daemonsetStatus =
  CurrentNumberScheduled :: int
  DesiredNumberScheduled :: int
  NumberReady :: int
  UpdatedNumberScheduled :: int
  NumberAvailable :: int
  dmStatusRest :: bytes

record serviceSpec =
  ClusterIP :: string
  Ports :: "bytes list"
  svSpecRest :: bytes

record nodeCondition =
  condType :: string
  condStatus :: string

record nodeSpec =
  Unschedulable :: bool
  ndSpecRest :: bytes

text \<open>Quantities of resources are their values.\<close>

record nodeStatus =
  Conditions :: "nodeCondition list"
  NodeInfo :: bytes
  Addresses :: "bytes list"
  Capacity :: "(string, int) gomap"
  Allocatable :: "(string, int) gomap"
  ndStatusRest :: bytes

record edgePodSpec =
  Containers :: "bytes list"
  NodeName :: string
  Volumes :: "bytes list"
  epTolerations :: "string list"
  epServiceAccountName :: string
  epActiveDeadlineSeconds :: "int option"
  epSpecRest :: bytes

record edgePodStatus =
  Phase :: string
  ContainerStatuses :: "bytes list"
  epStatusRest :: bytes

type_synonym edgeDeployment = "(deploymentSpec, deploymentStatus) edgeobj"
type_synonym edgeDaemonset = "(daemonsetSpec, daemonsetStatus) edgeobj"
type_synonym edgeService = "(serviceSpec, bytes) edgeobj"
type_synonym edgeNode = "(nodeSpec, nodeStatus) edgeobj"
type_synonym edgePod = "(edgePodSpec, edgePodStatus) edgeobj"
type_synonym edgeEvent = "(eventSpec, bytes) edgeobj"

text \<open>The metadata of a cropped object: name, namespace and labels.\<close>

definition lightMeta :: "ObjectMeta \<Rightarrow> ObjectMeta" where
  "lightMeta m = \<lparr>omNamespace = omNamespace m, omName = omName m, omLabels = omLabels m,
     omAnnotations = None, omResourceVersion = [], omUID = [], omDeletionTimestamp = None\<rparr>"

definition lightWeightDeployment :: "edgeDeployment \<Rightarrow> edgeDeployment" where
  "lightWeightDeployment d =
     \<lparr>eTypeMeta = eTypeMeta d, eMeta = lightMeta (eMeta d),
      eSpec = \<lparr>dpTemplate = dpTemplate (eSpec d), dpSelector = dpSelector (eSpec d),
        dpReplicas = dpReplicas (eSpec d), dpSpecRest = []\<rparr>,
      eStatus = \<lparr>dpStReplicas = dpStReplicas (eStatus d),
        dpUpdatedReplicas = dpUpdatedReplicas (eStatus d),
        dpAvailableReplicas = dpAvailableReplicas (eStatus d), dpStatusRest = []\<rparr>\<rparr>"

definition lightWeightDaemonset :: "edgeDaemonset \<Rightarrow> edgeDaemonset" where
  "lightWeightDaemonset d =
     \<lparr>eTypeMeta = eTypeMeta d, eMeta = lightMeta (eMeta d),
      eSpec = \<lparr>dmSelector = dmSelector (eSpec d), dmTemplate = dmTemplate (eSpec d), dmSpecRest = []\<rparr>,
      eStatus = \<lparr>CurrentNumberScheduled = CurrentNumberScheduled (eStatus d),
        DesiredNumberScheduled = DesiredNumberScheduled (eStatus d),
        NumberReady = NumberReady (eStatus d),
        UpdatedNumberScheduled = UpdatedNumberScheduled (eStatus d),
        NumberAvailable = NumberAvailable (eStatus d), dmStatusRest = []\<rparr>\<rparr>"

definition lightWeightService :: "edgeService \<Rightarrow> edgeService" where
  "lightWeightService s =
     \<lparr>eTypeMeta = eTypeMeta s, eMeta = lightMeta (eMeta s),
      eSpec = \<lparr>ClusterIP = ClusterIP (eSpec s), Ports = Ports (eSpec s), svSpecRest = []\<rparr>,
      eStatus = []\<rparr>"

definition lightWeightNode :: "edgeNode \<Rightarrow> edgeNode" where
  "lightWeightNode n =
     \<lparr>eTypeMeta = eTypeMeta n, eMeta = lightMeta (eMeta n),
      eSpec = \<lparr>Unschedulable = False, ndSpecRest = []\<rparr>,
      eStatus = \<lparr>Conditions = Conditions (eStatus n), NodeInfo = NodeInfo (eStatus n),
        Addresses = Addresses (eStatus n), Capacity = Capacity (eStatus n),
        Allocatable = Allocatable (eStatus n), ndStatusRest = []\<rparr>\<rparr>"

definition lightWeightPod :: "edgePod \<Rightarrow> edgePod" where
  "lightWeightPod p =
     \<lparr>eTypeMeta = eTypeMeta p, eMeta = lightMeta (eMeta p),
      eSpec = \<lparr>Containers = Containers (eSpec p), NodeName = NodeName (eSpec p),
        Volumes = Volumes (eSpec p), epTolerations = epTolerations (eSpec p),
        epServiceAccountName = [], epActiveDeadlineSeconds = None, epSpecRest = []\<rparr>,
      eStatus = \<lparr>Phase = Phase (eStatus p), ContainerStatuses = ContainerStatuses (eStatus p),
        epStatusRest = []\<rparr>\<rparr>"

section \<open>The shared code\<close>

text \<open>The handlers registered with an informer. \<open>UpdateFunc\<close> converts both objects without a
  check; \<open>None\<close> is the panic.\<close>

record ('o, 'm) eventHandlers =
  AddFunc :: "'o iobj \<Rightarrow> 'm"
  UpdateFunc :: "'o iobj \<Rightarrow> 'o iobj \<Rightarrow> 'm option"
  DeleteFunc :: "'o iobj \<Rightarrow> 'm"

record 'o repjson =
  jsStatus :: "'o reportStatus \<Rightarrow> bytes option"
  jsReports :: "report list \<Rightarrow> bytes option"

definition rep_prepare ::
  "ReporterContext \<Rightarrow> (('s, 't) edgeobj \<Rightarrow> ('s, 't) edgeobj) \<Rightarrow> ('s, 't) edgeobj \<Rightarrow> ('s, 't) edgeobj"
  where
  "rep_prepare ctx lightWeight r =
     (let r1 = r\<lparr>eMeta := addLabelToResource (eMeta r) ctx\<rparr> in
      if IsLightweightReport ctx then lightWeight r1 else r1)"

text \<open>The handlers yield the map that a new goroutine sends, or \<open>None\<close> when they return early.\<close>

definition rep_handle ::
  "ReporterContext \<Rightarrow> (('s, 't) edgeobj \<Rightarrow> ('s, 't) edgeobj) \<Rightarrow> ('s, 't) edgeobj iobj \<Rightarrow>
   ('s, 't) edgeobj reportStatus option" where
  "rep_handle ctx lightWeight obj =
     (case obj of
        Untyped \<Rightarrow> None
      | Typed r \<Rightarrow>
          let r' = rep_prepare ctx lightWeight r in
          Some \<lparr>UpdateMap = Some [(MetaNamespaceKey (eMeta r'), Some r')], DelMap = None,
            FullList = None\<rparr>)"

definition rep_delete ::
  "ReporterContext \<Rightarrow> (('s, 't) edgeobj \<Rightarrow> ('s, 't) edgeobj) \<Rightarrow> ('s, 't) edgeobj iobj \<Rightarrow>
   ('s, 't) edgeobj reportStatus option" where
  "rep_delete ctx lightWeight obj =
     (case obj of
        Untyped \<Rightarrow> None
      | Typed r \<Rightarrow>
          let r' = rep_prepare ctx lightWeight r in
          Some \<lparr>UpdateMap = None, DelMap = Some [(MetaNamespaceKey (eMeta r'), Some r')],
            FullList = None\<rparr>)"

text \<open>The update handler with what it does when it returns early.\<close>

definition rep_update ::
  "'m \<Rightarrow> (('s, 't) edgeobj iobj \<Rightarrow> 'm) \<Rightarrow> ('s, 't) edgeobj iobj \<Rightarrow> ('s, 't) edgeobj iobj \<Rightarrow> 'm option"
  where
  "rep_update skip handle old new =
     (case new of
        Untyped \<Rightarrow> None
      | Typed n \<Rightarrow>
          (case old of
             Untyped \<Rightarrow> None
           | Typed r \<Rightarrow>
               if omResourceVersion (eMeta n) = omResourceVersion (eMeta r) then Some skip
               else Some (handle new)))"

definition rep_serialize ::
  "int \<Rightarrow> 'o repjson \<Rightarrow> 'o reportStatus \<Rightarrow> report list option" where
  "rep_serialize ty js rs =
     (case jsStatus js rs of
        None \<Rightarrow> None
      | Some b \<Rightarrow> Some [\<lparr>ResourceType = ty, ReportBody = b\<rparr>])"

text \<open>The message put into the channel; \<open>None\<close> if an error is logged instead.\<close>

definition rep_sendToSyncChan ::
  "('o reportStatus \<Rightarrow> report list option) \<Rightarrow> 'o repjson \<Rightarrow> ReporterContext \<Rightarrow> 'o reportStatus \<Rightarrow>
   ClusterMessage option" where
  "rep_sendToSyncChan serialize js ctx rs =
     (case serialize rs of
        None \<Rightarrow> None
      | Some reports \<Rightarrow> reporter_ToClusterMessage (jsReports js) (ctxClusterName ctx) reports)"

text \<open>\<open>synced\<close> is the result of \<^verbatim>\<open>WaitForCacheSync\<close>, \<open>keys\<close> what the indexer lists.\<close>

definition rep_fullList :: "bool \<Rightarrow> string list \<Rightarrow> 'o reportStatus option" where
  "rep_fullList synced keys =
     (if \<not> synced then None
      else Some \<lparr>UpdateMap = None, DelMap = None, FullList = Some keys\<rparr>)"

definition rep_start ::
  "(ReporterContext \<Rightarrow> 'h) \<Rightarrow> ReporterContext option \<Rightarrow> string + 'h" where
  "rep_start reporter c =
     (if \<not> ReporterContext_IsValid c then Inl ''ReporterContext validation failed''
      else (case c of None \<Rightarrow> Inl [] | Some ctx \<Rightarrow> Inr (reporter ctx)))"

section \<open>Deployments\<close>

definition handleDeployment :: "ReporterContext \<Rightarrow> edgeDeployment iobj \<Rightarrow> edgeDeployment reportStatus option" where
  "handleDeployment ctx obj = rep_handle ctx lightWeightDeployment obj"

definition deleteDeployment :: "ReporterContext \<Rightarrow> edgeDeployment iobj \<Rightarrow> edgeDeployment reportStatus option" where
  "deleteDeployment ctx obj = rep_delete ctx lightWeightDeployment obj"

definition Deployment_serializeMapToReporters :: "edgeDeployment repjson \<Rightarrow> edgeDeployment reportStatus \<Rightarrow> report list option" where
  "Deployment_serializeMapToReporters js rs = rep_serialize ResourceTypeDeployment js rs"

definition Deployment_sendToSyncChan ::
  "edgeDeployment repjson \<Rightarrow> ReporterContext \<Rightarrow> edgeDeployment reportStatus \<Rightarrow> ClusterMessage option" where
  "Deployment_sendToSyncChan js ctx rs = rep_sendToSyncChan (Deployment_serializeMapToReporters js) js ctx rs"

definition reportFullListDeployment :: "bool \<Rightarrow> string list \<Rightarrow> edgeDeployment reportStatus option" where
  "reportFullListDeployment synced keys = rep_fullList synced keys"

definition Deployment_handlers :: "ReporterContext \<Rightarrow> (edgeDeployment, edgeDeployment reportStatus option) eventHandlers" where
  "Deployment_handlers ctx =
     \<lparr>AddFunc = handleDeployment ctx, UpdateFunc = rep_update None (handleDeployment ctx), DeleteFunc = deleteDeployment ctx\<rparr>"

definition startDeploymentReporter ::
  "ReporterContext option \<Rightarrow> string + (edgeDeployment, edgeDeployment reportStatus option) eventHandlers" where
  "startDeploymentReporter ctx = rep_start Deployment_handlers ctx"

section \<open>Daemon sets\<close>

definition handleDaemonset :: "ReporterContext \<Rightarrow> edgeDaemonset iobj \<Rightarrow> edgeDaemonset reportStatus option" where
  "handleDaemonset ctx obj = rep_handle ctx lightWeightDaemonset obj"

definition deleteDaemonset :: "ReporterContext \<Rightarrow> edgeDaemonset iobj \<Rightarrow> edgeDaemonset reportStatus option" where
  "deleteDaemonset ctx obj = rep_delete ctx lightWeightDaemonset obj"

definition Daemonset_serializeMapToReporters :: "edgeDaemonset repjson \<Rightarrow> edgeDaemonset reportStatus \<Rightarrow> report list option" where
  "Daemonset_serializeMapToReporters js rs = rep_serialize ResourceTypeDaemonset js rs"

definition Daemonset_sendToSyncChan ::
  "edgeDaemonset repjson \<Rightarrow> ReporterContext \<Rightarrow> edgeDaemonset reportStatus \<Rightarrow> ClusterMessage option" where
  "Daemonset_sendToSyncChan js ctx rs = rep_sendToSyncChan (Daemonset_serializeMapToReporters js) js ctx rs"

definition reportFullListDaemonset :: "bool \<Rightarrow> string list \<Rightarrow> edgeDaemonset reportStatus option" where
  "reportFullListDaemonset synced keys = rep_fullList synced keys"

definition Daemonset_handlers :: "ReporterContext \<Rightarrow> (edgeDaemonset, edgeDaemonset reportStatus option) eventHandlers" where
  "Daemonset_handlers ctx =
     \<lparr>AddFunc = handleDaemonset ctx, UpdateFunc = rep_update None (handleDaemonset ctx), DeleteFunc = deleteDaemonset ctx\<rparr>"

definition startDaemonsetReporter ::
  "ReporterContext option \<Rightarrow> string + (edgeDaemonset, edgeDaemonset reportStatus option) eventHandlers" where
  "startDaemonsetReporter ctx = rep_start Daemonset_handlers ctx"

section \<open>Services\<close>

definition handleService :: "ReporterContext \<Rightarrow> edgeService iobj \<Rightarrow> edgeService reportStatus option" where
  "handleService ctx obj = rep_handle ctx lightWeightService obj"

definition deleteService :: "ReporterContext \<Rightarrow> edgeService iobj \<Rightarrow> edgeService reportStatus option" where
  "deleteService ctx obj = rep_delete ctx lightWeightService obj"

definition Service_serializeMapToReporters :: "edgeService repjson \<Rightarrow> edgeService reportStatus \<Rightarrow> report list option" where
  "Service_serializeMapToReporters js rs = rep_serialize ResourceTypeService js rs"

definition Service_sendToSyncChan ::
  "edgeService repjson \<Rightarrow> ReporterContext \<Rightarrow> edgeService reportStatus \<Rightarrow> ClusterMessage option" where
  "Service_sendToSyncChan js ctx rs = rep_sendToSyncChan (Service_serializeMapToReporters js) js ctx rs"

definition reportFullListService :: "bool \<Rightarrow> string list \<Rightarrow> edgeService reportStatus option" where
  "reportFullListService synced keys = rep_fullList synced keys"

definition Service_handlers :: "ReporterContext \<Rightarrow> (edgeService, edgeService reportStatus option) eventHandlers" where
  "Service_handlers ctx =
     \<lparr>AddFunc = handleService ctx, UpdateFunc = rep_update None (handleService ctx), DeleteFunc = deleteService ctx\<rparr>"

definition startServiceReporter ::
  "ReporterContext option \<Rightarrow> string + (edgeService, edgeService reportStatus option) eventHandlers" where
  "startServiceReporter ctx = rep_start Service_handlers ctx"

section \<open>Nodes\<close>

definition handleNode :: "ReporterContext \<Rightarrow> edgeNode iobj \<Rightarrow> edgeNode reportStatus option" where
  "handleNode ctx obj = rep_handle ctx lightWeightNode obj"

definition deleteNode :: "ReporterContext \<Rightarrow> edgeNode iobj \<Rightarrow> edgeNode reportStatus option" where
  "deleteNode ctx obj = rep_delete ctx lightWeightNode obj"

definition Node_serializeMapToReports :: "edgeNode repjson \<Rightarrow> edgeNode reportStatus \<Rightarrow> report list option" where
  "Node_serializeMapToReports js rs = rep_serialize ResourceTypeNode js rs"

definition Node_sendToSyncChan ::
  "edgeNode repjson \<Rightarrow> ReporterContext \<Rightarrow> edgeNode reportStatus \<Rightarrow> ClusterMessage option" where
  "Node_sendToSyncChan js ctx rs = rep_sendToSyncChan (Node_serializeMapToReports js) js ctx rs"

definition reportFullListNode :: "bool \<Rightarrow> string list \<Rightarrow> edgeNode reportStatus option" where
  "reportFullListNode synced keys = rep_fullList synced keys"

definition Node_handlers :: "ReporterContext \<Rightarrow> (edgeNode, edgeNode reportStatus option) eventHandlers" where
  "Node_handlers ctx =
     \<lparr>AddFunc = handleNode ctx, UpdateFunc = rep_update None (handleNode ctx), DeleteFunc = deleteNode ctx\<rparr>"

definition newNodeReporter ::
  "ReporterContext option \<Rightarrow> string + (edgeNode, edgeNode reportStatus option) eventHandlers" where
  "newNodeReporter ctx = rep_start Node_handlers ctx"

definition startNodeReporter :: "ReporterContext option \<Rightarrow> string option" where
  "startNodeReporter ctx = (case newNodeReporter ctx of Inl err \<Rightarrow> Some err | Inr _ \<Rightarrow> None)"

section \<open>Events\<close>

definition isNeedToReport :: "edgeEvent \<Rightarrow> bool" where
  "isNeedToReport ev =
     (if refKind (InvolvedObject (eSpec ev)) \<noteq> ''Pod'' \<and> refKind (InvolvedObject (eSpec ev)) \<noteq> ''Node''
      then False else True)"

definition handleEvent :: "ReporterContext \<Rightarrow> edgeEvent iobj \<Rightarrow> edgeEvent reportStatus option" where
  "handleEvent ctx obj =
     (case obj of
        Untyped \<Rightarrow> None
      | Typed ev \<Rightarrow>
          if \<not> isNeedToReport ev then None
          else
            let ev' = ev\<lparr>eMeta := addLabelToResource (eMeta ev) ctx\<rparr> in
            Some \<lparr>UpdateMap = Some [(MetaNamespaceKey (eMeta ev'), Some ev')], DelMap = None,
              FullList = None\<rparr>)"

definition deleteEvent :: "ReporterContext \<Rightarrow> edgeEvent iobj \<Rightarrow> edgeEvent reportStatus option" where
  "deleteEvent ctx obj =
     (case obj of
        Untyped \<Rightarrow> None
      | Typed ev \<Rightarrow>
          if \<not> isNeedToReport ev then None
          else
            let ev' = ev\<lparr>eMeta := addLabelToResource (eMeta ev) ctx\<rparr> in
            Some \<lparr>UpdateMap = None, DelMap = Some [(MetaNamespaceKey (eMeta ev'), Some ev')],
              FullList = None\<rparr>)"

definition Event_serializeMapToReporters ::
  "edgeEvent repjson \<Rightarrow> edgeEvent reportStatus \<Rightarrow> report list option" where
  "Event_serializeMapToReporters js rs = rep_serialize ResourceTypeEvent js rs"

definition Event_sendToSyncChan ::
  "edgeEvent repjson \<Rightarrow> ReporterContext \<Rightarrow> edgeEvent reportStatus \<Rightarrow> ClusterMessage option" where
  "Event_sendToSyncChan js ctx rs = rep_sendToSyncChan (Event_serializeMapToReporters js) js ctx rs"

text \<open>The update handler takes the new object for the old one as well; the old one is not
  looked at.\<close>

definition Event_UpdateFunc ::
  "ReporterContext \<Rightarrow> edgeEvent iobj \<Rightarrow> edgeEvent iobj \<Rightarrow> edgeEvent reportStatus option option" where
  "Event_UpdateFunc ctx old new = rep_update None (handleEvent ctx) new new"

definition startEventReporter ::
  "ReporterContext option \<Rightarrow> string + (edgeEvent, edgeEvent reportStatus option) eventHandlers" where
  "startEventReporter ctx =
     rep_start (\<lambda>ctx. \<lparr>AddFunc = handleEvent ctx, UpdateFunc = Event_UpdateFunc ctx,
       DeleteFunc = deleteEvent ctx\<rparr>) ctx"

section \<open>Pods\<close>

record PodReporter =
  updatedUpdateMap :: "(string, edgePod option) gomap"
  updatedDelMap :: "(string, edgePod option) gomap"
  updatedFullList :: "string list"

definition emptyPodReporter :: PodReporter where
  "emptyPodReporter = \<lparr>updatedUpdateMap = [], updatedDelMap = [], updatedFullList = []\<rparr>"

definition EdgeNodeName :: string where "EdgeNodeName = ''node-name''"

definition SetUpdateMap :: "string \<Rightarrow> edgePod \<Rightarrow> PodReporter \<Rightarrow> PodReporter" where
  "SetUpdateMap name pod pr = pr\<lparr>updatedUpdateMap := go_put name (Some pod) (updatedUpdateMap pr)\<rparr>"

definition SetDelMap :: "string \<Rightarrow> edgePod \<Rightarrow> PodReporter \<Rightarrow> PodReporter" where
  "SetDelMap name pod pr =
     (let pr1 = (if go_has (updatedUpdateMap pr) name
                 then pr\<lparr>updatedUpdateMap := go_del name (updatedUpdateMap pr)\<rparr> else pr) in
      pr1\<lparr>updatedDelMap := go_put name (Some pod) (updatedDelMap pr1)\<rparr>)"

definition SetFullListMap :: "string list \<Rightarrow> PodReporter \<Rightarrow> PodReporter" where
  "SetFullListMap podList pr = pr\<lparr>updatedFullList := podList\<rparr>"

definition resetPodSpecParameter :: "edgePod \<Rightarrow> edgePod" where
  "resetPodSpecParameter pod =
     (let labels = (case omLabels (eMeta pod) of None \<Rightarrow> [] | Some ls \<Rightarrow> ls) in
      pod\<lparr>eMeta := (eMeta pod)\<lparr>omLabels := Some (go_put EdgeNodeName (NodeName (eSpec pod)) labels)\<rparr>\<rparr>)"

definition handlePod :: "ReporterContext \<Rightarrow> edgePod iobj \<Rightarrow> PodReporter \<Rightarrow> PodReporter" where
  "handlePod ctx obj pr =
     (case obj of
        Untyped \<Rightarrow> pr
      | Typed pod \<Rightarrow>
          let pod' = rep_prepare ctx lightWeightPod (resetPodSpecParameter pod) in
          SetUpdateMap (MetaNamespaceKey (eMeta pod')) pod' pr)"

definition deletePod :: "ReporterContext \<Rightarrow> edgePod iobj \<Rightarrow> PodReporter \<Rightarrow> PodReporter" where
  "deletePod ctx obj pr =
     (case obj of
        Untyped \<Rightarrow> pr
      | Typed pod \<Rightarrow>
          let pod' = rep_prepare ctx lightWeightPod pod in
          SetDelMap (MetaNamespaceKey (eMeta pod')) pod' pr)"

definition reportFullListPod :: "bool \<Rightarrow> string list \<Rightarrow> PodReporter \<Rightarrow> PodReporter" where
  "reportFullListPod synced keys pr = (if \<not> synced then pr else SetFullListMap keys pr)"

text \<open>What the ticker does: the message it sends, if any, and the reporter afterwards.\<close>

definition sendClusterMessageToSyncChan ::
  "edgePod repjson \<Rightarrow> ReporterContext \<Rightarrow> PodReporter \<Rightarrow> ClusterMessage option \<times> PodReporter" where
  "sendClusterMessageToSyncChan js ctx pr =
     (if updatedUpdateMap pr = [] \<and> updatedDelMap pr = [] \<and> updatedFullList pr = [] then (None, pr)
      else
        (case jsStatus js \<lparr>UpdateMap = Some (updatedUpdateMap pr), DelMap = Some (updatedDelMap pr),
             FullList = Some (updatedFullList pr)\<rparr> of
           None \<Rightarrow> (None, pr)
         | Some updatedPodsMapJSON \<Rightarrow>
             (case jsReports js [\<lparr>ResourceType = ResourceTypePod, ReportBody = updatedPodsMapJSON\<rparr>] of
                None \<Rightarrow> (None, pr)
              | Some jsonMap \<Rightarrow>
                  (Some \<lparr>Head = Some \<lparr>MessageID = [], Command = EdgeReport, ClusterSelector = [],
                       ClusterName = ctxClusterName ctx, ParentClusterName = []\<rparr>, Body = jsonMap\<rparr>,
                   pr\<lparr>updatedDelMap := [], updatedUpdateMap := [], updatedFullList := []\<rparr>))))"

definition newPodReporter ::
  "ReporterContext option \<Rightarrow>
   string + PodReporter \<times> (edgePod, PodReporter \<Rightarrow> PodReporter) eventHandlers" where
  "newPodReporter c =
     rep_start (\<lambda>ctx. (emptyPodReporter,
       \<lparr>AddFunc = handlePod ctx, UpdateFunc = rep_update id (handlePod ctx),
        DeleteFunc = deletePod ctx\<rparr>)) c"

definition startPodReporter :: "ReporterContext option \<Rightarrow> string option" where
  "startPodReporter c = (case newPodReporter c of Inl err \<Rightarrow> Some err | Inr _ \<Rightarrow> None)"

section \<open>The status of the cluster\<close>

definition isNodeReady :: "edgeNode \<Rightarrow> bool" where
  "isNodeReady node =
     (if Unschedulable (eSpec node) then False
      else (case find (\<lambda>c. condType c = ''Ready'') (Conditions (eStatus node)) of
              None \<Rightarrow> False
            | Some c \<Rightarrow> condStatus c = ''True''))"

text \<open>Adding the quantities of one node to the sums.\<close>

fun addQuantities :: "(string, int) gomap \<Rightarrow> (string, int) gomap \<Rightarrow> (string, int) gomap" where
  "addQuantities [] acc = acc"
| "addQuantities ((name, value) # qs) acc =
     (let acc1 = (if \<not> go_has acc name then go_put name 0 acc else acc) in
      addQuantities qs
        (case go_get acc1 name of None \<Rightarrow> acc1 | Some q \<Rightarrow> go_put name (q + value) acc1))"

record ClusterResource =
  crCapacity :: "(string, int) gomap"
  crAllocatable :: "(string, int) gomap"

fun resourceLoop :: "edgeNode list \<Rightarrow> ClusterResource \<Rightarrow> ClusterResource" where
  "resourceLoop [] cr = cr"
| "resourceLoop (node # nodes) cr =
     (if \<not> isNodeReady node then resourceLoop nodes cr
      else resourceLoop nodes
        (cr\<lparr>crAllocatable := addQuantities (Allocatable (eStatus node)) (crAllocatable cr),
          crCapacity := addQuantities (Capacity (eStatus node)) (crCapacity cr)\<rparr>))"

definition caculateClusterResource :: "edgeNode list \<Rightarrow> ClusterResource" where
  "caculateClusterResource nodes = resourceLoop nodes \<lparr>crCapacity = [], crAllocatable = []\<rparr>"

definition newClusterStatusReporter :: "ReporterContext option \<Rightarrow> string + handle" where
  "newClusterStatusReporter c =
     (if \<not> ReporterContext_IsValid c then Inl ''ReporterContext validation failed''
      else (case c of
              None \<Rightarrow> Inl []
            | Some ctx \<Rightarrow>
                (case ctxKubeClient ctx of None \<Rightarrow> Inl ''kubeclient is nil'' | Some client \<Rightarrow> Inr client)))"

definition startClusterStatusReporter :: "ReporterContext option \<Rightarrow> string option" where
  "startClusterStatusReporter c =
     (case newClusterStatusReporter c of Inl err \<Rightarrow> Some err | Inr _ \<Rightarrow> None)"

text \<open>One round of the reporter: \<open>nodes\<close> is the answer of the API server, \<open>None\<close> an error.\<close>

definition syncClusterStatus ::
  "(ClusterStatus \<Rightarrow> bytes option) \<Rightarrow> (report list \<Rightarrow> bytes option) \<Rightarrow> string \<Rightarrow> int \<Rightarrow>
   edgeNode list option \<Rightarrow> ClusterMessage option" where
  "syncClusterStatus jsStat jsReps clusterName now nodes =
     (let status0 = \<lparr>stListen = [], stParentName = [], stStatus = ClusterStatusOnline,
            stTimestamp = now, stCapacity = [], stAllocatable = []\<rparr>;
          status = (case nodes of
            None \<Rightarrow> status0\<lparr>stStatus := ClusterStatusOffline\<rparr>
          | Some list \<Rightarrow> status0\<lparr>stCapacity := crCapacity (caculateClusterResource list),
              stAllocatable := crAllocatable (caculateClusterResource list)\<rparr>)
      in case jsStat status of
           None \<Rightarrow> None
         | Some b \<Rightarrow>
             reporter_ToClusterMessage jsReps clusterName
               [\<lparr>ResourceType = ResourceTypeClusterStatus, ReportBody = b\<rparr>])"

section \<open>The table of reporters\<close>

definition startError :: "string + 'h \<Rightarrow> string option" where
  "startError r = (case r of Inl err \<Rightarrow> Some err | Inr _ \<Rightarrow> None)"

definition NewReporterInitializers :: "(string, ReporterContext option \<Rightarrow> string option) gomap" where
  "NewReporterInitializers =
     [(''podReporter'', startPodReporter), (''clusterStatusReporter'', startClusterStatusReporter),
      (''nodeReporter'', startNodeReporter),
      (''deployment'', \<lambda>c. startError (startDeploymentReporter c)),
      (''daemonset'', \<lambda>c. startError (startDaemonsetReporter c)),
      (''service'', \<lambda>c. startError (startServiceReporter c))]"

end
