(* ===== verification/Mirror.thy ===== *)
theory Mirror
  imports Reporters UpstreamLemmas
begin

text \<open>
  The reporters of an edge cluster and the processor of the center put together: an event of an
  informer is handled by a reporter, its report is sent as a message, and the center applies
  the message to its API server. The lemmas show that the center's objects follow those of the
  edge, for every kind whose reporter and processor obey \<open>mirrored_kind\<close>: deployments, daemon
  sets, services and nodes.
\<close>

section \<open>Labels\<close>

lemma label_names_differ [simp]: "ClusterLabel \<noteq> EdgeVersionLabel" "EdgeVersionLabel \<noteq> ClusterLabel"
  by (simp_all add: ClusterLabel_def EdgeVersionLabel_def)

lemma addLabelToResource_sel [simp]:
  "omNamespace (addLabelToResource m ctx) = omNamespace m"
  "omName (addLabelToResource m ctx) = omName m"
  "omResourceVersion (addLabelToResource m ctx) = omResourceVersion m"
  "label (addLabelToResource m ctx) ClusterLabel = ctxClusterName ctx"
  "label (addLabelToResource m ctx) EdgeVersionLabel = omResourceVersion m"
  "omLabels (addLabelToResource m ctx) \<noteq> None"
  "\<exists>ls. omLabels (addLabelToResource m ctx) = Some ls"
  by (simp_all add: addLabelToResource_def label_def Let_def)

lemma AList_update_same: "map_of m k = Some v \<Longrightarrow> AList.update k v m = m"
  by (induction m) (auto split: if_splits)

lemma addLabelToResource_idem:
  "addLabelToResource (addLabelToResource m ctx) ctx = addLabelToResource m ctx"
  by (simp add: addLabelToResource_def Let_def go_put_def AList_update_same update_conv')

lemma lightMeta_sel [simp]:
  "omNamespace (lightMeta m) = omNamespace m" "omName (lightMeta m) = omName m"
  "omLabels (lightMeta m) = omLabels m" "label (lightMeta m) l = label m l"
  by (simp_all add: lightMeta_def label_def)

section \<open>From the edge to the center\<close>

text \<open>An edge object as the center decodes it: \<open>fs\<close> and \<open>ft\<close> turn spec and status into the
  values the center keeps.\<close>

definition central_view :: "('s \<Rightarrow> bytes) \<Rightarrow> ('t \<Rightarrow> bytes) \<Rightarrow> ('s, 't) edgeobj \<Rightarrow> object" where
  "central_view fs ft r = \<lparr>rMeta = eMeta r, rSpec = fs (eSpec r), rStatus = ft (eStatus r)\<rparr>"

definition view_map :: "('a \<Rightarrow> 'b) \<Rightarrow> (string, 'a option) gomap \<Rightarrow> (string, 'b option) gomap" where
  "view_map f m = map (\<lambda>(key, r). (key, map_option f r)) m"

definition view_status :: "('a \<Rightarrow> 'b) \<Rightarrow> 'a reportStatus \<Rightarrow> 'b reportStatus" where
  "view_status f rs = \<lparr>UpdateMap = map_option (view_map f) (UpdateMap rs),
     DelMap = map_option (view_map f) (DelMap rs), FullList = FullList rs\<rparr>"

text \<open>What JSON and protobuf document: encoding succeeds and decoding reverses it.\<close>

definition wire_ok ::
  "'k upenv \<Rightarrow> 'a repjson \<Rightarrow> (bytes \<Rightarrow> 'b reportStatus option) \<Rightarrow> ('a \<Rightarrow> 'b) \<Rightarrow> bool" where
  "wire_ok env js dec view \<longleftrightarrow>
     (\<forall>rs. \<exists>b. jsStatus js rs = Some b \<and> dec b = Some (view_status view rs)) \<and>
     (\<forall>reps. \<exists>b. jsReports js reps = Some b \<and> decReports env b = Some reps) \<and>
     (\<forall>m. \<exists>b. pb_msg (upCodec env) m = Some b \<and> unpb_msg (upCodec env) b = Some m)"

text \<open>The message put into the channel arrives at the center.\<close>

definition deliver :: "'k upenv \<Rightarrow> ClusterMessage option \<Rightarrow> 'k \<Rightarrow> 'k option" where
  "deliver env m k =
     (case m of
        None \<Rightarrow> Some k
      | Some msg \<Rightarrow>
          (case Serialize (upCodec env) msg of
             Inl _ \<Rightarrow> Some k
           | Inr data \<Rightarrow> map_option snd (HandleReceivedMessage env data k)))"

datatype 'o ievent = Added 'o | Updated 'o 'o | Deleted 'o

fun informed :: "('o, 'm) eventHandlers \<Rightarrow> 'o ievent \<Rightarrow> 'm option" where
  "informed h (Added r) = Some (AddFunc h (Typed r))"
| "informed h (Updated old new) = UpdateFunc h (Typed old) (Typed new)"
| "informed h (Deleted r) = Some (DeleteFunc h (Typed r))"

definition mirror_step ::
  "('o, 'o reportStatus option) eventHandlers \<Rightarrow> ('o reportStatus \<Rightarrow> ClusterMessage option) \<Rightarrow>
   'k upenv \<Rightarrow> 'o ievent \<Rightarrow> 'k \<Rightarrow> 'k option" where
  "mirror_step h send env ev k =
     (case informed h ev of
        None \<Rightarrow> None
      | Some None \<Rightarrow> Some k
      | Some (Some rs) \<Rightarrow> deliver env (send rs) k)"

fun mirror_run ::
  "('o, 'o reportStatus option) eventHandlers \<Rightarrow> ('o reportStatus \<Rightarrow> ClusterMessage option) \<Rightarrow>
   'k upenv \<Rightarrow> 'o ievent list \<Rightarrow> 'k \<Rightarrow> 'k option" where
  "mirror_run h send env [] k = Some k"
| "mirror_run h send env (ev # evs) k =
     (case mirror_step h send env ev k of None \<Rightarrow> None | Some k' \<Rightarrow> mirror_run h send env evs k')"

section \<open>The abstract edge\<close>

type_synonym ('s, 't) edgeState = "string \<times> string \<Rightarrow> ('s, 't) edgeobj option"

definition ekey :: "('s, 't) edgeobj \<Rightarrow> string \<times> string" where
  "ekey r = (omNamespace (eMeta r), omName (eMeta r))"

abbreviation rv :: "('s, 't) edgeobj \<Rightarrow> string" where
  "rv r \<equiv> omResourceVersion (eMeta r)"

definition vle :: "string \<Rightarrow> string \<Rightarrow> bool" where
  "vle a b = (case (strconv_Atoi a, strconv_Atoi b) of (Some x, Some y) \<Rightarrow> x \<le> y | _ \<Rightarrow> False)"

fun ievent_step :: "('s, 't) edgeobj ievent \<Rightarrow> ('s, 't) edgeState \<Rightarrow> ('s, 't) edgeState" where
  "ievent_step (Added r) edge = edge(ekey r \<mapsto> r)"
| "ievent_step (Updated old new) edge = edge(ekey new \<mapsto> new)"
| "ievent_step (Deleted r) edge = edge(ekey r := None)"

text \<open>The events an informer delivers: an object is added once, its resource version is a number
  that never falls, an update with an unchanged version is a resync, and a deleted object was
  there.\<close>

fun ievent_valid :: "('s, 't) edgeobj ievent \<Rightarrow> ('s, 't) edgeState \<Rightarrow> bool" where
  "ievent_valid (Added r) edge \<longleftrightarrow> edge (ekey r) = None \<and> vle (rv r) (rv r)"
| "ievent_valid (Updated old new) edge \<longleftrightarrow>
     (case edge (ekey new) of
        None \<Rightarrow> False
      | Some r \<Rightarrow> rv old = rv r \<and> vle (rv r) (rv new) \<and> (rv new = rv old \<longrightarrow> new = r))"
| "ievent_valid (Deleted r) edge \<longleftrightarrow> edge (ekey r) \<noteq> None"

fun ievents_run :: "('s, 't) edgeobj ievent list \<Rightarrow> ('s, 't) edgeState \<Rightarrow> ('s, 't) edgeState" where
  "ievents_run [] edge = edge"
| "ievents_run (ev # evs) edge = ievents_run evs (ievent_step ev edge)"

fun ievents_valid :: "('s, 't) edgeobj ievent list \<Rightarrow> ('s, 't) edgeState \<Rightarrow> bool" where
  "ievents_valid [] edge \<longleftrightarrow> True"
| "ievents_valid (ev # evs) edge \<longleftrightarrow> ievent_valid ev edge \<and> ievents_valid evs (ievent_step ev edge)"

text \<open>The center has, for each object of the edge, one with the labels the reporter gives it,
  hence with its version, and no other object under a name of this cluster.\<close>

definition stands ::
  "(object, 'k) kindapi \<Rightarrow> string \<Rightarrow> string \<Rightarrow> strmap option \<Rightarrow> 'k \<Rightarrow> bool" where
  "stands K ns n ls k \<longleftrightarrow> (\<exists>c. kGet K ns n k = Inr c \<and> omLabels (rMeta c) = ls)"

definition mirror_at ::
  "(object, 'k) kindapi \<Rightarrow> ReporterContext \<Rightarrow> ('s, 't) edgeobj option \<Rightarrow> string \<Rightarrow> string \<Rightarrow> 'k \<Rightarrow> bool"
  where
  "mirror_at K ctx x ns n k \<longleftrightarrow>
     (let name = UniqueFullResourceName n (ctxClusterName ctx) in
      case x of
        None \<Rightarrow> kGet K ns name k = Inl NotFound
      | Some r \<Rightarrow> stands K ns name (omLabels (addLabelToResource (eMeta r) ctx)) k)"

definition mirrored ::
  "(object, 'k) kindapi \<Rightarrow> ReporterContext \<Rightarrow> ('s, 't) edgeState \<Rightarrow> 'k \<Rightarrow> bool" where
  "mirrored K ctx edge k \<longleftrightarrow> (\<forall>ns n. mirror_at K ctx (edge (ns, n)) ns n k)"

section \<open>A server that answers\<close>

text \<open>Documented behaviour of a reachable API server without admission control: a read fails only
  if there is no such object; an object without a resource version can be created under a free
  name; an object with the version and the identity of the stored one replaces it; a stored
  object can be deleted.\<close>

definition kind_live :: "('spec resource, 'k) kindapi \<Rightarrow> bool" where
  "kind_live K \<longleftrightarrow>
     (\<forall>ns n k e. kGet K ns n k = Inl e \<longrightarrow> e = NotFound) \<and>
     (\<forall>r k. kGet K (omNamespace (rMeta r)) (omName (rMeta r)) k = Inl NotFound \<longrightarrow>
        omResourceVersion (rMeta r) = [] \<longrightarrow> fst (kCreate K (omNamespace (rMeta r)) r k) = None) \<and>
     (\<forall>r k old. kGet K (omNamespace (rMeta r)) (omName (rMeta r)) k = Inr old \<longrightarrow>
        omResourceVersion (rMeta r) = omResourceVersion (rMeta old) \<longrightarrow>
        omUID (rMeta r) = omUID (rMeta old) \<longrightarrow>
        fst (kUpdate K (omNamespace (rMeta r)) r k) = None) \<and>
     (\<forall>ns n k old. kGet K ns n k = Inr old \<longrightarrow> fst (kDelete K ns n k) = None)"

lemma kind_liveD:
  assumes "kind_live K"
  shows "kGet K ns n k = Inl e \<Longrightarrow> e = NotFound"
    "kGet K (omNamespace (rMeta r)) (omName (rMeta r)) k = Inl NotFound \<Longrightarrow>
       omResourceVersion (rMeta r) = [] \<Longrightarrow> fst (kCreate K (omNamespace (rMeta r)) r k) = None"
    "kGet K (omNamespace (rMeta r)) (omName (rMeta r)) k = Inr old \<Longrightarrow>
       omResourceVersion (rMeta r) = omResourceVersion (rMeta old) \<Longrightarrow>
       omUID (rMeta r) = omUID (rMeta old) \<Longrightarrow> fst (kUpdate K (omNamespace (rMeta r)) r k) = None"
    "kGet K ns n k = Inr old \<Longrightarrow> fst (kDelete K ns n k) = None"
  using assms unfolding kind_live_def by blast+

section \<open>Writing one object\<close>

lemma kRetry_done:
  assumes "kretry_ok K" "f s = (None, s')"
  shows "kRetry K f s = (None, s')"
proof -
  have "kretry_runs n f s = (None, s')" for n using assms(2) by (cases n) simp_all
  with assms(1) show ?thesis unfolding kretry_ok_def by metis
qed

text \<open>Writing the status leaves an object with its labels.\<close>

lemma status_stands:
  assumes ok: "kind_ok K" and ns: "nsOf (rMeta r) = ns" and key: "key_fun nsOf"
    and u: "res_updateOnce (res_Get nsOf K) adaptMeta (\<lambda>st r. kUpdateStatus K (nsOf (rMeta r)) r) (r, k) =
      (e, r', k')"
    and st: "stands K ns (omName (rMeta r)) (omLabels (rMeta r)) k"
  shows "same_key r' r \<and> nsOf (rMeta r') = ns \<and> frame K ns (omName (rMeta r)) k k' \<and>
    stands K ns (omName (rMeta r)) (omLabels (rMeta r)) k'"
proof -
  from st obtain old where old: "kGet K ns (omName (rMeta r)) k = Inr old"
    "omLabels (rMeta old) = omLabels (rMeta r)" by (auto simp: stands_def)
  show ?thesis
  proof (cases "checkEdgeVersion (rMeta r) (rMeta old)")
    case False
    with u old st ns show ?thesis by (auto simp: res_updateOnce_def res_Get_def frame_def)
  next
    case True
    let ?r = "adaptMeta r old"
    have keys: "same_key ?r r" "nsOf (rMeta ?r) = ns"
      using key_funD [OF key, of "rMeta ?r" "rMeta r"] same_key_adapt(1) [of r old] ns
      by (auto simp: same_key_def)
    obtain e1 k1 where w: "kUpdateStatus K ns ?r k = (e1, k1)" by fastforce
    from u old True ns keys(2) w have res: "r' = ?r" "k' = k1"
      by (auto simp: res_updateOnce_def res_Get_def Let_def)
    have "frame K ns (omName (rMeta r)) k k1 \<and> stands K ns (omName (rMeta r)) (omLabels (rMeta r)) k1"
    proof (cases e1)
      case None
      with w have wd: "kUpdateStatus K ns ?r k = (None, k1)" by simp
      from kstatus_done [OF kind_okD(4) [OF ok] wd] old keys(1) show ?thesis
        by (auto simp: same_key_def stands_def)
    next
      case (Some x)
      with kstatus_failed [OF kind_okD(4) [OF ok]] w have "k1 = k" by blast
      with st show ?thesis by (simp add: frame_def)
    qed
    with res keys show ?thesis by simp
  qed
qed

lemma Update_stands:
  assumes ok: "kind_ok K" and live: "kind_live K" and key: "key_fun nsOf"
    and ns: "nsOf (rMeta r) = omNamespace (rMeta r)"
    and old: "kGet K (omNamespace (rMeta r)) (omName (rMeta r)) k = Inr old"
    and check: "checkEdgeVersion (rMeta r) (rMeta old)"
    and u: "res_Update nsOf K r k = (e, k')"
  shows "frame K (omNamespace (rMeta r)) (omName (rMeta r)) k k' \<and>
    stands K (omNamespace (rMeta r)) (omName (rMeta r)) (omLabels (rMeta r)) k'"
proof -
  let ?ns = "omNamespace (rMeta r)" and ?n = "omName (rMeta r)" and ?r = "adaptMeta r old"
  let ?f1 = "res_updateOnce (res_Get nsOf K) adaptMeta (\<lambda>st r. kUpdate K (nsOf (rMeta r)) r)"
  let ?f2 = "res_updateOnce (res_Get nsOf K) adaptMeta (\<lambda>st r. kUpdateStatus K (nsOf (rMeta r)) r)"
  let ?P = "\<lambda>s. same_key (fst s) r \<and> nsOf (rMeta (fst s)) = ?ns \<and> frame K ?ns ?n k (snd s) \<and>
      stands K ?ns ?n (omLabels (rMeta r)) (snd s)"
  have keys: "same_key ?r r" "nsOf (rMeta ?r) = ?ns" "omNamespace (rMeta ?r) = ?ns" "omName (rMeta ?r) = ?n"
    using key_funD [OF key, of "rMeta ?r" "rMeta r"] same_key_adapt(1) [of r old] ns
    by (auto simp: same_key_def)
  have "fst (kUpdate K ?ns ?r k) = None"
    using kind_liveD(3) [OF live, of ?r k old] old keys
    by (simp add: adaptMeta_def adaptToCentralResource_def)
  then obtain k1 where w: "kUpdate K ?ns ?r k = (None, k1)" by (cases "kUpdate K ?ns ?r k") simp
  have f1: "?f1 (r, k) = (None, ?r, k1)"
    using old check ns keys(2) w by (simp add: res_updateOnce_def res_Get_def)
  have P1: "?P (?r, k1)"
    using kwrite_done [OF kind_okD(3) [OF ok] w] keys
    by (auto simp: same_key_def same_object_def stands_def)
  obtain e2 r2 k2 where f2: "kRetry K ?f2 (?r, k1) = (e2, r2, k2)" by (rule prod_cases3)
  have "?P (?r, k1) \<longrightarrow> ?P (r2, k2)"
  proof (rule kRetry_rel [OF kind_okD(7) [OF ok] f2, where R = "\<lambda>s s'. ?P s \<longrightarrow> ?P s'"])
    show "?P s \<longrightarrow> ?P s'" if "?f2 s = (e, s')" for s e s'
      using status_stands [OF ok _ key, of "fst s" ?ns "snd s" e "fst s'" "snd s'"] that
      by (auto simp: same_key_def intro: frame_trans)
  qed blast
  with P1 u f2 kRetry_done [where f = ?f1, OF kind_okD(7) [OF ok] f1] show ?thesis
    by (auto simp: res_Update_def res_updateWith_def)
qed

lemma checkEdgeVersion_vle:
  assumes "omLabels a \<noteq> None" "omLabels b \<noteq> None"
    and "vle (label b EdgeVersionLabel) (label a EdgeVersionLabel)"
  shows "checkEdgeVersion a b"
proof -
  have "strconv_Atoi [] = None" by (simp add: strconv_Atoi_def)
  with assms show ?thesis
    by (auto simp: checkEdgeVersion_def vle_def split: option.splits)
qed

lemma Create_stands:
  assumes ok: "kind_ok K" and live: "kind_live K"
    and ns: "nsOf (rMeta r) = omNamespace (rMeta r)"
    and none: "kGet K (omNamespace (rMeta r)) (omName (rMeta r)) k = Inl NotFound"
  obtains k1 where "res_Create nsOf K r k = (None, k1)"
    "frame K (omNamespace (rMeta r)) (omName (rMeta r)) k k1"
    "stands K (omNamespace (rMeta r)) (omName (rMeta r)) (omLabels (rMeta r)) k1"
proof -
  let ?ns = "omNamespace (rMeta r)" and ?n = "omName (rMeta r)" and ?r = "clearedVersion r"
  have "fst (kCreate K ?ns ?r k) = None"
    using kind_liveD(2) [OF live, of ?r k] none by (simp add: clearedVersion_def)
  then obtain k1 where w: "kCreate K ?ns ?r k = (None, k1)" by (cases "kCreate K ?ns ?r k") simp
  from kwrite_done [OF kind_okD(2) [OF ok] w] same_key_adapt(3) [of r]
  have "frame K ?ns ?n k k1" "stands K ?ns ?n (omLabels (rMeta r)) k1"
    by (auto simp: same_key_def same_object_def stands_def)
  with w ns that show ?thesis by (simp add: res_Create_def)
qed

text \<open>An object that may be written: its name is free, or the stored object is not newer.\<close>

definition accepted :: "(object, 'k) kindapi \<Rightarrow> object \<Rightarrow> 'k \<Rightarrow> bool" where
  "accepted K r k \<longleftrightarrow> omLabels (rMeta r) \<noteq> None \<and>
     vle (label (rMeta r) EdgeVersionLabel) (label (rMeta r) EdgeVersionLabel) \<and>
     (kGet K (omNamespace (rMeta r)) (omName (rMeta r)) k = Inl NotFound \<or>
      (\<exists>old. kGet K (omNamespace (rMeta r)) (omName (rMeta r)) k = Inr old \<and>
         omLabels (rMeta old) \<noteq> None \<and>
         vle (label (rMeta old) EdgeVersionLabel) (label (rMeta r) EdgeVersionLabel)))"

lemma same_labels: "omLabels a = omLabels b \<Longrightarrow> label a l = label b l"
  by (simp add: label_def)

lemma CreateOrUpdate_stands:
  assumes ok: "kind_ok K" and live: "kind_live K" and acc: "accepted K r k"
    and u: "CreateOrUpdateDeployment K r k = (e, k')"
  shows "frame K (omNamespace (rMeta r)) (omName (rMeta r)) k k' \<and>
    stands K (omNamespace (rMeta r)) (omName (rMeta r)) (omLabels (rMeta r)) k'"
proof (cases "kGet K (omNamespace (rMeta r)) (omName (rMeta r)) k")
  case (Inr old)
  with acc have "checkEdgeVersion (rMeta r) (rMeta old)"
    by (auto simp: accepted_def intro: checkEdgeVersion_vle)
  from Update_stands [OF ok live key_fun_instances(1) refl Inr this] u Inr show ?thesis
    by (simp add: CreateOrUpdateDeployment_def res_CreateOrUpdate_def res_Get_def)
next
  case (Inl x)
  with kind_liveD(1) [OF live] have none: "kGet K (omNamespace (rMeta r)) (omName (rMeta r)) k = Inl NotFound"
    by blast
  let ?r = "clearedVersion r"
  obtain k1 where k1: "res_Create omNamespace K r k = (None, k1)"
    "frame K (omNamespace (rMeta r)) (omName (rMeta r)) k k1"
    "stands K (omNamespace (rMeta r)) (omName (rMeta r)) (omLabels (rMeta r)) k1"
    by (rule Create_stands [where nsOf = omNamespace, OF ok live refl none])
  then obtain c where c: "kGet K (omNamespace (rMeta r)) (omName (rMeta r)) k1 = Inr c"
    "omLabels (rMeta c) = omLabels (rMeta r)" by (auto simp: stands_def)
  have labels: "omLabels (rMeta ?r) = omLabels (rMeta r)" by (simp add: clearedVersion_def)
  have "checkEdgeVersion (rMeta ?r) (rMeta c)"
    using acc c(2) labels same_labels [OF c(2)] same_labels [OF labels]
    by (intro checkEdgeVersion_vle) (simp_all add: accepted_def)
  with Update_stands [OF ok live key_fun_instances(1) refl, of ?r k1 c e k'] c u none k1 labels
  show ?thesis
    by (auto simp: CreateOrUpdateDeployment_def res_CreateOrUpdate_def res_Get_def intro: frame_trans)
qed

lemma CreateOrUpdateNode_stands:
  assumes ok: "kind_ok K" and live: "kind_live K" and ns: "omNamespace (rMeta r) = []"
    and acc: "accepted K r k" and u: "CreateOrUpdateNode K r k = (e, k')"
  shows "frame K [] (omName (rMeta r)) k k' \<and> stands K [] (omName (rMeta r)) (omLabels (rMeta r)) k'"
proof (cases "kGet K [] (omName (rMeta r)) k")
  case (Inr old)
  with acc ns have "checkEdgeVersion (rMeta r) (rMeta old)"
    by (auto simp: accepted_def intro: checkEdgeVersion_vle)
  with Update_stands [OF ok live key_fun_instances(2), of r k old e k'] u Inr ns show ?thesis
    by (simp add: CreateOrUpdateNode_def UpdateNode_def GetNode_def res_Get_def)
next
  case (Inl x)
  with kind_liveD(1) [OF live] have none: "kGet K [] (omName (rMeta r)) k = Inl NotFound" by blast
  obtain k1 where "res_Create (\<lambda>_. []) K r k = (None, k1)"
    "frame K [] (omName (rMeta r)) k k1" "stands K [] (omName (rMeta r)) (omLabels (rMeta r)) k1"
    using Create_stands [where nsOf = "\<lambda>_. []" and r = r, OF ok live] ns none by auto
  with u none show ?thesis by (simp add: CreateOrUpdateNode_def CreateNode_def GetNode_def res_Get_def)
qed

lemma Delete_removes:
  assumes ok: "kind_ok K" and live: "kind_live K" and ns: "nsOf (rMeta r) = omNamespace (rMeta r)"
    and d: "res_Delete nsOf K r k = (e, k')"
  shows "frame K (omNamespace (rMeta r)) (omName (rMeta r)) k k' \<and>
    kGet K (omNamespace (rMeta r)) (omName (rMeta r)) k' = Inl NotFound"
proof (cases e)
  case None
  with Delete_done [OF ok, of nsOf r k k'] d ns show ?thesis by simp
next
  case (Some x)
  with Delete_failed [OF ok] d have k: "k' = k" by blast
  have "kGet K (omNamespace (rMeta r)) (omName (rMeta r)) k = Inl NotFound"
  proof (cases "kGet K (omNamespace (rMeta r)) (omName (rMeta r)) k")
    case (Inr old)
    with kind_liveD(4) [OF live Inr] d ns Some show ?thesis
      by (auto simp: res_Delete_def split: prod.splits)
  qed (use kind_liveD(1) [OF live] in blast)
  with k show ?thesis by (simp add: frame_def)
qed

text \<open>Changing the center at one name of the cluster only.\<close>

lemma mirrored_upd:
  assumes "mirrored K ctx edge k"
    and "frame K ns (UniqueFullResourceName n (ctxClusterName ctx)) k k'"
    and "mirror_at K ctx x ns n k'"
  shows "mirrored K ctx (edge((ns, n) := x)) k'"
  unfolding mirrored_def
proof (intro allI)
  fix ns' n'
  let ?n = "\<lambda>n. UniqueFullResourceName n (ctxClusterName ctx)"
  show "mirror_at K ctx ((edge((ns, n) := x)) (ns', n')) ns' n' k'"
  proof (cases "(ns', n') = (ns, n)")
    case True
    with assms(3) show ?thesis by simp
  next
    case False
    then have "(ns', ?n n') \<noteq> (ns, ?n n)" by (auto simp: UniqueFullResourceName_def)
    with assms(2) have "kGet K ns' (?n n') k' = kGet K ns' (?n n') k" unfolding frame_def by blast
    moreover have "mirror_at K ctx (edge (ns', n')) ns' n' k"
      using assms(1) unfolding mirrored_def by blast
    ultimately show ?thesis using False
      by (auto simp: mirror_at_def stands_def Let_def split: option.splits)
  qed
qed

lemma mirroredD: "mirrored K ctx edge k \<Longrightarrow> mirror_at K ctx (edge (ns, n)) ns n k"
  unfolding mirrored_def by blast

section \<open>One kind, from the informer to the center\<close>

fun ev_obj :: "'o ievent \<Rightarrow> 'o" where
  "ev_obj (Added r) = r"
| "ev_obj (Updated old new) = new"
| "ev_obj (Deleted r) = r"

locale mirrored_kind =
  fixes scoped :: "ObjectMeta \<Rightarrow> bool"
    and createOrUpdate :: "(object, 'k) kindapi \<Rightarrow> object \<Rightarrow> 'k \<Rightarrow> upstream_error option \<times> 'k"
    and delete :: "(object, 'k) kindapi \<Rightarrow> object \<Rightarrow> 'k \<Rightarrow> upstream_error option \<times> 'k"
    and kapi :: "'k upenv \<Rightarrow> (object, 'k) kindapi"
    and dec :: "'k upenv \<Rightarrow> bytes \<Rightarrow> object reportStatus option"
    and light :: "('s, 't) edgeobj \<Rightarrow> ('s, 't) edgeobj"
    and handlers :: "ReporterContext \<Rightarrow>
      (('s, 't) edgeobj, ('s, 't) edgeobj reportStatus option) eventHandlers"
    and send :: "('s, 't) edgeobj repjson \<Rightarrow> ReporterContext \<Rightarrow> ('s, 't) edgeobj reportStatus \<Rightarrow>
      ClusterMessage option"
  assumes scoped_ns: "omNamespace a = omNamespace b \<Longrightarrow> scoped a = scoped b"
    and upsert: "kind_ok K \<Longrightarrow> kind_live K \<Longrightarrow> scoped (rMeta r) \<Longrightarrow> accepted K r k \<Longrightarrow>
      createOrUpdate K r k = (e, k') \<Longrightarrow> frame K (omNamespace (rMeta r)) (omName (rMeta r)) k k' \<and>
      stands K (omNamespace (rMeta r)) (omName (rMeta r)) (omLabels (rMeta r)) k'"
    and removes: "kind_ok K \<Longrightarrow> kind_live K \<Longrightarrow> scoped (rMeta r) \<Longrightarrow> delete K r k = (e, k') \<Longrightarrow>
      frame K (omNamespace (rMeta r)) (omName (rMeta r)) k k' \<and>
      kGet K (omNamespace (rMeta r)) (omName (rMeta r)) k' = Inl NotFound"
    and light_meta: "eMeta (light x) = lightMeta (eMeta x)"
    and handlers_eq: "handlers ctx = \<lparr>AddFunc = rep_handle ctx light,
      UpdateFunc = rep_update None (rep_handle ctx light), DeleteFunc = rep_delete ctx light\<rparr>"
    and delivered: "wire_ok env js (dec env) view \<Longrightarrow> deliver env (send js ctx rs) k =
      res_Report False (res_FullList (kapi env) (delete (kapi env)) (ctxClusterName ctx))
        (res_UpdateMap (createOrUpdate (kapi env))) (res_DelMap (delete (kapi env)))
        (view_status view rs) k"
begin

text \<open>What arrives of an object: its own name, and the labels the reporter gives it.\<close>

lemma prepared_meta:
  "omNamespace (eMeta (rep_prepare ctx light r)) = omNamespace (eMeta r)"
  "omName (eMeta (rep_prepare ctx light r)) = omName (eMeta r)"
  "omLabels (eMeta (rep_prepare ctx light r)) = omLabels (addLabelToResource (eMeta r) ctx)"
  by (simp_all add: rep_prepare_def Let_def light_meta)

definition arriving ::
  "('s \<Rightarrow> bytes) \<Rightarrow> ('t \<Rightarrow> bytes) \<Rightarrow> ReporterContext \<Rightarrow> ('s, 't) edgeobj \<Rightarrow> object" where
  "arriving fs ft ctx r =
     (let c = central_view fs ft (rep_prepare ctx light r) in
      c\<lparr>rMeta := (rMeta c)\<lparr>omName := UniqueFullResourceName (omName (eMeta r)) (ctxClusterName ctx)\<rparr>\<rparr>)"

lemma arriving_sel:
  "omNamespace (rMeta (arriving fs ft ctx r)) = omNamespace (eMeta r)"
  "omName (rMeta (arriving fs ft ctx r)) = UniqueFullResourceName (omName (eMeta r)) (ctxClusterName ctx)"
  "omLabels (rMeta (arriving fs ft ctx r)) = omLabels (addLabelToResource (eMeta r) ctx)"
  by (simp_all add: arriving_def Let_def central_view_def prepared_meta)

lemma renamedDo_arriving:
  assumes "ctxClusterName ctx \<noteq> []"
  shows "renamedDo f (central_view fs ft (rep_prepare ctx light r)) k = snd (f (arriving fs ft ctx r) k)"
proof -
  have "label (eMeta (rep_prepare ctx light r)) ClusterLabel = ctxClusterName ctx"
    using same_labels [OF prepared_meta(3)] by simp
  with assms show ?thesis
    by (simp add: renamedDo_def UniqueResourceName_def central_view_def arriving_def Let_def
        UniqueFullResourceName_def prepared_meta)
qed

lemma upsert_delivered:
  assumes "wire_ok env js (dec env) (central_view fs ft)" "ctxClusterName ctx \<noteq> []"
    and "rep_handle ctx light (Typed r) = Some rs"
  shows "deliver env (send js ctx rs) k = Some (snd (createOrUpdate (kapi env) (arriving fs ft ctx r) k))"
  using assms(3) delivered [OF assms(1), of ctx rs k] renamedDo_arriving [OF assms(2)]
  by (auto simp: rep_handle_def Let_def view_status_def view_map_def res_Report_def res_UpdateMap_def)

lemma delete_delivered:
  assumes "wire_ok env js (dec env) (central_view fs ft)" "ctxClusterName ctx \<noteq> []"
    and "rep_delete ctx light (Typed r) = Some rs"
  shows "deliver env (send js ctx rs) k = Some (snd (delete (kapi env) (arriving fs ft ctx r) k))"
  using assms(3) delivered [OF assms(1), of ctx rs k] renamedDo_arriving [OF assms(2)]
  by (auto simp: rep_delete_def Let_def view_status_def view_map_def res_Report_def res_DelMap_def)

lemma upsert_mirrors:
  assumes ok: "kind_ok (kapi env)" "kind_live (kapi env)"
    and wire: "wire_ok env js (dec env) (central_view fs ft)" and cn: "ctxClusterName ctx \<noteq> []"
    and r: "rep_handle ctx light (Typed r) = Some rs" "scoped (eMeta r)" "vle (rv r) (rv r)"
    and m: "mirrored (kapi env) ctx edge k" and old: "\<And>x. edge (ekey r) = Some x \<Longrightarrow> vle (rv x) (rv r)"
  shows "\<exists>k'. deliver env (send js ctx rs) k = Some k' \<and>
    mirrored (kapi env) ctx (edge(ekey r \<mapsto> r)) k'"
proof -
  let ?K = "kapi env" and ?a = "arriving fs ft ctx r"
  have lab: "omLabels (rMeta ?a) \<noteq> None" "label (rMeta ?a) EdgeVersionLabel = rv r"
    using arriving_sel(3) [of fs ft ctx r] same_labels [OF arriving_sel(3)] by simp_all
  have at: "mirror_at ?K ctx (edge (ekey r)) (omNamespace (eMeta r)) (omName (eMeta r)) k"
    using mirroredD [OF m] by (simp add: ekey_def)
  have acc: "accepted ?K ?a k"
  proof (cases "edge (ekey r)")
    case None
    with at lab r(3) show ?thesis by (simp add: accepted_def mirror_at_def arriving_sel)
  next
    case (Some x)
    with at obtain c where c: "kGet ?K (omNamespace (rMeta ?a)) (omName (rMeta ?a)) k = Inr c"
      "omLabels (rMeta c) = omLabels (addLabelToResource (eMeta x) ctx)"
      by (auto simp: mirror_at_def stands_def arriving_sel)
    have "label (rMeta c) EdgeVersionLabel = rv x" using same_labels [OF c(2)] by simp
    with c lab old [OF Some] r(3) show ?thesis by (simp add: accepted_def)
  qed
  have "scoped (rMeta ?a)" using scoped_ns [OF arriving_sel(1)] r(2) by blast
  from upsert [OF ok this acc prod.collapse [symmetric]]
  have "mirrored ?K ctx (edge((omNamespace (eMeta r), omName (eMeta r)) := Some r))
      (snd (createOrUpdate ?K ?a k))"
    by (intro mirrored_upd [OF m]) (simp_all add: arriving_sel mirror_at_def)
  with upsert_delivered [OF wire cn r(1)] show ?thesis by (simp add: ekey_def)
qed

lemma delete_mirrors:
  assumes ok: "kind_ok (kapi env)" "kind_live (kapi env)"
    and wire: "wire_ok env js (dec env) (central_view fs ft)" and cn: "ctxClusterName ctx \<noteq> []"
    and r: "rep_delete ctx light (Typed r) = Some rs" "scoped (eMeta r)"
    and m: "mirrored (kapi env) ctx edge k"
  shows "\<exists>k'. deliver env (send js ctx rs) k = Some k' \<and>
    mirrored (kapi env) ctx (edge(ekey r := None)) k'"
proof -
  let ?K = "kapi env" and ?a = "arriving fs ft ctx r"
  have "scoped (rMeta ?a)" using scoped_ns [OF arriving_sel(1)] r(2) by blast
  from removes [OF ok this prod.collapse [symmetric]]
  have "mirrored ?K ctx (edge((omNamespace (eMeta r), omName (eMeta r)) := None)) (snd (delete ?K ?a k))"
    by (intro mirrored_upd [OF m]) (simp_all add: arriving_sel mirror_at_def)
  with delete_delivered [OF wire cn r(1)] show ?thesis by (simp add: ekey_def)
qed

lemma step_mirrors:
  assumes ok: "kind_ok (kapi env)" "kind_live (kapi env)"
    and wire: "wire_ok env js (dec env) (central_view fs ft)" and cn: "ctxClusterName ctx \<noteq> []"
    and m: "mirrored (kapi env) ctx edge k" and ev: "ievent_valid ev edge" "scoped (eMeta (ev_obj ev))"
  shows "\<exists>k'. mirror_step (handlers ctx) (send js ctx) env ev k = Some k' \<and>
    mirrored (kapi env) ctx (ievent_step ev edge) k'"
proof (cases ev)
  case (Added r)
  obtain rs where rs: "rep_handle ctx light (Typed r) = Some rs" by (simp add: rep_handle_def Let_def)
  have r: "scoped (eMeta r)" "vle (rv r) (rv r)" "edge (ekey r) = None" using ev Added by simp_all
  have "\<exists>k'. deliver env (send js ctx rs) k = Some k' \<and> mirrored (kapi env) ctx (edge(ekey r \<mapsto> r)) k'"
    by (rule upsert_mirrors [OF ok wire cn rs r(1,2) m]) (simp add: r(3))
  with rs show ?thesis by (simp add: Added mirror_step_def handlers_eq)
next
  case (Deleted r)
  obtain rs where rs: "rep_delete ctx light (Typed r) = Some rs" by (simp add: rep_delete_def Let_def)
  have r: "scoped (eMeta r)" using ev(2) Deleted by simp
  from delete_mirrors [OF ok wire cn rs r m] rs show ?thesis
    by (simp add: Deleted mirror_step_def handlers_eq)
next
  case (Updated old new)
  note valid = ev(1) [unfolded Updated ievent_valid.simps]
  have "edge (ekey new) \<noteq> None"
  proof
    assume "edge (ekey new) = None"
    with valid show False by (simp only: option.case)
  qed
  then obtain r where e: "edge (ekey new) = Some r" by blast
  note r = e valid [unfolded e option.case, THEN conjunct1]
    valid [unfolded e option.case, THEN conjunct2, THEN conjunct1]
    valid [unfolded e option.case, THEN conjunct2, THEN conjunct2]
  show ?thesis
  proof (cases "rv new = rv old")
    case True
    with r(4) have "new = r" by blast
    with r(1) have "edge (ekey new) = Some new" by (simp only:)
    from map_upd_triv [where t = edge, OF this] True m show ?thesis by (simp add: Updated mirror_step_def handlers_eq rep_update_def)
  next
    case False
    obtain rs where rs: "rep_handle ctx light (Typed new) = Some rs" by (simp add: rep_handle_def Let_def)
    have new: "scoped (eMeta new)" "vle (rv new) (rv new)"
      using ev(2) Updated r(3) by (auto simp: vle_def split: option.splits)
    have "\<exists>k'. deliver env (send js ctx rs) k = Some k' \<and>
        mirrored (kapi env) ctx (edge(ekey new \<mapsto> new)) k'"
      by (rule upsert_mirrors [OF ok wire cn rs new m]) (simp add: r(1,3))
    with rs False show ?thesis by (simp add: Updated mirror_step_def handlers_eq rep_update_def)
  qed
qed

lemma run_mirrors:
  assumes ok: "kind_ok (kapi env)" "kind_live (kapi env)"
    and wire: "wire_ok env js (dec env) (central_view fs ft)" and cn: "ctxClusterName ctx \<noteq> []"
  shows "mirrored (kapi env) ctx edge k \<Longrightarrow> ievents_valid evs edge \<Longrightarrow>
    \<forall>ev\<in>set evs. scoped (eMeta (ev_obj ev)) \<Longrightarrow>
    \<exists>k'. mirror_run (handlers ctx) (send js ctx) env evs k = Some k' \<and>
      mirrored (kapi env) ctx (ievents_run evs edge) k'"
proof (induction evs arbitrary: edge k)
  case (Cons ev evs)
  from Cons.prems obtain k1 where k1: "mirror_step (handlers ctx) (send js ctx) env ev k = Some k1"
    "mirrored (kapi env) ctx (ievent_step ev edge) k1"
    using step_mirrors [OF ok wire cn Cons.prems(1), of ev] by auto
  from Cons.IH [OF k1(2)] Cons.prems k1(1) show ?case by simp
qed simp

text \<open>An update overtaken by the deletion of its object.\<close>

lemma overtaken:
  assumes ok: "kind_ok (kapi env)" "kind_live (kapi env)"
    and wire: "wire_ok env js (dec env) (central_view fs ft)" and cn: "ctxClusterName ctx \<noteq> []"
    and r: "scoped (eMeta r)" "vle (rv r) (rv r)" and m: "mirrored (kapi env) ctx edge k"
    and u: "rep_handle ctx light (Typed r) = Some up" and d: "rep_delete ctx light (Typed r) = Some del"
  shows "\<exists>k1 k2. deliver env (send js ctx del) k = Some k1 \<and> deliver env (send js ctx up) k1 = Some k2 \<and>
    mirrored (kapi env) ctx (edge(ekey r \<mapsto> r)) k2"
proof -
  from delete_mirrors [OF ok wire cn d r(1) m] obtain k1 where
    k1: "deliver env (send js ctx del) k = Some k1" "mirrored (kapi env) ctx (edge(ekey r := None)) k1"
    by blast
  from upsert_mirrors [OF ok wire cn u r k1(2)] k1(1) show ?thesis by auto
qed

end

lemma wire_okD:
  assumes "wire_ok env js dec view"
  obtains b where "jsStatus js rs = Some b" "dec b = Some (view_status view rs)"
  using assms unfolding wire_ok_def by blast

lemma wire_ok_message:
  assumes "wire_ok env js dec view"
  obtains body data where "jsReports js reps = Some body" "decReports env body = Some reps"
    "reporter_ToClusterMessage (jsReports js) cn reps =
      Some \<lparr>Head = Some (emptyHead\<lparr>Command := EdgeReport, ClusterName := cn\<rparr>), Body = body\<rparr>"
    "Serialize (upCodec env) \<lparr>Head = Some (emptyHead\<lparr>Command := EdgeReport, ClusterName := cn\<rparr>), Body = body\<rparr> =
      Inr data"
    "HandleReceivedMessage env data = reportsLoop env cn reps None"
proof -
  from assms obtain body where body: "jsReports js reps = Some body" "decReports env body = Some reps"
    unfolding wire_ok_def by blast
  let ?m = "\<lparr>Head = Some (emptyHead\<lparr>Command := EdgeReport, ClusterName := cn\<rparr>), Body = body\<rparr>"
  from assms obtain data where data: "pb_msg (upCodec env) ?m = Some data"
    "unpb_msg (upCodec env) data = Some ?m"
    unfolding wire_ok_def by blast
  from that [OF body] body data show thesis
    by (simp add: reporter_ToClusterMessage_def Serialize_def HandleReceivedMessage_def fun_eq_iff
        Deserialize_def processEdgeReport_def emptyHead_def)
qed

text \<open>A message with one report of a known type reaches its handler.\<close>

lemma deliver_one:
  assumes wire: "wire_ok env js dec view" and rs: "jsStatus js rs = Some b"
    and one: "handleOneReport env (ctxClusterName ctx) \<lparr>ResourceType = ty, ReportBody = b\<rparr> k =
      map_option (\<lambda>k'. (Some None, k')) res"
  shows "deliver env (rep_sendToSyncChan (rep_serialize ty js) js ctx rs) k = res"
proof -
  obtain body data where "reporter_ToClusterMessage (jsReports js) (ctxClusterName ctx)
        [\<lparr>ResourceType = ty, ReportBody = b\<rparr>] =
      Some \<lparr>Head = Some (emptyHead\<lparr>Command := EdgeReport, ClusterName := ctxClusterName ctx\<rparr>), Body = body\<rparr>"
    "Serialize (upCodec env) \<lparr>Head = Some (emptyHead\<lparr>Command := EdgeReport,
        ClusterName := ctxClusterName ctx\<rparr>), Body = body\<rparr> = Inr data"
    "HandleReceivedMessage env data =
      reportsLoop env (ctxClusterName ctx) [\<lparr>ResourceType = ty, ReportBody = b\<rparr>] None"
    by (rule wire_ok_message [OF wire]) blast
  with rs one show ?thesis
    by (cases res) (simp_all add: deliver_def rep_sendToSyncChan_def rep_serialize_def)
qed

text \<open>The handlers of a kind are those of the shared code.\<close>

lemma handlers_shared:
  "Deployment_handlers ctx = \<lparr>AddFunc = rep_handle ctx lightWeightDeployment,
     UpdateFunc = rep_update None (rep_handle ctx lightWeightDeployment),
     DeleteFunc = rep_delete ctx lightWeightDeployment\<rparr>"
  "Daemonset_handlers ctx = \<lparr>AddFunc = rep_handle ctx lightWeightDaemonset,
     UpdateFunc = rep_update None (rep_handle ctx lightWeightDaemonset),
     DeleteFunc = rep_delete ctx lightWeightDaemonset\<rparr>"
  "Service_handlers ctx = \<lparr>AddFunc = rep_handle ctx lightWeightService,
     UpdateFunc = rep_update None (rep_handle ctx lightWeightService),
     DeleteFunc = rep_delete ctx lightWeightService\<rparr>"
  "Node_handlers ctx = \<lparr>AddFunc = rep_handle ctx lightWeightNode,
     UpdateFunc = rep_update None (rep_handle ctx lightWeightNode),
     DeleteFunc = rep_delete ctx lightWeightNode\<rparr>"
  by (simp_all add: Deployment_handlers_def Daemonset_handlers_def Service_handlers_def
      Node_handlers_def handleDeployment_def [abs_def] deleteDeployment_def [abs_def]
      handleDaemonset_def [abs_def] deleteDaemonset_def [abs_def] handleService_def [abs_def]
      deleteService_def [abs_def] handleNode_def [abs_def] deleteNode_def [abs_def])

text \<open>A message of a kind is what its report handler does.\<close>

lemma deliver_decoded:
  assumes wire: "wire_ok env js dec view" and b: "\<And>b. dec b = Some (view_status view rs) \<Longrightarrow>
      handleOneReport env (ctxClusterName ctx) \<lparr>ResourceType = ty, ReportBody = b\<rparr> k =
        map_option (\<lambda>(e, k'). (Some e, k')) (decoded dec handle b k)"
  shows "deliver env (rep_sendToSyncChan (rep_serialize ty js) js ctx rs) k =
    handle (view_status view rs) k"
proof -
  from wire obtain b where b': "jsStatus js rs = Some b" "dec b = Some (view_status view rs)"
    by (rule wire_okD)
  from b [OF b'(2)] have "handleOneReport env (ctxClusterName ctx) \<lparr>ResourceType = ty, ReportBody = b\<rparr> k =
      map_option (\<lambda>k'. (Some None, k')) (handle (view_status view rs) k)"
    using b'(2) by (simp add: decoded_def option.map_comp comp_def)
  then show ?thesis by (rule deliver_one [OF wire b'(1)])
qed

lemma handlers_res:
  "handleDeploymentFullList K c = res_FullList K (DeleteDeployment K) c"
  "handleDeploymentUpdateMap K = res_UpdateMap (CreateOrUpdateDeployment K)"
  "handleDeploymentDelMap K = res_DelMap (DeleteDeployment K)"
  "handleDaemonsetFullList K c = res_FullList K (DeleteDaemonset K) c"
  "handleDaemonsetUpdateMap K = res_UpdateMap (CreateOrUpdateDaemonset K)"
  "handleDaemonsetDelMap K = res_DelMap (DeleteDaemonset K)"
  "handleServiceFullList K c = res_FullList K (DeleteService K) c"
  "handleServiceUpdateMap K = res_UpdateMap (CreateOrUpdateService K)"
  "handleServiceDelMap K = res_DelMap (DeleteService K)"
  "handleNodeFullList K c = res_FullList K (DeleteNode K) c"
  "handleNodeUpdateMap K = res_UpdateMap (CreateOrUpdateNode K)"
  "handleNodeDelMap K = res_DelMap (DeleteNode K)"
  by (simp_all add: fun_eq_iff handleDeploymentFullList_def handleDeploymentUpdateMap_def
      handleDeploymentDelMap_def handleDaemonsetFullList_def handleDaemonsetUpdateMap_def
      handleDaemonsetDelMap_def handleServiceFullList_def handleServiceUpdateMap_def
      handleServiceDelMap_def handleNodeFullList_def handleNodeUpdateMap_def handleNodeDelMap_def)

lemmas send_defs =
  Deployment_sendToSyncChan_def Daemonset_sendToSyncChan_def Service_sendToSyncChan_def
  Node_sendToSyncChan_def Deployment_serializeMapToReporters_def Daemonset_serializeMapToReporters_def
  Service_serializeMapToReporters_def Node_serializeMapToReports_def

lemma same_processors:
  "CreateOrUpdateDaemonset = CreateOrUpdateDeployment" "DeleteDaemonset = DeleteDeployment"
  "CreateOrUpdateService = CreateOrUpdateDeployment" "DeleteService = DeleteDeployment"
  by (simp_all add: fun_eq_iff kind_defs)

interpretation deployments_mirror: mirrored_kind "\<lambda>_. True" CreateOrUpdateDeployment DeleteDeployment
  upDeployments decDeployments lightWeightDeployment Deployment_handlers Deployment_sendToSyncChan
proof unfold_locales
  fix env :: "'a upenv" and js :: "edgeDeployment repjson" and view ctx rs k
  assume wire: "wire_ok env js (decDeployments env) view"
  show "deliver env (Deployment_sendToSyncChan js ctx rs) k =
      res_Report False (res_FullList (upDeployments env) (DeleteDeployment (upDeployments env)) (ctxClusterName ctx))
        (res_UpdateMap (CreateOrUpdateDeployment (upDeployments env)))
        (res_DelMap (DeleteDeployment (upDeployments env))) (view_status view rs) k"
    unfolding send_defs
    by (rule deliver_decoded [OF wire])
      (simp add: handleOneReport_def resource_type_defs handleDeploymentReport_def handlers_res)
qed (auto simp: handlers_shared lightWeightDeployment_def kind_defs
    dest: CreateOrUpdate_stands Delete_removes [rotated 3])

interpretation daemonsets_mirror: mirrored_kind "\<lambda>_. True" CreateOrUpdateDaemonset DeleteDaemonset
  upDaemonsets decDaemonsets lightWeightDaemonset Daemonset_handlers Daemonset_sendToSyncChan
proof unfold_locales
  fix env :: "'a upenv" and js :: "edgeDaemonset repjson" and view ctx rs k
  assume wire: "wire_ok env js (decDaemonsets env) view"
  show "deliver env (Daemonset_sendToSyncChan js ctx rs) k =
      res_Report False (res_FullList (upDaemonsets env) (DeleteDaemonset (upDaemonsets env)) (ctxClusterName ctx))
        (res_UpdateMap (CreateOrUpdateDaemonset (upDaemonsets env)))
        (res_DelMap (DeleteDaemonset (upDaemonsets env))) (view_status view rs) k"
    unfolding send_defs
    by (rule deliver_decoded [OF wire])
      (simp add: handleOneReport_def resource_type_defs handleDaemonsetReport_def handlers_res)
qed (auto simp: handlers_shared lightWeightDaemonset_def same_processors kind_defs
    dest: CreateOrUpdate_stands Delete_removes [rotated 3])

interpretation services_mirror: mirrored_kind "\<lambda>_. True" CreateOrUpdateService DeleteService
  upServices decServices lightWeightService Service_handlers Service_sendToSyncChan
proof unfold_locales
  fix env :: "'a upenv" and js :: "edgeService repjson" and view ctx rs k
  assume wire: "wire_ok env js (decServices env) view"
  show "deliver env (Service_sendToSyncChan js ctx rs) k =
      res_Report False (res_FullList (upServices env) (DeleteService (upServices env)) (ctxClusterName ctx))
        (res_UpdateMap (CreateOrUpdateService (upServices env)))
        (res_DelMap (DeleteService (upServices env))) (view_status view rs) k"
    unfolding send_defs
    by (rule deliver_decoded [OF wire])
      (simp add: handleOneReport_def resource_type_defs handleServiceReport_def handlers_res)
qed (auto simp: handlers_shared lightWeightService_def same_processors kind_defs
    dest: CreateOrUpdate_stands Delete_removes [rotated 3])

interpretation nodes_mirror: mirrored_kind "\<lambda>m. omNamespace m = []" CreateOrUpdateNode DeleteNode
  upNodes decNodes lightWeightNode Node_handlers Node_sendToSyncChan
proof unfold_locales
  fix env :: "'a upenv" and js :: "edgeNode repjson" and view ctx rs k
  assume wire: "wire_ok env js (decNodes env) view"
  show "deliver env (Node_sendToSyncChan js ctx rs) k =
      res_Report False (res_FullList (upNodes env) (DeleteNode (upNodes env)) (ctxClusterName ctx))
        (res_UpdateMap (CreateOrUpdateNode (upNodes env)))
        (res_DelMap (DeleteNode (upNodes env))) (view_status view rs) k"
    unfolding send_defs
    by (rule deliver_decoded [OF wire])
      (simp add: handleOneReport_def resource_type_defs handleNodeReport_def handlers_res)
qed (auto simp: handlers_shared lightWeightNode_def kind_defs
    dest: CreateOrUpdateNode_stands Delete_removes [rotated 3])

end
