(* ===== verification/SampleReports.thy ===== *)
theory SampleReports
  imports Mirror SampleKinds SampleEnv
begin

text \<open>
  A concrete wire format for reports of deployments and of pods, and an environment of the
  upstream processor that decodes it and keeps objects in an in-memory store. The composition
  of reporters and processor is evaluated on it.
\<close>

section \<open>Options and lists\<close>

definition enc_opt :: "('a \<Rightarrow> string) \<Rightarrow> 'a option \<Rightarrow> string" where
  "enc_opt f x = (case x of None \<Rightarrow> [] | Some v \<Rightarrow> CHR ''!'' # f v)"

definition dec_opt :: "(string \<Rightarrow> 'a) \<Rightarrow> string \<Rightarrow> 'a option" where
  "dec_opt g s = (case s of [] \<Rightarrow> None | _ # t \<Rightarrow> Some (g t))"

definition enc_list :: "('a \<Rightarrow> string) \<Rightarrow> 'a list \<Rightarrow> string" where
  "enc_list f xs = pack (map f xs)"

definition dec_list :: "(string \<Rightarrow> 'a) \<Rightarrow> string \<Rightarrow> 'a list" where
  "dec_list g s = (case unpack s of None \<Rightarrow> [] | Some xs \<Rightarrow> map g xs)"

definition enc_pair :: "('a \<Rightarrow> string) \<Rightarrow> ('b \<Rightarrow> string) \<Rightarrow> 'a \<times> 'b \<Rightarrow> string" where
  "enc_pair f g p = pack [f (fst p), g (snd p)]"

definition dec_pair :: "(string \<Rightarrow> 'a) \<Rightarrow> (string \<Rightarrow> 'b) \<Rightarrow> string \<Rightarrow> 'a \<times> 'b" where
  "dec_pair f g s = (case unpack s of Some [a, b] \<Rightarrow> (f a, g b) | _ \<Rightarrow> (f [], g []))"

lemma dec_opt_enc: "(\<And>x. g (f x) = x) \<Longrightarrow> dec_opt g (enc_opt f x) = x"
  by (simp add: dec_opt_def enc_opt_def split: option.splits)

lemma dec_list_enc: "(\<And>x. g (f x) = x) \<Longrightarrow> dec_list g (enc_list f xs) = xs"
  by (induction xs) (simp_all add: dec_list_def enc_list_def)

lemma dec_pair_enc: "(\<And>x. f' (f x) = x) \<Longrightarrow> (\<And>y. g' (g y) = y) \<Longrightarrow> dec_pair f' g' (enc_pair f g p) = p"
  by (simp add: dec_pair_def enc_pair_def)

section \<open>Objects\<close>

definition enc_strmap :: "strmap \<Rightarrow> string" where
  "enc_strmap = enc_list (enc_pair id id)"

definition dec_strmap :: "string \<Rightarrow> strmap" where
  "dec_strmap = dec_list (dec_pair id id)"

definition enc_meta :: "ObjectMeta \<Rightarrow> string" where
  "enc_meta m = pack [omNamespace m, omName m, enc_opt enc_strmap (omLabels m),
     enc_opt enc_strmap (omAnnotations m), omResourceVersion m, omUID m,
     enc_opt int_str (omDeletionTimestamp m)]"

definition dec_meta :: "string \<Rightarrow> ObjectMeta" where
  "dec_meta s =
     (case unpack s of
        Some [a, b, c, d, e, f, g] \<Rightarrow>
          \<lparr>omNamespace = a, omName = b, omLabels = dec_opt dec_strmap c,
           omAnnotations = dec_opt dec_strmap d, omResourceVersion = e, omUID = f,
           omDeletionTimestamp = dec_opt str_int g\<rparr>
      | _ \<Rightarrow> \<lparr>omNamespace = [], omName = [], omLabels = None, omAnnotations = None,
           omResourceVersion = [], omUID = [], omDeletionTimestamp = None\<rparr>)"

definition enc_res :: "('s \<Rightarrow> string) \<Rightarrow> 's resource \<Rightarrow> string" where
  "enc_res f r = pack [enc_meta (rMeta r), f (rSpec r), rStatus r]"

definition dec_res :: "(string \<Rightarrow> 's) \<Rightarrow> string \<Rightarrow> 's resource" where
  "dec_res g s =
     (case unpack s of
        Some [m, x, t] \<Rightarrow> \<lparr>rMeta = dec_meta m, rSpec = g x, rStatus = t\<rparr>
      | _ \<Rightarrow> \<lparr>rMeta = dec_meta [], rSpec = g [], rStatus = []\<rparr>)"

definition enc_podSpec :: "podSpec \<Rightarrow> string" where
  "enc_podSpec p = pack [ServiceAccountName p, enc_opt int_str (ActiveDeadlineSeconds p),
     enc_list id (Tolerations p), psRest p]"

definition dec_podSpec :: "string \<Rightarrow> podSpec" where
  "dec_podSpec s =
     (case unpack s of
        Some [a, b, c, d] \<Rightarrow> \<lparr>ServiceAccountName = a, ActiveDeadlineSeconds = dec_opt str_int b,
          Tolerations = dec_list id c, psRest = d\<rparr>
      | _ \<Rightarrow> \<lparr>ServiceAccountName = [], ActiveDeadlineSeconds = None, Tolerations = [], psRest = []\<rparr>)"

lemma dec_strmap_enc [simp]: "dec_strmap (enc_strmap m) = m"
  unfolding dec_strmap_def enc_strmap_def by (intro dec_list_enc dec_pair_enc) simp_all

lemma dec_meta_enc [simp]: "dec_meta (enc_meta m) = m"
  by (simp add: dec_meta_def enc_meta_def dec_opt_enc)

lemma dec_res_enc: "(\<And>x. g (f x) = x) \<Longrightarrow> dec_res g (enc_res f r) = r"
  by (simp add: dec_res_def enc_res_def)

lemma dec_podSpec_enc [simp]: "dec_podSpec (enc_podSpec p) = p"
  by (simp add: dec_podSpec_def enc_podSpec_def dec_opt_enc dec_list_enc)

section \<open>Reports\<close>

definition enc_resmap :: "('r \<Rightarrow> string) \<Rightarrow> (string, 'r option) gomap \<Rightarrow> string" where
  "enc_resmap f = enc_list (enc_pair id (enc_opt f))"

definition dec_resmap :: "(string \<Rightarrow> 'r) \<Rightarrow> string \<Rightarrow> (string, 'r option) gomap" where
  "dec_resmap g = dec_list (dec_pair id (dec_opt g))"

definition enc_status :: "('r \<Rightarrow> string) \<Rightarrow> 'r reportStatus \<Rightarrow> bytes" where
  "enc_status f rs = pack [enc_opt (enc_resmap f) (UpdateMap rs), enc_opt (enc_resmap f) (DelMap rs),
     enc_opt (enc_list id) (FullList rs)]"

definition dec_status :: "(string \<Rightarrow> 'r) \<Rightarrow> bytes \<Rightarrow> 'r reportStatus option" where
  "dec_status g s =
     (case unpack s of
        Some [a, b, c] \<Rightarrow> Some \<lparr>UpdateMap = dec_opt (dec_resmap g) a, DelMap = dec_opt (dec_resmap g) b,
          FullList = dec_opt (dec_list id) c\<rparr>
      | _ \<Rightarrow> None)"

lemma dec_status_enc:
  assumes "\<And>x. g (f x) = x"
  shows "dec_status g (enc_status f rs) = Some rs"
proof -
  have "dec_resmap g (enc_resmap f m) = m" for m
    unfolding dec_resmap_def enc_resmap_def
    by (intro dec_list_enc dec_pair_enc dec_opt_enc) (simp_all add: assms)
  then show ?thesis by (simp add: dec_status_def enc_status_def dec_opt_enc dec_list_enc)
qed

definition enc_reports :: "report list \<Rightarrow> bytes" where
  "enc_reports = enc_list (\<lambda>r. enc_pair int_str id (ResourceType r, ReportBody r))"

definition dec_reports :: "bytes \<Rightarrow> report list" where
  "dec_reports = dec_list (\<lambda>s. case dec_pair str_int id s of (t, b) \<Rightarrow> \<lparr>ResourceType = t, ReportBody = b\<rparr>)"

lemma dec_reports_enc [simp]: "dec_reports (enc_reports rs) = rs"
  unfolding dec_reports_def enc_reports_def
  by (rule dec_list_enc) (simp add: dec_pair_enc)

section \<open>An environment\<close>

text \<open>A client of a kind the samples do not use: nothing is found, no write succeeds.\<close>

definition no_kind :: "('r, 'k) kindapi" where
  "no_kind = \<lparr>kGet = (\<lambda>ns n k. Inl NotFound), kCreate = (\<lambda>ns r k. (Some NotFound, k)),
     kUpdate = (\<lambda>ns r k. (Some NotFound, k)), kUpdateStatus = (\<lambda>ns r k. (Some NotFound, k)),
     kDelete = (\<lambda>ns n k. (Some NotFound, k)), kList = (\<lambda>l k. None), kRetry = (\<lambda>f s. f s)\<rparr>"

definition no_ote :: "'k oteapi" where
  "no_ote =
     \<lparr>api_getCluster = (\<lambda>ns n k. None), api_createCluster = (\<lambda>ns c k. (Some NotFound, k)),
      api_updateCluster = (\<lambda>ns c k. (Some NotFound, k)),
      api_deleteCluster = (\<lambda>ns n k. (Some NotFound, k)),
      api_patchCluster = (\<lambda>ns n b k. (Some PatchFailed, k)), api_getCC = (\<lambda>ns n k. None),
      api_updateCC = (\<lambda>ns cc k. (Some NotFound, k)), api_retry = (\<lambda>f k. f k),
      api_marshalCluster = (\<lambda>c. None), api_mergePatch = (\<lambda>a b. None)\<rparr>"

definition sample_upenv :: "(object, 'k) kindapi \<Rightarrow> (pod, 'k) kindapi \<Rightarrow> 'k upenv" where
  "sample_upenv objects pods =
     \<lparr>upCodec = sample_codecs, upPods = pods, upNodes = objects, upDeployments = objects,
      upDaemonsets = objects, upServices = objects, upEvents = no_kind, upOte = no_ote,
      upPodRef = (\<lambda>_. None), upNodeRef = (\<lambda>_. None),
      decReports = (\<lambda>b. Some (dec_reports b)), decPods = dec_status (dec_res dec_podSpec),
      decNodes = dec_status (dec_res id), decDeployments = dec_status (dec_res id),
      decDaemonsets = dec_status (dec_res id), decServices = dec_status (dec_res id),
      decEvents = (\<lambda>_. None), decStatus = (\<lambda>_. None)\<rparr>"

definition object_json :: "('o \<Rightarrow> object) \<Rightarrow> 'o repjson" where
  "object_json view = \<lparr>jsStatus = (\<lambda>rs. Some (enc_status (enc_res id) (view_status view rs))),
     jsReports = (\<lambda>reps. Some (enc_reports reps))\<rparr>"

definition pod_json :: "('o \<Rightarrow> pod) \<Rightarrow> 'o repjson" where
  "pod_json view = \<lparr>jsStatus = (\<lambda>rs. Some (enc_status (enc_res enc_podSpec) (view_status view rs))),
     jsReports = (\<lambda>reps. Some (enc_reports reps))\<rparr>"

lemma sample_messages: "\<exists>b. enc_msg m = Some b \<and> dec_msg b = Some m"
  using roundtrip_msg by (auto simp: roundtrip_def enc_msg_def)

lemma sample_upenv_sel:
  "upCodec (sample_upenv K P) = sample_codecs" "upDeployments (sample_upenv K P) = K"
  "upPods (sample_upenv K P) = P" "decReports (sample_upenv K P) = (\<lambda>b. Some (dec_reports b))"
  "decDeployments (sample_upenv K P) = dec_status (dec_res id)"
  "decPods (sample_upenv K P) = dec_status (dec_res dec_podSpec)"
  by (simp_all add: sample_upenv_def)

lemma object_wire_ok: "wire_ok (sample_upenv K P) (object_json view) (dec_status (dec_res id)) view"
  using sample_messages
  by (simp add: wire_ok_def object_json_def sample_upenv_sel sample_codecs_def dec_status_enc dec_res_enc)

lemma pod_wire_ok:
  "wire_ok (sample_upenv K P) (pod_json view) (dec_status (dec_res dec_podSpec)) view"
  using sample_messages
  by (simp add: wire_ok_def pod_json_def sample_upenv_sel sample_codecs_def dec_status_enc dec_res_enc)

lemma sample_kind_live: "kind_live sample_kind"
  by (auto simp: kind_live_def sk_create_def sk_update_def sk_delete_def sk_get_def
      split: option.splits if_splits)

section \<open>Sample objects\<close>

definition sample_meta :: "string \<Rightarrow> string \<Rightarrow> ObjectMeta" where
  "sample_meta n v = \<lparr>omNamespace = ''default'', omName = n, omLabels = Some [(''app'', n)],
     omAnnotations = None, omResourceVersion = v, omUID = ''u'', omDeletionTimestamp = None\<rparr>"

definition sample_deployment :: "string \<Rightarrow> string \<Rightarrow> edgeDeployment" where
  "sample_deployment n v =
     \<lparr>eTypeMeta = [], eMeta = sample_meta n v,
      eSpec = \<lparr>dpTemplate = ''t'', dpSelector = ''s'', dpReplicas = Some 2, dpSpecRest = ''x''\<rparr>,
      eStatus = \<lparr>dpStReplicas = 2, dpUpdatedReplicas = 2, dpAvailableReplicas = 1, dpStatusRest = ''y''\<rparr>\<rparr>"

definition sample_edge_pod :: "string \<Rightarrow> string \<Rightarrow> edgePod" where
  "sample_edge_pod n v =
     \<lparr>eTypeMeta = [], eMeta = sample_meta n v,
      eSpec = \<lparr>Containers = [''c''], NodeName = ''n1'', Volumes = [], epTolerations = [],
        epServiceAccountName = ''sa'', epActiveDeadlineSeconds = None, epSpecRest = ''x''\<rparr>,
      eStatus = \<lparr>Phase = ''Running'', ContainerStatuses = [], epStatusRest = []\<rparr>\<rparr>"

definition sample_context :: ReporterContext where
  "sample_context = \<lparr>ctxClusterName = ''c1'', ctxSyncChan = Some 0, ctxStopChan = Some 1,
     IsLightweightReport = True, ctxInformerFactory = Some 2, ctxKubeClient = Some 3\<rparr>"

end
