(* ===== verification/ReporterProps.thy ===== *)
theory ReporterProps
  imports SampleReports
begin

text \<open>
  Properties of the reporters, alone and together with the upstream processor of the center.
\<close>

section \<open>Deployments\<close>

text \<open>C15: deployments at the center follow those of the edge. The reporter of an edge cluster is
  started, and an informer delivers any sequence of additions, updates and deletions; when the
  messages arrive in the order of the events and the API server answers, the center has
  afterwards, under the names of that cluster, exactly the deployments the edge has, each with
  the labels and the version of its last event. Nothing panics. This holds with and without
  cropped reports.\<close>

theorem edge_mirrored:
  assumes "startDeploymentReporter (Some ctx) = Inr h" "ctxClusterName ctx \<noteq> []"
    and "kind_ok (upDeployments env)" "kind_live (upDeployments env)"
    and "wire_ok env js (decDeployments env) (central_view fs ft)"
    and "mirrored (upDeployments env) ctx edge k" "ievents_valid evs edge"
  shows "\<exists>k'. mirror_run h (Deployment_sendToSyncChan js ctx) env evs k = Some k' \<and>
    mirrored (upDeployments env) ctx (ievents_run evs edge) k'"
proof -
  from assms(1) have "h = Deployment_handlers ctx"
    by (auto simp: startDeploymentReporter_def rep_start_def split: if_splits)
  with deployments_mirror.run_mirrors [OF assms(3-5,2,6,7)] show ?thesis by simp
qed

definition sample_events :: "edgeDeployment ievent list" where
  "sample_events =
     [Added (sample_deployment ''web'' ''3''), Added (sample_deployment ''db'' ''4''),
      Updated (sample_deployment ''web'' ''3'') (sample_deployment ''web'' ''12''),
      Updated (sample_deployment ''web'' ''12'') (sample_deployment ''web'' ''12''),
      Deleted (sample_deployment ''db'' ''4'')]"

definition sample_view :: "edgeDeployment \<Rightarrow> object" where
  "sample_view = central_view dpTemplate (\<lambda>st. int_str (dpStReplicas st))"

definition sample_center :: "bytes kstore upenv" where
  "sample_center = sample_upenv sample_kind no_kind"

lemma sample_center_sel:
  "upDeployments sample_center = sample_kind" "decDeployments sample_center = dec_status (dec_res id)"
  by (simp_all add: sample_center_def sample_upenv_sel)

lemma sample_center_wire:
  "wire_ok sample_center (object_json sample_view) (decDeployments sample_center) sample_view"
  by (simp add: sample_center_def sample_upenv_sel object_wire_ok)

lemma sample_start: "startDeploymentReporter (Some sample_context) = Inr (Deployment_handlers sample_context)"
  by (simp add: startDeploymentReporter_def rep_start_def ReporterContext_IsValid_def
      BaseReporterContext_IsValid_def sample_context_def)

lemma mirrored_empty: "mirrored sample_kind ctx Map.empty []"
  by (simp add: mirrored_def mirror_at_def sk_get_def)

lemma sample_versions: "vle ''3'' ''3''" "vle ''4'' ''4''" "vle ''3'' ''12''" "vle ''12'' ''12''"
  by code_simp+

lemma sample_trace: "ievents_valid sample_events Map.empty"
  by (simp add: sample_events_def ekey_def sample_deployment_def sample_meta_def sample_versions)

lemma sample_name: "ctxClusterName sample_context \<noteq> []"
  by (simp add: sample_context_def)

lemma sample_center_api: "kind_ok (upDeployments sample_center)" "kind_live (upDeployments sample_center)"
  by (simp_all only: sample_center_sel sample_kind_ok sample_kind_live)

lemma sample_center_empty: "mirrored (upDeployments sample_center) sample_context Map.empty []"
  by (simp only: sample_center_sel mirrored_empty)

theorem edge_mirrored_witness:
  "\<exists>k'. mirror_run (Deployment_handlers sample_context)
      (Deployment_sendToSyncChan (object_json sample_view) sample_context) sample_center
      sample_events [] = Some k' \<and>
    mirrored sample_kind sample_context (ievents_run sample_events Map.empty) k'"
  using edge_mirrored [where evs = sample_events, OF sample_start sample_name sample_center_api
      sample_center_wire [unfolded sample_view_def] sample_center_empty sample_trace]
  by (simp only: sample_view_def sample_center_sel)

text \<open>C27: each event is sent by a goroutine of its own, so that messages may overtake each other.
  When the report of a deployment's last update arrives after the report of its deletion, the
  center creates the deployment again, although the edge no longer has it.\<close>

theorem overtaken_deletion:
  fixes edge :: "(deploymentSpec, deploymentStatus) edgeState"
  assumes "ctxClusterName ctx \<noteq> []"
    and "kind_ok (upDeployments env)" "kind_live (upDeployments env)"
    and "wire_ok env js (decDeployments env) (central_view fs ft)"
    and "mirrored (upDeployments env) ctx edge k" "vle (rv r) (rv r)"
    and "handleDeployment ctx (Typed r) = Some up" "deleteDeployment ctx (Typed r) = Some del"
  shows "\<exists>k1 k2. deliver env (Deployment_sendToSyncChan js ctx del) k = Some k1 \<and>
    deliver env (Deployment_sendToSyncChan js ctx up) k1 = Some k2 \<and>
    stands (upDeployments env) (omNamespace (eMeta r))
      (UniqueFullResourceName (omName (eMeta r)) (ctxClusterName ctx))
      (omLabels (addLabelToResource (eMeta r) ctx)) k2"
proof -
  from assms(7,8) have "rep_handle ctx lightWeightDeployment (Typed r) = Some up"
    "rep_delete ctx lightWeightDeployment (Typed r) = Some del"
    by (simp_all add: handleDeployment_def deleteDeployment_def)
  from deployments_mirror.overtaken [OF assms(2-4,1) TrueI assms(6,5) this] obtain k1 k2 where
    k: "deliver env (Deployment_sendToSyncChan js ctx del) k = Some k1"
      "deliver env (Deployment_sendToSyncChan js ctx up) k1 = Some k2"
      "mirrored (upDeployments env) ctx (edge(ekey r \<mapsto> r)) k2" by blast
  from mirroredD [OF k(3), of "omNamespace (eMeta r)" "omName (eMeta r)"] k(1,2) show ?thesis
    by (simp add: ekey_def mirror_at_def)
qed

theorem overtaken_deletion_witness:
  "\<exists>k1 k2. deliver sample_center (Deployment_sendToSyncChan (object_json sample_view) sample_context
        (the (deleteDeployment sample_context (Typed (sample_deployment ''web'' ''12''))))) [] = Some k1 \<and>
    deliver sample_center (Deployment_sendToSyncChan (object_json sample_view) sample_context
        (the (handleDeployment sample_context (Typed (sample_deployment ''web'' ''12''))))) k1 = Some k2 \<and>
    stands sample_kind ''default'' ''web-c1''
      (Some [(''app'', ''web''), (ClusterLabel, ''c1''), (EdgeVersionLabel, ''12'')]) k2"
proof -
  let ?r = "sample_deployment ''web'' ''12''"
  have v: "vle (rv ?r) (rv ?r)"
    by (simp add: sample_deployment_def sample_meta_def sample_versions)
  have h: "handleDeployment sample_context (Typed ?r) = Some (the (handleDeployment sample_context (Typed ?r)))"
    "deleteDeployment sample_context (Typed ?r) = Some (the (deleteDeployment sample_context (Typed ?r)))"
    by (simp_all add: handleDeployment_def deleteDeployment_def rep_handle_def rep_delete_def Let_def)
  have sel: "omNamespace (eMeta ?r) = ''default''" "ctxClusterName sample_context = ''c1''"
    "UniqueFullResourceName (omName (eMeta ?r)) ''c1'' = ''web-c1''"
    "omLabels (addLabelToResource (eMeta ?r) sample_context) =
      Some [(''app'', ''web''), (ClusterLabel, ''c1''), (EdgeVersionLabel, ''12'')]"
    by code_simp+
  from overtaken_deletion [OF sample_name sample_center_api sample_center_wire [unfolded sample_view_def]
      sample_center_empty v h] show ?thesis
    by (simp only: sel sample_view_def sample_center_sel)
qed

section \<open>Pods\<close>

text \<open>A pod as the center decodes it.\<close>

definition pod_view :: "(edgePodSpec \<Rightarrow> bytes) \<Rightarrow> (edgePodStatus \<Rightarrow> bytes) \<Rightarrow> edgePod \<Rightarrow> pod" where
  "pod_view fs ft p =
     \<lparr>rMeta = eMeta p,
      rSpec = \<lparr>ServiceAccountName = epServiceAccountName (eSpec p),
        ActiveDeadlineSeconds = epActiveDeadlineSeconds (eSpec p),
        Tolerations = epTolerations (eSpec p), psRest = fs (eSpec p)\<rparr>,
      rStatus = ft (eStatus p)\<rparr>"

lemma prepared_pod:
  "omNamespace (eMeta (rep_prepare ctx lightWeightPod p)) = omNamespace (eMeta p)"
  "omName (eMeta (rep_prepare ctx lightWeightPod p)) = omName (eMeta p)"
  "label (eMeta (rep_prepare ctx lightWeightPod p)) ClusterLabel = ctxClusterName ctx"
  "MetaNamespaceKey (eMeta (rep_prepare ctx lightWeightPod p)) = MetaNamespaceKey (eMeta p)"
  by (simp_all add: rep_prepare_def Let_def lightWeightPod_def MetaNamespaceKey_def)

lemma reset_pod:
  "omNamespace (eMeta (resetPodSpecParameter p)) = omNamespace (eMeta p)"
  "omName (eMeta (resetPodSpecParameter p)) = omName (eMeta p)"
  "MetaNamespaceKey (eMeta (resetPodSpecParameter p)) = MetaNamespaceKey (eMeta p)"
  by (simp_all add: resetPodSpecParameter_def Let_def MetaNamespaceKey_def)

lemma handlePod_maps:
  "updatedUpdateMap (handlePod ctx (Typed p) pr) = go_put (MetaNamespaceKey (eMeta p))
     (Some (rep_prepare ctx lightWeightPod (resetPodSpecParameter p))) (updatedUpdateMap pr)"
  "updatedDelMap (handlePod ctx (Typed p) pr) = updatedDelMap pr"
  "updatedFullList (handlePod ctx (Typed p) pr) = updatedFullList pr"
  by (simp_all add: handlePod_def SetUpdateMap_def Let_def prepared_pod reset_pod)

lemma deletePod_maps:
  "go_get (updatedUpdateMap (deletePod ctx (Typed p) pr)) =
     (go_get (updatedUpdateMap pr))(MetaNamespaceKey (eMeta p) := None)"
  "updatedDelMap (deletePod ctx (Typed p) pr) = go_put (MetaNamespaceKey (eMeta p))
     (Some (rep_prepare ctx lightWeightPod p)) (updatedDelMap pr)"
  "updatedFullList (deletePod ctx (Typed p) pr) = updatedFullList pr"
  by (auto simp: deletePod_def SetDelMap_def Let_def prepared_pod go_has_def fun_eq_iff)

lemma deliver_pods:
  assumes wire: "wire_ok env js (decPods env) view"
    and send: "sendClusterMessageToSyncChan js ctx pr = (Some msg, pr')"
  shows "pr' = emptyPodReporter"
    "deliver env (Some msg) k =
      res_Report True (handlePodFullList (upPods env) (ctxClusterName ctx)) (handlePodUpdateMap (upPods env))
        (handlePodDelMap (upPods env))
        (view_status view \<lparr>UpdateMap = Some (updatedUpdateMap pr), DelMap = Some (updatedDelMap pr),
           FullList = Some (updatedFullList pr)\<rparr>) k"
proof -
  let ?rs = "\<lparr>UpdateMap = Some (updatedUpdateMap pr), DelMap = Some (updatedDelMap pr),
      FullList = Some (updatedFullList pr)\<rparr>"
  let ?h = "res_Report True (handlePodFullList (upPods env) (ctxClusterName ctx))
      (handlePodUpdateMap (upPods env)) (handlePodDelMap (upPods env))"
  let ?m = "rep_sendToSyncChan (rep_serialize ResourceTypePod js) js ctx ?rs"
  from send have m: "?m = Some msg"
    by (auto simp: sendClusterMessageToSyncChan_def rep_sendToSyncChan_def rep_serialize_def
        reporter_ToClusterMessage_def emptyHead_def split: if_splits option.splits)
  from send show "pr' = emptyPodReporter"
    by (auto simp: sendClusterMessageToSyncChan_def emptyPodReporter_def split: if_splits option.splits)
  have "deliver env ?m k = ?h (view_status view ?rs) k"
    by (rule deliver_decoded [OF wire])
      (simp add: handleOneReport_def resource_type_defs handlePodReport_def)
  with m show "deliver env (Some msg) k = ?h (view_status view ?rs) k" by simp
qed

text \<open>A pod that is deleted and created again under the same name between two ticks of the
  reporter is lost at the center. The batch carries the new pod as an update and the old one as
  a deletion, the center applies deletions last, and the reporter starts its next batch without
  the pod.\<close>

theorem recreated_pod_lost:
  assumes "kind_ok (upPods env)" "kind_live (upPods env)"
    and "wire_ok env js (decPods env) (pod_view fs ft)" "ctxClusterName ctx \<noteq> []"
    and "MetaNamespaceKey (eMeta new) = MetaNamespaceKey (eMeta old)"
    and "batch = handlePod ctx (Typed new) (deletePod ctx (Typed old) pr)"
    and "sendClusterMessageToSyncChan js ctx batch = (Some msg, pr')"
    and "deliver env (Some msg) k = Some k'"
  shows "go_get (updatedUpdateMap batch) (MetaNamespaceKey (eMeta old)) =
      Some (Some (rep_prepare ctx lightWeightPod (resetPodSpecParameter new))) \<and>
    (\<forall>p. kGet (upPods env) (omNamespace (eMeta old))
      (UniqueFullResourceName (omName (eMeta old)) (ctxClusterName ctx)) k' \<noteq> Inr p) \<and>
    pr' = emptyPodReporter"
proof -
  let ?K = "upPods env" and ?old = "pod_view fs ft (rep_prepare ctx lightWeightPod old)"
  let ?dm = "view_map (pod_view fs ft) (updatedDelMap batch)"
  from deliver_pods(2) [OF assms(3,7), of k] assms(8) obtain k2 where
    d: "res_DelMap (DeletePod ?K) ?dm k2 = Some k'"
    by (auto simp: res_Report_def view_status_def Let_def handlePodDelMap_def split: option.splits)
  have "go_get (updatedDelMap batch) (MetaNamespaceKey (eMeta old)) =
      Some (Some (rep_prepare ctx lightWeightPod old))"
    by (simp add: assms(6) handlePod_maps deletePod_maps)
  then have mem: "Some ?old \<in> snd ` set ?dm"
    by (auto simp: view_map_def image_image dest!: map_of_SomeD intro: rev_image_eqI)
  have sel: "label (rMeta ?old) ClusterLabel = ctxClusterName ctx"
    "omNamespace (rMeta ?old) = omNamespace (eMeta old)"
    "renamed ?old = UniqueFullResourceName (omName (eMeta old)) (ctxClusterName ctx)"
    by (simp_all add: pod_view_def prepared_pod renamed_def UniqueFullResourceName_def
        UniqueResourceNameSeparator_def)
  have "\<forall>p. kGet ?K (omNamespace (rMeta ?old)) (renamed ?old) k' \<noteq> Inr p"
  proof (rule pods.delMap_gone [OF assms(1) _ mem _ d])
    show "fst (DeletePod ?K q k) = None"
      if "kGet ?K (omNamespace (rMeta q)) (omName (rMeta q)) k = Inr p" for q k p
      using kind_liveD(4) [OF assms(2) that] by (auto simp: DeletePod_def res_Delete_def split: prod.splits)
  qed (simp add: sel assms(4))
  with deliver_pods(1) [OF assms(3,7)] show ?thesis
    by (simp add: sel assms(5,6) handlePod_maps)
qed

definition sample_pod_center :: "podSpec kstore upenv" where
  "sample_pod_center = sample_upenv no_kind sample_kind"

definition sample_pod_view :: "edgePod \<Rightarrow> pod" where
  "sample_pod_view = pod_view (\<lambda>sp. NodeName sp) (\<lambda>st. Phase st)"

lemma sample_pod_center_sel:
  "upPods sample_pod_center = sample_kind" "decPods sample_pod_center = dec_status (dec_res dec_podSpec)"
  by (simp_all add: sample_pod_center_def sample_upenv_sel)

lemma sample_pod_wire:
  "wire_ok sample_pod_center (pod_json sample_pod_view) (decPods sample_pod_center) sample_pod_view"
  by (simp add: sample_pod_center_def sample_upenv_sel pod_wire_ok)

text \<open>The pod \<open>web-0\<close> is deleted and created again.\<close>

definition sample_batch :: PodReporter where
  "sample_batch = handlePod sample_context (Typed (sample_edge_pod ''web-0'' ''8''))
     (deletePod sample_context (Typed (sample_edge_pod ''web-0'' ''5'')) emptyPodReporter)"

definition sample_pod_message :: ClusterMessage where
  "sample_pod_message =
     the (fst (sendClusterMessageToSyncChan (pod_json sample_pod_view) sample_context sample_batch))"

lemma sample_batch_sent:
  "sendClusterMessageToSyncChan (pod_json sample_pod_view) sample_context sample_batch =
     (Some sample_pod_message, emptyPodReporter)"
  by (simp add: sendClusterMessageToSyncChan_def sample_pod_message_def pod_json_def sample_batch_def
      handlePod_maps emptyPodReporter_def)

text \<open>The report as the center decodes it, and its pods afterwards.\<close>

definition sample_pod_report :: "pod reportStatus" where
  "sample_pod_report = view_status sample_pod_view
     \<lparr>UpdateMap = Some (updatedUpdateMap sample_batch), DelMap = Some (updatedDelMap sample_batch),
      FullList = Some (updatedFullList sample_batch)\<rparr>"

definition sample_pods_after :: "podSpec kstore" where
  "sample_pods_after =
     (case res_Report True (handlePodFullList sample_kind ''c1'') (handlePodUpdateMap sample_kind)
         (handlePodDelMap sample_kind) sample_pod_report [] of Some k \<Rightarrow> k | None \<Rightarrow> [])"

lemma sample_pods_after_some:
  "res_Report True (handlePodFullList sample_kind ''c1'') (handlePodUpdateMap sample_kind)
     (handlePodDelMap sample_kind) sample_pod_report [] = Some sample_pods_after"
  by code_simp

lemma sample_batch_delivered:
  "deliver sample_pod_center (Some sample_pod_message) [] = Some sample_pods_after"
proof -
  have c: "ctxClusterName sample_context = ''c1''" by (simp add: sample_context_def)
  from deliver_pods(2) [OF sample_pod_wire sample_batch_sent, of "[]",
      unfolded c sample_pod_center_sel sample_pod_report_def [symmetric] sample_pods_after_some]
  show ?thesis .
qed

theorem recreated_pod_lost_witness:
  "go_get (updatedUpdateMap sample_batch) ''default/web-0'' =
      Some (Some (rep_prepare sample_context lightWeightPod
        (resetPodSpecParameter (sample_edge_pod ''web-0'' ''8'')))) \<and>
    (\<forall>p. sk_get ''default'' ''web-0-c1'' sample_pods_after \<noteq> Inr p)"
proof -
  let ?old = "sample_edge_pod ''web-0'' ''5''" and ?new = "sample_edge_pod ''web-0'' ''8''"
  have key: "MetaNamespaceKey (eMeta ?new) = MetaNamespaceKey (eMeta ?old)" by code_simp
  have api: "kind_ok (upPods sample_pod_center)" "kind_live (upPods sample_pod_center)"
    by (simp_all only: sample_pod_center_sel sample_kind_ok sample_kind_live)
  have sel: "MetaNamespaceKey (eMeta ?old) = ''default/web-0''" "omNamespace (eMeta ?old) = ''default''"
    "UniqueFullResourceName (omName (eMeta ?old)) (ctxClusterName sample_context) = ''web-0-c1''"
    by code_simp+
  from recreated_pod_lost [OF api sample_pod_wire [unfolded sample_pod_view_def] sample_name key
      sample_batch_def sample_batch_sent [unfolded sample_pod_view_def] sample_batch_delivered,
      unfolded sel sample_pod_center_sel sample_kind_simps]
  show ?thesis by blast
qed

section \<open>The status of the cluster\<close>

definition quantity :: "int option \<Rightarrow> int" where
  "quantity q = (case q of None \<Rightarrow> 0 | Some v \<Rightarrow> v)"

lemma addQuantities_get:
  "go_wf qs \<Longrightarrow> go_get (addQuantities qs acc) name =
    (case go_get qs name of None \<Rightarrow> go_get acc name | Some v \<Rightarrow> Some (quantity (go_get acc name) + v))"
proof (induction qs acc rule: addQuantities.induct)
  case (2 n v qs acc)
  let ?acc1 = "if \<not> go_has acc n then go_put n 0 acc else acc"
  let ?acc2 = "case go_get ?acc1 n of None \<Rightarrow> ?acc1 | Some q \<Rightarrow> go_put n (q + v) ?acc1"
  have acc2: "go_get ?acc2 = (go_get acc)(n \<mapsto> quantity (go_get acc n) + v)"
    by (auto simp: go_has_def quantity_def split: option.splits)
  from 2(2) have wf: "go_wf qs" "go_get qs n = None"
    by (auto simp: go_wf_def go_keys_def map_of_eq_None_iff)
  from 2(1) [OF refl wf(1)] have "go_get (addQuantities qs ?acc2) name =
      (case go_get qs name of None \<Rightarrow> go_get ?acc2 name | Some v \<Rightarrow> Some (quantity (go_get ?acc2 name) + v))" .
  with acc2 wf(2) show ?case by (auto simp: Let_def split: option.splits)
qed simp

text \<open>The quantities of a resource that the ready nodes have.\<close>

definition readyQuantities ::
  "(nodeStatus \<Rightarrow> (string, int) gomap) \<Rightarrow> string \<Rightarrow> edgeNode list \<Rightarrow> int list" where
  "readyQuantities f name nodes =
     List.map_filter (\<lambda>node. if isNodeReady node then go_get (f (eStatus node)) name else None) nodes"

definition plusAll :: "int option \<Rightarrow> int list \<Rightarrow> int option" where
  "plusAll q vs = (if vs = [] then q else Some (quantity q + sum_list vs))"

lemma resourceLoop_get:
  assumes "\<forall>node\<in>set nodes. go_wf (Allocatable (eStatus node)) \<and> go_wf (Capacity (eStatus node))"
  shows "go_get (crAllocatable (resourceLoop nodes cr)) name =
      plusAll (go_get (crAllocatable cr) name) (readyQuantities Allocatable name nodes)"
    "go_get (crCapacity (resourceLoop nodes cr)) name =
      plusAll (go_get (crCapacity cr) name) (readyQuantities Capacity name nodes)"
  using assms
  by (induction nodes cr rule: resourceLoop.induct)
     (auto simp: plusAll_def readyQuantities_def List.map_filter_simps addQuantities_get quantity_def
       split: option.splits)

text \<open>The resources a cluster reports are the sums over its ready nodes. A resource is listed
  if and only if some schedulable node whose ready condition is true lists it, and its quantity
  is the sum of the quantities of those nodes; other nodes contribute nothing.\<close>

theorem cluster_resource_totals:
  assumes "\<forall>node\<in>set nodes. go_wf (Allocatable (eStatus node)) \<and> go_wf (Capacity (eStatus node))"
  shows "go_get (crAllocatable (caculateClusterResource nodes)) name =
      (let vs = readyQuantities Allocatable name nodes in if vs = [] then None else Some (sum_list vs)) \<and>
    go_get (crCapacity (caculateClusterResource nodes)) name =
      (let vs = readyQuantities Capacity name nodes in if vs = [] then None else Some (sum_list vs))"
  using resourceLoop_get [OF assms]
  by (simp add: caculateClusterResource_def plusAll_def quantity_def)

definition sample_node :: "string \<Rightarrow> bool \<Rightarrow> string \<Rightarrow> int \<Rightarrow> edgeNode" where
  "sample_node n unsched ready cpu =
     \<lparr>eTypeMeta = [], eMeta = sample_meta n ''1'', eSpec = \<lparr>Unschedulable = unsched, ndSpecRest = []\<rparr>,
      eStatus = \<lparr>Conditions = [\<lparr>condType = ''DiskPressure'', condStatus = ''False''\<rparr>,
          \<lparr>condType = ''Ready'', condStatus = ready\<rparr>], NodeInfo = [], Addresses = [],
        Capacity = [(''cpu'', cpu + 1), (''memory'', 100)], Allocatable = [(''cpu'', cpu)], ndStatusRest = []\<rparr>\<rparr>"

definition sample_nodes :: "edgeNode list" where
  "sample_nodes = [sample_node ''a'' False ''True'' 4, sample_node ''b'' True ''True'' 8,
     sample_node ''c'' False ''Unknown'' 16, sample_node ''d'' False ''True'' 2]"

theorem cluster_resource_totals_witness:
  "go_get (crAllocatable (caculateClusterResource sample_nodes)) ''cpu'' = Some 6 \<and>
   go_get (crCapacity (caculateClusterResource sample_nodes)) ''cpu'' = Some 8"
proof -
  have wf: "\<forall>node\<in>set sample_nodes. go_wf (Allocatable (eStatus node)) \<and> go_wf (Capacity (eStatus node))"
    by (simp add: sample_nodes_def sample_node_def go_wf_def go_keys_def)
  have "readyQuantities Allocatable ''cpu'' sample_nodes = [4, 2]"
    "readyQuantities Capacity ''cpu'' sample_nodes = [5, 3]" by code_simp+
  with cluster_resource_totals [OF wf, of "''cpu''"] show ?thesis by simp
qed

section \<open>Events\<close>

text \<open>The update handler of the event reporter compares the new object with itself: whatever is
  updated, nothing is reported.\<close>

lemma event_updates_dropped: "Event_UpdateFunc ctx (Typed old) (Typed new) = Some None"
  by (simp add: Event_UpdateFunc_def rep_update_def)

end
