(* ===== verification/Shim.thy ===== *)
theory Shim
  imports K8sClient Message
begin

text \<open>
  The shim of a cluster (\<^verbatim>\<open>pkg/clustershim\<close>): it executes the requests a cluster controller
  receives, through a handler for the local API server or one that forwards them over HTTP.
  The handlers are called directly by the local client, or by a shim server that a remote
  client talks to over a websocket.

  The API server and the HTTP client are functions on a state of the outside world \<open>'k\<close>; the
  clock, the encoders and the names of commands are fields of a record. Handlers that
  dereference the head of a message return \<open>None\<close> for the panic on a message without one.
\<close>

section \<open>Environment\<close>

record shimenv =
  shCodec :: codecs
  shNow :: int
  shCommandName :: "CommandType \<Rightarrow> string"

type_synonym 'k shimHandler =
  "ClusterMessage \<Rightarrow> 'k \<Rightarrow> ((ClusterMessage option \<times> string option) \<times> 'k) option"

text \<open>The conversion to \<^verbatim>\<open>int32\<close>.\<close>

definition int32 :: "int \<Rightarrow> int" where
  "int32 i = (i + 2 ^ 31) mod 2 ^ 32 - 2 ^ 31"

definition shim_Response :: "bytes \<Rightarrow> MessageHead \<Rightarrow> ClusterMessage" where
  "shim_Response body head = \<lparr>Head = Some head, Body = body\<rparr>"

definition ControlTaskResponse :: "shimenv \<Rightarrow> int \<Rightarrow> string \<Rightarrow> bytes" where
  "ControlTaskResponse env status body =
     (case pb_resp (shCodec env) \<lparr>RespTimestamp = shNow env, RespStatusCode = int32 status,
          RespBody = body\<rparr> of
        None \<Rightarrow> [] | Some resp \<Rightarrow> resp)"

definition GetControllerTaskFromClusterMessage ::
  "shimenv \<Rightarrow> ClusterMessage option \<Rightarrow> ControllerTask option" where
  "GetControllerTaskFromClusterMessage env m =
     (case m of None \<Rightarrow> None | Some msg \<Rightarrow> unpb_task (shCodec env) (Body msg))"

definition GetControlMultiTaskFromClusterMessage ::
  "shimenv \<Rightarrow> ClusterMessage option \<Rightarrow> ControlMultiTask option" where
  "GetControlMultiTaskFromClusterMessage env m =
     (case m of None \<Rightarrow> None | Some msg \<Rightarrow> unpb_multi (shCodec env) (Body msg))"

section \<open>The handler for the API server\<close>

text \<open>A request of the REST client: a verb or a JSON patch. The result has the status code, 0 if
  there was no answer, the body and whether it is an error.\<close>

datatype restVerb = Verb string | PatchJSON

record restResult =
  resCode :: int
  resRaw :: bytes
  resErr :: bool

type_synonym 'k restclient = "restVerb \<Rightarrow> string \<Rightarrow> bytes \<Rightarrow> 'k \<Rightarrow> restResult \<times> 'k"

definition restRequest :: "string \<Rightarrow> restVerb option" where
  "restRequest meth =
     (if meth \<in> {''GET'', ''POST'', ''DELETE'', ''PUT''} then Some (Verb meth)
      else if meth = ''PATCH'' then Some PatchJSON
      else None)"

definition k8s_DoControlRequest ::
  "shimenv \<Rightarrow> 'k restclient \<Rightarrow> ClusterMessage \<Rightarrow> 'k \<Rightarrow> (bytes \<times> string option) \<times> 'k" where
  "k8s_DoControlRequest env rest m k =
     (case GetControllerTaskFromClusterMessage env (Some m) of
        None \<Rightarrow> ((ControlTaskResponse env 404 [], Some ''Controllertask Not Found''), k)
      | Some controllerTask \<Rightarrow>
          (case restRequest (Method controllerTask) of
             None \<Rightarrow> ((ControlTaskResponse env 405 [], Some ''method not allowed''), k)
           | Some req \<Rightarrow>
               (case rest req (URI controllerTask) (TaskBody controllerTask) k of
                  (result, k') \<Rightarrow> ((ControlTaskResponse env (resCode result) (resRaw result), None), k'))))"

text \<open>The loop over the bodies of a request: what fails is only logged.\<close>

fun multiLoop :: "'k restclient \<Rightarrow> restVerb \<Rightarrow> string \<Rightarrow> bytes list \<Rightarrow> 'k \<Rightarrow> 'k" where
  "multiLoop rest req uri [] k = k"
| "multiLoop rest req uri (item # items) k =
     (case rest req uri item k of (result, k') \<Rightarrow> multiLoop rest req uri items k')"

definition k8s_DoControlMultiRequest ::
  "shimenv \<Rightarrow> 'k restclient \<Rightarrow> ClusterMessage \<Rightarrow> 'k \<Rightarrow> string option \<times> 'k" where
  "k8s_DoControlMultiRequest env rest m k =
     (case GetControlMultiTaskFromClusterMessage env (Some m) of
        None \<Rightarrow> (Some ''ControlMultiTask Not Found'', k)
      | Some controlMultiTask \<Rightarrow>
          (case restRequest (MultiMethod controlMultiTask) of
             None \<Rightarrow> (Some ''method not allowed'', k)
           | Some req \<Rightarrow>
               (None, multiLoop rest req (MultiURI controlMultiTask) (MultiBody controlMultiTask) k)))"

definition notSupported :: "shimenv \<Rightarrow> CommandType \<Rightarrow> string \<Rightarrow> string" where
  "notSupported env c who = ''command '' @ shCommandName env c @ '' is not supported by '' @ who"

definition k8s_Do :: "shimenv \<Rightarrow> 'k restclient \<Rightarrow> 'k shimHandler" where
  "k8s_Do env rest m k =
     (case Head m of
        None \<Rightarrow> None
      | Some head \<Rightarrow>
          (case Command head of
             ControlReq \<Rightarrow>
               (case k8s_DoControlRequest env rest m k of
                  ((resp, err), k') \<Rightarrow> Some ((Some (shim_Response resp head), err), k'))
           | ControlMultiReq \<Rightarrow>
               (case k8s_DoControlMultiRequest env rest m k of (err, k') \<Rightarrow> Some ((None, err), k'))
           | _ \<Rightarrow> Some ((None, Some (notSupported env (Command head) ''k8sHandler'')), k)))"

section \<open>The handler that forwards over HTTP\<close>

text \<open>\<open>newRequest\<close> is the error of building a request, \<open>clientDo\<close> sends it: an error, or a status
  and a body, which may fail to be read.\<close>

record 'k httpclient =
  newRequest :: "string \<Rightarrow> string \<Rightarrow> bytes \<Rightarrow> string option"
  clientDo :: "string \<Rightarrow> string \<Rightarrow> bytes \<Rightarrow> 'k \<Rightarrow> (string + int \<times> (string + bytes)) \<times> 'k"

definition prefixHTTP :: string where "prefixHTTP = ''http://''"
definition prefixHTTPS :: string where "prefixHTTPS = ''https://''"

text \<open>The address of a new handler.\<close>

definition NewHTTPProxyHandler :: "string \<Rightarrow> string" where
  "NewHTTPProxyHandler address =
     (if \<not> strings_HasPrefix address prefixHTTP \<and> \<not> strings_HasPrefix address prefixHTTPS
      then prefixHTTP @ address else address)"

definition proxy_DoControlRequest ::
  "shimenv \<Rightarrow> 'k httpclient \<Rightarrow> string \<Rightarrow> ClusterMessage \<Rightarrow> 'k \<Rightarrow> (bytes \<times> string option) \<times> 'k" where
  "proxy_DoControlRequest env client addr m k =
     (case GetControllerTaskFromClusterMessage env (Some m) of
        None \<Rightarrow> ((ControlTaskResponse env 404 [], Some ''Controllertask Not Found''), k)
      | Some controllerTask \<Rightarrow>
          let url = addr @ URI controllerTask; meth = Method controllerTask; buf = TaskBody controllerTask in
          if meth \<notin> {''GET'', ''POST'', ''DELETE'', ''PUT''}
          then ((ControlTaskResponse env 405 [], Some ''method not allowed''), k)
          else
            (case newRequest client meth url buf of
               Some err \<Rightarrow> ((ControlTaskResponse env 500 [], Some err), k)
             | None \<Rightarrow>
                 (case clientDo client meth url buf k of
                    (Inl err, k') \<Rightarrow> ((ControlTaskResponse env 500 [], Some err), k')
                  | (Inr (status, Inl err), k') \<Rightarrow> ((ControlTaskResponse env 500 [], Some err), k')
                  | (Inr (status, Inr body), k') \<Rightarrow> ((ControlTaskResponse env status body, None), k'))))"

definition proxy_Do :: "shimenv \<Rightarrow> 'k httpclient \<Rightarrow> string \<Rightarrow> 'k shimHandler" where
  "proxy_Do env client addr m k =
     (case Head m of
        None \<Rightarrow> None
      | Some head \<Rightarrow>
          (case Command head of
             ControlReq \<Rightarrow>
               (case proxy_DoControlRequest env client addr m k of
                  ((resp, err), k') \<Rightarrow> Some ((Some (shim_Response resp head), err), k'))
           | _ \<Rightarrow> Some ((None, Some (notSupported env (Command head) ''httpProxyHandler'')), k)))"

section \<open>The local client\<close>

type_synonym 'k ShimHandler = "(string, 'k shimHandler) gomap"

text \<open>The answer of a handler gets the command of a response; a response without a head is
  dereferenced.\<close>

definition asResponse ::
  "((ClusterMessage option \<times> string option) \<times> 'k) option \<Rightarrow>
   ((ClusterMessage option \<times> string option) \<times> 'k) option" where
  "asResponse r =
     (case r of
        None \<Rightarrow> None
      | Some ((None, err), k) \<Rightarrow> Some ((None, err), k)
      | Some ((Some resp, err), k) \<Rightarrow>
          (case Head resp of
             None \<Rightarrow> None
           | Some h \<Rightarrow> Some ((Some (resp\<lparr>Head := Some (h\<lparr>Command := ControlResp\<rparr>)\<rparr>), err), k)))"

definition local_DoControlRequest :: "shimenv \<Rightarrow> 'k ShimHandler \<Rightarrow> MessageHead \<Rightarrow> 'k shimHandler" where
  "local_DoControlRequest env handlers inHead m k =
     (let head = inHead\<lparr>Command := ControlResp\<rparr> in
      case GetControllerTaskFromClusterMessage env (Some m) of
        None \<Rightarrow> Some ((Some (shim_Response (ControlTaskResponse env 404 []) head),
          Some ''ControllerTask Not Found''), k)
      | Some controllerTask \<Rightarrow>
          (case go_get handlers (Destination controllerTask) of
             Some h \<Rightarrow> asResponse (h m k)
           | None \<Rightarrow> Some ((Some (shim_Response (ControlTaskResponse env 404 []) head),
               Some (''no handler for '' @ Destination controllerTask)), k)))"

definition local_DoControlMultiRequest ::
  "shimenv \<Rightarrow> 'k ShimHandler \<Rightarrow> ClusterMessage \<Rightarrow> 'k \<Rightarrow> (string option \<times> 'k) option" where
  "local_DoControlMultiRequest env handlers m k =
     (case GetControlMultiTaskFromClusterMessage env (Some m) of
        None \<Rightarrow> Some (Some ''ControlMultiTask Not Found'', k)
      | Some controlMultiTask \<Rightarrow>
          (case go_get handlers (MultiDestination controlMultiTask) of
             Some h \<Rightarrow> map_option (\<lambda>((_, err), k'). (err, k')) (h m k)
           | None \<Rightarrow> Some (Some (''no handler for '' @ MultiDestination controlMultiTask), k)))"

definition local_Do :: "shimenv \<Rightarrow> 'k ShimHandler \<Rightarrow> 'k shimHandler" where
  "local_Do env handlers m k =
     (case Head m of
        None \<Rightarrow> None
      | Some head \<Rightarrow>
          (case Command head of
             ControlReq \<Rightarrow> local_DoControlRequest env handlers head m k
           | ControlMultiReq \<Rightarrow>
               map_option (\<lambda>(err, k'). ((None, err), k')) (local_DoControlMultiRequest env handlers m k)
           | _ \<Rightarrow> Some ((None, Some (notSupported env (Command head) ''ShimClient'')), k)))"

text \<open>The handlers of a new local client; \<open>rest\<close> is \<open>None\<close> if there is no client for the API
  server.\<close>

definition NewlocalShimClient ::
  "shimenv \<Rightarrow> 'k restclient option \<Rightarrow> 'k httpclient \<Rightarrow> string \<Rightarrow> 'k ShimHandler option" where
  "NewlocalShimClient env rest client helmTillerAddr =
     (case rest of
        None \<Rightarrow> None
      | Some k8sClient \<Rightarrow>
          Some (go_put ClusterControllerDestHelm (proxy_Do env client (NewHTTPProxyHandler helmTillerAddr))
            (go_put ClusterControllerDestAPI (k8s_Do env k8sClient) [])))"

section \<open>The server\<close>

text \<open>Connections are numbered. The two channels are queues with their capacities.\<close>

record 'k ShimServer =
  ssHandlers :: "'k ShimHandler"
  ccclient :: "nat option"
  ssClusterName :: string
  sendChan :: "ClusterMessage list"
  isConnected :: "bool list"

definition sendChanBuffer :: nat where "sendChanBuffer = 128"
definition signalBuffer :: nat where "signalBuffer = 1"

definition NewShimServer :: "'k ShimServer" where
  "NewShimServer = \<lparr>ssHandlers = [], ccclient = None, ssClusterName = [], sendChan = [],
     isConnected = []\<rparr>"

definition RegisterHandler :: "string \<Rightarrow> 'k shimHandler \<Rightarrow> 'k ShimServer \<Rightarrow> 'k ShimServer" where
  "RegisterHandler name h s = s\<lparr>ssHandlers := go_put name h (ssHandlers s)\<rparr>"

definition server_DoControlRequest :: "shimenv \<Rightarrow> 'k ShimHandler \<Rightarrow> MessageHead \<Rightarrow> 'k shimHandler" where
  "server_DoControlRequest env handlers inHead m k =
     (let head = inHead\<lparr>Command := ControlResp\<rparr> in
      case GetControllerTaskFromClusterMessage env (Some m) of
        None \<Rightarrow> Some ((Some (shim_Response (ControlTaskResponse env 404 []) head),
          Some ''Controllertask Not Found''), k)
      | Some controllerTask \<Rightarrow>
          (case go_get handlers (Destination controllerTask) of
             Some h \<Rightarrow> asResponse (h m k)
           | None \<Rightarrow> Some ((Some (shim_Response (ControlTaskResponse env 404 []) head),
               Some ''Not Found''), k)))"

definition server_DoControlMultiRequest ::
  "shimenv \<Rightarrow> 'k ShimHandler \<Rightarrow> ClusterMessage \<Rightarrow> 'k \<Rightarrow> (string option \<times> 'k) option" where
  "server_DoControlMultiRequest env handlers m k =
     (case GetControlMultiTaskFromClusterMessage env (Some m) of
        None \<Rightarrow> Some (Some ''ControlMultiTask Not Found'', k)
      | Some controlMultiTask \<Rightarrow>
          (case go_get handlers (MultiDestination controlMultiTask) of
             Some h \<Rightarrow> map_option (\<lambda>((_, err), k'). (err, k')) (h m k)
           | None \<Rightarrow> Some (Some (''no handler for '' @ MultiDestination controlMultiTask), k)))"

definition server_Do :: "shimenv \<Rightarrow> 'k ShimHandler \<Rightarrow> 'k shimHandler" where
  "server_Do env handlers m k =
     (case Head m of
        None \<Rightarrow> None
      | Some head \<Rightarrow>
          (case Command head of
             ControlReq \<Rightarrow> server_DoControlRequest env handlers head m k
           | ControlMultiReq \<Rightarrow>
               map_option (\<lambda>(err, k'). ((None, err), k')) (server_DoControlMultiRequest env handlers m k)
           | _ \<Rightarrow> Some ((None, Some (notSupported env (Command head) ''ShimServer'')), k)))"

text \<open>One message of the cluster controller: what is written back, if anything.\<close>

definition handleReadMessage ::
  "shimenv \<Rightarrow> 'k ShimServer \<Rightarrow> bytes \<Rightarrow> 'k \<Rightarrow> (bytes option \<times> 'k) option" where
  "handleReadMessage env s msg k =
     (case unpb_msg (shCodec env) msg of
        None \<Rightarrow> Some (None, k)
      | Some m \<Rightarrow>
          (case server_Do env (ssHandlers s) m k of
             None \<Rightarrow> None
           | Some ((None, err), k') \<Rightarrow> Some (None, k')
           | Some ((Some resp, err), k') \<Rightarrow> Some (pb_msg (shCodec env) resp, k')))"

text \<open>One turn of the loop that empties the channel: the bytes written to the cluster controller,
  if any.\<close>

definition writeMessage :: "shimenv \<Rightarrow> 'k ShimServer \<Rightarrow> (nat \<times> bytes) option \<times> 'k ShimServer" where
  "writeMessage env s =
     (case sendChan s of
        [] \<Rightarrow> (None, s)
      | msg # rest \<Rightarrow>
          let s1 = s\<lparr>sendChan := rest\<rparr> in
          (case pb_msg (shCodec env) msg of
             None \<Rightarrow> (None, s1)
           | Some sendMsg \<Rightarrow>
               (case ccclient s1 of None \<Rightarrow> (None, s1) | Some c \<Rightarrow> (Some (c, sendMsg), s1))))"

section \<open>Connections of the server\<close>

text \<open>The request of a cluster controller: the check, then the upgrade and the new client. The
  first result is the status of a refusal.\<close>

definition do_check :: "string \<Rightarrow> 'k ShimServer \<Rightarrow> int option \<times> 'k ShimServer" where
  "do_check name s =
     (if ccclient s \<noteq> None then (Some 400, s) else (None, s\<lparr>ssClusterName := name\<rparr>))"

definition do_upgrade :: "bool \<Rightarrow> nat \<Rightarrow> 'k ShimServer \<Rightarrow> int option \<times> 'k ShimServer" where
  "do_upgrade upgradeOk conn s =
     (if \<not> upgradeOk then (Some 500, s) else (None, s\<lparr>ccclient := Some conn\<rparr>))"

text \<open>The goroutine of a connection: it announces the connection, reads until an error, announces
  the end, and clears the client. It waits while the channel is full, and panics when it
  dereferences a nil client.\<close>

datatype 'a outcome = Panic | Blocked | Next 'a

datatype goroutine = Announcing | Reading | Leaving | Clearing

definition signal :: "bool \<Rightarrow> 'k ShimServer \<Rightarrow> 'k ShimServer outcome" where
  "signal b s =
     (if length (isConnected s) < signalBuffer then Next (s\<lparr>isConnected := isConnected s @ [b]\<rparr>)
      else Blocked)"

text \<open>\<open>None\<close> in the result means that the goroutine has ended.\<close>

definition connected_step ::
  "bool \<Rightarrow> goroutine \<Rightarrow> 'k ShimServer \<Rightarrow> (goroutine option \<times> 'k ShimServer) outcome" where
  "connected_step readFails g s =
     (case g of
        Announcing \<Rightarrow>
          (case signal True s of Next s' \<Rightarrow> Next (Some Reading, s') | Blocked \<Rightarrow> Blocked | Panic \<Rightarrow> Panic)
      | Reading \<Rightarrow>
          (case ccclient s of
             None \<Rightarrow> Panic
           | Some _ \<Rightarrow> Next (Some (if readFails then Leaving else Reading), s))
      | Leaving \<Rightarrow>
          (case signal False s of Next s' \<Rightarrow> Next (Some Clearing, s') | Blocked \<Rightarrow> Blocked | Panic \<Rightarrow> Panic)
      | Clearing \<Rightarrow>
          (case ccclient s of None \<Rightarrow> Panic | Some _ \<Rightarrow> Next (None, s\<lparr>ccclient := None\<rparr>)))"

section \<open>The remote client\<close>

record remoteShimClient =
  shimAddr :: string
  shimClientName :: string
  rsClient :: "nat option"
  respChan :: "ClusterMessage list"

definition shimRespChanLen :: nat where "shimRespChanLen = 10000"
definition shimConnectedRetryTime :: nat where "shimConnectedRetryTime = 60"

text \<open>The bytes a new goroutine writes to the server, or the error.\<close>

definition remote_Do :: "shimenv \<Rightarrow> ClusterMessage \<Rightarrow> string + bytes" where
  "remote_Do env m =
     (case pb_msg (shCodec env) m of
        None \<Rightarrow> Inl ''marshal shim request failed''
      | Some reqMsg \<Rightarrow> Inr reqMsg)"

text \<open>One message from the server; the channel blocks while it is full.\<close>

definition handleReceiveMessage ::
  "shimenv \<Rightarrow> bytes \<Rightarrow> remoteShimClient \<Rightarrow> remoteShimClient outcome" where
  "handleReceiveMessage env msg c =
     (case unpb_msg (shCodec env) msg of
        None \<Rightarrow> Next c
      | Some resp \<Rightarrow>
          if length (respChan c) < shimRespChanLen then Next (c\<lparr>respChan := respChan c @ [resp]\<rparr>)
          else Blocked)"

text \<open>\<open>dial i\<close> is the outcome of the \<open>i\<close>-th attempt to connect.\<close>

definition remote_connect :: "nat option \<Rightarrow> remoteShimClient \<Rightarrow> bool \<times> remoteShimClient" where
  "remote_connect dialled c =
     (case dialled of None \<Rightarrow> (False, c) | Some conn \<Rightarrow> (True, c\<lparr>rsClient := Some conn\<rparr>))"

fun connectLoop :: "(nat \<Rightarrow> nat option) \<Rightarrow> nat \<Rightarrow> nat \<Rightarrow> remoteShimClient \<Rightarrow> bool \<times> remoteShimClient" where
  "connectLoop dial i 0 c = (False, c)"
| "connectLoop dial i (Suc n) c =
     (case remote_connect (dial i) c of
        (True, c') \<Rightarrow> (True, c')
      | (False, c') \<Rightarrow> connectLoop dial (Suc i) n c')"

definition NewRemoteShimClient ::
  "(nat \<Rightarrow> nat option) \<Rightarrow> string \<Rightarrow> string \<Rightarrow> remoteShimClient option" where
  "NewRemoteShimClient dial name addr =
     (case connectLoop dial 0 shimConnectedRetryTime
          \<lparr>shimAddr = addr, shimClientName = name, rsClient = None, respChan = []\<rparr> of
        (True, c) \<Rightarrow> Some c
      | (False, c) \<Rightarrow> None)"

text \<open>Reconnecting tries without an end; \<open>None\<close> means that it does not return.\<close>

partial_function (option) remote_reconnect ::
  "(nat \<Rightarrow> nat option) \<Rightarrow> nat \<Rightarrow> remoteShimClient \<Rightarrow> remoteShimClient option" where
  "remote_reconnect dial i c =
     (case remote_connect (dial i) c of
        (ok, c') \<Rightarrow> if ok then Some c' else remote_reconnect dial (Suc i) c')"

end
