(* ===== verification/ShimProps.thy ===== *)
theory ShimProps
  imports Shim SampleEnv Network
begin

text \<open>
  Properties of the shim: what a request does and how it is answered, that the two clients
  answer alike, and how the server treats the connections of cluster controllers.
\<close>

section \<open>Requests\<close>

lemma local_handlers:
  assumes "NewlocalShimClient env (Some rest) client helm = Some handlers"
  shows "go_get handlers d =
    (if d = ClusterControllerDestHelm then Some (proxy_Do env client (NewHTTPProxyHandler helm))
     else if d = ClusterControllerDestAPI then Some (k8s_Do env rest) else None)"
  using assms by (auto simp: NewlocalShimClient_def)

lemma destinations_differ [simp]:
  "ClusterControllerDestAPI \<noteq> ClusterControllerDestHelm" "ClusterControllerDestHelm \<noteq> ClusterControllerDestAPI"
  by (simp_all add: ClusterControllerDestAPI_def ClusterControllerDestHelm_def)

text \<open>How the local shim answers a control request. There is always one response, with the
  head of the request turned into that of a response. A request that does not decode or names
  an unknown destination is answered 404 and one with an unsupported method 405, without
  touching the API server; a request for the API server is made once, with the method, address
  and body of the task, and its status and answer are returned; a request for Helm is answered
  by the proxy.\<close>

theorem control_request_answered:
  assumes "NewlocalShimClient env (Some rest) client helm = Some handlers"
    and "Head m = Some h" "Command h = ControlReq"
  shows "\<exists>resp err k'. local_Do env handlers m k =
      Some ((Some \<lparr>Head = Some (h\<lparr>Command := ControlResp\<rparr>), Body = resp\<rparr>, err), k') \<and>
    (case unpb_task (shCodec env) (Body m) of
       None \<Rightarrow> resp = ControlTaskResponse env 404 [] \<and> err \<noteq> None \<and> k' = k
     | Some t \<Rightarrow>
         if Destination t = ClusterControllerDestHelm
         then proxy_DoControlRequest env client (NewHTTPProxyHandler helm) m k = ((resp, err), k')
         else if Destination t \<noteq> ClusterControllerDestAPI
         then resp = ControlTaskResponse env 404 [] \<and> err \<noteq> None \<and> k' = k
         else (case restRequest (Method t) of
                 None \<Rightarrow> resp = ControlTaskResponse env 405 [] \<and> err \<noteq> None \<and> k' = k
               | Some v \<Rightarrow> \<exists>result. rest v (URI t) (TaskBody t) k = (result, k') \<and>
                   resp = ControlTaskResponse env (resCode result) (resRaw result) \<and> err = None))"
  using assms(2,3)
  by (auto simp: local_Do_def local_DoControlRequest_def GetControllerTaskFromClusterMessage_def
      local_handlers [OF assms(1)] shim_Response_def asResponse_def proxy_Do_def k8s_Do_def
      k8s_DoControlRequest_def Let_def split: option.splits prod.splits)

text \<open>A world that counts: the API server answers with its counter, the HTTP client fails.\<close>

definition sample_shimenv :: shimenv where
  "sample_shimenv = \<lparr>shCodec = sample_codecs, shNow = 7, shCommandName = cmd_str\<rparr>"

definition sample_rest :: "int restclient" where
  "sample_rest v uri body k = (\<lparr>resCode = 201, resRaw = uri @ body, resErr = False\<rparr>, k + 1)"

definition sample_http :: "int httpclient" where
  "sample_http = \<lparr>newRequest = (\<lambda>meth url b. None), clientDo = (\<lambda>meth url b k. (Inl url, k))\<rparr>"

definition sample_handlers :: "int ShimHandler" where
  "sample_handlers = [(ClusterControllerDestAPI, k8s_Do sample_shimenv sample_rest),
     (ClusterControllerDestHelm, proxy_Do sample_shimenv sample_http ''http://tiller:44134'')]"

definition sample_task :: "string \<Rightarrow> string \<Rightarrow> ClusterMessage" where
  "sample_task dest meth = \<lparr>Head = Some (emptyHead\<lparr>MessageID := ''7'', Command := ControlReq\<rparr>),
     Body = the (enc_task \<lparr>Destination = dest, Method = meth, URI = ''/api/v1/pods'', TaskBody = ''p''\<rparr>)\<rparr>"

lemma sample_local:
  "NewlocalShimClient sample_shimenv (Some sample_rest) sample_http ''tiller:44134'' = Some sample_handlers"
proof -
  have "NewHTTPProxyHandler ''tiller:44134'' = ''http://tiller:44134''" by code_simp
  then show ?thesis
    by (simp add: NewlocalShimClient_def sample_handlers_def go_put_def)
qed

theorem control_request_answered_witness:
  "local_Do sample_shimenv sample_handlers (sample_task ''api'' ''PATCH'') 3 =
     Some ((Some \<lparr>Head = Some (emptyHead\<lparr>MessageID := ''7'', Command := ControlResp\<rparr>),
       Body = ControlTaskResponse sample_shimenv 201 ''/api/v1/podsp''\<rparr>, None), 4)"
proof -
  let ?m = "sample_task ''api'' ''PATCH''" and ?h = "emptyHead\<lparr>MessageID := ''7'', Command := ControlReq\<rparr>"
  have h: "Head ?m = Some ?h" "Command ?h = ControlReq" by (simp_all add: sample_task_def)
  have t: "unpb_task (shCodec sample_shimenv) (Body ?m) = Some \<lparr>Destination = ''api'', Method = ''PATCH'',
      URI = ''/api/v1/pods'', TaskBody = ''p''\<rparr>"
    by (simp add: sample_shimenv_def sample_codecs_def sample_task_def enc_task_def dec_task_def)
  show ?thesis
    using control_request_answered [OF sample_local h, of 3]
    by (auto simp: t ClusterControllerDestHelm_def ClusterControllerDestAPI_def restRequest_def sample_rest_def)
qed

text \<open>The server and the local client differ in the texts of their errors only.\<close>

lemma server_like_local:
  "map_option (\<lambda>((resp, err), k'). (resp, k')) (server_Do env handlers m k) =
   map_option (\<lambda>((resp, err), k'). (resp, k')) (local_Do env handlers m k)"
proof (cases "Head m")
  case (Some h)
  have multi: "server_DoControlMultiRequest env handlers m k = local_DoControlMultiRequest env handlers m k"
    by (simp add: server_DoControlMultiRequest_def local_DoControlMultiRequest_def)
  have req: "map_option (\<lambda>((resp, err), k'). (resp, k')) (server_DoControlRequest env handlers h m k) =
      map_option (\<lambda>((resp, err), k'). (resp, k')) (local_DoControlRequest env handlers h m k)"
    by (simp add: server_DoControlRequest_def local_DoControlRequest_def Let_def split: option.splits)
  show ?thesis
    using Some req by (cases "Command h") (simp_all add: server_Do_def local_Do_def multi)
qed (simp add: server_Do_def local_Do_def)

text \<open>C28: the remote shim answers like the local one. A request that the remote client sends to a
  shim server with the same handlers has the same effect on the outside world, and the message
  that reaches the response channel of the client is the one the local client returns, or none
  if it returns none. If the local client panics, so does the server.\<close>

theorem remote_shim_like_local:
  assumes "roundtrip (pb_msg (shCodec env)) (unpb_msg (shCodec env))"
    and "remote_Do env m = Inr req" "\<And>r. pb_msg (shCodec env) r \<noteq> None"
    and "length (respChan c) < shimRespChanLen"
  shows "case local_Do env (ssHandlers s) m k of
      None \<Rightarrow> handleReadMessage env s req k = None
    | Some ((None, err), k') \<Rightarrow> handleReadMessage env s req k = Some (None, k')
    | Some ((Some resp, err), k') \<Rightarrow> \<exists>b. handleReadMessage env s req k = Some (Some b, k') \<and>
        handleReceiveMessage env b c = Next (c\<lparr>respChan := respChan c @ [resp]\<rparr>)"
proof -
  from assms(1,2) have req: "unpb_msg (shCodec env) req = Some m"
    by (auto simp: remote_Do_def roundtrip_def split: option.splits)
  have enc: "\<exists>b. pb_msg (shCodec env) r = Some b \<and> unpb_msg (shCodec env) b = Some r" for r
    using assms(1) assms(3) [of r] unfolding roundtrip_def by fastforce
  show ?thesis
  proof (cases "local_Do env (ssHandlers s) m k")
    case None
    with server_like_local [of env "ssHandlers s" m k] have "server_Do env (ssHandlers s) m k = None" by simp
    with None req show ?thesis by (simp add: handleReadMessage_def)
  next
    case (Some r)
    obtain resp err k' where r: "r = ((resp, err), k')" by (metis prod.exhaust)
    with Some server_like_local [of env "ssHandlers s" m k]
    obtain err' where srv: "server_Do env (ssHandlers s) m k = Some ((resp, err'), k')" by auto
    show ?thesis
    proof (cases resp)
      case None
      with Some r srv req show ?thesis by (simp add: handleReadMessage_def)
    next
      case (Some a)
      with enc [of a] \<open>local_Do env (ssHandlers s) m k = Some r\<close> r srv req assms(4) show ?thesis
        by (auto simp: handleReadMessage_def handleReceiveMessage_def)
    qed
  qed
qed

theorem remote_shim_like_local_witness:
  "\<exists>b. handleReadMessage sample_shimenv (NewShimServer\<lparr>ssHandlers := sample_handlers\<rparr>)
      (the (enc_msg (sample_task ''api'' ''PATCH''))) 3 = Some (Some b, 4) \<and>
    handleReceiveMessage sample_shimenv b
      \<lparr>shimAddr = ''a'', shimClientName = ''c'', rsClient = Some 0, respChan = []\<rparr> =
    Next \<lparr>shimAddr = ''a'', shimClientName = ''c'', rsClient = Some 0,
      respChan = [\<lparr>Head = Some (emptyHead\<lparr>MessageID := ''7'', Command := ControlResp\<rparr>),
        Body = ControlTaskResponse sample_shimenv 201 ''/api/v1/podsp''\<rparr>]\<rparr>"
proof -
  let ?m = "sample_task ''api'' ''PATCH''" and ?s = "NewShimServer\<lparr>ssHandlers := sample_handlers\<rparr>"
  let ?c = "\<lparr>shimAddr = ''a'', shimClientName = ''c'', rsClient = Some 0, respChan = []\<rparr>"
  have cd: "roundtrip (pb_msg (shCodec sample_shimenv)) (unpb_msg (shCodec sample_shimenv))"
    "remote_Do sample_shimenv ?m = Inr (the (enc_msg ?m))" "pb_msg (shCodec sample_shimenv) r \<noteq> None" for r
    by (simp_all add: sample_shimenv_def sample_codecs_def remote_Do_def enc_msg_def)
  have len: "length (respChan ?c) < shimRespChanLen" by (simp add: shimRespChanLen_def)
  have loc: "local_Do sample_shimenv (ssHandlers ?s) ?m 3 =
     Some ((Some \<lparr>Head = Some (emptyHead\<lparr>MessageID := ''7'', Command := ControlResp\<rparr>),
       Body = ControlTaskResponse sample_shimenv 201 ''/api/v1/podsp''\<rparr>, None), 4)"
    by (simp add: local_Do_def local_DoControlRequest_def GetControllerTaskFromClusterMessage_def
        sample_task_def sample_shimenv_def sample_codecs_def enc_task_def dec_task_def sample_handlers_def
        ClusterControllerDestAPI_def asResponse_def k8s_Do_def k8s_DoControlRequest_def restRequest_def
        sample_rest_def shim_Response_def)
  from remote_shim_like_local [OF cd(1,2,3) len, of ?s 3] loc show ?thesis by simp
qed

text \<open>The local client is a shim as the relaying of requests needs it: a response always has a
  head.\<close>

lemma local_shim_ok:
  "shim_ok (\<lambda>m. case local_Do env handlers m k of None \<Rightarrow> (None, None) | Some (r, k') \<Rightarrow> r)"
proof -
  have req: "Head a \<noteq> None"
    if "local_DoControlRequest env handlers h m k = Some ((Some a, err), k')" for h m a err k'
    using that by (auto simp: local_DoControlRequest_def asResponse_def shim_Response_def Let_def
        split: option.splits)
  have "Head a \<noteq> None" if "local_Do env handlers m k = Some ((Some a, err), k')" for m a err k'
    using that by (auto simp: local_Do_def split: option.splits CommandType.splits dest: req)
  then show ?thesis by (auto simp: shim_ok_def split: option.splits)
qed

section \<open>Connections\<close>

text \<open>The server with the number of requests that have passed the check but have no client yet,
  its goroutines, and the signals that have been taken from its channel.\<close>

record 'k shimSys =
  sysServer :: "'k ShimServer"
  sysChecked :: nat
  sysGoroutines :: "goroutine list"
  sysLog :: "bool list"

text \<open>\<open>Request\<close> is a request that is handled without interruption, \<open>Check\<close> and \<open>Upgrade\<close> are its
  halves; \<open>Turn i\<close> lets a goroutine go on.\<close>

datatype shimEvent = Request string bool nat | Check string | Upgrade bool nat | Turn nat bool | Drain

definition finish_do :: "bool \<Rightarrow> nat \<Rightarrow> 'k shimSys \<Rightarrow> 'k shimSys" where
  "finish_do ok conn x =
     (case do_upgrade ok conn (sysServer x) of
        (Some _, s) \<Rightarrow> x\<lparr>sysServer := s\<rparr>
      | (None, s) \<Rightarrow> x\<lparr>sysServer := s, sysGoroutines := sysGoroutines x @ [Announcing]\<rparr>)"

fun shim_step :: "shimEvent \<Rightarrow> 'k shimSys \<Rightarrow> 'k shimSys outcome" where
  "shim_step (Request name ok conn) x =
     (case do_check name (sysServer x) of
        (Some _, s) \<Rightarrow> Next (x\<lparr>sysServer := s\<rparr>)
      | (None, s) \<Rightarrow> Next (finish_do ok conn (x\<lparr>sysServer := s\<rparr>)))"
| "shim_step (Check name) x =
     (case do_check name (sysServer x) of
        (Some _, s) \<Rightarrow> Next (x\<lparr>sysServer := s\<rparr>)
      | (None, s) \<Rightarrow> Next (x\<lparr>sysServer := s, sysChecked := Suc (sysChecked x)\<rparr>))"
| "shim_step (Upgrade ok conn) x =
     (case sysChecked x of
        0 \<Rightarrow> Blocked
      | Suc n \<Rightarrow> Next (finish_do ok conn (x\<lparr>sysChecked := n\<rparr>)))"
| "shim_step (Turn i fails) x =
     (let gs = sysGoroutines x in
      if i < length gs
      then (case connected_step fails (gs ! i) (sysServer x) of
              Panic \<Rightarrow> Panic
            | Blocked \<Rightarrow> Blocked
            | Next (Some g, s) \<Rightarrow> Next (x\<lparr>sysServer := s, sysGoroutines := gs[i := g]\<rparr>)
            | Next (None, s) \<Rightarrow> Next (x\<lparr>sysServer := s, sysGoroutines := take i gs @ drop (Suc i) gs\<rparr>))
      else Blocked)"
| "shim_step Drain x =
     (case isConnected (sysServer x) of
        [] \<Rightarrow> Blocked
      | b # bs \<Rightarrow> Next (x\<lparr>sysServer := (sysServer x)\<lparr>isConnected := bs\<rparr>, sysLog := sysLog x @ [b]\<rparr>))"

fun shim_run :: "shimEvent list \<Rightarrow> 'k shimSys \<Rightarrow> 'k shimSys outcome" where
  "shim_run [] x = Next x"
| "shim_run (e # es) x =
     (case shim_step e x of Panic \<Rightarrow> Panic | Blocked \<Rightarrow> shim_run es x | Next y \<Rightarrow> shim_run es y)"

definition serial :: "shimEvent \<Rightarrow> bool" where
  "serial e = (case e of Check _ \<Rightarrow> False | Upgrade _ _ \<Rightarrow> False | _ \<Rightarrow> True)"

definition signals :: "'k shimSys \<Rightarrow> bool list" where
  "signals x = sysLog x @ isConnected (sysServer x)"

definition shim_inv :: "'k shimSys \<Rightarrow> bool" where
  "shim_inv x \<longleftrightarrow> sysChecked x = 0 \<and> length (isConnected (sysServer x)) \<le> signalBuffer \<and>
     alternate (signals x) \<and>
     (case sysGoroutines x of
        [] \<Rightarrow> ccclient (sysServer x) = None \<and> even (length (signals x))
      | [g] \<Rightarrow> ccclient (sysServer x) \<noteq> None \<and> (even (length (signals x)) \<longleftrightarrow> g \<in> {Announcing, Clearing})
      | _ \<Rightarrow> False)"

definition shim_start :: "'k ShimHandler \<Rightarrow> 'k shimSys" where
  "shim_start hs = \<lparr>sysServer = NewShimServer\<lparr>ssHandlers := hs\<rparr>, sysChecked = 0, sysGoroutines = [],
     sysLog = []\<rparr>"

lemma shim_invE:
  assumes "shim_inv x"
  obtains "sysGoroutines x = []" "ccclient (sysServer x) = None" "even (length (signals x))"
  | g where "sysGoroutines x = [g]" "ccclient (sysServer x) \<noteq> None"
    "even (length (signals x)) \<longleftrightarrow> g \<in> {Announcing, Clearing}"
  using assms by (auto simp: shim_inv_def split: list.splits)

lemma shim_inv_request:
  assumes "shim_inv x"
  shows "\<exists>y. shim_step (Request name ok conn) x = Next y \<and> shim_inv y"
  using assms
  by (auto simp: do_check_def finish_do_def do_upgrade_def shim_inv_def signals_def split: list.splits)

lemma shim_inv_drain:
  assumes "shim_inv x"
  shows "case shim_step Drain x of Panic \<Rightarrow> False | Blocked \<Rightarrow> True | Next y \<Rightarrow> shim_inv y"
  using assms by (cases "isConnected (sysServer x)") (auto simp: shim_inv_def signals_def split: list.splits)

lemma signal_cases:
  "signal b s = Blocked \<or> signal b s = Next (s\<lparr>isConnected := isConnected s @ [b]\<rparr>) \<and>
     length (isConnected s) < signalBuffer"
  by (simp add: signal_def)

lemma shim_inv_turn:
  assumes inv: "shim_inv x"
  shows "case shim_step (Turn i fails) x of Panic \<Rightarrow> False | Blocked \<Rightarrow> True | Next y \<Rightarrow> shim_inv y"
proof (cases "i < length (sysGoroutines x)")
  case True
  with inv obtain g where g: "sysGoroutines x = [g]" "i = 0" "ccclient (sysServer x) \<noteq> None"
    by (auto elim: shim_invE)
  show ?thesis
  proof (cases g)
    case Announcing
    with inv g signal_cases [of True "sysServer x"] show ?thesis
      by (auto simp: connected_step_def shim_inv_def signals_def alternate_snoc simp flip: append_assoc)
  next
    case Reading
    with inv g show ?thesis by (auto simp: connected_step_def shim_inv_def signals_def)
  next
    case Leaving
    with inv g signal_cases [of False "sysServer x"] show ?thesis
      by (auto simp: connected_step_def shim_inv_def signals_def alternate_snoc simp flip: append_assoc)
  next
    case Clearing
    with inv g show ?thesis by (auto simp: connected_step_def shim_inv_def signals_def)
  qed
qed simp

lemma shim_inv_run:
  "shim_inv x \<Longrightarrow> list_all serial es \<Longrightarrow> \<exists>y. shim_run es x = Next y \<and> shim_inv y"
proof (induction es arbitrary: x)
  case (Cons e es)
  have step: "case shim_step e x of Panic \<Rightarrow> False | Blocked \<Rightarrow> True | Next y \<Rightarrow> shim_inv y"
  proof (cases e)
    case (Request name ok conn)
    from shim_inv_request [OF Cons.prems(1), of name ok conn] obtain y where
      "shim_step (Request name ok conn) x = Next y" "shim_inv y" by blast
    with Request show ?thesis by simp
  next
    case (Turn i fails)
    with shim_inv_turn [OF Cons.prems(1)] show ?thesis by blast
  next
    case Drain
    with shim_inv_drain [OF Cons.prems(1)] show ?thesis by blast
  qed (use Cons.prems(2) in \<open>simp_all add: serial_def\<close>)
  from Cons.prems have es: "list_all serial es" by simp
  show ?case
  proof (cases "shim_step e x")
    case (Next y)
    with step have "shim_inv y" by simp
    from Cons.IH [OF this es] Next show ?thesis by simp
  qed (use step Cons.IH [OF Cons.prems(1) es] in simp_all)
qed simp


definition sample_shim_events :: "shimEvent list" where
  "sample_shim_events = [Request ''c1'' True 0, Turn 0 False, Request ''c2'' True 1, Drain, Turn 0 False,
     Turn 0 True, Turn 0 False, Turn 0 False, Drain, Request ''c2'' True 2, Turn 0 False]"


text \<open>Two cluster controllers that connect at the same time crash the server. The check for an
  existing client and the assignment of the new one are not atomic: when both requests pass the
  check, two goroutines read from the same client, and after the connection is lost the second
  one dereferences the client that the first one has cleared.\<close>

theorem racing_controllers_panic:
  "shim_run [Check a, Check b, Upgrade True 0, Upgrade True 1, Turn 0 False, Drain, Turn 1 False, Drain,
     Turn 0 True, Turn 0 False, Turn 0 False, Turn 0 False] (shim_start hs) = Panic"
  by (simp add: shim_start_def NewShimServer_def do_check_def finish_do_def do_upgrade_def
      connected_step_def signal_def signalBuffer_def)

end
