(* ===== verification/Certificate.thy ===== *)
theory Certificate
  imports Storage
begin

text \<open>
  The certificates the edge hub hands to the agent of a node (\<^verbatim>\<open>pkg/server/certificate\<close>): the
  tokens that authenticate it, and the handlers that fetch certificates from the center while
  it can be reached and serve the stored copies otherwise. The network, URLs and the digest of
  certificates are arguments. A handler that dereferences a missing certificate context returns
  \<open>None\<close> for the panic.
\<close>

section \<open>The libraries\<close>

record url =
  uScheme :: string
  uPath :: string
  uRest :: string

datatype certClient = DefaultClient | InsecureClient | CAClient bytes

text \<open>\<open>ceNewRequest\<close> is the error of building a request; \<open>ceDo\<close> sends it with the credentials and
  headers it has: an error, or the status code, its text and the body, which may not be
  readable.\<close>

record certenv =
  ceUrlParse :: "string \<Rightarrow> url option"
  ceUrlString :: "url \<Rightarrow> string"
  ceHash :: "bytes \<Rightarrow> string"
  ceNewRequest :: "string \<Rightarrow> string option"
  ceDo :: "certClient \<Rightarrow> string \<Rightarrow> (string \<times> string) option \<Rightarrow> (string \<times> string) list \<Rightarrow>
    string + int \<times> string \<times> (string + bytes)"

section \<open>Tokens\<close>

record clientToken =
  caHash :: string
  tkUsername :: string
  tkPassword :: string

record Info =
  infoURL :: string
  CACerts :: bytes
  infoUsername :: string
  infoPassword :: string
  infoToken :: string

definition hashCA :: "certenv \<Rightarrow> bytes \<Rightarrow> string" where
  "hashCA env cacerts = ceHash env cacerts"

definition ToToken :: "certenv \<Rightarrow> Info \<Rightarrow> string" where
  "ToToken env i = ''K10'' @ hashCA env (CACerts i) @ ''::'' @ infoUsername i @ '':'' @ infoPassword i"

definition parseToken :: "string \<Rightarrow> string + clientToken" where
  "parseToken token =
     (if \<not> strings_HasPrefix token ''K10'' then Inl ''token is not a valid token format''
      else
        let parts = strings_SplitN2 (drop 3 token) ''::'';
            hash = (if 1 < length parts then parts ! 0 else []);
            rest = (if 1 < length parts then parts ! 1 else parts ! 0);
            creds = strings_SplitN2 rest '':''
        in if length creds \<noteq> 2 then Inl ''token credentials are the wrong format''
           else Inr \<lparr>caHash = hash, tkUsername = creds ! 0, tkPassword = creds ! 1\<rparr>)"

definition ParseUsernamePassword :: "string \<Rightarrow> string \<times> string \<times> bool" where
  "ParseUsernamePassword token =
     (case parseToken token of
        Inl _ \<Rightarrow> ([], [], False)
      | Inr parsed \<Rightarrow> (tkUsername parsed, tkPassword parsed, True))"

section \<open>Requests\<close>

definition GetHTTPClient :: "bytes \<Rightarrow> certClient" where
  "GetHTTPClient cacerts = (if cacerts = [] then DefaultClient else CAClient cacerts)"

definition basicAuth :: "string \<Rightarrow> string \<Rightarrow> (string \<times> string) option" where
  "basicAuth username password = (if username \<noteq> [] then Some (username, password) else None)"

definition cert_get :: "certenv \<Rightarrow> string \<Rightarrow> certClient \<Rightarrow> string \<Rightarrow> string \<Rightarrow> string + bytes" where
  "cert_get env u client username password =
     (case ceNewRequest env u of
        Some err \<Rightarrow> Inl err
      | None \<Rightarrow>
          (case ceDo env client u (basicAuth username password) [] of
             Inl err \<Rightarrow> Inl err
           | Inr (code, status, body) \<Rightarrow> if code \<noteq> 200 then Inl (u @ '': '' @ status) else body))"

definition GetCACerts :: "certenv \<Rightarrow> url \<Rightarrow> string + bytes" where
  "GetCACerts env u =
     (let address = ceUrlString env (u\<lparr>uPath := ''/cacerts''\<rparr>) in
      case cert_get env address DefaultClient [] [] of
        Inr _ \<Rightarrow> Inr []
      | Inl _ \<Rightarrow>
          (case cert_get env address InsecureClient [] [] of
             Inl err \<Rightarrow> Inl err
           | Inr cacerts \<Rightarrow>
               (case cert_get env address (GetHTTPClient cacerts) [] [] of
                  Inl err \<Rightarrow> Inl err
                | Inr _ \<Rightarrow> Inr cacerts)))"

definition validateCACerts :: "certenv \<Rightarrow> bytes \<Rightarrow> string \<Rightarrow> bool" where
  "validateCACerts env cacerts hash =
     (if cacerts = [] \<and> hash = [] then True else hash = hashCA env cacerts)"

definition validateToken :: "certenv \<Rightarrow> url \<Rightarrow> bytes \<Rightarrow> string \<Rightarrow> string \<Rightarrow> string option" where
  "validateToken env u cacerts username password =
     (case cert_get env (ceUrlString env (u\<lparr>uPath := ''/apis''\<rparr>)) (GetHTTPClient cacerts) username password of
        Inl err \<Rightarrow> Some err | Inr _ \<Rightarrow> None)"

text \<open>Trailing slashes of the path are removed.\<close>

definition trimSlashes :: "string \<Rightarrow> string" where
  "trimSlashes p = rev (dropWhile (\<lambda>c. c = CHR ''/'') (rev p))"

definition ParseAndValidateToken :: "certenv \<Rightarrow> string \<Rightarrow> string \<Rightarrow> string + Info" where
  "ParseAndValidateToken env server token =
     (case ceUrlParse env server of
        None \<Rightarrow> Inl ''Invalid url''
      | Some u0 \<Rightarrow>
          if uScheme u0 \<noteq> ''https'' then Inl ''only https:// URLs are supported''
          else
            let u = u0\<lparr>uPath := trimSlashes (uPath u0)\<rparr> in
            (case parseToken token of
               Inl err \<Rightarrow> Inl err
             | Inr parsed \<Rightarrow>
                 (case GetCACerts env u of
                    Inl err \<Rightarrow> Inl err
                  | Inr cacerts \<Rightarrow>
                      if cacerts \<noteq> [] \<and> caHash parsed \<noteq> [] \<and> \<not> validateCACerts env cacerts (caHash parsed)
                      then Inl ''token does not match the server''
                      else (case validateToken env u cacerts (tkUsername parsed) (tkPassword parsed) of
                              Some err \<Rightarrow> Inl err
                            | None \<Rightarrow>
                                let i = \<lparr>infoURL = ceUrlString env u, CACerts = cacerts,
                                  infoUsername = tkUsername parsed, infoPassword = tkPassword parsed,
                                  infoToken = token\<rparr>
                                in Inr (i\<lparr>infoToken := ToToken env i\<rparr>)))))"

definition NormalizeAndValidateTokenForUser :: "certenv \<Rightarrow> string \<Rightarrow> string \<Rightarrow> string \<Rightarrow> string + string" where
  "NormalizeAndValidateTokenForUser env server token user =
     (let token1 = (if \<not> strings_HasPrefix token ''K10'' then ''K10::'' @ user @ '':'' @ token else token) in
      case ParseAndValidateToken env server token1 of
        Inl err \<Rightarrow> Inl err
      | Inr info \<Rightarrow>
          let info1 = (if infoUsername info \<noteq> user then info\<lparr>infoUsername := user\<rparr> else info)
          in Inr (ToToken env info1))"

definition cert_Get :: "certenv \<Rightarrow> string \<Rightarrow> Info \<Rightarrow> string + bytes" where
  "cert_Get env path info =
     (case ceUrlParse env (infoURL info) of
        None \<Rightarrow> Inl ''parse''
      | Some u \<Rightarrow>
          cert_get env (ceUrlString env (u\<lparr>uPath := path\<rparr>)) (GetHTTPClient (CACerts info))
            (infoUsername info) (infoPassword info))"

definition getConfig :: "certenv \<Rightarrow> Info \<Rightarrow> string + bytes" where
  "getConfig env info = cert_Get env ''/v1-k3s/config'' info"

definition getNodeNamedCrt ::
  "certenv \<Rightarrow> string \<Rightarrow> string \<Rightarrow> string \<Rightarrow> certClient \<Rightarrow> string \<Rightarrow> string \<Rightarrow> string + bytes" where
  "getNodeNamedCrt env nodeName nodePassword u client username password =
     (case ceNewRequest env u of
        Some err \<Rightarrow> Inl err
      | None \<Rightarrow>
          (case ceDo env client u (basicAuth username password)
               [(''K3s-Node-Name'', nodeName), (''K3s-Node-Password'', nodePassword)] of
             Inl err \<Rightarrow> Inl err
           | Inr (code, status, body) \<Rightarrow>
               if code = 403 then Inl ''Node password rejected''
               else if code \<noteq> 200 then Inl (u @ '': '' @ status) else body))"

definition cert_Request ::
  "certenv \<Rightarrow> string \<Rightarrow> Info \<Rightarrow> (string \<Rightarrow> certClient \<Rightarrow> string \<Rightarrow> string \<Rightarrow> string + bytes) \<Rightarrow> string + bytes"
  where
  "cert_Request env path info requester =
     (case ceUrlParse env (infoURL info) of
        None \<Rightarrow> Inl ''parse''
      | Some u \<Rightarrow>
          (case ParseUsernamePassword (infoToken info) of
             (username, password, _) \<Rightarrow>
               requester (ceUrlString env (u\<lparr>uPath := path\<rparr>)) (GetHTTPClient (CACerts info)) username password))"

section \<open>Handlers\<close>

text \<open>The context of the handlers: the files they read are arguments (\<open>None\<close> if they cannot be
  read), \<open>remote\<close> is what the load balancer says about the center.\<close>

record ('i, 'd) CertContext =
  ServerURL :: string
  certInfo :: "Info option"
  ccStore :: "('i, 'd) EdgehubStorage"

record certResp =
  respCode :: int
  respData :: bytes

definition certServed :: "bytes \<Rightarrow> certResp" where
  "certServed data = \<lparr>respCode = 200, respData = data\<rparr>"

definition certFailed :: certResp where
  "certFailed = \<lparr>respCode = 500, respData = []\<rparr>"

definition cacertsHandler :: "bytes option \<Rightarrow> certResp" where
  "cacertsHandler caFile = (case caFile of None \<Rightarrow> certFailed | Some data \<Rightarrow> certServed data)"

definition apisHandler :: certResp where
  "apisHandler = certServed []"

text \<open>The answer while the center is out of reach, and storing what the center has answered.\<close>

definition offlineCert :: "('i, 'd) hubenv \<Rightarrow> string \<Rightarrow> ('i, 'd) CertContext \<Rightarrow> certResp" where
  "offlineCert E key c =
     (case LevelDB_Get E ''cert'' key (LevelDB (ccStore c)) of Inl _ \<Rightarrow> certFailed | Inr data \<Rightarrow> certServed data)"

definition storeCert ::
  "('i, 'd) hubenv \<Rightarrow> string \<Rightarrow> bytes \<Rightarrow> ('i, 'd) CertContext \<Rightarrow> ('i, 'd) CertContext" where
  "storeCert E key data c = c\<lparr>ccStore := snd (storage_Update E ''cert'' key data (ccStore c))\<rparr>"

definition configHandler ::
  "('i, 'd) hubenv \<Rightarrow> certenv \<Rightarrow> bool \<Rightarrow> bytes option \<Rightarrow> ('i, 'd) CertContext \<Rightarrow>
   certResp \<times> ('i, 'd) CertContext" where
  "configHandler E env remote tokenFile c =
     (if \<not> remote then (offlineCert E ''config'' c, c)
      else
        (case tokenFile of
           None \<Rightarrow> (certFailed, c)
         | Some tokenBytes \<Rightarrow>
             (case NormalizeAndValidateTokenForUser env (ServerURL c) (strings_TrimSpace tokenBytes) ''node'' of
                Inl _ \<Rightarrow> (certFailed, c)
              | Inr token \<Rightarrow>
                  (case ParseAndValidateToken env (ServerURL c) token of
                     Inl _ \<Rightarrow> (certFailed, c)
                   | Inr info \<Rightarrow>
                       let c1 = c\<lparr>certInfo := Some info\<rparr> in
                       (case getConfig env info of
                          Inl _ \<Rightarrow> (certFailed, c1)
                        | Inr data \<Rightarrow> (certServed data, storeCert E ''config'' data c1))))))"

definition fileHandler ::
  "('i, 'd) hubenv \<Rightarrow> certenv \<Rightarrow> bool \<Rightarrow> string \<Rightarrow> ('i, 'd) CertContext \<Rightarrow>
   (certResp \<times> ('i, 'd) CertContext) option" where
  "fileHandler E env remote uri c =
     (if \<not> remote then Some (offlineCert E uri c, c)
      else (case certInfo c of
              None \<Rightarrow> None
            | Some info \<Rightarrow>
                (case cert_Get env uri info of
                   Inl _ \<Rightarrow> Some (certFailed, c)
                 | Inr data \<Rightarrow> Some (certServed data, storeCert E uri data c))))"

definition keyHandler ::
  "('i, 'd) hubenv \<Rightarrow> certenv \<Rightarrow> bool \<Rightarrow> string \<Rightarrow> string \<Rightarrow> string \<Rightarrow> ('i, 'd) CertContext \<Rightarrow>
   (certResp \<times> ('i, 'd) CertContext) option" where
  "keyHandler E env remote uri nodeName nodePassword c =
     (if \<not> remote then Some (offlineCert E uri c, c)
      else (case certInfo c of
              None \<Rightarrow> None
            | Some info \<Rightarrow>
                (case cert_Request env uri info (getNodeNamedCrt env nodeName nodePassword) of
                   Inl _ \<Rightarrow> Some (certFailed, c)
                 | Inr data \<Rightarrow> Some (certServed data, storeCert E uri data c))))"

text \<open>\<open>version\<close> is the answer of the center's API server.\<close>

definition versionHandler ::
  "('i, 'd) hubenv \<Rightarrow> bool \<Rightarrow> bytes option \<Rightarrow> ('i, 'd) CertContext \<Rightarrow> certResp \<times> ('i, 'd) CertContext" where
  "versionHandler E remote version c =
     (if \<not> remote then (offlineCert E ''version'' c, c)
      else (case version of
              None \<Rightarrow> (certFailed, c)
            | Some raw \<Rightarrow> (certServed raw, storeCert E ''version'' raw c)))"

text \<open>The fields of the context that have to be set.\<close>

record certFields =
  cfStore :: "unit option"
  cfCaFile :: string
  cfK8sClient :: "unit option"
  cfLb :: "unit option"
  cfDataPath :: string
  cfServerURL :: string
  cfTokenFile :: string

definition CertContext_IsValid :: "certFields option \<Rightarrow> bool" where
  "CertContext_IsValid x =
     (case x of
        None \<Rightarrow> False
      | Some c \<Rightarrow>
          if cfStore c = None then False
          else if cfCaFile c = [] then False
          else if cfK8sClient c = None then False
          else if cfLb c = None then False
          else if cfDataPath c = [] then False
          else if cfServerURL c = [] then False
          else if cfTokenFile c = [] then False
          else True)"

end
