(* ===== verification/CertificateProps.thy ===== *)
theory CertificateProps
  imports Certificate SampleHub Syncer
begin

text \<open>
  Properties of the certificates: tokens survive being written and read, what was fetched from
  the center is served without it, and what refreshing the storage does to the stored copies.
\<close>

section \<open>Tokens\<close>

lemma parseToken_form:
  assumes "CHR '':'' \<notin> set hash" "CHR '':'' \<notin> set user"
  shows "parseToken (''K10'' @ hash @ ''::'' @ user @ '':'' @ password) =
    Inr \<lparr>caHash = hash, tkUsername = user, tkPassword = password\<rparr>"
proof -
  have "strings_cut (hash @ ''::'' @ (user @ '':'' @ password)) ''::'' = Some (hash, user @ '':'' @ password)"
    by (rule strings_cut_fresh) (use assms in simp_all)
  moreover have "strings_cut (user @ '':'' @ password) '':'' = Some (user, password)"
    by (rule strings_cut_fresh) (use assms in simp_all)
  ultimately show ?thesis
    by (simp add: parseToken_def strings_HasPrefix_def strings_SplitN2_def)
qed

text \<open>C30: normalising a token. When the bare password of a node is turned into a token and the
  center accepts it, the token names the digest of the center's certificates, the user and the
  password; reading and validating it again succeeds with the same identity, and normalising it
  again changes nothing.\<close>

theorem token_normalised:
  assumes "\<And>b. CHR '':'' \<notin> set (ceHash env b)" "CHR '':'' \<notin> set user"
    and "\<not> strings_HasPrefix password ''K10''"
    and "NormalizeAndValidateTokenForUser env server password user = Inr token"
  shows "\<exists>info. ParseAndValidateToken env server token = Inr info \<and> infoUsername info = user \<and>
    infoPassword info = password \<and> infoToken info = token \<and>
    token = ''K10'' @ ceHash env (CACerts info) @ ''::'' @ user @ '':'' @ password \<and>
    NormalizeAndValidateTokenForUser env server token user = Inr token"
proof -
  have p1: "parseToken (''K10::'' @ user @ '':'' @ password) = Inr \<lparr>caHash = [], tkUsername = user, tkPassword = password\<rparr>"
    using parseToken_form [of "[]" user password] assms(2) by simp
  from assms(3,4) p1 obtain u cacerts where u: "ceUrlParse env server = Some u" "uScheme u = ''https''"
    "GetCACerts env (u\<lparr>uPath := trimSlashes (uPath u)\<rparr>) = Inr cacerts"
    "validateToken env (u\<lparr>uPath := trimSlashes (uPath u)\<rparr>) cacerts user password = None"
    and token: "token = ''K10'' @ ceHash env cacerts @ ''::'' @ user @ '':'' @ password"
    by (auto simp: NormalizeAndValidateTokenForUser_def ParseAndValidateToken_def Let_def ToToken_def
        hashCA_def split: option.splits sum.splits if_splits)
  have p2: "parseToken token = Inr \<lparr>caHash = ceHash env cacerts, tkUsername = user, tkPassword = password\<rparr>"
    unfolding token by (rule parseToken_form) (use assms in simp_all)
  let ?info = "\<lparr>infoURL = ceUrlString env (u\<lparr>uPath := trimSlashes (uPath u)\<rparr>), CACerts = cacerts,
      infoUsername = user, infoPassword = password, infoToken = token\<rparr>"
  have r: "ParseAndValidateToken env server token = Inr ?info"
    using u p2 by (simp add: ParseAndValidateToken_def Let_def validateCACerts_def hashCA_def ToToken_def token)
  have "strings_HasPrefix token ''K10''" by (simp add: token strings_HasPrefix_def)
  with r have "NormalizeAndValidateTokenForUser env server token user = Inr token"
    by (simp add: NormalizeAndValidateTokenForUser_def Let_def ToToken_def hashCA_def token)
  with r show ?thesis by (auto simp: token)
qed

text \<open>A center with a certificate of its own, which accepts the password of the node.\<close>

definition sample_cert :: certenv where
  "sample_cert =
     \<lparr>ceUrlParse = (\<lambda>s. Some \<lparr>uScheme = ''https'', uPath = ''/'', uRest = s\<rparr>),
      ceUrlString = (\<lambda>u. uRest u @ uPath u), ceHash = (\<lambda>b. if b = [] then ''e3b0'' else ''9f86''),
      ceNewRequest = (\<lambda>u. None),
      ceDo = (\<lambda>client u auth headers.
        if client = DefaultClient then Inl ''unknown authority''
        else if u = ''master/cacerts'' then Inr (200, ''OK'', Inr ''pem'')
        else if auth = Some (''node'', ''secret'') then Inr (200, ''OK'', Inr (''data of '' @ u))
        else Inr (401, ''Unauthorized'', Inr []))\<rparr>"

theorem token_normalised_witness:
  "\<exists>info. ParseAndValidateToken sample_cert ''master'' ''K109f86::node:secret'' = Inr info \<and>
    infoUsername info = ''node'' \<and> infoPassword info = ''secret'' \<and>
    NormalizeAndValidateTokenForUser sample_cert ''master'' ''K109f86::node:secret'' ''node'' =
      Inr ''K109f86::node:secret''"
proof -
  have h: "CHR '':'' \<notin> set (ceHash sample_cert b)" for b by (simp add: sample_cert_def)
  have u: "CHR '':'' \<notin> set ''node''" "\<not> strings_HasPrefix ''secret'' ''K10''" by code_simp+
  have n: "NormalizeAndValidateTokenForUser sample_cert ''master'' ''secret'' ''node'' =
      Inr ''K109f86::node:secret''"
    by code_simp
  from token_normalised [OF h u n] show ?thesis by blast
qed

section \<open>Stored copies\<close>

lemma stored_cert_served:
  assumes "leveldb_ok (hubDB E)" "\<And>k v d. fst (ldbPut (hubDB E) k v d)"
  shows "offlineCert E key (storeCert E key data c) = certServed data"
proof -
  obtain d where d: "ldbPut (hubDB E) (formKeyName ''cert'' key) data (LevelDB (ccStore c)) = (True, d)"
    using assms(2) by (metis prod.collapse)
  have "ldbGet (hubDB E) (formKeyName ''cert'' key) d = Some data"
    using assms(1) d unfolding leveldb_ok_def by (metis fst_conv snd_conv)
  with d show ?thesis
    by (simp add: offlineCert_def storeCert_def storage_Update_def LevelDB_Update_def LevelDB_Get_def Let_def)
qed

text \<open>C31: what the center has served is served again when the center is out of reach: after a
  certificate, a key or the configuration was fetched and could be stored, the same request is
  answered without the center, with the same content, and whatever the network is like.\<close>

theorem cert_served_offline:
  assumes "leveldb_ok (hubDB E)" "\<And>k v d. fst (ldbPut (hubDB E) k v d)"
  shows "(fileHandler E env True uri c = Some (certServed data, c1) \<longrightarrow>
      fileHandler E env' False uri c1 = Some (certServed data, c1)) \<and>
    (keyHandler E env True uri name password c = Some (certServed data, c1) \<longrightarrow>
      keyHandler E env' False uri name' password' c1 = Some (certServed data, c1)) \<and>
    (configHandler E env True tokenFile c = (certServed data, c1) \<longrightarrow>
      configHandler E env' False tokenFile' c1 = (certServed data, c1))"
proof -
  note off = stored_cert_served [OF assms]
  have differ: "certFailed \<noteq> certServed x" for x by (simp add: certFailed_def certServed_def)
  have inj: "certServed x = certServed y \<longleftrightarrow> x = y" for x y by (simp add: certServed_def)
  show ?thesis
    by (auto simp: fileHandler_def keyHandler_def configHandler_def off differ inj Let_def
        split: option.splits sum.splits)
qed

definition sample_certctx :: "(sampleix, sampledb) CertContext" where
  "sample_certctx = \<lparr>ServerURL = ''master'', certInfo = None, ccStore = sample_storage True\<rparr>"

definition sample_config :: "certResp \<times> (sampleix, sampledb) CertContext" where
  "sample_config = configHandler sample_hub sample_cert True (Some ''secret '') sample_certctx"

theorem cert_served_offline_witness:
  "configHandler sample_hub sample_cert False None (snd sample_config) =
     (certServed ''data of master/v1-k3s/config'', snd sample_config)"
proof -
  have ok: "leveldb_ok (hubDB sample_hub)" "fst (ldbPut (hubDB sample_hub) k v d)" for k v d
    by (simp_all add: sample_db_ok) (simp add: sample_db_def)
  have "fst sample_config = certServed ''data of master/v1-k3s/config''" by code_simp
  then have "configHandler sample_hub sample_cert True (Some ''secret '') sample_certctx =
      (certServed ''data of master/v1-k3s/config'', snd sample_config)"
    by (simp add: sample_config_def prod_eq_iff)
  with cert_served_offline [OF ok] show ?thesis by blast
qed

text \<open>C32: refreshing the storage loses the stored certificates. When the center is back, every key
  of LevelDB whose type has no informer is dropped; certificates are stored under such a type,
  so that after the next loss of the center every request for one fails.\<close>

theorem refresh_drops_certificates:
  assumes "hub_ok E" "\<And>ks d. fst (ldbWriteDeletes (hubDB E) ks d)"
    and "\<And>name. ldbGet (hubDB E) name (LevelDB (ccStore c)) \<noteq> None \<Longrightarrow> splitKeyName name \<noteq> None"
    and "''cert'' \<notin> fst ` set sys"
    and "c1 = c\<lparr>ccStore := RefreshStorage E F sys (ccStore c)\<rparr>"
  shows "fileHandler E env False uri c1 = Some (certFailed, c1) \<and>
    keyHandler E env False uri name password c1 = Some (certFailed, c1) \<and>
    configHandler E env False tokenFile c1 = (certFailed, c1)"
proof -
  let ?c = "map (\<lambda>(t, _). (t, getIndexer F t)) (filter (\<lambda>(_, sy). sy \<noteq> None) sys)"
  let ?s = "(ccStore c)\<lparr>Cache := ?c\<rparr>"
  have "splitKeyName name \<noteq> None" if "name \<in> set (ldbKeys (hubDB E) [] (LevelDB ?s))" for name
    using that assms(3) leveldbD(6) [OF hub_okD(2) [OF assms(1)]] by auto
  then obtain b where "mergeBatch E ?c (ldbKeys (hubDB E) [] (LevelDB ?s)) [] = Inr b"
    using mergeBatch_returns [OF hub_okD(1) [OF assms(1)]] by blast
  then obtain s' where m: "MergeDelete E ?s = (None, s')" by (simp add: MergeDelete_def)
  have "go_get ?c ''cert'' = None" using assms(4) by (force simp: map_of_eq_None_iff)
  then have none: "cachedIn E (Cache ?s) ''cert'' key = None" for key by (simp add: cachedIn_def)
  have "CHR ''-'' \<notin> set ''cert''" by simp
  from MergeDelete_get(1) [OF assms(1) m assms(2) this] none
  have "offlineCert E key c1 = certFailed" for key
    using m by (simp add: offlineCert_def LevelDB_Get_def assms(5) RefreshStorage_def)
  then show ?thesis by (simp add: fileHandler_def keyHandler_def configHandler_def)
qed

theorem refresh_drops_certificates_witness:
  "configHandler sample_hub sample_cert False None ((snd sample_config)\<lparr>ccStore :=
       RefreshStorage sample_hub \<lparr>listNotFound = (\<lambda>_. True), cacheSync = (\<lambda>_. Synced), getIndexer = (\<lambda>_. [])\<rparr>
         [(ResourcePod, None)] (ccStore (snd sample_config))\<rparr>) =
     (certFailed, (snd sample_config)\<lparr>ccStore :=
       RefreshStorage sample_hub \<lparr>listNotFound = (\<lambda>_. True), cacheSync = (\<lambda>_. Synced), getIndexer = (\<lambda>_. [])\<rparr>
         [(ResourcePod, None)] (ccStore (snd sample_config))\<rparr>)"
proof -
  have db: "go_keys (LevelDB (ccStore (snd sample_config))) = [''pods-default/web'', ''cert-config'']"
    by code_simp
  have split: "splitKeyName ''pods-default/web'' \<noteq> None" "splitKeyName ''cert-config'' \<noteq> None" by code_simp+
  have "splitKeyName name \<noteq> None"
    if "ldbGet (hubDB sample_hub) name (LevelDB (ccStore (snd sample_config))) \<noteq> None" for name
  proof -
    from that have "name \<in> set (go_keys (LevelDB (ccStore (snd sample_config))))"
      by (auto simp: sample_db_def)
    with split show ?thesis unfolding db by auto
  qed
  moreover have "fst (ldbWriteDeletes (hubDB sample_hub) ks d)" for ks d by (simp add: sample_db_def)
  moreover have "''cert'' \<notin> fst ` set [(ResourcePod, None)]" by (simp add: ResourcePod_def)
  ultimately show ?thesis
    using refresh_drops_certificates [OF sample_hub_ok, where c = "snd sample_config" and
        sys = "[(ResourcePod, None)]", OF _ _ _ refl] by blast
qed

end
