(* ===== verification/Controllers.thy ===== *)
theory Controllers
  imports Resources Message
begin

text \<open>
  The controllers around the center: the edge node controller, which keeps the nodes of edge
  clusters alive at the center while they are disconnected (\<^verbatim>\<open>pkg/controller/edgenode\<close>), and the
  two controllers that send namespaces to the clusters (\<^verbatim>\<open>pkg/controller/namespace\<close>,
  \<^verbatim>\<open>pkg/controller/clustercrd\<close>). The API server and JSON are arguments; a handler that converts
  an object of another type returns \<open>None\<close> for the panic.
\<close>

section \<open>Edge nodes\<close>

record EdgeNode =
  enName :: string
  enNamespace :: string
  enStatus :: string

record ncondition =
  ncType :: string
  ncStatus :: string
  ncReason :: string
  ncMessage :: string

record cnode =
  cnName :: string
  cnResourceVersion :: string
  cnConditions :: "ncondition list"

record 'k enapi =
  enGet :: "string \<Rightarrow> 'k \<Rightarrow> api_error + EdgeNode"
  enCreate :: "EdgeNode \<Rightarrow> 'k \<Rightarrow> api_error option \<times> 'k"
  enUpdate :: "EdgeNode \<Rightarrow> 'k \<Rightarrow> api_error option \<times> 'k"
  enDelete :: "string \<Rightarrow> 'k \<Rightarrow> api_error option \<times> 'k"
  ndPatchStatus :: "string \<Rightarrow> bytes \<Rightarrow> 'k \<Rightarrow> api_error option \<times> 'k"

definition EdgeControllerReady :: string where "EdgeControllerReady = ''EdgeControllerReady''"
definition EdgeNodeReady :: string where "EdgeNodeReady = ''Ready''"
definition EdgeNodeNotReady :: string where "EdgeNodeNotReady = ''NotReady''"

type_synonym updateNodeMap = "(string, unit) gomap"

definition GetNodeCondition :: "cnode \<Rightarrow> string \<Rightarrow> ncondition option" where
  "GetNodeCondition node conditionType = find (\<lambda>c. ncType c = conditionType) (cnConditions node)"

definition addUpdatedNode :: "string \<Rightarrow> updateNodeMap \<Rightarrow> updateNodeMap" where
  "addUpdatedNode name m = (if \<not> go_has m name then go_put name () m else m)"

definition deleteUpdatedNode :: "string \<Rightarrow> updateNodeMap \<Rightarrow> updateNodeMap" where
  "deleteUpdatedNode name m = (if \<not> go_has m name then m else go_del name m)"

definition updateEdgeNodeStatus ::
  "'k enapi \<Rightarrow> string \<Rightarrow> string \<Rightarrow> 'k \<Rightarrow> api_error option \<times> 'k" where
  "updateEdgeNodeStatus api nodeName desiredStatus k =
     (case enGet api nodeName k of
        Inl e \<Rightarrow> (Some e, k)
      | Inr edgeNode \<Rightarrow>
          if enStatus edgeNode = desiredStatus then (None, k)
          else enUpdate api (edgeNode\<lparr>enStatus := desiredStatus\<rparr>) k)"

text \<open>The end of \<^verbatim>\<open>handleNodeAdd\<close>: a node that is out of reach, or that this controller has kept
  alive before, is taken over.\<close>

definition takeOver :: "'k enapi \<Rightarrow> cnode \<Rightarrow> updateNodeMap \<times> 'k \<Rightarrow> updateNodeMap \<times> 'k" where
  "takeOver api node s =
     (case s of (m, k) \<Rightarrow>
        case GetNodeCondition node ''Ready'' of
          None \<Rightarrow> (m, k)
        | Some condition \<Rightarrow>
            if ncStatus condition = ''Unknown'' \<or> ncReason condition = EdgeControllerReady
            then (addUpdatedNode (cnName node) m, snd (updateEdgeNodeStatus api (cnName node) EdgeNodeNotReady k))
            else (m, k))"

definition handleNodeAdd ::
  "'k enapi \<Rightarrow> cnode iobj \<Rightarrow> updateNodeMap \<times> 'k \<Rightarrow> (updateNodeMap \<times> 'k) option" where
  "handleNodeAdd api obj s =
     (case obj of
        Untyped \<Rightarrow> None
      | Typed node \<Rightarrow>
          (case s of (m, k) \<Rightarrow>
             case enGet api (cnName node) k of
               Inl NotFound \<Rightarrow>
                 (case enCreate api \<lparr>enName = cnName node, enNamespace = ''kube-system'', enStatus = ''NotReady''\<rparr> k of
                    (Some e, k1) \<Rightarrow> Some (m, k1)
                  | (None, k1) \<Rightarrow> Some (takeOver api node (m, k1)))
             | _ \<Rightarrow> Some (takeOver api node (m, k))))"

definition handleNodeUpdate :: "'k enapi \<Rightarrow> cnode \<Rightarrow> updateNodeMap \<times> 'k \<Rightarrow> updateNodeMap \<times> 'k" where
  "handleNodeUpdate api node s =
     (case s of (m, k) \<Rightarrow>
        case GetNodeCondition node ''Ready'' of
          None \<Rightarrow> (m, snd (updateEdgeNodeStatus api (cnName node) EdgeNodeNotReady k))
        | Some condition \<Rightarrow>
            if ncStatus condition = ''Unknown''
            then (addUpdatedNode (cnName node) m, snd (updateEdgeNodeStatus api (cnName node) EdgeNodeNotReady k))
            else if ncReason condition = EdgeControllerReady then (m, k)
            else (deleteUpdatedNode (cnName node) m,
                  snd (updateEdgeNodeStatus api (cnName node) EdgeNodeReady k)))"

text \<open>The registered update handler.\<close>

definition updateNodeFunc ::
  "'k enapi \<Rightarrow> cnode iobj \<Rightarrow> cnode iobj \<Rightarrow> updateNodeMap \<times> 'k \<Rightarrow> (updateNodeMap \<times> 'k) option" where
  "updateNodeFunc api old new s =
     (case new of
        Untyped \<Rightarrow> None
      | Typed newNode \<Rightarrow>
          (case old of
             Untyped \<Rightarrow> None
           | Typed oldNode \<Rightarrow>
               if cnResourceVersion newNode = cnResourceVersion oldNode then Some s
               else Some (handleNodeUpdate api newNode s)))"

definition handleNodeDelete ::
  "'k enapi \<Rightarrow> cnode iobj \<Rightarrow> updateNodeMap \<times> 'k \<Rightarrow> (updateNodeMap \<times> 'k) option" where
  "handleNodeDelete api obj s =
     (case obj of
        Untyped \<Rightarrow> None
      | Typed node \<Rightarrow>
          (case s of (m, k) \<Rightarrow>
             Some (deleteUpdatedNode (cnName node) m, snd (enDelete api (cnName node) k))))"

text \<open>The conditions that keep a node alive, without their times; \<open>js\<close> encodes the patch.\<close>

definition newNodeConditions :: "ncondition list" where
  "newNodeConditions =
     [\<lparr>ncType = ''MemoryPressure'', ncStatus = ''False'', ncReason = ''KubeletHasSufficientMemory'',
       ncMessage = ''kubelet has sufficient memory available''\<rparr>,
      \<lparr>ncType = ''DiskPressure'', ncStatus = ''False'', ncReason = ''KubeletHasNoDiskPressure'',
       ncMessage = ''kubelet has no disk pressure''\<rparr>,
      \<lparr>ncType = ''PIDPressure'', ncStatus = ''False'', ncReason = ''KubeletHasSufficientPID'',
       ncMessage = ''kubelet has sufficient PID available''\<rparr>,
      \<lparr>ncType = ''Ready'', ncStatus = ''True'', ncReason = EdgeControllerReady,
       ncMessage = ''Edgecontroller is posting ready status''\<rparr>]"

definition getNewNodeConditionData :: "(ncondition list \<Rightarrow> bytes option) \<Rightarrow> bytes option" where
  "getNewNodeConditionData js = js newNodeConditions"

definition updateNodeStatus ::
  "'k enapi \<Rightarrow> (ncondition list \<Rightarrow> bytes option) \<Rightarrow> updateNodeMap \<Rightarrow> 'k \<Rightarrow> 'k" where
  "updateNodeStatus api js m k =
     fold (\<lambda>name k. case getNewNodeConditionData js of
         None \<Rightarrow> k | Some data \<Rightarrow> snd (ndPatchStatus api name data k))
       (go_keys m) k"

section \<open>Namespaces\<close>

record oteNamespace =
  nsKind :: string
  nsApiVersion :: string
  nsMetaData :: strmap

definition OteNamespaceKind :: string where "OteNamespaceKind = ''Namespace''"
definition OteNamespaceURI :: string where "OteNamespaceURI = ''/api/v1/namespaces''"
definition OteApiVersionV1 :: string where "OteApiVersionV1 = ''v1''"

definition SerializeNamespaceObject :: "(oteNamespace \<Rightarrow> bytes option) \<Rightarrow> string \<Rightarrow> bytes option" where
  "SerializeNamespaceObject js name =
     js \<lparr>nsKind = OteNamespaceKind, nsApiVersion = OteApiVersionV1, nsMetaData = go_put ''name'' name []\<rparr>"

datatype ctl_error = SerializeFailed | ListFailed | PackFailed msg_error

definition sendNamespaceToCluster ::
  "codecs \<Rightarrow> (oteNamespace \<Rightarrow> bytes option) \<Rightarrow> string \<Rightarrow> ctl_error + ClusterMessage" where
  "sendNamespaceToCluster cd js namespace =
     (case SerializeNamespaceObject js namespace of
        None \<Rightarrow> Inl SerializeFailed
      | Some name \<Rightarrow>
          (case ControllerTask_ToClusterMessage cd
               \<lparr>Destination = ClusterControllerDestAPI, Method = ''POST'', URI = OteNamespaceURI, TaskBody = name\<rparr>
               (emptyHead\<lparr>ClusterSelector := [], Command := ControlReq\<rparr>) of
             Inl e \<Rightarrow> Inl (PackFailed e)
           | Inr msg \<Rightarrow> Inr msg))"

text \<open>The message put into the channel for a new namespace, if any.\<close>

definition namespace_handleAddedEvent ::
  "codecs \<Rightarrow> (oteNamespace \<Rightarrow> bytes option) \<Rightarrow> string iobj \<Rightarrow> ClusterMessage option option" where
  "namespace_handleAddedEvent cd js obj =
     (case obj of
        Untyped \<Rightarrow> None
      | Typed namespace \<Rightarrow>
          (case sendNamespaceToCluster cd js namespace of Inl _ \<Rightarrow> Some None | Inr msg \<Rightarrow> Some (Some msg)))"

text \<open>\<open>nsList\<close> is the answer of the API server: the names of the namespaces, in order.\<close>

definition sendNamespaceToNewCluster ::
  "codecs \<Rightarrow> (oteNamespace \<Rightarrow> bytes option) \<Rightarrow> string list option \<Rightarrow> Cluster \<Rightarrow> ctl_error + ClusterMessage" where
  "sendNamespaceToNewCluster cd js nsList cluster =
     (case nsList of
        None \<Rightarrow> Inl ListFailed
      | Some nameList \<Rightarrow>
          let body = List.map_filter (SerializeNamespaceObject js) nameList in
          (case ControlMultiTask_ToClusterMessage cd
               \<lparr>MultiDestination = ClusterControllerDestAPI, MultiMethod = ''POST'', MultiURI = OteNamespaceURI,
                MultiBody = body\<rparr>
               (emptyHead\<lparr>ClusterSelector := clSpecName cluster, Command := ControlMultiReq\<rparr>) of
             Inl e \<Rightarrow> Inl (PackFailed e)
           | Inr msg \<Rightarrow> Inr msg))"

definition cluster_handleAddedEvent ::
  "codecs \<Rightarrow> (oteNamespace \<Rightarrow> bytes option) \<Rightarrow> string list option \<Rightarrow> Cluster iobj \<Rightarrow>
   ClusterMessage option option" where
  "cluster_handleAddedEvent cd js nsList obj =
     (case obj of
        Untyped \<Rightarrow> None
      | Typed cluster \<Rightarrow>
          (case sendNamespaceToNewCluster cd js nsList cluster of Inl _ \<Rightarrow> Some None | Inr msg \<Rightarrow> Some (Some msg)))"

end
