(* ===== verification/ControllerProps.thy ===== *)
theory ControllerProps
  imports Controllers ShimProps
begin

text \<open>
  Properties of the controllers: for which nodes the edge node controller speaks, and how the
  namespaces of the center reach a new cluster through the shim.
\<close>

section \<open>Edge nodes\<close>

text \<open>Documented behaviour of a reachable API server: an edge node is found under its name or not
  found; it can be created under a free name, updated and deleted when it is there, and nothing
  else changes; patching nodes leaves edge nodes alone.\<close>

definition edgenodes_live :: "'k enapi \<Rightarrow> bool" where
  "edgenodes_live A \<longleftrightarrow>
     (\<forall>n k e. enGet A n k = Inl e \<longrightarrow> e = NotFound) \<and>
     (\<forall>n k en. enGet A n k = Inr en \<longrightarrow> enName en = n) \<and>
     (\<forall>en k. enGet A (enName en) k = Inl NotFound \<longrightarrow>
        (\<exists>k'. enCreate A en k = (None, k') \<and> enGet A (enName en) k' = Inr en \<and>
           (\<forall>n. n \<noteq> enName en \<longrightarrow> enGet A n k' = enGet A n k))) \<and>
     (\<forall>en k old. enGet A (enName en) k = Inr old \<longrightarrow>
        (\<exists>k'. enUpdate A en k = (None, k') \<and> enGet A (enName en) k' = Inr en \<and>
           (\<forall>n. n \<noteq> enName en \<longrightarrow> enGet A n k' = enGet A n k))) \<and>
     (\<forall>n k n'. enGet A n' (snd (enDelete A n k)) = (if n' = n then Inl NotFound else enGet A n' k)) \<and>
     (\<forall>n d k n'. enGet A n' (snd (ndPatchStatus A n d k)) = enGet A n' k)"

lemma edgenodes_liveD:
  assumes "edgenodes_live A"
  shows "enGet A n k = Inl e \<Longrightarrow> e = NotFound"
    "enGet A n k = Inr en \<Longrightarrow> enName en = n"
    "enGet A (enName en) k = Inl NotFound \<Longrightarrow>
       \<exists>k'. enCreate A en k = (None, k') \<and> enGet A (enName en) k' = Inr en \<and>
         (\<forall>n. n \<noteq> enName en \<longrightarrow> enGet A n k' = enGet A n k)"
    "enGet A (enName en) k = Inr old \<Longrightarrow>
       \<exists>k'. enUpdate A en k = (None, k') \<and> enGet A (enName en) k' = Inr en \<and>
         (\<forall>n. n \<noteq> enName en \<longrightarrow> enGet A n k' = enGet A n k)"
    "enGet A n' (snd (enDelete A n k)) = (if n' = n then Inl NotFound else enGet A n' k)"
    "enGet A n' (snd (ndPatchStatus A n d k)) = enGet A n' k"
  using assms unfolding edgenodes_live_def by blast+

text \<open>The status of an edge node, \<open>None\<close> if there is none.\<close>

definition statusOf :: "'k enapi \<Rightarrow> 'k \<Rightarrow> string \<Rightarrow> string option" where
  "statusOf A k n = (case enGet A n k of Inl _ \<Rightarrow> None | Inr en \<Rightarrow> Some (enStatus en))"

lemma updateEdgeNodeStatus_status:
  assumes "edgenodes_live A"
  shows "statusOf A (snd (updateEdgeNodeStatus A n st k)) m =
    (if m = n then map_option (\<lambda>_. st) (statusOf A k n) else statusOf A k m)"
proof (cases "enGet A n k")
  case (Inr en)
  have name: "enName en = n" by (rule edgenodes_liveD(2) [OF assms Inr])
  show ?thesis
  proof (cases "enStatus en = st")
    case False
    from edgenodes_liveD(4) [OF assms, of "en\<lparr>enStatus := st\<rparr>" k en] Inr name obtain k' where
      k': "enUpdate A (en\<lparr>enStatus := st\<rparr>) k = (None, k')" "enGet A n k' = Inr (en\<lparr>enStatus := st\<rparr>)"
      "\<forall>m. m \<noteq> n \<longrightarrow> enGet A m k' = enGet A m k" by auto
    with Inr False show ?thesis by (auto simp: updateEdgeNodeStatus_def statusOf_def)
  qed (use Inr in \<open>simp add: updateEdgeNodeStatus_def statusOf_def\<close>)
qed (simp add: updateEdgeNodeStatus_def statusOf_def)

lemma create_status:
  assumes "edgenodes_live A" "enGet A n k = Inl NotFound"
  obtains k' where "enCreate A \<lparr>enName = n, enNamespace = ns, enStatus = st\<rparr> k = (None, k')"
    "\<And>m. statusOf A k' m = (if m = n then Some st else statusOf A k m)"
proof -
  from edgenodes_liveD(3) [OF assms(1), of "\<lparr>enName = n, enNamespace = ns, enStatus = st\<rparr>" k] assms(2)
  obtain k' where "enCreate A \<lparr>enName = n, enNamespace = ns, enStatus = st\<rparr> k = (None, k')"
    "enGet A n k' = Inr \<lparr>enName = n, enNamespace = ns, enStatus = st\<rparr>"
    "\<forall>m. m \<noteq> n \<longrightarrow> enGet A m k' = enGet A m k" by auto
  with that show ?thesis by (simp add: statusOf_def)
qed

lemma has_addUpdatedNode: "go_has (addUpdatedNode n m) x \<longleftrightarrow> x = n \<or> go_has m x"
  by (auto simp: addUpdatedNode_def go_has_def)

lemma has_deleteUpdatedNode: "go_has (deleteUpdatedNode n m) x \<longleftrightarrow> x \<noteq> n \<and> go_has m x"
  by (auto simp: deleteUpdatedNode_def go_has_def)

text \<open>The runs of the controller: events of its informer and ticks of its timer.\<close>

inductive ecReach ::
  "'k enapi \<Rightarrow> (ncondition list \<Rightarrow> bytes option) \<Rightarrow> 'k \<Rightarrow> updateNodeMap \<Rightarrow> 'k \<Rightarrow> bool"
  for A js k0 where
  ecInit: "ecReach A js k0 [] k0"
| ecAdd: "ecReach A js k0 m k \<Longrightarrow> handleNodeAdd A obj (m, k) = Some (m', k') \<Longrightarrow> ecReach A js k0 m' k'"
| ecUpdate: "ecReach A js k0 m k \<Longrightarrow> updateNodeFunc A old new (m, k) = Some (m', k') \<Longrightarrow>
    ecReach A js k0 m' k'"
| ecDelete: "ecReach A js k0 m k \<Longrightarrow> handleNodeDelete A obj (m, k) = Some (m', k') \<Longrightarrow>
    ecReach A js k0 m' k'"
| ecTick: "ecReach A js k0 m k \<Longrightarrow> k' = updateNodeStatus A js m k \<Longrightarrow> ecReach A js k0 m k'"

definition speaks_for_lost :: "'k enapi \<Rightarrow> updateNodeMap \<Rightarrow> 'k \<Rightarrow> bool" where
  "speaks_for_lost A m k \<longleftrightarrow> (\<forall>n. go_has m n \<longrightarrow> statusOf A k n \<in> {None, Some EdgeNodeNotReady})"

lemma speaks_takeOver:
  assumes "edgenodes_live A" "speaks_for_lost A m k" "takeOver A node (m, k) = (m', k')"
  shows "speaks_for_lost A m' k'"
  using assms(2,3)
  by (auto simp: takeOver_def speaks_for_lost_def has_addUpdatedNode updateEdgeNodeStatus_status [OF assms(1)]
      split: option.splits if_splits)

lemma speaks_add:
  assumes "edgenodes_live A" "speaks_for_lost A m k" "handleNodeAdd A obj (m, k) = Some (m', k')"
  shows "speaks_for_lost A m' k'"
proof -
  from assms(3) obtain node where obj: "obj = Typed node"
    by (auto simp: handleNodeAdd_def split: iobj.splits)
  show ?thesis
  proof (cases "enGet A (cnName node) k")
    case (Inr en)
    with assms(3) obj have "takeOver A node (m, k) = (m', k')" by (simp add: handleNodeAdd_def)
    with assms(1,2) show ?thesis by (rule speaks_takeOver)
  next
    case (Inl e)
    with edgenodes_liveD(1) [OF assms(1)] have none: "enGet A (cnName node) k = Inl NotFound" by blast
    from create_status [OF assms(1) none] obtain k1 where
      k1: "enCreate A \<lparr>enName = cnName node, enNamespace = ''kube-system'', enStatus = ''NotReady''\<rparr> k = (None, k1)"
        "\<And>m. statusOf A k1 m = (if m = cnName node then Some ''NotReady'' else statusOf A k m)" by blast
    have "speaks_for_lost A m k1" using assms(2) k1(2) by (simp add: speaks_for_lost_def EdgeNodeNotReady_def)
    moreover from assms(3) obj none k1(1) have "takeOver A node (m, k1) = (m', k')"
      by (simp add: handleNodeAdd_def)
    ultimately show ?thesis by (rule speaks_takeOver [OF assms(1)])
  qed
qed

lemma speaks_update:
  assumes "edgenodes_live A" "speaks_for_lost A m k" "updateNodeFunc A old new (m, k) = Some (m', k')"
  shows "speaks_for_lost A m' k'"
  using assms(2,3)
  by (auto simp: updateNodeFunc_def handleNodeUpdate_def speaks_for_lost_def has_addUpdatedNode
      has_deleteUpdatedNode updateEdgeNodeStatus_status [OF assms(1)]
      split: iobj.splits option.splits if_splits)

lemma tick_status: "edgenodes_live A \<Longrightarrow> statusOf A (updateNodeStatus A js m k) n = statusOf A k n"
  unfolding updateNodeStatus_def
  by (rule fold_invariant [where P = "\<lambda>k'. statusOf A k' n = statusOf A k n"])
     (auto simp: statusOf_def edgenodes_liveD(6) split: option.splits)

lemma speaks_delete:
  assumes "edgenodes_live A" "speaks_for_lost A m k" "handleNodeDelete A obj (m, k) = Some (m', k')"
  shows "speaks_for_lost A m' k'"
  using assms(2,3)
  by (auto simp: handleNodeDelete_def speaks_for_lost_def has_deleteUpdatedNode statusOf_def
      edgenodes_liveD(5) [OF assms(1)] split: iobj.splits)

text \<open>C33: the edge node controller speaks for lost nodes only. In every run, a node whose status it
  keeps patching to ready has no edge node or one marked not ready; as soon as the node's own
  agent reports a condition again, its edge node is ready and the controller stops patching it.\<close>

theorem controller_speaks_for_lost_nodes:
  assumes "edgenodes_live A" "ecReach A js k0 m k"
  shows "(\<forall>n. go_has m n \<longrightarrow> statusOf A k n \<in> {None, Some EdgeNodeNotReady}) \<and>
    (\<forall>node c. GetNodeCondition node ''Ready'' = Some c \<and> ncStatus c \<noteq> ''Unknown'' \<and>
       ncReason c \<noteq> EdgeControllerReady \<longrightarrow>
       (let (m', k') = handleNodeUpdate A node (m, k) in
        \<not> go_has m' (cnName node) \<and> statusOf A k' (cnName node) \<in> {None, Some EdgeNodeReady}))"
proof -
  from assms(2) have "speaks_for_lost A m k"
  proof (induction rule: ecReach.induct)
    case (ecTick m k k')
    then show ?case by (simp add: speaks_for_lost_def tick_status [OF assms(1)])
  qed (auto simp: speaks_for_lost_def [of _ "[]"] go_has_def
      intro: speaks_add [OF assms(1)] speaks_update [OF assms(1)] speaks_delete [OF assms(1)])
  then have "\<forall>n. go_has m n \<longrightarrow> statusOf A k n \<in> {None, Some EdgeNodeNotReady}"
    unfolding speaks_for_lost_def .
  then show ?thesis
    by (auto simp: handleNodeUpdate_def has_deleteUpdatedNode updateEdgeNodeStatus_status [OF assms(1)])
qed

text \<open>An API server that keeps edge nodes in a map and counts nothing else.\<close>

definition sample_enget :: "string \<Rightarrow> (string, EdgeNode) gomap \<Rightarrow> api_error + EdgeNode" where
  "sample_enget n k =
     (case go_get k n of None \<Rightarrow> Inl NotFound | Some en \<Rightarrow> if enName en = n then Inr en else Inl NotFound)"

definition sample_enapi :: "(string, EdgeNode) gomap enapi" where
  "sample_enapi = \<lparr>enGet = sample_enget, enCreate = (\<lambda>en k. (None, go_put (enName en) en k)),
     enUpdate = (\<lambda>en k. (None, go_put (enName en) en k)), enDelete = (\<lambda>n k. (None, go_del n k)),
     ndPatchStatus = (\<lambda>n d k. (None, k))\<rparr>"

lemma sample_enapi_live: "edgenodes_live sample_enapi"
  by (auto simp: edgenodes_live_def sample_enapi_def sample_enget_def split: option.splits if_splits)

definition sample_lost :: "string \<Rightarrow> cnode" where
  "sample_lost status = \<lparr>cnName = ''edge1'', cnResourceVersion = ''5'', cnConditions =
     [\<lparr>ncType = ''Ready'', ncStatus = status, ncReason = ''NodeStatusUnknown'', ncMessage = []\<rparr>]\<rparr>"

definition sample_taken :: "updateNodeMap \<times> (string, EdgeNode) gomap" where
  "sample_taken = the (handleNodeAdd sample_enapi (Typed (sample_lost ''Unknown'')) ([], []))"

theorem controller_speaks_for_lost_nodes_witness:
  "go_has (fst sample_taken) ''edge1'' \<and>
   statusOf sample_enapi (snd sample_taken) ''edge1'' \<in> {None, Some EdgeNodeNotReady} \<and>
   \<not> go_has (fst (handleNodeUpdate sample_enapi (sample_lost ''True'') sample_taken)) ''edge1''"
proof -
  have h: "handleNodeAdd sample_enapi (Typed (sample_lost ''Unknown'')) ([], []) =
      Some (fst sample_taken, snd sample_taken)"
    by code_simp
  have r: "ecReach sample_enapi (\<lambda>_. None) [] (fst sample_taken) (snd sample_taken)"
    by (rule ecAdd [OF ecInit h])
  have g: "go_has (fst sample_taken) ''edge1''" by code_simp
  have c: "GetNodeCondition (sample_lost ''True'') ''Ready'' = Some \<lparr>ncType = ''Ready'', ncStatus = ''True'',
      ncReason = ''NodeStatusUnknown'', ncMessage = []\<rparr>" "cnName (sample_lost ''True'') = ''edge1''"
    by code_simp+
  note t = controller_speaks_for_lost_nodes [OF sample_enapi_live r]
  from conjunct2 [OF t, rule_format, of "sample_lost ''True''" "\<lparr>ncType = ''Ready'', ncStatus = ''True'',
      ncReason = ''NodeStatusUnknown'', ncMessage = []\<rparr>"] c
  have "\<not> go_has (fst (handleNodeUpdate sample_enapi (sample_lost ''True'') sample_taken)) ''edge1''"
    by (simp add: EdgeControllerReady_def case_prod_beta)
  with conjunct1 [OF t, rule_format, OF g] g show ?thesis by blast
qed

section \<open>Namespaces\<close>

text \<open>C34: a new cluster gets the namespaces of the center. The message the cluster controller sends
  when a cluster is added selects that cluster, and the cluster's shim, which executes it,
  creates every namespace the center has and removes none, if posting a namespace to an API
  server creates it when it is missing.\<close>

theorem new_cluster_gets_namespaces:
  assumes "roundtrip (pb_multi cd) (unpb_multi cd)" "shCodec env = cd"
    and "NewlocalShimClient env (Some rest) client helm = Some handlers"
    and "\<And>name. SerializeNamespaceObject js name \<noteq> None"
    and "\<And>name body k. SerializeNamespaceObject js name = Some body \<Longrightarrow>
      namespaces (snd (rest (Verb ''POST'') OteNamespaceURI body k)) = insert name (namespaces k)"
    and "cluster_handleAddedEvent cd js (Some nss) (Typed cluster) = Some (Some msg)"
  shows "map_option ClusterSelector (Head msg) = Some (clSpecName cluster) \<and>
    (\<exists>k'. local_Do env handlers msg k = Some ((None, None), k') \<and>
      namespaces k' = set nss \<union> namespaces k)"
proof -
  let ?bodies = "List.map_filter (SerializeNamespaceObject js) nss"
  let ?task = "\<lparr>MultiDestination = ClusterControllerDestAPI, MultiMethod = ''POST'',
      MultiURI = OteNamespaceURI, MultiBody = ?bodies\<rparr>"
  have loop: "namespaces (multiLoop rest (Verb ''POST'') OteNamespaceURI
      (List.map_filter (SerializeNamespaceObject js) ns) k) = set ns \<union> namespaces k" for ns k
  proof (induction ns arbitrary: k)
    case (Cons n ns)
    from assms(4) obtain b where b: "SerializeNamespaceObject js n = Some b" by blast
    obtain r k1 where k1: "rest (Verb ''POST'') OteNamespaceURI b k = (r, k1)" by fastforce
    from assms(5) [OF b, of k] k1 have "namespaces k1 = insert n (namespaces k)" by simp
    with b k1 Cons [of k1] show ?case by (simp add: List.map_filter_simps)
  qed (simp add: List.map_filter_simps)
  from assms(6) obtain data where data: "pb_multi cd ?task = Some data"
    and msg: "msg = \<lparr>Head = Some (emptyHead\<lparr>ClusterSelector := clSpecName cluster, Command := ControlMultiReq\<rparr>),
      Body = data\<rparr>"
    by (auto simp: cluster_handleAddedEvent_def sendNamespaceToNewCluster_def Let_def
        ControlMultiTask_ToClusterMessage_def split: sum.splits option.splits)
  have task: "unpb_multi cd data = Some ?task" using assms(1) data by (simp add: roundtrip_def)
  have "local_Do env handlers msg k = Some ((None, None), multiLoop rest (Verb ''POST'') OteNamespaceURI ?bodies k)"
    using task assms(2)
    by (simp add: msg local_Do_def local_DoControlMultiRequest_def local_handlers [OF assms(3)]
        GetControlMultiTaskFromClusterMessage_def k8s_Do_def k8s_DoControlMultiRequest_def restRequest_def)
  with loop [of nss k] show ?thesis by (simp add: msg)
qed

text \<open>An API server that keeps the bodies posted to it, which are the names.\<close>

definition sample_ns_rest :: "string list restclient" where
  "sample_ns_rest v uri body k = (\<lparr>resCode = 201, resRaw = [], resErr = False\<rparr>, List.insert body k)"

definition sample_ns_json :: "oteNamespace \<Rightarrow> bytes option" where
  "sample_ns_json o' = (case nsMetaData o' of [] \<Rightarrow> Some [] | (_, n) # _ \<Rightarrow> Some n)"

definition sample_ns_http :: "string list httpclient" where
  "sample_ns_http = \<lparr>newRequest = (\<lambda>meth url b. None), clientDo = (\<lambda>meth url b k. (Inl url, k))\<rparr>"

definition sample_cluster :: Cluster where
  "sample_cluster = \<lparr>clNamespace = ''kube-system'', clName = ''c1'', clResourceVersion = [], clSpecName = ''c1'',
     clStatus = \<lparr>stListen = [], stParentName = [], stStatus = [], stTimestamp = 0, stCapacity = [],
       stAllocatable = []\<rparr>\<rparr>"

theorem new_cluster_gets_namespaces_witness:
  "\<exists>k'. local_Do sample_shimenv (the (NewlocalShimClient sample_shimenv (Some sample_ns_rest) sample_ns_http ''h''))
      (the (the (cluster_handleAddedEvent sample_codecs sample_ns_json (Some [''default'', ''prod''])
        (Typed sample_cluster)))) [''default'', ''kube-system''] = Some ((None, None), k') \<and>
    set k' = {''default'', ''prod'', ''kube-system''}"
proof -
  have cd: "roundtrip (pb_multi sample_codecs) (unpb_multi sample_codecs)" "shCodec sample_shimenv = sample_codecs"
    by (simp_all add: sample_codecs_def sample_shimenv_def)
  have new: "NewlocalShimClient sample_shimenv (Some sample_ns_rest) sample_ns_http ''h'' =
      Some (the (NewlocalShimClient sample_shimenv (Some sample_ns_rest) sample_ns_http ''h''))"
    by (simp add: NewlocalShimClient_def)
  have js: "SerializeNamespaceObject sample_ns_json n = Some n" for n
    by (simp add: SerializeNamespaceObject_def sample_ns_json_def go_put_def)
  have post: "set (snd (sample_ns_rest (Verb ''POST'') OteNamespaceURI body k)) = insert n (set k)"
    if "SerializeNamespaceObject sample_ns_json n = Some body" for n body k
    using that by (simp add: js sample_ns_rest_def)
  have ev: "cluster_handleAddedEvent sample_codecs sample_ns_json (Some [''default'', ''prod'']) (Typed sample_cluster) =
      Some (Some (the (the (cluster_handleAddedEvent sample_codecs sample_ns_json (Some [''default'', ''prod''])
        (Typed sample_cluster)))))"
    by (simp add: cluster_handleAddedEvent_def sendNamespaceToNewCluster_def Let_def
        ControlMultiTask_ToClusterMessage_def sample_codecs_def enc_multi_def)
  have ser: "SerializeNamespaceObject sample_ns_json n \<noteq> None" for n by (simp add: js)
  from new_cluster_gets_namespaces [where namespaces = set and k = "[''default'', ''kube-system'']",
      OF cd new ser post ev] obtain k' where
    "local_Do sample_shimenv (the (NewlocalShimClient sample_shimenv (Some sample_ns_rest) sample_ns_http ''h''))
      (the (the (cluster_handleAddedEvent sample_codecs sample_ns_json (Some [''default'', ''prod''])
        (Typed sample_cluster)))) [''default'', ''kube-system''] = Some ((None, None), k')"
    "set k' = set [''default'', ''prod''] \<union> set [''default'', ''kube-system'']" by blast
  then show ?thesis by (intro exI [of _ k'] conjI) auto
qed

end
