(* ===== verification/ControllerApp.thy ===== *)
theory ControllerApp
  imports EdgeHandler CloudTunnel
begin

text \<open>
  The cluster controller's process (\<^verbatim>\<open>cmd/clustercontroller/app/app.go\<close>): its flags, the
  configuration it makes of them, and \<^verbatim>\<open>Run\<close>, which starts the cluster handler and the edge
  handler, or takes part in the election of a leader among several root controllers.

  The election is a library: \<^verbatim>\<open>RunOrDie\<close> calls back on three events and does not return while it
  has not lost the lease. A run is the list of these events, each with the world the callback
  finds. Both handlers and the callbacks share one configuration through a pointer; the
  cluster handler's copy stands for it.
\<close>

section \<open>Flags and configuration\<close>

record ccFlags =
  fParentCluster :: string
  fClusterName :: string
  fKubeConfig :: string
  fTunnelListenAddr :: string
  fRemoteShimAddr :: string
  fHelmTillerAddr :: string
  fLeaderElection :: bool

definition ccDefaults :: ccFlags where
  "ccDefaults = \<lparr>fParentCluster = [], fClusterName = RootClusterName, fKubeConfig = ''/root/.kube/config'',
     fTunnelListenAddr = '':8287'', fRemoteShimAddr = [], fHelmTillerAddr = [], fLeaderElection = False\<rparr>"

definition needsClient :: "ccFlags \<Rightarrow> bool" where
  "needsClient f = (fRemoteShimAddr f = [] \<or> IsRoot (fClusterName f))"

definition ccConfig :: "ccFlags \<Rightarrow> config" where
  "ccConfig f = \<lparr>TunnelListenAddr = fTunnelListenAddr f, LeaderListenAddr = [],
     ParentCluster = fParentCluster f, confClusterName = fClusterName f,
     ClusterUserDefineName = fClusterName f, RemoteShimAddr = fRemoteShimAddr f,
     hasK8sClient = needsClient f\<rparr>"

section \<open>State\<close>

record 'k ccState =
  ccHandler :: "'k handler"
  ccBound :: "string list"

datatype ccError = ClientFailed | K8sClientFailed | HostnameFailed | LockFailed

datatype ccFatal =
    HandlerInvalid handler_error | HandlerStart handler_error | LeadershipLost | EdgeStart edge_error

datatype 'k ccProc =
    Returns ccError
  | Fatal ccFatal
  | Electing "'k ccState"
  | Running "'k ccState" started edge

fun alive :: "'k ccProc \<Rightarrow> bool" where
  "alive (Electing _) = True"
| "alive (Running _ _ _) = True"
| "alive _ = False"

text \<open>What the process finds: whether the clients, the host's name and the lock can be had, what
  listening yields, and whether the shim and the parent can be reached.\<close>

record 'k ccEnv =
  ceNewClient :: bool
  ceNewK8sClient :: bool
  ceHostname :: "string option"
  ceLock :: bool
  ceListen :: "string \<Rightarrow> string list \<Rightarrow> bool"
  ceWorld :: "'k henv"
  ceRemoteOk :: bool
  ceLocalOk :: bool
  ceTunnelOk :: bool

section \<open>Starting the cluster handler\<close>

definition handler_start ::
  "(string \<Rightarrow> string list \<Rightarrow> bool) \<Rightarrow> 'k henv \<Rightarrow> 'k ccState \<Rightarrow> handler_error option \<times> 'k ccState" where
  "handler_start listen env st =
     (case CloudTunnel_Start listen (TunnelListenAddr (conf (ccHandler st))) (ccBound st) of
        (ok, bound) \<Rightarrow>
          (case Start env ok (ccHandler st) of
             (e, h) \<Rightarrow> (e, st\<lparr>ccHandler := h, ccBound := bound\<rparr>)))"

section \<open>The election\<close>

definition leaderIdentity :: "string \<Rightarrow> string \<Rightarrow> string" where
  "leaderIdentity host addr = host @ CHR ''_'' # addr"

definition leaderAddrOf :: "string \<Rightarrow> string" where
  "leaderAddrOf identify = drop (nat (strings_LastIndexByte identify (CHR ''_'') + 1)) identify"

definition setLeaderListenAddr :: "config \<Rightarrow> string \<Rightarrow> string \<Rightarrow> config" where
  "setLeaderListenAddr c leaderAddr currentAddr =
     (if leaderAddr = currentAddr then c else c\<lparr>LeaderListenAddr := leaderAddr\<rparr>)"

definition setLeader :: "string \<Rightarrow> 'k ccState \<Rightarrow> 'k ccState" where
  "setLeader leaderAddr st =
     (let h = ccHandler st in
      st\<lparr>ccHandler := h\<lparr>conf := setLeaderListenAddr (conf h) leaderAddr (TunnelListenAddr (conf h))\<rparr>\<rparr>)"

datatype leaderEvent = StartedLeading | StoppedLeading | NewLeader string

fun election_step ::
  "(string \<Rightarrow> string list \<Rightarrow> bool) \<Rightarrow> 'k henv \<Rightarrow> leaderEvent \<Rightarrow> 'k ccState \<Rightarrow> 'k ccProc" where
  "election_step listen env StartedLeading st = Electing (setLeader [] st)"
| "election_step listen env StoppedLeading st = Fatal LeadershipLost"
| "election_step listen env (NewLeader identify) st =
     (case handler_start listen env (setLeader (leaderAddrOf identify) st) of
        (None, st') \<Rightarrow> Electing st'
      | (Some e, st') \<Rightarrow> Fatal (HandlerStart e))"

fun election_run ::
  "(string \<Rightarrow> string list \<Rightarrow> bool) \<Rightarrow> ('k henv \<times> leaderEvent) list \<Rightarrow> 'k ccState \<Rightarrow> 'k ccProc" where
  "election_run listen [] st = Electing st"
| "election_run listen ((env, ev) # evs) st =
     (case election_step listen env ev st of Electing st' \<Rightarrow> election_run listen evs st' | p \<Rightarrow> p)"

section \<open>Run\<close>

definition cc_Run ::
  "'k ccEnv \<Rightarrow> ccFlags \<Rightarrow> ('k henv \<times> leaderEvent) list \<Rightarrow> 'k \<Rightarrow> 'k ccProc" where
  "cc_Run env f evs k =
     (if needsClient f \<and> \<not> ceNewClient env then Returns ClientFailed
      else case NewClusterHandler (ccConfig f) k of
             Inl e \<Rightarrow> Fatal (HandlerInvalid e)
           | Inr h \<Rightarrow>
               let st = \<lparr>ccHandler = h, ccBound = []\<rparr> in
               if fLeaderElection f \<and> IsRoot (fClusterName f)
               then (if \<not> ceNewK8sClient env then Returns K8sClientFailed
                     else if ceHostname env = None then Returns HostnameFailed
                     else if \<not> ceLock env then Returns LockFailed
                     else election_run (ceListen env) evs st)
               else (case handler_start (ceListen env) (ceWorld env) st of
                       (Some e, st1) \<Rightarrow> Fatal (HandlerStart e)
                     | (None, st1) \<Rightarrow>
                         (case edge_Start (ceRemoteOk env) (ceLocalOk env) (ceTunnelOk env)
                                 (NewEdgeHandler (conf (ccHandler st1))) of
                            (Inl e, e1) \<Rightarrow> Fatal (EdgeStart e)
                          | (Inr s, e1) \<Rightarrow> Running st1 s e1)))"

section \<open>Lemmas\<close>

lemma leaderAddrOf_identity: "CHR ''_'' \<notin> set addr \<Longrightarrow> leaderAddrOf (leaderIdentity host addr) = addr"
  by (simp add: leaderAddrOf_def leaderIdentity_def strings_LastIndexByte_append nat_add_distrib)

lemma createOrUpdateCluster_conf: "createOrUpdateCluster env cl c = (e, c') \<Longrightarrow> conf c' = conf c"
  by (auto simp: createOrUpdateCluster_def split: option.splits prod.splits)

lemma Start_keeps:
  assumes "Start env ok c = (e, c')"
  shows "conf c' = conf c" "\<not> ok \<Longrightarrow> e = Some TunnelStartFailed"
    "ok \<Longrightarrow> \<not> rootClusterEnable c \<Longrightarrow> e = None \<and> c' = c"
  using assms by (auto simp: Start_def dest: createOrUpdateCluster_conf split: if_splits)

lemma handler_start_keeps:
  assumes "handler_start listen env st = (e, st')"
  shows "conf (ccHandler st') = conf (ccHandler st)"
    and "e = None \<Longrightarrow> listen (TunnelListenAddr (conf (ccHandler st))) (ccBound st) \<and>
      ccBound st' = TunnelListenAddr (conf (ccHandler st)) # ccBound st"
proof -
  let ?a = "TunnelListenAddr (conf (ccHandler st))"
  obtain ok bound where t: "CloudTunnel_Start listen ?a (ccBound st) = (ok, bound)" by fastforce
  obtain h where h: "Start env ok (ccHandler st) = (e, h)" "st' = st\<lparr>ccHandler := h, ccBound := bound\<rparr>"
    using assms t by (auto simp: handler_start_def split: prod.splits)
  from Start_keeps(1) [OF h(1)] h(2) show "conf (ccHandler st') = conf (ccHandler st)" by simp
  assume "e = None"
  with Start_keeps(2) [OF h(1)] have "ok" by blast
  with t h(2) show "listen ?a (ccBound st) \<and> ccBound st' = ?a # ccBound st"
    by (simp add: CloudTunnel_Start_def split: if_splits)
qed

lemma setLeader_keeps [simp]:
  "TunnelListenAddr (conf (ccHandler (setLeader a st))) = TunnelListenAddr (conf (ccHandler st))"
  "ccBound (setLeader a st) = ccBound st"
  "rootClusterEnable (ccHandler (setLeader a st)) = rootClusterEnable (ccHandler st)"
  "kube (ccHandler (setLeader a st)) = kube (ccHandler st)"
  "LeaderListenAddr (conf (ccHandler (setLeader a st))) =
     (if a = TunnelListenAddr (conf (ccHandler st)) then LeaderListenAddr (conf (ccHandler st)) else a)"
  by (simp_all add: setLeader_def setLeaderListenAddr_def Let_def)

text \<open>A configuration that the cluster handler accepts is accepted by the edge handler, which
  serves the root's own cluster exactly when the cluster handler does.\<close>

lemma edge_accepts:
  assumes "valid (ccConfig f) = Inr (rce, k8s)" "conf h = ccConfig f"
  shows "\<exists>e. edge_valid (NewEdgeHandler (conf h)) = (None, e) \<and> econf e = conf h \<and> eRootClusterEnable e = rce"
  using assms
  by (auto simp: edge_valid_def valid_def NewEdgeHandler_def ccConfig_def needsClient_def edge_isRoot_def
      isRemoteShim_def Let_def split: if_splits)

end
