(* ===== verification/ElectionProps.thy ===== *)
theory ElectionProps
  imports ControllerApp SampleEnv HandlerLemmas
begin

text \<open>
  Properties of the cluster controller's process: which flags start it, and what an election
  among several root controllers does to each of them.
\<close>

section \<open>The life of a replica\<close>

definition isNewLeader :: "'k henv \<times> leaderEvent \<Rightarrow> bool" where
  "isNewLeader p = (case snd p of NewLeader _ \<Rightarrow> True | _ \<Rightarrow> False)"

lemma handler_start_fresh:
  assumes "\<not> rootClusterEnable (ccHandler st)" "listen (TunnelListenAddr (conf (ccHandler st))) (ccBound st)"
  shows "handler_start listen env st =
    (None, st\<lparr>ccBound := TunnelListenAddr (conf (ccHandler st)) # ccBound st\<rparr>)"
  using assms by (simp add: handler_start_def CloudTunnel_Start_def Start_def)

lemma handler_start_bound:
  assumes "\<not> listen (TunnelListenAddr (conf (ccHandler st))) (ccBound st)"
  shows "fst (handler_start listen env st) = Some TunnelStartFailed"
  using assms by (simp add: handler_start_def CloudTunnel_Start_def Start_def)

text \<open>The listening address never changes in an election, and a replica that is bound to it
  survives only without a further leader.\<close>

lemma election_run_alive:
  assumes "\<not> rootClusterEnable (ccHandler st)" "TunnelListenAddr (conf (ccHandler st)) = a"
    and listen: "listen a []" "\<And>bound. a \<in> set bound \<Longrightarrow> \<not> listen a bound"
    and "ccBound st = (if b then [a] else [])"
  shows "alive (election_run listen evs st) \<longleftrightarrow>
    StoppedLeading \<notin> snd ` set evs \<and> length (filter isNewLeader evs) + (if b then 1 else 0) \<le> 1"
  using assms(1,2,5)
proof (induction evs arbitrary: st b)
  case (Cons x evs)
  obtain env ev where x: "x = (env, ev)" by fastforce
  show ?case
  proof (cases ev)
    case StartedLeading
    with Cons.IH [of "setLeader [] st" b] Cons.prems x show ?thesis by (simp add: isNewLeader_def)
  next
    case StoppedLeading
    with x show ?thesis by simp
  next
    case (NewLeader i)
    let ?st = "setLeader (leaderAddrOf i) st"
    show ?thesis
    proof (cases b)
      case True
      then have "\<not> listen (TunnelListenAddr (conf (ccHandler ?st))) (ccBound ?st)"
        using Cons.prems listen(2) [of "[a]"] by simp
      from handler_start_bound [where listen = listen and st = ?st, OF this, of env]
      have "\<not> alive (election_run listen (x # evs) st)"
        using x NewLeader by (auto split: prod.splits option.splits)
      with True x NewLeader show ?thesis by (simp add: isNewLeader_def)
    next
      case False
      then have "handler_start listen env ?st = (None, ?st\<lparr>ccBound := [a]\<rparr>)"
        using Cons.prems listen(1) by (subst handler_start_fresh) simp_all
      with x NewLeader False Cons.IH [of "?st\<lparr>ccBound := [a]\<rparr>" True] Cons.prems show ?thesis
        by (simp add: isNewLeader_def)
    qed
  qed
qed (simp split: if_splits)

text \<open>The handler a set of flags yields.\<close>

definition ccFresh :: "ccFlags \<Rightarrow> 'k \<Rightarrow> 'k handler" where
  "ccFresh f k = \<lparr>conf = ccConfig f, k8sEnable = needsClient f,
     rootClusterEnable = (IsRoot (fClusterName f) \<and> fRemoteShimAddr f \<noteq> []),
     router = defaultClusterRouter, kube = k\<rparr>"

definition ccValid :: "ccFlags \<Rightarrow> bool" where
  "ccValid f \<longleftrightarrow> fClusterName f \<noteq> [] \<and> (fParentCluster f = []) = IsRoot (fClusterName f) \<and> fTunnelListenAddr f \<noteq> []"

lemma NewClusterHandler_flags:
  "(case NewClusterHandler (ccConfig f) k of Inl _ \<Rightarrow> \<not> ccValid f | Inr h \<Rightarrow> ccValid f \<and> h = ccFresh f k)"
  by (auto simp: NewClusterHandler_def valid_def ccConfig_def ccValid_def ccFresh_def needsClient_def Let_def)

lemma NewClusterHandler_fresh: "ccValid f \<Longrightarrow> NewClusterHandler (ccConfig f) k = Inr (ccFresh f k)"
  using NewClusterHandler_flags [of f k] by (simp split: sum.splits)

text \<open>C35: A root controller does not survive a change of leadership. With leader election, the
  callback for every new leader starts the cluster handler again; the second start cannot bind
  the address the first one holds, and the error is fatal. So a replica lives exactly as
  long as it sees no more than one leader and loses no lease of its own.\<close>

theorem leader_change_fatal:
  assumes "ccValid f" "fLeaderElection f" "IsRoot (fClusterName f)" "fRemoteShimAddr f = []"
    and "ceNewClient env" "ceNewK8sClient env" "ceHostname env \<noteq> None" "ceLock env"
    and "ceListen env (fTunnelListenAddr f) []"
    and "\<And>bound. fTunnelListenAddr f \<in> set bound \<Longrightarrow> \<not> ceListen env (fTunnelListenAddr f) bound"
  shows "alive (cc_Run env f evs k) \<longleftrightarrow>
    StoppedLeading \<notin> snd ` set evs \<and> length (filter isNewLeader evs) \<le> 1"
proof -
  let ?st = "\<lparr>ccHandler = ccFresh f k, ccBound = []\<rparr>"
  have "cc_Run env f evs k = election_run (ceListen env) evs ?st"
    using assms by (auto simp: cc_Run_def NewClusterHandler_fresh)
  moreover have "alive (election_run (ceListen env) evs ?st) \<longleftrightarrow>
      StoppedLeading \<notin> snd ` set evs \<and> length (filter isNewLeader evs) + (if False then 1 else 0) \<le> 1"
    by (rule election_run_alive [where a = "fTunnelListenAddr f"])
      (use assms in \<open>simp_all add: ccFresh_def ccConfig_def\<close>)
  ultimately show ?thesis by simp
qed

definition sample_flags :: ccFlags where
  "sample_flags = ccDefaults\<lparr>fLeaderElection := True\<rparr>"

definition sample_ccenv :: "store ccEnv" where
  "sample_ccenv = \<lparr>ceNewClient = True, ceNewK8sClient = True, ceHostname = Some ''a'', ceLock = True,
     ceListen = (\<lambda>a bound. a \<notin> set bound), ceWorld = sample_env, ceRemoteOk = True, ceLocalOk = True,
     ceTunnelOk = True\<rparr>"

definition sample_k :: store where
  "sample_k = \<lparr>st_clusters = [], st_controllers = []\<rparr>"

lemmas sample_cc_defs = sample_flags_def sample_ccenv_def ccDefaults_def ccValid_def IsRoot_def RootClusterName_def

lemma sample_cc_run:
  "cc_Run sample_ccenv sample_flags evs sample_k =
     election_run (\<lambda>a bound. a \<notin> set bound) evs \<lparr>ccHandler = ccFresh sample_flags sample_k, ccBound = []\<rparr>"
proof -
  have "ccValid sample_flags" by (simp add: sample_cc_defs)
  from NewClusterHandler_fresh [OF this, of sample_k] show ?thesis
    by (simp add: cc_Run_def Let_def) (simp add: sample_cc_defs)
qed

lemma sample_cc_leader:
  "CHR ''_'' \<notin> set addr \<Longrightarrow>
   cc_Run sample_ccenv sample_flags [(env, NewLeader (leaderIdentity host addr))] sample_k =
     Electing (setLeader addr \<lparr>ccHandler = ccFresh sample_flags sample_k, ccBound = ['':8287'']\<rparr>)"
  by (subst sample_cc_run) (simp add: leaderAddrOf_identity handler_start_def CloudTunnel_Start_def Start_def setLeader_def
      setLeaderListenAddr_def ccFresh_def ccConfig_def Let_def sample_cc_defs)

theorem leader_change_fatal_witness:
  "alive (cc_Run sample_ccenv sample_flags
      [(sample_env, NewLeader ''a_:8287''), (sample_env, StartedLeading)] sample_k) \<and>
   \<not> alive (cc_Run sample_ccenv sample_flags
      [(sample_env, NewLeader ''a_:8287''), (sample_env, NewLeader ''b_:8287'')] sample_k)"
proof -
  have "ccValid sample_flags" "fLeaderElection sample_flags" "IsRoot (fClusterName sample_flags)"
    "fRemoteShimAddr sample_flags = []" "ceNewClient sample_ccenv" "ceNewK8sClient sample_ccenv"
    "ceHostname sample_ccenv \<noteq> None" "ceLock sample_ccenv"
    "ceListen sample_ccenv (fTunnelListenAddr sample_flags) []"
    "\<And>bound. fTunnelListenAddr sample_flags \<in> set bound \<Longrightarrow>
       \<not> ceListen sample_ccenv (fTunnelListenAddr sample_flags) bound"
    by (simp_all add: sample_cc_defs)
  from leader_change_fatal [OF this] show ?thesis by (simp add: isNewLeader_def)
qed

section \<open>Who redirects\<close>

text \<open>The leaders a replica was told of all listen on \<open>addr\<close>.\<close>

definition leaders_at :: "string \<Rightarrow> ('k henv \<times> leaderEvent) list \<Rightarrow> bool" where
  "leaders_at addr evs \<longleftrightarrow> (\<forall>i. NewLeader i \<in> snd ` set evs \<longrightarrow> (\<exists>host. i = leaderIdentity host addr))"

lemma election_run_redirect:
  assumes "election_run listen evs st = Electing st'" "leaders_at addr evs" "CHR ''_'' \<notin> set addr"
    and "LeaderListenAddr (conf (ccHandler st)) = (if b then addr else [])"
    and own: "TunnelListenAddr (conf (ccHandler st)) = own" "own \<noteq> []" "b \<longrightarrow> addr \<noteq> own"
  shows "LeaderListenAddr (conf (ccHandler st')) \<in> {[], addr} \<and>
    (addr = own \<longrightarrow> LeaderListenAddr (conf (ccHandler st')) = []) \<and>
    (addr \<noteq> own \<longrightarrow> StartedLeading \<notin> snd ` set evs \<longrightarrow> b \<or> filter isNewLeader evs \<noteq> [] \<longrightarrow>
       LeaderListenAddr (conf (ccHandler st')) = addr)"
  using assms(1,2,4-)
proof (induction evs arbitrary: st b)
  case (Cons x evs)
  obtain env ev where x: "x = (env, ev)" by fastforce
  from Cons.prems(2) have at: "leaders_at addr evs" by (simp add: leaders_at_def)
  show ?case
  proof (cases ev)
    case StartedLeading
    with Cons.prems x have "election_run listen evs (setLeader [] st) = Electing st'" by simp
    from Cons.IH [OF this at, of False] Cons.prems(4,5) StartedLeading x show ?thesis by simp
  next
    case StoppedLeading
    with Cons.prems x show ?thesis by simp
  next
    case (NewLeader i)
    with Cons.prems(2) x obtain host where "i = leaderIdentity host addr" by (auto simp: leaders_at_def)
    then have i: "leaderAddrOf i = addr" by (simp add: leaderAddrOf_identity assms(3))
    obtain e st1 where h: "handler_start listen env (setLeader addr st) = (e, st1)" by fastforce
    with Cons.prems(1) x NewLeader i have run: "election_run listen evs st1 = Electing st'"
      by (auto split: option.splits)
    have "LeaderListenAddr (conf (ccHandler st1)) = (if addr \<noteq> own then addr else [])"
      "TunnelListenAddr (conf (ccHandler st1)) = own"
      using handler_start_keeps(1) [OF h] Cons.prems(3-6) by auto
    from Cons.IH [OF run at this Cons.prems(5)] x NewLeader show ?thesis
      by (simp add: isNewLeader_def)
  qed
qed (auto split: if_splits)

lemma cc_Run_electing:
  assumes "cc_Run env f evs k = Electing st"
  shows "ccValid f \<and> election_run (ceListen env) evs \<lparr>ccHandler = ccFresh f k, ccBound = []\<rparr> = Electing st"
  using assms NewClusterHandler_flags [of f k]
  by (auto simp: cc_Run_def Let_def split: if_splits sum.splits prod.splits option.splits)

lemma cc_Run_redirect:
  assumes "cc_Run env f evs k = Electing st" "leaders_at addr evs" "CHR ''_'' \<notin> set addr"
  shows "(addr = fTunnelListenAddr f \<longrightarrow> LeaderListenAddr (conf (ccHandler st)) = []) \<and>
    (addr \<noteq> fTunnelListenAddr f \<longrightarrow> StartedLeading \<notin> snd ` set evs \<longrightarrow> filter isNewLeader evs \<noteq> [] \<longrightarrow>
       LeaderListenAddr (conf (ccHandler st)) = addr)"
proof -
  from cc_Run_electing [OF assms(1)] have v: "ccValid f"
    and run: "election_run (ceListen env) evs \<lparr>ccHandler = ccFresh f k, ccBound = []\<rparr> = Electing st" by auto
  from election_run_redirect [OF run assms(2,3), of False "fTunnelListenAddr f"] v show ?thesis
    by (simp add: ccFresh_def ccConfig_def ccValid_def)
qed

text \<open>C36: A replica that was told of a leader and does not lead sends every child and every
  controller manager to the address the leader listens on, provided that address differs from
  its own.\<close>

theorem follower_redirects:
  assumes "cc_Run env f evs k = Electing st" "leaders_at addr evs" "CHR ''_'' \<notin> set addr"
    and "StartedLeading \<notin> snd ` set evs" "filter isNewLeader evs \<noteq> []"
    and "addr \<noteq> fTunnelListenAddr f" "addr \<noteq> []"
  shows "accessHandler (LeaderListenAddr (conf (ccHandler st))) check up t r tun = (Found addr (reqURI r), None, []) \<and>
    controllerHandler (LeaderListenAddr (conf (ccHandler st))) up ws r tun = (Found addr (reqURI r), tun)"
  using cc_Run_redirect [OF assms(1-3)] assms(4-7) by (simp add: accessHandler_def controllerHandler_def)

definition sample_request :: request where
  "sample_request = \<lparr>reqURI = ''/access/c1'', reqCluster = ''c1'', reqListenAddr = '':8273'',
     reqUserDefineName = ''c1'', reqRemoteAddr = ''10.0.0.7:4711''\<rparr>"

definition sample_follower :: "store ccState" where
  "sample_follower = setLeader ''10.0.0.2:8287''
     \<lparr>ccHandler = ccFresh sample_flags sample_k, ccBound = ['':8287'']\<rparr>"

theorem follower_redirects_witness:
  "accessHandler (LeaderListenAddr (conf (ccHandler sample_follower)))
     (\<lambda>cr. (True, cr, [] :: action list)) True 0 sample_request NewCloudTunnel =
     (Found ''10.0.0.2:8287'' ''/access/c1'', None, []) \<and>
   controllerHandler (LeaderListenAddr (conf (ccHandler sample_follower))) True 0 sample_request NewCloudTunnel =
     (Found ''10.0.0.2:8287'' ''/access/c1'', NewCloudTunnel)"
proof -
  let ?evs = "[(sample_env, NewLeader (leaderIdentity ''b'' ''10.0.0.2:8287''))]"
  have "cc_Run sample_ccenv sample_flags ?evs sample_k = Electing sample_follower"
    by (simp add: sample_cc_leader sample_follower_def)
  moreover have "leaders_at ''10.0.0.2:8287'' ?evs" by (auto simp: leaders_at_def)
  moreover have "filter isNewLeader ?evs \<noteq> []" "''10.0.0.2:8287'' \<noteq> fTunnelListenAddr sample_flags"
    by (simp_all add: isNewLeader_def sample_cc_defs)
  ultimately have "accessHandler (LeaderListenAddr (conf (ccHandler sample_follower)))
        (\<lambda>cr. (True, cr, [] :: action list)) True 0 sample_request NewCloudTunnel =
      (Found ''10.0.0.2:8287'' (reqURI sample_request), None, []) \<and>
      controllerHandler (LeaderListenAddr (conf (ccHandler sample_follower))) True 0 sample_request NewCloudTunnel =
      (Found ''10.0.0.2:8287'' (reqURI sample_request), NewCloudTunnel)"
    by (intro follower_redirects [where evs = ?evs]) simp_all
  then show ?thesis by (simp add: sample_request_def)
qed

text \<open>C37: Replicas that are told to listen on the same address, such as the default one, are all
  leaders for their clients. The address is compared as it was given, without the host, so
  that a replica takes any other leader for itself and accepts children and controller
  managers that should go to the leader.\<close>

theorem same_address_no_redirect:
  assumes "cc_Run env f evs k = Electing st" "leaders_at (fTunnelListenAddr f) evs"
    and "CHR ''_'' \<notin> set (fTunnelListenAddr f)"
    and "reqListenAddr r \<noteq> []" "reqUserDefineName r \<noteq> []" "\<not> go_has (clients tun) (reqCluster r)"
  shows "fst (accessHandler (LeaderListenAddr (conf (ccHandler st))) (\<lambda>cr. (True, cr, [] :: action list)) True t r tun) = Upgraded \<and>
    fst (controllerHandler (LeaderListenAddr (conf (ccHandler st))) True ws r tun) = Upgraded"
  using cc_Run_redirect [OF assms(1-3)] assms(4-6) by (simp add: accessHandler_def controllerHandler_def)

definition sample_elected :: "store ccState" where
  "sample_elected = setLeader '':8287'' \<lparr>ccHandler = ccFresh sample_flags sample_k, ccBound = ['':8287'']\<rparr>"

theorem same_address_no_redirect_witness:
  "cc_Run sample_ccenv sample_flags [(sample_env, NewLeader (leaderIdentity ''b'' '':8287''))] sample_k =
     Electing sample_elected \<and>
   fst (accessHandler (LeaderListenAddr (conf (ccHandler sample_elected))) (\<lambda>cr. (True, cr, [] :: action list)) True 0
     sample_request NewCloudTunnel) = Upgraded"
proof -
  let ?evs = "[(sample_env, NewLeader (leaderIdentity ''b'' '':8287''))]"
  have run: "cc_Run sample_ccenv sample_flags ?evs sample_k = Electing sample_elected"
    by (simp add: sample_cc_leader sample_elected_def)
  moreover have "leaders_at (fTunnelListenAddr sample_flags) ?evs"
    by (auto simp: leaders_at_def sample_cc_defs)
  moreover have "CHR ''_'' \<notin> set (fTunnelListenAddr sample_flags)" by (simp add: sample_cc_defs)
  ultimately have "fst (accessHandler (LeaderListenAddr (conf (ccHandler sample_elected)))
        (\<lambda>cr. (True, cr, [] :: action list)) True 0 sample_request NewCloudTunnel) = Upgraded \<and>
      fst (controllerHandler (LeaderListenAddr (conf (ccHandler sample_elected))) True 0 sample_request NewCloudTunnel) =
        Upgraded"
    by (rule same_address_no_redirect) (simp_all add: sample_request_def NewCloudTunnel_def go_has_def)
  with run show ?thesis by blast
qed

section \<open>Starting up\<close>

definition shimOf :: "ccFlags \<Rightarrow> started" where
  "shimOf f = \<lparr>shimClient = (if fRemoteShimAddr f \<noteq> [] then Some RemoteShim
       else if IsRoot (fClusterName f) then None else Some LocalShim),
     runsTunnel = (\<not> IsRoot (fClusterName f)),
     runsRootLoop = (IsRoot (fClusterName f) \<and> fRemoteShimAddr f \<noteq> [])\<rparr>"

lemma edge_Start_fresh:
  assumes "ccValid f"
  shows "edge_Start rok lok tok (NewEdgeHandler (ccConfig f)) =
    (let e = (NewEdgeHandler (ccConfig f))\<lparr>eRootClusterEnable := IsRoot (fClusterName f) \<and> fRemoteShimAddr f \<noteq> []\<rparr> in
     if \<not> (if fRemoteShimAddr f \<noteq> [] then rok else IsRoot (fClusterName f) \<or> lok) then (Inl NoShimClient, e)
     else if \<not> (IsRoot (fClusterName f) \<or> tok) then (Inl EdgeTunnelFailed, e)
     else (Inr (shimOf f), e))"
  using assms
  by (auto simp: edge_Start_def edge_valid_def NewEdgeHandler_def ccConfig_def ccValid_def needsClient_def
      edge_isRoot_def isRemoteShim_def shimOf_def Let_def)

lemma election_not_running: "election_run listen evs st \<noteq> Running st' s e"
proof (induction evs arbitrary: st)
  case (Cons x evs)
  obtain env ev where "x = (env, ev)" by fastforce
  with Cons show ?case by (cases ev) (auto split: ccProc.splits prod.splits option.splits)
qed simp

lemma createOrUpdateCluster_switch:
  "createOrUpdateCluster env cl c = (e, c') \<Longrightarrow> rootClusterEnable c' = rootClusterEnable c"
  by (auto simp: createOrUpdateCluster_def split: option.splits prod.splits)

lemma handler_start_ccFresh:
  assumes "handler_start listen env \<lparr>ccHandler = ccFresh f k, ccBound = []\<rparr> = (e, st)"
  shows "e = None \<longleftrightarrow> listen (fTunnelListenAddr f) [] \<and> fst (Start env True (ccFresh f k)) = None"
    and "conf (ccHandler st) = ccConfig f" "rootClusterEnable (ccHandler st) = runsRootLoop (shimOf f)"
proof -
  obtain h where h: "Start env (listen (fTunnelListenAddr f) []) (ccFresh f k) = (e, h)" "ccHandler st = h"
    using assms by (auto simp: handler_start_def CloudTunnel_Start_def ccFresh_def ccConfig_def
        split: prod.splits if_splits)
  then show "e = None \<longleftrightarrow> listen (fTunnelListenAddr f) [] \<and> fst (Start env True (ccFresh f k)) = None"
    by (cases "listen (fTunnelListenAddr f) []") (auto simp: Start_def)
  from h Start_keeps(1) [OF h(1)] show "conf (ccHandler st) = ccConfig f" by (simp add: ccFresh_def)
  have "rootClusterEnable h = rootClusterEnable (ccFresh f k)"
    using h(1) by (auto simp: Start_def dest: createOrUpdateCluster_switch split: if_splits)
  with h(2) show "rootClusterEnable (ccHandler st) = runsRootLoop (shimOf f)"
    by (simp add: ccFresh_def shimOf_def)
qed

text \<open>C38: When both handlers of a controller run. The flags must pass the cluster handler's check,
  a client must be had where one is needed, the address must be free and the first steps of
  the cluster handler, the shim and the parent must work out; the edge handler's own check
  never fails. A root that takes part in an election never runs its edge handler: the election
  does not return, so that a shim given to such a root is not used. Once the handlers run, the
  shim is the remote one if there is an address for it, and the local one otherwise, except at
  a root, which then has none.\<close>

theorem controller_runs_iff:
  "((\<exists>st s e. cc_Run env f evs k = Running st s e) \<longleftrightarrow>
     ccValid f \<and> \<not> (fLeaderElection f \<and> IsRoot (fClusterName f)) \<and> (needsClient f \<longrightarrow> ceNewClient env) \<and>
     ceListen env (fTunnelListenAddr f) [] \<and> fst (Start (ceWorld env) True (ccFresh f k)) = None \<and>
     (if fRemoteShimAddr f \<noteq> [] then ceRemoteOk env else IsRoot (fClusterName f) \<or> ceLocalOk env) \<and>
     (IsRoot (fClusterName f) \<or> ceTunnelOk env)) \<and>
   (\<forall>st s e. cc_Run env f evs k = Running st s e \<longrightarrow>
     s = shimOf f \<and> rootClusterEnable (ccHandler st) = runsRootLoop s \<and> econf e = conf (ccHandler st))"
proof (cases "ccValid f \<and> \<not> (fLeaderElection f \<and> IsRoot (fClusterName f)) \<and> (needsClient f \<longrightarrow> ceNewClient env)")
  case True
  obtain err st1 where h: "handler_start (ceListen env) (ceWorld env) \<lparr>ccHandler = ccFresh f k, ccBound = []\<rparr> = (err, st1)"
    by fastforce
  from True h have run: "cc_Run env f evs k =
      (case err of Some e \<Rightarrow> Fatal (HandlerStart e) | None \<Rightarrow>
         (case edge_Start (ceRemoteOk env) (ceLocalOk env) (ceTunnelOk env) (NewEdgeHandler (conf (ccHandler st1))) of
            (Inl e, e1) \<Rightarrow> Fatal (EdgeStart e) | (Inr s, e1) \<Rightarrow> Running st1 s e1))"
    by (auto simp: cc_Run_def NewClusterHandler_fresh Let_def split: option.splits)
  have "econf (NewEdgeHandler c\<lparr>eRootClusterEnable := b\<rparr>) = c" for c b by (simp add: NewEdgeHandler_def)
  with True handler_start_ccFresh [OF h] run show ?thesis
    by (auto simp: edge_Start_fresh Let_def split: option.splits if_splits)
next
  case False
  have "cc_Run env f evs k \<noteq> Running st s e" for st s e
    using False NewClusterHandler_flags [of f k]
    by (auto simp: cc_Run_def Let_def election_not_running split: sum.splits if_splits)
  with False show ?thesis by blast
qed

theorem controller_runs_iff_witness:
  "(\<exists>st s e. cc_Run sample_ccenv ccDefaults [] sample_k = Running st s e) \<and>
   (\<nexists>st s e. cc_Run sample_ccenv sample_flags [] sample_k = Running st s e)"
proof -
  have "ccValid ccDefaults" "\<not> fLeaderElection ccDefaults" "ceNewClient sample_ccenv"
    "ceListen sample_ccenv (fTunnelListenAddr ccDefaults) []" "IsRoot (fClusterName ccDefaults)"
    "fRemoteShimAddr ccDefaults = []" "fLeaderElection sample_flags" "IsRoot (fClusterName sample_flags)"
    by (simp_all add: sample_cc_defs)
  moreover from this have "fst (Start (ceWorld sample_ccenv) True (ccFresh ccDefaults sample_k)) = None"
    by (simp add: Start_def ccFresh_def)
  ultimately show ?thesis by (simp only: controller_runs_iff [THEN conjunct1] if_False simp_thms HOL.refl)
qed

end
