(* ===== verification/ShimApp.thy ===== *)
theory ShimApp
  imports Reporters Shim
begin

text \<open>
  The processes of the shims (\<^verbatim>\<open>cmd/k8s_cluster_shim/app/app.go\<close>, \<^verbatim>\<open>cmd/k3s_cluster_shim/app/app.go\<close>):
  the handlers they register with the shim server, and the loop of the first one, which starts
  the reporters when a cluster controller connects and stops them when it is gone.

  All reporters share one context through a pointer. Each reporter with an informer starts a
  goroutine that waits for the informer's cache and then lists it; it reads the context when
  it starts and once more when it lists, so that it is a state machine of its own. Handles are
  numbers: a stop channel and an informer factory get a fresh one each time.
\<close>

section \<open>Handlers\<close>

definition k8sShimServer ::
  "shimenv \<Rightarrow> 'k restclient \<Rightarrow> 'k httpclient \<Rightarrow> string \<Rightarrow> 'k ShimServer" where
  "k8sShimServer env k8sClient client helmConfig =
     RegisterHandler ClusterControllerDestHelm (proxy_Do env client (NewHTTPProxyHandler helmConfig))
       (RegisterHandler ClusterControllerDestAPI (k8s_Do env k8sClient) NewShimServer)"

definition k3sShimServer :: "shimenv \<Rightarrow> 'k restclient \<Rightarrow> 'k ShimServer" where
  "k3sShimServer env k3sClient =
     RegisterHandler ClusterControllerDestAPI (k8s_Do env k3sClient) NewShimServer"

section \<open>State\<close>

datatype fullList = FLEnter | FLWait "handle option" | FLList

record shimApp =
  appCtx :: ReporterContext
  appClosed :: "handle list"
  appFresh :: handle
  appFullLists :: "fullList list"
  appSets :: "handle list"

text \<open>The sets of reporters whose stop channel is open.\<close>

definition runningSets :: "shimApp \<Rightarrow> handle list" where
  "runningSets a = filter (\<lambda>h. h \<notin> set (appClosed a)) (appSets a)"

definition appStart :: "string \<Rightarrow> bool \<Rightarrow> shimApp" where
  "appStart clusterName lightweightReport =
     \<lparr>appCtx = \<lparr>ctxClusterName = clusterName, ctxSyncChan = Some 0, ctxStopChan = None,
        IsLightweightReport = lightweightReport, ctxInformerFactory = None, ctxKubeClient = Some 1\<rparr>,
      appClosed = [], appFresh = 2, appFullLists = [], appSets = []\<rparr>"

section \<open>Starting and stopping the reporters\<close>

text \<open>The first error of an initializer ends the loop.\<close>

fun startReporters :: "(string, ReporterContext option \<Rightarrow> string option) gomap \<Rightarrow> ReporterContext \<Rightarrow> string option" where
  "startReporters [] ctx = None"
| "startReporters ((reporterName, initFn) # reporters) ctx =
     (case initFn (Some ctx) of Some err \<Rightarrow> Some err | None \<Rightarrow> startReporters reporters ctx)"

text \<open>The reporters with an informer, each of which starts a goroutine for its full list.\<close>

definition informerReporters :: "string list" where
  "informerReporters = [''podReporter'', ''nodeReporter'', ''deployment'', ''daemonset'', ''service'']"

definition stopReporters :: "shimApp \<Rightarrow> shimApp" where
  "stopReporters a =
     (let ctx = appCtx a in
      a\<lparr>appClosed := (case ctxStopChan ctx of
           None \<Rightarrow> appClosed a
         | Some h \<Rightarrow> if h \<in> set (appClosed a) then appClosed a else h # appClosed a),
        appCtx := ctx\<lparr>ctxInformerFactory := None\<rparr>\<rparr>)"

section \<open>The loop and the goroutines\<close>

datatype appOutcome = AppFatal string | AppPanic | AppNext shimApp

definition handleSignal :: "bool \<Rightarrow> shimApp \<Rightarrow> appOutcome" where
  "handleSignal connected a =
     (if connected
      then (let ctx = (appCtx a)\<lparr>ctxInformerFactory := Some (appFresh a), ctxStopChan := Some (Suc (appFresh a))\<rparr>;
                a1 = a\<lparr>appCtx := ctx, appFresh := appFresh a + 2\<rparr>
            in case startReporters NewReporterInitializers ctx of
                 Some err \<Rightarrow> AppFatal err
               | None \<Rightarrow> AppNext (a1\<lparr>appFullLists := appFullLists a1 @ map (\<lambda>_. FLEnter) informerReporters,
                   appSets := appSets a1 @ [Suc (appFresh a)]\<rparr>))
      else AppNext (stopReporters a))"

text \<open>One step of a goroutine for a full list. \<open>synced\<close> is whether its informer has synced;
  \<open>None\<close> means that it has ended. A call on a nil factory panics.\<close>

definition fullList_step :: "bool \<Rightarrow> fullList \<Rightarrow> shimApp \<Rightarrow> fullList option option" where
  "fullList_step synced g a =
     (case g of
        FLEnter \<Rightarrow>
          (case ctxInformerFactory (appCtx a) of
             Some _ \<Rightarrow> Some (Some (FLWait (ctxStopChan (appCtx a))))
           | None \<Rightarrow> None)
      | FLWait h \<Rightarrow>
          if synced then Some (Some FLList)
          else if h \<in> Some ` set (appClosed a) then Some None
          else Some (Some (FLWait h))
      | FLList \<Rightarrow> (case ctxInformerFactory (appCtx a) of Some _ \<Rightarrow> Some None | None \<Rightarrow> None))"

datatype appEvent = Signal bool | FullTurn nat bool

fun app_step :: "appEvent \<Rightarrow> shimApp \<Rightarrow> appOutcome" where
  "app_step (Signal b) a = handleSignal b a"
| "app_step (FullTurn i synced) a =
     (let gs = appFullLists a in
      if i < length gs
      then (case fullList_step synced (gs ! i) a of
              None \<Rightarrow> AppPanic
            | Some (Some g) \<Rightarrow> AppNext (a\<lparr>appFullLists := gs[i := g]\<rparr>)
            | Some None \<Rightarrow> AppNext (a\<lparr>appFullLists := take i gs @ drop (Suc i) gs\<rparr>))
      else AppNext a)"

fun app_run :: "appEvent list \<Rightarrow> shimApp \<Rightarrow> appOutcome" where
  "app_run [] a = AppNext a"
| "app_run (e # es) a = (case app_step e a of AppNext a' \<Rightarrow> app_run es a' | r \<Rightarrow> r)"

section \<open>Lemmas\<close>

text \<open>The handlers of the shim for Kubernetes are those a controller without a remote shim has.\<close>

lemma k8sShim_handlers:
  "Some (ssHandlers (k8sShimServer env rest client helm)) = NewlocalShimClient env (Some rest) client helm"
  by (simp add: k8sShimServer_def NewlocalShimClient_def RegisterHandler_def NewShimServer_def)

lemma reporters_start:
  assumes "ctxSyncChan ctx \<noteq> None" "ctxStopChan ctx \<noteq> None" "ctxInformerFactory ctx \<noteq> None" "ctxKubeClient ctx \<noteq> None"
  shows "startReporters NewReporterInitializers ctx = None"
proof -
  have v: "ReporterContext_IsValid (Some ctx)"
    using assms by (simp add: ReporterContext_IsValid_def BaseReporterContext_IsValid_def)
  obtain client where "ctxKubeClient ctx = Some client" using assms(4) by blast
  with v show ?thesis
    by (simp add: NewReporterInitializers_def startPodReporter_def newPodReporter_def rep_start_def
        startClusterStatusReporter_def newClusterStatusReporter_def startNodeReporter_def newNodeReporter_def
        startError_def startDeploymentReporter_def startDaemonsetReporter_def startServiceReporter_def)
qed

end
