(* ===== verification/ShimAppProps.thy ===== *)
theory ShimAppProps
  imports ShimApp ShimProps
begin

text \<open>
  Properties of the shim's process: the reporters run exactly while a cluster controller is
  connected, and what happens when controllers come and go too fast.
\<close>

section \<open>The invariant\<close>

definition signalsOf :: "appEvent list \<Rightarrow> bool list" where
  "signalsOf evs = List.map_filter (\<lambda>e. case e of Signal b \<Rightarrow> Some b | FullTurn _ _ \<Rightarrow> None) evs"

lemma signalsOf_simps [simp]:
  "signalsOf [] = []" "signalsOf (Signal b # evs) = b # signalsOf evs"
  "signalsOf (FullTurn i s # evs) = signalsOf evs"
  by (simp_all add: signalsOf_def List.map_filter_simps)

text \<open>\<open>on\<close> says that the last signal was a connection.\<close>

definition app_inv :: "bool \<Rightarrow> shimApp \<Rightarrow> bool" where
  "app_inv on a \<longleftrightarrow> ctxSyncChan (appCtx a) \<noteq> None \<and> ctxKubeClient (appCtx a) \<noteq> None \<and>
     (\<forall>h\<in>set (appSets a). h < appFresh a) \<and> (\<forall>h\<in>set (appClosed a). h < appFresh a) \<and>
     (\<forall>h. ctxStopChan (appCtx a) = Some h \<longrightarrow> h < appFresh a) \<and>
     (if on then ctxInformerFactory (appCtx a) \<noteq> None \<and>
          (\<exists>h. ctxStopChan (appCtx a) = Some h \<and> runningSets a = [h])
      else ctxInformerFactory (appCtx a) = None \<and> runningSets a = [])"

lemma app_inv_start: "app_inv False (appStart name lw)"
  by (simp add: app_inv_def appStart_def runningSets_def)

lemma app_inv_connect:
  assumes "app_inv False a"
  shows "\<exists>a'. app_step (Signal True) a = AppNext a' \<and> app_inv True a'"
proof -
  let ?ctx = "(appCtx a)\<lparr>ctxInformerFactory := Some (appFresh a), ctxStopChan := Some (Suc (appFresh a))\<rparr>"
  from assms have "startReporters NewReporterInitializers ?ctx = None"
    by (intro reporters_start) (simp_all add: app_inv_def)
  moreover from assms have "\<forall>h\<in>set (appClosed a). h < appFresh a" "runningSets a = []"
    by (simp_all add: app_inv_def)
  then have "Suc (appFresh a) \<notin> set (appClosed a)" by auto
  ultimately show ?thesis
    using assms by (auto simp: handleSignal_def app_inv_def runningSets_def Let_def intro: less_SucI)
qed

lemma app_inv_disconnect:
  assumes "app_inv True a"
  shows "\<exists>a'. app_step (Signal False) a = AppNext a' \<and> app_inv False a'"
proof -
  from assms obtain h where h: "ctxStopChan (appCtx a) = Some h" "runningSets a = [h]"
    by (auto simp: app_inv_def)
  then have "h \<notin> set (appClosed a)" by (auto simp: runningSets_def dest: filter_eq_ConsD)
  moreover from h(2) have "{x \<in> set (appSets a). x \<notin> set (appClosed a)} = {h}"
    by (simp flip: set_filter add: runningSets_def)
  then have "filter (\<lambda>x. x \<notin> insert h (set (appClosed a))) (appSets a) = []"
    by (auto simp: filter_empty_conv)
  ultimately show ?thesis
    using assms h by (auto simp: handleSignal_def stopReporters_def app_inv_def runningSets_def Let_def)
qed

lemma app_inv_turn:
  assumes "app_inv on a"
  shows "case app_step (FullTurn i synced) a of AppFatal _ \<Rightarrow> False | AppPanic \<Rightarrow> True | AppNext a' \<Rightarrow> app_inv on a'"
  using assms by (auto simp: app_inv_def runningSets_def Let_def split: option.splits)

lemma app_inv_run:
  assumes "app_inv (odd n) a" "signalsOf evs = map even [n..<n + length (signalsOf evs)]"
  shows "case app_run evs a of AppFatal _ \<Rightarrow> False | AppPanic \<Rightarrow> True
    | AppNext a' \<Rightarrow> app_inv (odd (n + length (signalsOf evs))) a'"
  using assms
proof (induction evs arbitrary: n a)
  case (Cons e evs)
  show ?case
  proof (cases e)
    case (Signal b)
    from Cons.prems(2) Signal have b: "b = even n"
      "signalsOf evs = map even [Suc n..<Suc n + length (signalsOf evs)]"
      by (auto simp: upt_conv_Cons simp del: upt_Suc)
    have "\<exists>a'. app_step (Signal b) a = AppNext a' \<and> app_inv (odd (Suc n)) a'"
      using app_inv_connect [of a] app_inv_disconnect [of a] Cons.prems(1) b(1) by (cases "even n") auto
    then obtain a' where "app_step (Signal b) a = AppNext a'" "app_inv (odd (Suc n)) a'" by blast
    with Cons.IH [OF this(2) b(2)] Signal show ?thesis by (auto split: appOutcome.splits)
  next
    case (FullTurn i s)
    with Cons.prems(2) have "signalsOf evs = map even [n..<n + length (signalsOf evs)]" by simp
    note IH = Cons.IH [OF _ this]
    show ?thesis
    proof (cases "app_step (FullTurn i s) a")
      case (AppNext a')
      with app_inv_turn [OF Cons.prems(1), of i s] IH [of a'] FullTurn show ?thesis
        by (auto simp del: app_step.simps split: appOutcome.splits)
    qed (use app_inv_turn [OF Cons.prems(1), of i s] FullTurn in simp_all)
  qed
qed simp

text \<open>C18: The reporters of a shim run exactly while a cluster controller is connected. The server
  sends its signals to the loop of the process; as long as connections are not interleaved, and
  whatever the goroutines of the reporters do in between, starting the reporters never fails,
  and one set of reporters runs if the last signal the loop took was a connection, and none
  otherwise. The one thing that can go wrong is that a goroutine panics.\<close>

theorem reporters_follow_connection:
  assumes "list_all serial es" "shim_run es (shim_start hs) = Next y" "signalsOf evs = sysLog y"
  shows "case app_run evs (appStart name lightweight) of
      AppFatal _ \<Rightarrow> False
    | AppPanic \<Rightarrow> True
    | AppNext a \<Rightarrow> length (runningSets a) = (if sysLog y \<noteq> [] \<and> last (sysLog y) then 1 else 0)"
proof -
  have "shim_inv (shim_start hs)"
    by (simp add: shim_inv_def shim_start_def NewShimServer_def signals_def alternate_def)
  from shim_inv_run [OF this assms(1)] assms(2) have "alternate (sysLog y)"
    by (auto simp: shim_inv_def signals_def intro: alternate_prefix)
  then have alt: "alternate (signalsOf evs)" by (simp add: assms(3))
  then have "case app_run evs (appStart name lightweight) of AppFatal _ \<Rightarrow> False | AppPanic \<Rightarrow> True
      | AppNext a \<Rightarrow> app_inv (odd (0 + length (signalsOf evs))) a"
    by (intro app_inv_run) (simp_all add: app_inv_start alternate_def)
  moreover have "odd (length (signalsOf evs)) \<longleftrightarrow> sysLog y \<noteq> [] \<and> last (sysLog y)"
    using alternate_last [OF alt] by (cases "signalsOf evs = []") (auto simp: assms(3))
  ultimately show ?thesis by (auto simp: app_inv_def split: appOutcome.splits if_splits)
qed

definition sample_app_events :: "appEvent list" where
  "sample_app_events = [Signal True, FullTurn 0 False, FullTurn 0 True, FullTurn 0 False, Signal False, Signal True]"

lemma sample_app_signals: "signalsOf sample_app_events = [True, False, True]"
  by (simp add: sample_app_events_def)

lemma app_connect:
  assumes "ctxSyncChan (appCtx a) \<noteq> None" "ctxKubeClient (appCtx a) \<noteq> None"
  shows "handleSignal True a = AppNext (a\<lparr>appCtx := (appCtx a)\<lparr>ctxInformerFactory := Some (appFresh a),
      ctxStopChan := Some (Suc (appFresh a))\<rparr>, appFresh := appFresh a + 2,
      appFullLists := appFullLists a @ replicate 5 FLEnter, appSets := appSets a @ [Suc (appFresh a)]\<rparr>)"
proof -
  have "startReporters NewReporterInitializers ((appCtx a)\<lparr>ctxInformerFactory := Some (appFresh a),
      ctxStopChan := Some (Suc (appFresh a))\<rparr>) = None"
    by (rule reporters_start) (use assms in simp_all)
  then show ?thesis by (simp add: handleSignal_def Let_def informerReporters_def numeral_eq_Suc)
qed

theorem reporters_follow_connection_witness:
  "\<exists>(y :: int shimSys) a. shim_run (sample_shim_events @ [Drain]) (shim_start sample_handlers) = Next y \<and>
     sysLog y = signalsOf sample_app_events \<and>
     app_run sample_app_events (appStart ''c1'' False) = AppNext a \<and> length (runningSets a) = 1"
proof -
  let ?es = "sample_shim_events @ [Drain]"
  have es: "list_all serial ?es" by (simp add: sample_shim_events_def serial_def)
  have "\<exists>y :: int shimSys. shim_run ?es (shim_start sample_handlers) = Next y \<and> sysLog y = [True, False, True]"
    by (simp add: sample_shim_events_def shim_start_def NewShimServer_def do_check_def finish_do_def do_upgrade_def
        connected_step_def signal_def signalBuffer_def)
  then obtain y :: "int shimSys" where y: "shim_run ?es (shim_start sample_handlers) = Next y" "sysLog y = [True, False, True]"
    by blast
  have "\<exists>a. app_run sample_app_events (appStart ''c1'' False) = AppNext a"
    by (simp add: sample_app_events_def appStart_def app_connect handleSignal_def [of False] stopReporters_def
        fullList_step_def numeral_eq_Suc Let_def)
  with reporters_follow_connection [OF es y(1), of sample_app_events "''c1''" False] y sample_app_signals
  show ?thesis by auto
qed


text \<open>Two cluster controllers that connect at the same time have everything reported twice.
  Both are announced; the second announcement starts another set of reporters with a stop
  channel of its own and forgets the first, which keeps running when the connections end.\<close>

theorem racing_controllers_report_twice:
  "\<exists>(y :: 'k shimSys) a a'.
     shim_run [Check n, Check m, Upgrade True 0, Upgrade True 1, Turn 0 False, Drain, Turn 1 False, Drain] (shim_start hs) =
       Next y \<and>
     app_run (map Signal (sysLog y)) (appStart name lightweight) = AppNext a \<and> length (runningSets a) = 2 \<and>
     app_run [Signal False, Signal False] a = AppNext a' \<and> length (runningSets a') = 1"
  by (simp add: shim_start_def NewShimServer_def do_check_def finish_do_def do_upgrade_def
      connected_step_def signal_def signalBuffer_def appStart_def app_connect handleSignal_def [of False]
      stopReporters_def runningSets_def Let_def)

text \<open>A shim for Kubernetes answers like a controller without a remote shim.\<close>

lemma k8sShim_like_local:
  "NewlocalShimClient env (Some rest) client helm = Some handlers \<Longrightarrow>
     ssHandlers (k8sShimServer env rest client helm) = handlers"
  using k8sShim_handlers [of env rest client helm] by simp

end
