(* ===== verification/EdgeServer.thy ===== *)
theory EdgeServer
  imports HubServer Certificate
begin

text \<open>
  The checks an edge server makes before it starts (\<^verbatim>\<open>pkg/server/k8s_server.go\<close> and
  \<^verbatim>\<open>k3s_server.go\<close>); \<open>parseIP\<close> is \<^verbatim>\<open>net.ParseIP\<close>. The result is the reason for a refusal.
\<close>

record ServerContext =
  BindAddr :: string
  BindPort :: int
  ReadTimeout :: int
  WriteTimeout :: int
  CaFile :: string
  CertFile :: string
  KeyFile :: string
  scStopChan :: "unit option"
  HandlerCtx :: "HandlerContext option"
  CertCtx :: "certFields option"

datatype server_refusal =
    NilContext | InvalidIP | PortOutOfRange | NoCaFile | NoCertFile | NoKeyFile | NoStopChan
  | InvalidHandlerCtx | InvalidCertCtx

definition k8s_CheckValid :: "(string \<Rightarrow> bool) \<Rightarrow> ServerContext option \<Rightarrow> server_refusal option" where
  "k8s_CheckValid parseIP x =
     (case x of
        None \<Rightarrow> Some NilContext
      | Some ctx \<Rightarrow>
          if \<not> parseIP (BindAddr ctx) then Some InvalidIP
          else if BindPort ctx < 0 \<or> BindPort ctx > 65535 then Some PortOutOfRange
          else if CaFile ctx = [] then Some NoCaFile
          else if CertFile ctx = [] then Some NoCertFile
          else if KeyFile ctx = [] then Some NoKeyFile
          else if scStopChan ctx = None then Some NoStopChan
          else if HandlerCtx ctx = None \<or> \<not> HandlerContext_IsValid (HandlerCtx ctx)
          then Some InvalidHandlerCtx
          else None)"

definition k3s_CheckValid :: "(string \<Rightarrow> bool) \<Rightarrow> ServerContext option \<Rightarrow> server_refusal option" where
  "k3s_CheckValid parseIP x =
     (case x of
        None \<Rightarrow> Some NilContext
      | Some ctx \<Rightarrow>
          if \<not> parseIP (BindAddr ctx) then Some InvalidIP
          else if BindPort ctx < 0 \<or> BindPort ctx > 65535 then Some PortOutOfRange
          else if CertFile ctx = [] then Some NoCertFile
          else if KeyFile ctx = [] then Some NoKeyFile
          else if scStopChan ctx = None then Some NoStopChan
          else if HandlerCtx ctx = None \<or> \<not> HandlerContext_IsValid (HandlerCtx ctx)
          then Some InvalidHandlerCtx
          else if CertCtx ctx = None \<or> \<not> CertContext_IsValid (CertCtx ctx) then Some InvalidCertCtx
          else None)"

text \<open>A context that passes has a port a listener can bind and everything the handlers
  dereference.\<close>

lemma k3s_CheckValid_passes:
  assumes "k3s_CheckValid parseIP (Some ctx) = None"
  shows "BindPort ctx \<in> {0..65535}" "HandlerContext_IsValid (HandlerCtx ctx)" "CertContext_IsValid (CertCtx ctx)"
  using assms by (auto simp: k3s_CheckValid_def split: if_splits)

lemma k8s_CheckValid_passes:
  assumes "k8s_CheckValid parseIP (Some ctx) = None"
  shows "BindPort ctx \<in> {0..65535}" "HandlerContext_IsValid (HandlerCtx ctx)" "CaFile ctx \<noteq> []"
  using assms by (auto simp: k8s_CheckValid_def split: if_splits)

end
