(* ===== verification/HubRoutes.thy ===== *)
theory HubRoutes
  imports EdgeServer
begin

text \<open>
  The routes of the edge servers: what the \<^verbatim>\<open>Register...Handler\<close> methods of \<^verbatim>\<open>pkg/server/handler\<close>
  register, the web service of each API group (the \<^verbatim>\<open>register.go\<close> files), and the services the
  two servers put into their container (\<^verbatim>\<open>k8s_server.go\<close>, \<^verbatim>\<open>k3s_server.go\<close>). A path is the list of its
  segments. The library that picks a route is left open: \<open>matching\<close> lists all routes a request
  fits, and it turns out that there is never more than one.
\<close>

section \<open>Routes\<close>

datatype segment = Lit string | Param string

datatype hubOp = OpCreate | OpDelete | OpList | OpGet | OpPatch | OpPut | OpHealth | OpCert string

type_synonym route = "string \<times> segment list \<times> hubOp"

fun match_path :: "segment list \<Rightarrow> string list \<Rightarrow> (string \<times> string) list option" where
  "match_path [] [] = Some []"
| "match_path (Lit l # ps) (s # ss) = (if l = s then match_path ps ss else None)"
| "match_path (Param p # ps) (s # ss) = map_option (Cons (p, s)) (match_path ps ss)"
| "match_path _ _ = None"

definition inNamespace :: "segment list" where
  "inNamespace = [Lit ''namespaces'', Param ''namespace'', Param ''resource'']"

definition RegisterCreateHandler :: "route list" where
  "RegisterCreateHandler =
     [(''POST'', inNamespace, OpCreate), (''POST'', [Param ''resource''], OpCreate)]"

definition RegisterDeleteHandler :: "route list" where
  "RegisterDeleteHandler = [(''DELETE'', inNamespace @ [Param ''name''], OpDelete)]"

definition RegisterListHandler :: "route list" where
  "RegisterListHandler =
     [(''GET'', inNamespace, OpList), (''GET'', [Param ''resource''], OpList),
      (''GET'', inNamespace @ [Param ''name''], OpGet), (''GET'', [Param ''resource'', Param ''name''], OpGet)]"

definition RegisterUpdateHandler :: "route list" where
  "RegisterUpdateHandler =
     [(''PATCH'', inNamespace @ [Param ''name''], OpPatch),
      (''PATCH'', inNamespace @ [Param ''name'', Lit ''status''], OpPatch),
      (''PATCH'', [Param ''resource'', Param ''name'', Lit ''status''], OpPatch),
      (''PUT'', inNamespace @ [Param ''name''], OpPut),
      (''PUT'', [Param ''resource'', Param ''name''], OpPut)]"

section \<open>Web services\<close>

record ('i, 'd, 'k) webService =
  wsRoot :: "string list"
  wsRoutes :: "route list"
  wsHandlers :: "('i, 'd, 'k) services"

definition allRoutes :: "route list" where
  "allRoutes = RegisterCreateHandler @ RegisterDeleteHandler @ RegisterListHandler @ RegisterUpdateHandler"

definition apiv1_NewWebsService :: "('i, 'd, 'k) srvenv \<Rightarrow> ('i, 'd, 'k) webService" where
  "apiv1_NewWebsService V = \<lparr>wsRoot = [''api'', ''v1''], wsRoutes = allRoutes,
     wsHandlers = apiv1_NewServiceHandler V\<rparr>"

definition apisauthentication_NewWebsService :: "('i, 'd, 'k) srvenv \<Rightarrow> ('i, 'd, 'k) webService" where
  "apisauthentication_NewWebsService V = \<lparr>wsRoot = [''apis'', ''authentication.k8s.io'', ''v1''],
     wsRoutes = RegisterCreateHandler, wsHandlers = apisauthentication_NewServiceHandler V\<rparr>"

definition apisauthorization_NewWebsService :: "('i, 'd, 'k) srvenv \<Rightarrow> ('i, 'd, 'k) webService" where
  "apisauthorization_NewWebsService V = \<lparr>wsRoot = [''apis'', ''authorization.k8s.io'', ''v1''],
     wsRoutes = RegisterCreateHandler, wsHandlers = apisauthorization_NewServiceHandler V\<rparr>"

definition apiscertificates_NewWebsService :: "('i, 'd, 'k) srvenv \<Rightarrow> ('i, 'd, 'k) webService" where
  "apiscertificates_NewWebsService V = \<lparr>wsRoot = [''apis'', ''certificates.k8s.io'', ''v1beta1''],
     wsRoutes = allRoutes, wsHandlers = apiscertificates_NewServiceHandler V\<rparr>"

definition apiscoordination_NewWebsService :: "('i, 'd, 'k) srvenv \<Rightarrow> ('i, 'd, 'k) webService" where
  "apiscoordination_NewWebsService V = \<lparr>wsRoot = [''apis'', ''coordination.k8s.io'', ''v1''],
     wsRoutes = allRoutes, wsHandlers = apiscoordination_NewServiceHandler V\<rparr>"

definition apisnetworking_NewWebsService :: "('i, 'd, 'k) srvenv \<Rightarrow> ('i, 'd, 'k) webService" where
  "apisnetworking_NewWebsService V = \<lparr>wsRoot = [''apis'', ''networking.k8s.io'', ''v1''],
     wsRoutes = allRoutes, wsHandlers = apisnetworking_NewServiceHandler V\<rparr>"

definition apisnode_NewWebsService :: "('i, 'd, 'k) srvenv \<Rightarrow> ('i, 'd, 'k) webService" where
  "apisnode_NewWebsService V = \<lparr>wsRoot = [''apis'', ''node.k8s.io'', ''v1beta1''],
     wsRoutes = allRoutes, wsHandlers = apisnode_NewServiceHandler V\<rparr>"

definition apisstorage_NewWebsService :: "('i, 'd, 'k) srvenv \<Rightarrow> ('i, 'd, 'k) webService" where
  "apisstorage_NewWebsService V = \<lparr>wsRoot = [''apis'', ''storage.k8s.io'', ''v1''],
     wsRoutes = allRoutes, wsHandlers = apisstorage_NewServiceHandler V\<rparr>"

definition newHealthWs :: "('i, 'd, 'k) webService" where
  "newHealthWs = \<lparr>wsRoot = [''healthz''], wsRoutes = [(''GET'', [], OpHealth)], wsHandlers = []\<rparr>"

definition NewAuthWebService :: "('i, 'd, 'k) webService" where
  "NewAuthWebService = \<lparr>wsRoot = [],
     wsRoutes = map (\<lambda>(p, h). (''GET'', map Lit p, OpCert h))
       [([''cacerts''], ''cacertsHandler''), ([''apis''], ''apisHandler''),
        ([''v1-k3s'', ''config''], ''configHandler''), ([''v1-k3s'', ''client-ca.crt''], ''fileHandler''),
        ([''v1-k3s'', ''server-ca.crt''], ''fileHandler''), ([''v1-k3s'', ''serving-kubelet.crt''], ''keyHandler''),
        ([''v1-k3s'', ''client-kubelet.crt''], ''keyHandler''), ([''v1-k3s'', ''client-kube-proxy.crt''], ''fileHandler''),
        ([''v1-k3s'', ''client-k3s-controller.crt''], ''fileHandler''), ([''version''], ''versionHandler''),
        ([''v1-k3s'', ''connect''], ''connectHandler'')],
     wsHandlers = []\<rparr>"

section \<open>Containers\<close>

definition k8sContainer :: "('i, 'd, 'k) srvenv \<Rightarrow> ('i, 'd, 'k) webService list" where
  "k8sContainer V = [apiv1_NewWebsService V, newHealthWs, apiscertificates_NewWebsService V]"

definition k3sContainer :: "('i, 'd, 'k) srvenv \<Rightarrow> ('i, 'd, 'k) webService list" where
  "k3sContainer V = [NewAuthWebService, apiv1_NewWebsService V, apisnetworking_NewWebsService V,
     apisstorage_NewWebsService V, apiscoordination_NewWebsService V, apisnode_NewWebsService V,
     apisauthentication_NewWebsService V, apisauthorization_NewWebsService V]"

type_synonym ('i, 'd, 'k) hit = "('i, 'd, 'k) services \<times> hubOp \<times> (string \<times> string) list"

definition ws_matching ::
  "('i, 'd, 'k) webService \<Rightarrow> string \<Rightarrow> string list \<Rightarrow> ('i, 'd, 'k) hit list" where
  "ws_matching ws meth path =
     (if take (length (wsRoot ws)) path = wsRoot ws
      then List.map_filter (\<lambda>(m, p, op). if m = meth
             then map_option (\<lambda>ps. (wsHandlers ws, op, ps)) (match_path p (drop (length (wsRoot ws)) path))
             else None) (wsRoutes ws)
      else [])"

definition matching ::
  "('i, 'd, 'k) webService list \<Rightarrow> string \<Rightarrow> string list \<Rightarrow> ('i, 'd, 'k) hit list" where
  "matching wss meth path = concat (map (\<lambda>ws. ws_matching ws meth path) wss)"

section \<open>Serving a request\<close>

record httpRequest =
  hrMethod :: string
  hrPath :: "string list"
  hrURI :: string
  hrWatch :: string
  hrFieldSelector :: string
  hrBody :: "bytes option"

definition pathParameter :: "(string \<times> string) list \<Rightarrow> string \<Rightarrow> string" where
  "pathParameter ps p = (case go_get ps p of None \<Rightarrow> [] | Some v \<Rightarrow> v)"

definition toRequest :: "(string \<times> string) list \<Rightarrow> httpRequest \<Rightarrow> HubServer.request" where
  "toRequest ps r = \<lparr>rqResource = pathParameter ps ''resource'', rqNamespace = pathParameter ps ''namespace'',
     rqName = pathParameter ps ''name'', rqFieldSelector = hrFieldSelector r, rqWatch = hrWatch r,
     rqURI = hrURI r, rqBody = hrBody r\<rparr>"

text \<open>The handler a route leads to; the certificate handlers are those of \<open>Certificate\<close>.\<close>

fun serveOp ::
  "('i, 'd, 'k) srvenv \<Rightarrow> hubOp \<Rightarrow> ('i, 'd, 'k) services \<Rightarrow> HubServer.request \<Rightarrow> ('i, 'd, 'k) srvstate \<Rightarrow>
   (served \<times> ('i, 'd, 'k) srvstate) option" where
  "serveOp V OpCreate H rq s = Some (map_prod Answered id (createHandler H rq s))"
| "serveOp V OpDelete H rq s = Some (map_prod Answered id (deleteHandler H rq s))"
| "serveOp V OpPatch H rq s = Some (map_prod Answered id (updatePatchHandler H rq s))"
| "serveOp V OpPut H rq s = Some (map_prod Answered id (updatePutHandler H rq s))"
| "serveOp V OpList H rq s = Some (listHandler H rq s)"
| "serveOp V OpGet H rq s = Some (getHandler V H rq s)"
| "serveOp V OpHealth H rq s = Some (Answered \<lparr>httpStatus = 200, httpContent = Inr ''ok''\<rparr>, s)"
| "serveOp V (OpCert _) H rq s = None"

text \<open>\<open>None\<close>: no route of the API fits.\<close>

definition hub_serve ::
  "('i, 'd, 'k) srvenv \<Rightarrow> ('i, 'd, 'k) webService list \<Rightarrow> httpRequest \<Rightarrow> ('i, 'd, 'k) srvstate \<Rightarrow>
   (served \<times> ('i, 'd, 'k) srvstate) option" where
  "hub_serve V wss r s =
     (case matching wss (hrMethod r) (hrPath r) of
        [] \<Rightarrow> None
      | (H, op, ps) # _ \<Rightarrow> serveOp V op H (toRequest ps r) s)"

section \<open>Lemmas\<close>

text \<open>Patterns of a different length, or with a different literal in the same place, exclude each
  other.\<close>

fun apart :: "segment list \<Rightarrow> segment list \<Rightarrow> bool" where
  "apart [] [] = False"
| "apart (Lit a # ps) (Lit b # qs) = (a \<noteq> b \<or> apart ps qs)"
| "apart (Lit _ # ps) (Param _ # qs) = apart ps qs"
| "apart (Param _ # ps) (_ # qs) = apart ps qs"
| "apart _ _ = True"

lemma match_path_tl: "match_path ps ss = None \<Longrightarrow> match_path (p # ps) (c # ss) = None"
  by (cases p) simp_all

lemma apart_match: "apart ps qs \<Longrightarrow> match_path ps ss = None \<or> match_path qs ss = None"
proof (induction ps qs arbitrary: ss rule: apart.induct)
  case (2 a ps b qs)
  then show ?case by (cases ss) auto
next
  case (3 a ps p qs)
  then show ?case by (cases ss) auto
next
  case (4 p ps q qs)
  then show ?case
  proof (cases ss)
    case (Cons c list)
    from "4.IH" [of list] "4.prems" match_path_tl [of qs list q c] Cons show ?thesis by auto
  qed simp
qed (case_tac ss, simp, simp)+

lemma match_append:
  "match_path (map Lit r @ p) ss =
     (if take (length r) ss = r then match_path p (drop (length r) ss) else None)"
proof (induction r arbitrary: ss)
  case (Cons a r)
  then show ?case by (cases ss) auto
qed simp

text \<open>The routes of a container as patterns for whole paths; no two of them fit one request.\<close>

type_synonym ('i, 'd, 'k) fullRoute = "string \<times> segment list \<times> ('i, 'd, 'k) services \<times> hubOp"

definition fullRoutes :: "('i, 'd, 'k) webService list \<Rightarrow> ('i, 'd, 'k) fullRoute list" where
  "fullRoutes wss =
     concat (map (\<lambda>ws. map (\<lambda>(m, p, op). (m, map Lit (wsRoot ws) @ p, wsHandlers ws, op)) (wsRoutes ws)) wss)"

definition fits :: "string \<Rightarrow> string list \<Rightarrow> ('i, 'd, 'k) fullRoute \<Rightarrow> ('i, 'd, 'k) hit option" where
  "fits meth path r =
     (case r of (m, p, H, op) \<Rightarrow>
        if m = meth then map_option (\<lambda>ps. (H, op, ps)) (match_path p path) else None)"

lemma map_filter_routes:
  "(if take (length r) path = r
    then List.map_filter (\<lambda>(m, p, op). if m = meth
           then map_option (\<lambda>ps. (H, op, ps)) (match_path p (drop (length r) path)) else None) rs
    else []) =
   List.map_filter (fits meth path) (map (\<lambda>(m, p, op). (m, map Lit r @ p, H, op)) rs)"
proof (cases "take (length r) path = r")
  case True
  then have "fits meth path (m, map Lit r @ p, H, op) =
      (if m = meth then map_option (\<lambda>ps. (H, op, ps)) (match_path p (drop (length r) path)) else None)" for m p op
    by (simp add: fits_def match_append)
  with True show ?thesis by (induction rs) (auto simp: List.map_filter_simps split: option.split)
next
  case False
  then have "fits meth path (m, map Lit r @ p, H, op) = None" for m p op by (simp add: fits_def match_append)
  with False show ?thesis by (induction rs) (auto simp: List.map_filter_simps)
qed

lemma matching_fullRoutes: "matching wss meth path = List.map_filter (fits meth path) (fullRoutes wss)"
  unfolding matching_def fullRoutes_def ws_matching_def map_filter_routes
  by (induction wss) (simp_all add: List.map_filter_def)

definition exclusive :: "('i, 'd, 'k) fullRoute list \<Rightarrow> bool" where
  "exclusive = sorted_wrt (\<lambda>r q. fst r \<noteq> fst q \<or> apart (fst (snd r)) (fst (snd q)))"

lemma exclusive_once: "exclusive rs \<Longrightarrow> length (List.map_filter (fits meth path) rs) \<le> 1"
proof (induction rs)
  case (Cons r rs)
  have "List.map_filter (fits meth path) rs = []" if "fits meth path r \<noteq> None"
  proof -
    from that have r: "fst r = meth" "match_path (fst (snd r)) path \<noteq> None"
      by (auto simp: fits_def split: prod.splits if_splits)
    have "fits meth path q = None" if "q \<in> set rs" for q
      using Cons.prems that r apart_match [of "fst (snd r)" "fst (snd q)" path]
      by (auto simp: exclusive_def fits_def split: prod.splits)
    then show ?thesis by (simp add: List.map_filter_def filter_empty_conv)
  qed
  with Cons show ?case by (cases "fits meth path r") (auto simp: List.map_filter_simps exclusive_def)
qed (simp add: List.map_filter_def)

text \<open>Services under different roots exclude each other, so that only the routes of each service
  have to be compared.\<close>

fun roots_apart :: "string list \<Rightarrow> string list \<Rightarrow> bool" where
  "roots_apart (a # r) (b # q) = (a \<noteq> b \<or> roots_apart r q)"
| "roots_apart _ _ = False"

lemma roots_apart_routes: "roots_apart r q \<Longrightarrow> apart (map Lit r @ ps) (map Lit q @ qs)"
  by (induction r q rule: roots_apart.induct) auto

lemma same_root_routes: "apart (map Lit r @ ps) (map Lit r @ qs) = apart ps qs"
  by (induction r) simp_all

definition exclusiveRoutes :: "route list \<Rightarrow> bool" where
  "exclusiveRoutes rs = sorted_wrt (\<lambda>r q. fst r \<noteq> fst q \<or> apart (fst (snd r)) (fst (snd q))) rs"

lemma exclusive_container:
  assumes "\<And>ws. ws \<in> set wss \<Longrightarrow> exclusiveRoutes (wsRoutes ws)" "sorted_wrt (\<lambda>a b. roots_apart (wsRoot a) (wsRoot b)) wss"
  shows "exclusive (fullRoutes wss)"
  using assms
proof (induction wss)
  case (Cons ws wss)
  let ?f = "\<lambda>ws (m, p, op). (m, map Lit (wsRoot ws) @ p, wsHandlers ws, op)"
  have "exclusive (map (?f ws) (wsRoutes ws))"
    using Cons.prems(1) [of ws]
    by (simp add: exclusive_def exclusiveRoutes_def sorted_wrt_map split_beta same_root_routes)
  moreover have "exclusive (fullRoutes wss)" using Cons by simp
  moreover have "apart (fst (snd r)) (fst (snd q))"
    if "r \<in> set (map (?f ws) (wsRoutes ws))" "q \<in> set (fullRoutes wss)" for r q
    using that Cons.prems(2) by (auto simp: fullRoutes_def intro!: roots_apart_routes)
  ultimately show ?case
    by (simp add: exclusive_def fullRoutes_def sorted_wrt_append)
qed (simp add: exclusive_def fullRoutes_def)

lemma allRoutes_exclusive: "exclusiveRoutes allRoutes" "exclusiveRoutes RegisterCreateHandler"
  by (simp_all add: exclusiveRoutes_def allRoutes_def RegisterCreateHandler_def RegisterDeleteHandler_def
      RegisterListHandler_def RegisterUpdateHandler_def inNamespace_def)

text \<open>The certificate service has the root \<open>/\<close>; its routes are fixed paths, none of which begins
  like an API path.\<close>

lemma auth_exclusive:
  "exclusiveRoutes (wsRoutes NewAuthWebService)" "wsRoot NewAuthWebService = []"
  by (simp_all add: exclusiveRoutes_def NewAuthWebService_def)

lemma auth_apart:
  assumes "(m, p, op) \<in> set (wsRoutes NewAuthWebService)" "a \<in> {''api'', ''apis''}"
  shows "apart p (map Lit (a # b # r) @ q)"
  using assms by (auto simp: NewAuthWebService_def)

end
