(* ===== verification/HubApp.thy ===== *)
theory HubApp
  imports HubRoutes LoadBalancer Syncer
begin

text \<open>
  The edge hub's process (\<^verbatim>\<open>cmd/edgehub/app/app.go\<close>): its flags, how it puts the storage, the load
  balancer and the syncers together, and how it runs one of the two edge servers
  (\<^verbatim>\<open>pkg/server/k8s_server.go\<close>, \<^verbatim>\<open>k3s_server.go\<close>). Reading certificates and serving are library calls:
  arguments that say how they end.
\<close>

section \<open>Flags\<close>

record hubFlags =
  hfKubeConfig :: string
  hfNodeName :: string
  hfDataPath :: string
  hfSyncTimeout :: int
  hfInitServer :: string
  hfLbAddress :: string
  hfServerAddress :: string
  hfServerPort :: int
  hfReadTimeout :: int
  hfWriteTimeout :: int
  hfCaFile :: string
  hfCertFile :: string
  hfKeyFile :: string
  hfTokenFile :: string

definition hubDefaults :: hubFlags where
  "hubDefaults = \<lparr>hfKubeConfig = ''/root/.kube/config'', hfNodeName = [], hfDataPath = ''./data'',
     hfSyncTimeout = 60, hfInitServer = ''127.0.0.1:8080'', hfLbAddress = ''127.0.0.1:6888'',
     hfServerAddress = ''127.0.0.1'', hfServerPort = 8080, hfReadTimeout = 5, hfWriteTimeout = 5,
     hfCaFile = ''./ssl/ca.pem'', hfCertFile = ''./ssl/edge-server.pem'',
     hfKeyFile = ''./ssl/edge-server-key.pem'', hfTokenFile = ''./ssl/token''\<rparr>"

text \<open>The node's name defaults to the host's, which may not be known.\<close>

definition isEdgehubReady :: "string option \<Rightarrow> hubFlags \<Rightarrow> bool \<times> hubFlags" where
  "isEdgehubReady hostname f =
     (if hfKubeConfig f = [] then (False, f)
      else if hfNodeName f = []
      then (case hostname of None \<Rightarrow> (False, f) | Some name \<Rightarrow> (True, f\<lparr>hfNodeName := name\<rparr>))
      else (True, f))"

section \<open>Putting the hub together\<close>

datatype init_error = NotReady | NoKubeClient | StorageFailed storage_error

record ('i, 'd) edgehub =
  ehFlags :: hubFlags
  ehState :: "('i, 'd) hubstate"
  ehLb :: "string list \<times> LoadBalancer"

definition initEdgehub ::
  "('i, 'd) hubenv \<Rightarrow> string option \<Rightarrow> bool \<Rightarrow> (string list \<Rightarrow> string list) \<Rightarrow> EndpointSubset list option \<Rightarrow>
   hubFlags \<Rightarrow> init_error + ('i, 'd) edgehub" where
  "initEdgehub E hostname clientOk shuffle endpoint f =
     (case isEdgehubReady hostname f of
        (False, _) \<Rightarrow> Inl NotReady
      | (True, f1) \<Rightarrow>
          if \<not> clientOk then Inl NoKubeClient
          else (case NewEdgehubStore E (hfDataPath f1 @ ''/db'') of
                  Inl e \<Rightarrow> Inl (StorageFailed e)
                | Inr edgeStore \<Rightarrow>
                    Inr \<lparr>ehFlags = f1,
                      ehState = \<lparr>hubCtx = \<lparr>InformerFactory = None, StopChan = None, KubeClient = Some (),
                          Store = Some edgeStore\<rparr>, Syncers = None, EdgeSubscriber = InitSubscriber\<rparr>,
                      ehLb = lb_Start shuffle (hfInitServer f1) endpoint\<rparr>))"

text \<open>The goroutine over the health channel: each signal comes with the informers it meets.\<close>

fun hub_run ::
  "('i, 'd) hubenv \<Rightarrow> ('i informers \<times> bool) list \<Rightarrow> ('i, 'd) hubstate \<Rightarrow> ('i, 'd) hubstate" where
  "hub_run E [] h = h"
| "hub_run E ((F, isRemoteEnable) # sigs) h = hub_run E sigs (healthSignal E F isRemoteEnable h)"

text \<open>What stopping does, in order: tell the server, stop the syncers, close the load balancer's stop
  channel, close the database. The list is of the channels and files that were closed.\<close>

datatype hubStop = ServerTold | LbStopClosed | DatabaseClosed

definition stopEdgehub :: "('i, 'd) edgehub \<Rightarrow> hubStop list \<times> ('i, 'd) edgehub" where
  "stopEdgehub eh =
     ([ServerTold, LbStopClosed, DatabaseClosed], eh\<lparr>ehState := snd (StopSyncer (ehState eh))\<rparr>)"

section \<open>The servers\<close>

definition k8sContext :: "hubFlags \<Rightarrow> ServerContext" where
  "k8sContext f = \<lparr>BindAddr = hfServerAddress f, BindPort = hfServerPort f, ReadTimeout = hfReadTimeout f,
     WriteTimeout = hfWriteTimeout f, CaFile = hfCaFile f, CertFile = hfCertFile f, KeyFile = hfKeyFile f,
     scStopChan = Some (),
     HandlerCtx = Some \<lparr>hcStore = Some (), hcLb = Some (), hcK8sClient = Some (), hcEdgeSubscriber = Some ()\<rparr>,
     CertCtx = None\<rparr>"

definition k3sContext :: "hubFlags \<Rightarrow> ServerContext" where
  "k3sContext f = \<lparr>BindAddr = hfServerAddress f, BindPort = hfServerPort f, ReadTimeout = 0, WriteTimeout = 0,
     CaFile = [], CertFile = hfCertFile f, KeyFile = hfKeyFile f, scStopChan = Some (),
     HandlerCtx = Some \<lparr>hcStore = Some (), hcLb = Some (), hcK8sClient = Some (), hcEdgeSubscriber = Some ()\<rparr>,
     CertCtx = Some \<lparr>cfStore = Some (), cfCaFile = hfCertFile f, cfK8sClient = Some (), cfLb = Some (),
       cfDataPath = hfDataPath f, cfServerURL = ''https://'' @ hfLbAddress f, cfTokenFile = hfTokenFile f\<rparr>\<rparr>"

datatype serveResult = ErrServerClosed | ServeError

datatype serverEnd = ServerRefused server_refusal | CertificateUnreadable | ListenerFailed | ServeFailed | ServerStopped

definition served_end :: "serveResult \<Rightarrow> serverEnd" where
  "served_end r = (case r of ErrServerClosed \<Rightarrow> ServerStopped | ServeError \<Rightarrow> ServeFailed)"

text \<open>Reading the certificates of the clients' authority may fail without notice.\<close>

definition k8s_StartServer ::
  "(string \<Rightarrow> bool) \<Rightarrow> (string \<Rightarrow> string \<Rightarrow> bool) \<Rightarrow> (string \<Rightarrow> serveResult) \<Rightarrow> ServerContext option \<Rightarrow> serverEnd" where
  "k8s_StartServer parseIP loadKeyPair serve c =
     (case k8s_CheckValid parseIP c of
        Some e \<Rightarrow> ServerRefused e
      | None \<Rightarrow>
          (case c of
             None \<Rightarrow> ServerRefused NilContext
           | Some ctx \<Rightarrow>
               if \<not> loadKeyPair (CertFile ctx) (KeyFile ctx) then CertificateUnreadable
               else served_end (serve (BindAddr ctx @ '':'' @ Itoa (BindPort ctx)))))"

text \<open>The listener of the other server is bound first, then given the certificates, which it keeps
  in a file of the data directory. The context of certificates is there: it was checked.\<close>

record k3sListen =
  tcpListen :: "string \<Rightarrow> int \<Rightarrow> bool"
  loadCerts :: "string \<Rightarrow> string \<Rightarrow> bool"
  dynamicListener :: "string \<Rightarrow> bool"
  k3sServe :: serveResult

definition newListener :: "k3sListen \<Rightarrow> ServerContext \<Rightarrow> serverEnd option" where
  "newListener L ctx =
     (if \<not> tcpListen L (BindAddr ctx) (BindPort ctx) then Some ListenerFailed
      else if \<not> loadCerts L (CertFile ctx) (KeyFile ctx) then Some CertificateUnreadable
      else (case CertCtx ctx of
              None \<Rightarrow> Some ListenerFailed
            | Some cc \<Rightarrow> if dynamicListener L (cfDataPath cc) then None else Some ListenerFailed))"

definition startClusterAndHTTPS :: "k3sListen \<Rightarrow> ServerContext \<Rightarrow> serverEnd" where
  "startClusterAndHTTPS L ctx = (case newListener L ctx of Some e \<Rightarrow> e | None \<Rightarrow> served_end (k3sServe L))"

definition k3s_StartServer ::
  "(string \<Rightarrow> bool) \<Rightarrow> k3sListen \<Rightarrow> ServerContext option \<Rightarrow> serverEnd" where
  "k3s_StartServer parseIP L c =
     (case k3s_CheckValid parseIP c of
        Some e \<Rightarrow> ServerRefused e
      | None \<Rightarrow> (case c of None \<Rightarrow> ServerRefused NilContext | Some ctx \<Rightarrow> startClusterAndHTTPS L ctx))"

datatype hubEnd = HubReturned init_error | HubExit serverEnd | HubDone

definition hub_end :: "serverEnd \<Rightarrow> hubEnd" where
  "hub_end e = (if e = ServerStopped then HubDone else HubExit e)"

definition k8sRun ::
  "('i, 'd) hubenv \<Rightarrow> string option \<Rightarrow> bool \<Rightarrow> (string list \<Rightarrow> string list) \<Rightarrow> EndpointSubset list option \<Rightarrow>
   (string \<Rightarrow> bool) \<Rightarrow> (string \<Rightarrow> string \<Rightarrow> bool) \<Rightarrow> (string \<Rightarrow> serveResult) \<Rightarrow> hubFlags \<Rightarrow> hubEnd" where
  "k8sRun E hostname clientOk shuffle endpoint parseIP load serve f =
     (case initEdgehub E hostname clientOk shuffle endpoint f of
        Inl e \<Rightarrow> HubReturned e
      | Inr eh \<Rightarrow> hub_end (k8s_StartServer parseIP load serve (Some (k8sContext (ehFlags eh)))))"

definition k3sRun ::
  "('i, 'd) hubenv \<Rightarrow> string option \<Rightarrow> bool \<Rightarrow> (string list \<Rightarrow> string list) \<Rightarrow> EndpointSubset list option \<Rightarrow>
   (string \<Rightarrow> bool) \<Rightarrow> k3sListen \<Rightarrow> hubFlags \<Rightarrow> hubEnd" where
  "k3sRun E hostname clientOk shuffle endpoint parseIP L f =
     (case initEdgehub E hostname clientOk shuffle endpoint f of
        Inl e \<Rightarrow> HubReturned e
      | Inr eh \<Rightarrow> hub_end (k3s_StartServer parseIP L (Some (k3sContext (ehFlags eh)))))"

section \<open>Lemmas\<close>

text \<open>The contexts the process makes are refused for what the flags say only.\<close>

lemma k8sContext_valid:
  "k8s_CheckValid parseIP (Some (k8sContext f)) = None \<longleftrightarrow>
     parseIP (hfServerAddress f) \<and> hfServerPort f \<in> {0..65535} \<and> hfCaFile f \<noteq> [] \<and> hfCertFile f \<noteq> [] \<and> hfKeyFile f \<noteq> []"
  by (auto simp: k8s_CheckValid_def k8sContext_def HandlerContext_IsValid_def)

lemma k3sContext_valid:
  "k3s_CheckValid parseIP (Some (k3sContext f)) = None \<longleftrightarrow>
     parseIP (hfServerAddress f) \<and> hfServerPort f \<in> {0..65535} \<and> hfCertFile f \<noteq> [] \<and> hfKeyFile f \<noteq> [] \<and>
     hfDataPath f \<noteq> [] \<and> hfTokenFile f \<noteq> []"
  by (auto simp: k3s_CheckValid_def k3sContext_def HandlerContext_IsValid_def CertContext_IsValid_def)

end
