(* ===== verification/HubAppProps.thy ===== *)
theory HubAppProps
  imports HubApp HubProps LoadBalancerProps
begin

text \<open>
  Properties of the whole edge hub: requests find one handler, what is put over HTTP is got
  back, and the storage goes offline and online with the load balancer.
\<close>

section \<open>Routes\<close>

lemma containers_exclusive:
  "exclusive (fullRoutes (k8sContainer V)) \<and> exclusive (fullRoutes (k3sContainer V))"
proof -
  note ws_defs = apiv1_NewWebsService_def newHealthWs_def apiscertificates_NewWebsService_def
    apisnetworking_NewWebsService_def apisstorage_NewWebsService_def apiscoordination_NewWebsService_def
    apisnode_NewWebsService_def apisauthentication_NewWebsService_def apisauthorization_NewWebsService_def
  have "exclusive (fullRoutes (k8sContainer V))"
    by (rule exclusive_container) (auto simp: k8sContainer_def ws_defs allRoutes_exclusive exclusiveRoutes_def [of "[_]"])
  moreover have "exclusive (fullRoutes (k3sContainer V))"
  proof -
    let ?api = "tl (k3sContainer V)" and ?auth = "[hd (k3sContainer V)]"
    have "exclusive (fullRoutes ?api)"
      by (rule exclusive_container) (auto simp: k3sContainer_def ws_defs allRoutes_exclusive)
    moreover have "exclusive (fullRoutes ?auth)"
      by (rule exclusive_container) (simp_all add: k3sContainer_def auth_exclusive)
    moreover have "apart (fst (snd r)) (fst (snd q))"
      if "r \<in> set (fullRoutes ?auth)" "q \<in> set (fullRoutes ?api)" for r q
      using that
      by (auto simp: fullRoutes_def k3sContainer_def ws_defs auth_exclusive(2)
          intro: auth_apart [where r = "[]", simplified] auth_apart [where r = "[_]", simplified])
    moreover have "fullRoutes (k3sContainer V) = fullRoutes ?auth @ fullRoutes ?api"
      by (simp add: fullRoutes_def k3sContainer_def)
    ultimately show ?thesis by (simp add: exclusive_def sorted_wrt_append)
  qed
  ultimately show ?thesis ..
qed

text \<open>C40: Every request fits at most one route of an edge server, whatever the library does to
  choose between several: over all services in the container of either server, two routes
  with the same method differ in length or in a fixed segment.\<close>

theorem routes_unambiguous:
  "length (matching (k8sContainer V) meth path) \<le> 1 \<and> length (matching (k3sContainer V) meth path) \<le> 1"
  using containers_exclusive exclusive_once unfolding matching_fullRoutes by blast

text \<open>Objects outside a namespace cannot be deleted through the hub, nor can they be patched other
  than in their status, nor can the status of any object be put: no route fits.\<close>

lemma routes_missing:
  "matching (k8sContainer V) ''DELETE'' [''api'', ''v1'', resource, name] = []"
  "matching (k8sContainer V) ''PATCH'' [''api'', ''v1'', resource, name] = []"
  "matching (k8sContainer V) ''PUT'' [''api'', ''v1'', ''namespaces'', ns, resource, name, ''status''] = []"
  by (simp_all add: matching_def k8sContainer_def ws_matching_def apiv1_NewWebsService_def newHealthWs_def
      apiscertificates_NewWebsService_def allRoutes_def RegisterCreateHandler_def RegisterDeleteHandler_def
      RegisterListHandler_def RegisterUpdateHandler_def inNamespace_def List.map_filter_simps)

section \<open>Put and get over HTTP\<close>

definition objPath :: "string \<Rightarrow> string \<Rightarrow> string \<Rightarrow> string list" where
  "objPath ns resource name = [''api'', ''v1'', ''namespaces'', ns, resource, name]"

definition objParams :: "string \<Rightarrow> string \<Rightarrow> string \<Rightarrow> (string \<times> string) list" where
  "objParams ns resource name = [(''namespace'', ns), (''resource'', resource), (''name'', name)]"

lemma matching_obj:
  assumes "wss = k8sContainer V \<or> wss = k3sContainer V"
  shows "matching wss ''PUT'' (objPath ns resource name) =
      [(apiv1_NewServiceHandler V, OpPut, objParams ns resource name)]"
    "matching wss ''GET'' (objPath ns resource name) =
      [(apiv1_NewServiceHandler V, OpGet, objParams ns resource name)]"
proof -
  let ?ws = "apiv1_NewWebsService V" and ?path = "objPath ns resource name"
  have one: "length (matching wss meth path) \<le> 1" for meth path
    using assms containers_exclusive [of V] exclusive_once unfolding matching_fullRoutes by blast
  have hit: "matching wss meth ?path = [(apiv1_NewServiceHandler V, op, objParams ns resource name)]"
    if "(meth, inNamespace @ [Param ''name''], op) \<in> set allRoutes" for meth op
  proof (rule singleton_list [OF _ one])
    have "(apiv1_NewServiceHandler V, op, objParams ns resource name) \<in> set (ws_matching ?ws meth ?path)"
      using that by (auto simp: ws_matching_def apiv1_NewWebsService_def objPath_def objParams_def inNamespace_def
          intro: in_map_filter)
    moreover have "?ws \<in> set wss" using assms by (auto simp: k8sContainer_def k3sContainer_def)
    ultimately show "(apiv1_NewServiceHandler V, op, objParams ns resource name) \<in> set (matching wss meth ?path)"
      unfolding matching_def by auto
  qed
  show "matching wss ''PUT'' ?path = [(apiv1_NewServiceHandler V, OpPut, objParams ns resource name)]"
    by (rule hit) (simp add: allRoutes_def RegisterUpdateHandler_def)
  show "matching wss ''GET'' ?path = [(apiv1_NewServiceHandler V, OpGet, objParams ns resource name)]"
    by (rule hit) (simp add: allRoutes_def RegisterListHandler_def)
qed

definition objRequest :: "string \<Rightarrow> string \<Rightarrow> string \<Rightarrow> string \<Rightarrow> string \<Rightarrow> bytes option \<Rightarrow> httpRequest" where
  "objRequest meth uri ns resource name body = \<lparr>hrMethod = meth, hrPath = objPath ns resource name,
     hrURI = uri, hrWatch = [], hrFieldSelector = [], hrBody = body\<rparr>"

lemma toRequest_obj [simp]:
  "rqResource (toRequest (objParams ns resource name) r) = resource"
  "rqNamespace (toRequest (objParams ns resource name) r) = ns"
  "rqName (toRequest (objParams ns resource name) r) = name"
  "rqURI (toRequest ps r) = hrURI r" "rqBody (toRequest ps r) = hrBody r" "rqWatch (toRequest ps r) = hrWatch r"
  by (simp_all add: toRequest_def objParams_def pathParameter_def)

text \<open>C16: While the center is out of reach, what a client puts over HTTP it gets back. A put of an
  object to its path under either server, for any resource of the core API in a namespace, that
  is answered with success is followed by a get of the same path that is answered with status
  200 and the object's encoding, from the cache and with LevelDB in step. The one exception is
  the endpoint of the center, whose answer the hub rewrites.\<close>

theorem routed_put_get:
  assumes "wss = k8sContainer V \<or> wss = k3sContainer V" "go_has (apiv1_NewServiceHandler V) t"
    and "hub_ok (srvHub V)" "in_sync (srvHub V) (srvStore s)"
    and "\<not> srvRemote s" "\<not> RemoteEnable (srvStore s)" "go_has (Cache (srvStore s)) t"
    and "hubUnmarshal (srvHub V) t body = Some obj" "hubMarshal (srvHub V) obj = Some data"
    and "objKey obj = FormKeyName ns name" "uri \<noteq> ''/api/v1/namespaces/default/endpoints/kubernetes''"
    and "hub_serve V wss (objRequest ''PUT'' uri ns t name (Some body)) s =
      Some (Answered \<lparr>httpStatus = 200, httpContent = Inr answer\<rparr>, s')"
  shows "fst (the (hub_serve V wss (objRequest ''GET'' uri ns t name None) s')) =
      Answered \<lparr>httpStatus = 200, httpContent = Inr data\<rparr> \<and> in_sync (srvHub V) (srvStore s')"
proof -
  let ?put = "objRequest ''PUT'' uri ns t name (Some body)" and ?ps = "objParams ns t name"
  from assms(2) obtain h where h: "go_get (apiv1_NewServiceHandler V) t = Some h" by (auto simp: go_has_def)
  from apiv1_handlers [OF h] obtain handler where hd: "h = handler V" "resource_handler handler t" by blast
  obtain r s1 where r: "hUpdatePut h (FormKeyName ns name) uri body s = (r, s1)" by fastforce
  have "updatePutHandler (apiv1_NewServiceHandler V) (toRequest ?ps ?put) s = (respond r, s1)"
    using h r by (simp add: updatePutHandler_def withHandler_def objRequest_def)
  with assms(12) matching_obj(1) [OF assms(1)] have ok: "rspErr r = None" "s' = s1"
    by (auto simp: hub_serve_def objRequest_def respond_def split: option.splits)
  from resource_handler.put_get [OF hd(2) assms(3-9), of uri r s1] r ok assms(10) hd(1)
  have get: "rspErr (fst (hGet h (FormKeyName ns name) s')) = None"
    "rspBody (fst (hGet h (FormKeyName ns name) s')) = data" "in_sync (srvHub V) (srvStore s')" by simp_all
  then show ?thesis
    using h matching_obj(2) [OF assms(1)] assms(11)
    by (auto simp: hub_serve_def objRequest_def getHandler_def withHandler_def respond_def StatusOK_def Let_def
        split: prod.splits)
qed

theorem routed_put_get_witness:
  "fst (the (hub_serve sample_srv (k8sContainer sample_srv)
       (objRequest ''GET'' ''/api/v1/namespaces/default/pods/web'' ''default'' ResourcePod ''web'' None) (snd sample_put))) =
     Answered \<lparr>httpStatus = 200, httpContent = Inr (sample_data sample_new)\<rparr> \<and>
   in_sync (srvHub sample_srv) (srvStore (snd sample_put))"
proof -
  let ?uri = "''/api/v1/namespaces/default/pods/web''"
  let ?put = "objRequest ''PUT'' ?uri ''default'' ResourcePod ''web'' (Some (sample_data sample_new))"
  have v: "srvHub sample_srv = sample_hub" by (simp add: sample_srv_def)
  have h: "go_get (apiv1_NewServiceHandler sample_srv) ResourcePod = Some (NewPodHandler sample_srv)"
    by (simp add: apiv1_NewServiceHandler_def)
  have st: "srvStore sample_srvstate = sample_storage False" "\<not> srvRemote sample_srvstate"
    "\<not> RemoteEnable (sample_storage False)" by (simp_all add: sample_srvstate_def sample_storage_def)
  have m: "sample_marshal sample_new = Some (sample_data sample_new)" "rspErr (fst sample_put) = None" by code_simp+
  have "hUpdatePut (NewPodHandler sample_srv) (FormKeyName ''default'' ''web'') ?uri (sample_data sample_new) sample_srvstate =
      sample_put"
    by code_simp
  then have "hub_serve sample_srv (k8sContainer sample_srv) ?put sample_srvstate =
      Some (Answered \<lparr>httpStatus = 200, httpContent = Inr (rspBody (fst sample_put))\<rparr>, snd sample_put)"
    using h m(2) matching_obj(1) [of "k8sContainer sample_srv" sample_srv]
    by (simp add: hub_serve_def objRequest_def updatePutHandler_def withHandler_def respond_def StatusOK_def
        split_beta)
  moreover have "go_has (apiv1_NewServiceHandler sample_srv) ResourcePod" using h by (simp add: go_has_def)
  moreover have "objKey sample_new = FormKeyName ''default'' ''web''" by code_simp
  ultimately show ?thesis
    using routed_put_get [where wss = "k8sContainer sample_srv" and V = sample_srv and t = ResourcePod
        and s = sample_srvstate and body = "sample_data sample_new" and obj = sample_new
        and data = "sample_data sample_new" and ns = "''default''" and name = "''web''" and uri = ?uri]
      sample_hub_ok sample_storage_sync st m(1) sample_new_facts by (simp add: v)
qed

section \<open>The hub and the center\<close>

lemma RefreshStorage_remote [simp]: "RemoteEnable (RefreshStorage E F sys s) = RemoteEnable s"
  by (auto simp: RefreshStorage_def MergeDelete_def Let_def split: sum.split)

lemma startClients_ok:
  "(\<And>n sy. (n, sy) \<in> set sys \<Longrightarrow> sy \<noteq> None) \<Longrightarrow> SyncContext_IsValid (Some ctx) \<Longrightarrow> startClients ctx sys = None"
  by (induction sys) (force simp: startSyncer_def split: option.split)+

lemma registerSyncer_made:
  assumes "InformerFactory ctx = Some [(NodeInformerFactory, ()), (DefaultInformerFatory, ())]"
    "(n, sy) \<in> set (registerSyncer F ctx)"
  shows "sy \<noteq> None"
proof -
  have "newSyncer ctx f t a k \<noteq> None" if "f = NodeInformerFactory \<or> f = DefaultInformerFatory" for f t a k
    using that assms(1) by (auto simp: newSyncer_def go_has_def)
  with assms(2) [unfolded registerSyncer_def set_append set_filter] show ?thesis
    by (auto simp: NewPodSyncer_def NewNodeSyncer_def NewServiceSyncer_def NewEndpointSyncer_def
        NewConfigMapSyncer_def NewSecretSyncer_def NewNamespaceSyncer_def NewEventSyncer_def NewLeaseSyncer_def
        NewNetworkPolicySyncer_def NewCSIDriverSyncer_def NewCSINodeSyncer_def NewRuntimeClassSyncer_def NewCSRSyncer_def)
qed

definition informersSync :: "'i informers \<Rightarrow> bool" where
  "informersSync F \<longleftrightarrow> cacheSync F NodeInformerFactory = Synced \<and> cacheSync F DefaultInformerFatory = Synced"

text \<open>The hub between two signals: \<open>on\<close> says whether the center is there.\<close>

definition hub_inv :: "bool \<Rightarrow> ('i, 'd) hubstate \<Rightarrow> bool" where
  "hub_inv on h \<longleftrightarrow> KubeClient (hubCtx h) \<noteq> None \<and>
     (\<exists>st. Store (hubCtx h) = Some st \<and> RemoteEnable st = on) \<and> (Syncers h \<noteq> None) = on \<and>
     (on \<longrightarrow> StopChan (hubCtx h) = Some False)"

lemma StartSyncer_ok:
  assumes "KubeClient (hubCtx h) \<noteq> None" "Store (hubCtx h) = Some st" "RemoteEnable st" "informersSync F"
  shows "\<exists>h'. StartSyncer E F h = (None, h') \<and> hub_inv True h'"
proof -
  let ?ctx = "(NewSyncerInformerFactory (hubCtx h))\<lparr>StopChan := Some False\<rparr>"
  have v: "SyncContext_IsValid (Some ?ctx)"
    using assms(1,2) by (simp add: SyncContext_IsValid_def NewSyncerInformerFactory_def)
  have "startClients ?ctx (registerSyncer F ?ctx) = None"
    by (rule startClients_ok [OF _ v], rule registerSyncer_made) (simp_all add: NewSyncerInformerFactory_def)
  with v assms show ?thesis
    by (auto simp: StartSyncer_def startSyncClient_def startSyncInformerFatory_def NewSyncerInformerFactory_def
        hub_inv_def informersSync_def Let_def)
qed

lemma healthSignal_on: "hub_inv False h \<Longrightarrow> informersSync F \<Longrightarrow> hub_inv True (healthSignal E F True h)"
proof -
  assume a: "hub_inv False h" "informersSync F"
  then obtain st where "Store (hubCtx (setRemote True h)) = Some (st\<lparr>RemoteEnable := True\<rparr>)"
    "KubeClient (hubCtx (setRemote True h)) \<noteq> None" by (auto simp: hub_inv_def setRemote_def)
  with StartSyncer_ok [of "setRemote True h" _ F E] a(2) show ?thesis by (auto simp: healthSignal_def)
qed

lemma healthSignal_off: "hub_inv True h \<Longrightarrow> hub_inv False (healthSignal E F False h)"
  by (auto simp: hub_inv_def healthSignal_def StopSyncer_def isChanClose_def setRemote_def)

lemma hub_run_inv:
  assumes "hub_inv (odd n) h" "map snd sigs = map even [n..<n + length sigs]" "\<forall>(F, b)\<in>set sigs. informersSync F"
  shows "hub_inv (odd (n + length sigs)) (hub_run E sigs h)"
  using assms
proof (induction sigs arbitrary: n h)
  case (Cons x sigs)
  obtain F b where x: "x = (F, b)" by fastforce
  with Cons.prems(2) have b: "b = even n" "map snd sigs = map even [Suc n..<Suc n + length sigs]"
    by (auto simp: upt_conv_Cons simp del: upt_Suc)
  have "hub_inv (odd (Suc n)) (healthSignal E F b h)"
    using healthSignal_on [of h F E] healthSignal_off [of h E F] Cons.prems(1,3) b(1) x by (cases "even n") auto
  from Cons.IH [OF this b(2)] Cons.prems(3) x show ?case by simp
qed simp

text \<open>C14: The storage knows whether the center is there. Whatever the load balancer does, after its
  health signals have been handled the storage is in online mode, and the syncers exist, exactly
  if the load balancer has found a healthy server, provided the informers sync whenever the
  syncers are started.\<close>

theorem hub_follows_center:
  assumes "initEdgehub E hostname clientOk shuffle ep f = Inr eh" "shuffle_ok shuffle" "server \<noteq> []"
    and "lb_run shuffle server lb tr" "map snd sigs = tr" "\<forall>(F, b)\<in>set sigs. informersSync F"
    and "h = hub_run E sigs (ehState eh)"
  shows "(\<exists>st. Store (hubCtx h) = Some st \<and> RemoteEnable st = lbRemoteEnable (snd lb)) \<and>
    (Syncers h \<noteq> None) = lbRemoteEnable (snd lb)"
proof -
  have "hub_inv False (ehState eh)"
    using assms(1) by (auto simp: initEdgehub_def hub_inv_def NewEdgehubStore_def split: prod.splits bool.splits if_splits
        sum.splits option.splits)
  moreover from lb_run_signals [OF assms(4,2,3)] have tr: "alternate tr" "lbRemoteEnable (snd lb) = odd (length tr)" by auto
  moreover have "length sigs = length tr" using assms(5) by (metis length_map)
  ultimately have "hub_inv (odd (0 + length sigs)) (hub_run E sigs (ehState eh))"
    using assms(5,6) by (intro hub_run_inv) (auto simp: alternate_def)
  with tr(2) assms(7) \<open>length sigs = length tr\<close> show ?thesis by (simp add: hub_inv_def)
qed

definition sample_edgehub :: "(sampleix, sampledb) edgehub" where
  "sample_edgehub = projr (initEdgehub sample_hub (Some ''node1'') True rev sample_endpoints hubDefaults)"

lemma sample_edgehub_init:
  "initEdgehub sample_hub (Some ''node1'') True rev sample_endpoints hubDefaults = Inr sample_edgehub"
proof -
  have "isl (initEdgehub sample_hub (Some ''node1'') True rev sample_endpoints hubDefaults) = False" by code_simp
  then show ?thesis unfolding sample_edgehub_def by (metis sum.collapse(2))
qed

theorem hub_follows_center_witness:
  "\<exists>st. Store (hubCtx (hub_run sample_hub [(sample_informers, True)] (ehState sample_edgehub))) = Some st \<and>
     RemoteEnable st"
proof -
  have "informersSync sample_informers" by (simp add: informersSync_def sample_informers_def)
  then have "\<forall>(F, b)\<in>set [(sample_informers, True)]. informersSync F" by simp
  moreover have "lbRemoteEnable (fst (healthCheck sample_dial sample_lb))"
    using lb_run_signals [OF sample_run sample_shuffle] by simp
  ultimately show ?thesis
    using hub_follows_center [OF sample_edgehub_init sample_shuffle _ sample_run, of "[(sample_informers, True)]"] by auto
qed

end
