(* ===== verification/ManagerApp.thy ===== *)
theory ManagerApp
  imports TunnelLoops Controllers ControllerApp "HOL-Library.Multiset"
begin

text \<open>
  The controller manager's process (\<^verbatim>\<open>cmd/ote_controller_manager/app/app.go\<close>) with the context it
  makes (\<^verbatim>\<open>pkg/controllermanager/controllermanager.go\<close>), the constructors of the clients
  (\<^verbatim>\<open>pkg/k8sclient/k8s_client.go\<close>), and the edge controller's process
  (\<^verbatim>\<open>cmd/edgecontroller/app/app.go\<close>). Every replica of the manager connects to the root cluster
  controller; only the one that leads starts the controllers, which publish. The election is
  the library's, as for the cluster controller; here no callback is registered for a new leader.
\<close>

section \<open>Clients\<close>

text \<open>\<open>load\<close> is client-go's reading of a configuration file, \<open>newFor\<close> the constructor of a set of
  clients. The rate limit, a float, is only compared with zero.\<close>

record 'q restConfig =
  cfgHost :: string
  cfgBurst :: int
  cfgQPS :: 'q

record 'q K8sOption =
  optKubeConfig :: string
  optBurst :: int
  optQps :: 'q

datatype client_error = ConfigUnreadable string | ClientsetFailed string

definition getRestConfigFromKubeConfigFile ::
  "(string \<Rightarrow> 'q restConfig option) \<Rightarrow> string \<Rightarrow> client_error + 'q restConfig" where
  "getRestConfigFromKubeConfigFile load kubeConfig =
     (case load kubeConfig of None \<Rightarrow> Inl (ConfigUnreadable kubeConfig) | Some config \<Rightarrow> Inr config)"

definition NewClient ::
  "(string \<Rightarrow> 'q restConfig option) \<Rightarrow> ('q restConfig \<Rightarrow> 'c option) \<Rightarrow> string \<Rightarrow> client_error + 'c" where
  "NewClient load newFor kubeConfig =
     (case getRestConfigFromKubeConfigFile load kubeConfig of
        Inl e \<Rightarrow> Inl e
      | Inr config \<Rightarrow>
          (case newFor config of None \<Rightarrow> Inl (ClientsetFailed kubeConfig) | Some clientset \<Rightarrow> Inr clientset))"

definition NewK8sClient ::
  "(string \<Rightarrow> ('q :: zero) restConfig option) \<Rightarrow> ('q restConfig \<Rightarrow> 'c option) \<Rightarrow> 'q K8sOption \<Rightarrow>
   client_error + 'c" where
  "NewK8sClient load newFor k8sOption =
     (case getRestConfigFromKubeConfigFile load (optKubeConfig k8sOption) of
        Inl e \<Rightarrow> Inl e
      | Inr config \<Rightarrow>
          let config1 = (if optBurst k8sOption \<noteq> 0 then config\<lparr>cfgBurst := optBurst k8sOption\<rparr> else config);
              config2 = (if optQps k8sOption \<noteq> 0 then config1\<lparr>cfgQPS := optQps k8sOption\<rparr> else config1)
          in (case newFor config2 of
                None \<Rightarrow> Inl (ClientsetFailed (optKubeConfig k8sOption))
              | Some clientset \<Rightarrow> Inr clientset))"

text \<open>Options that are zero leave the limits of the configuration alone.\<close>

lemma NewK8sClient_limits:
  assumes "load (optKubeConfig opt) = Some config" "NewK8sClient load Some opt = Inr c"
  shows "c = config\<lparr>cfgBurst := (if optBurst opt = 0 then cfgBurst config else optBurst opt),
    cfgQPS := (if optQps opt = 0 then cfgQPS config else optQps opt)\<rparr>"
  using assms by (auto simp: NewK8sClient_def getRestConfigFromKubeConfigFile_def Let_def)

section \<open>The context\<close>

text \<open>The channel to publish on, nil or the tunnel's; the controllers registered with the two
  informers, each with the channel it was made with; whether the informers were started.\<close>

datatype publishChan = NilChan | TunnelChan

record ControllerContext =
  PublishChan :: publishChan
  clusterControllers :: "publishChan list"
  namespaceControllers :: "publishChan list"
  informersStarted :: bool

definition createControllerContext :: ControllerContext where
  "createControllerContext =
     \<lparr>PublishChan = NilChan, clusterControllers = [], namespaceControllers = [], informersStarted = False\<rparr>"

type_synonym InitFunc = "ControllerContext \<Rightarrow> string option \<times> ControllerContext"

definition InitClusterCrdController :: InitFunc where
  "InitClusterCrdController ctx =
     (None, ctx\<lparr>clusterControllers := clusterControllers ctx @ [PublishChan ctx]\<rparr>)"

definition InitNamespaceController :: InitFunc where
  "InitNamespaceController ctx =
     (None, ctx\<lparr>namespaceControllers := namespaceControllers ctx @ [PublishChan ctx]\<rparr>)"

definition cmControllers :: "(string, InitFunc) gomap" where
  "cmControllers = [(''clustercrd'', InitClusterCrdController), (''namespace'', InitNamespaceController)]"

text \<open>\<open>ctls\<close> is the map's content in the order in which it is visited, which Go leaves open.\<close>

fun initControllers :: "(string, InitFunc) gomap \<Rightarrow> InitFunc" where
  "initControllers [] ctx = (None, ctx)"
| "initControllers ((controllerName, initFn) # ctls) ctx =
     (case initFn ctx of (Some err, ctx') \<Rightarrow> (Some err, ctx') | (None, ctx') \<Rightarrow> initControllers ctls ctx')"

definition startControllers :: "(string, InitFunc) gomap \<Rightarrow> InitFunc" where
  "startControllers ctls ctx =
     (case initControllers ctls ctx of
        (Some err, ctx') \<Rightarrow> (Some err, ctx')
      | (None, ctx') \<Rightarrow> (None, ctx'\<lparr>informersStarted := True\<rparr>))"

text \<open>What an added object makes the registered controllers put into the tunnel's channel; a
  send on a nil channel blocks forever. \<open>None\<close>: a handler panics.\<close>

fun publish_all :: "publishChan list \<Rightarrow> ClusterMessage option option \<Rightarrow> ClusterMessage list option" where
  "publish_all [] r = Some []"
| "publish_all (c # cs) None = None"
| "publish_all (c # cs) (Some msg) =
     map_option (\<lambda>ms. (case (c, msg) of (TunnelChan, Some m) \<Rightarrow> m # ms | _ \<Rightarrow> ms)) (publish_all cs (Some msg))"

definition namespace_published ::
  "codecs \<Rightarrow> (oteNamespace \<Rightarrow> bytes option) \<Rightarrow> string iobj \<Rightarrow> ControllerContext \<Rightarrow> ClusterMessage list option" where
  "namespace_published cd js obj ctx =
     publish_all (if informersStarted ctx then namespaceControllers ctx else []) (namespace_handleAddedEvent cd js obj)"

definition cluster_published ::
  "codecs \<Rightarrow> (oteNamespace \<Rightarrow> bytes option) \<Rightarrow> string list option \<Rightarrow> Cluster iobj \<Rightarrow> ControllerContext \<Rightarrow>
   ClusterMessage list option" where
  "cluster_published cd js nsList obj ctx =
     publish_all (if informersStarted ctx then clusterControllers ctx else [])
       (cluster_handleAddedEvent cd js nsList obj)"

section \<open>Run\<close>

record 'q cmFlags =
  cmKubeConfig :: string
  cmRootAddr :: string
  cmKubeBurst :: int
  cmKubeQps :: 'q

definition cmDefaults :: "('q :: zero) cmFlags" where
  "cmDefaults = \<lparr>cmKubeConfig = ''/root/.kube/config'', cmRootAddr = '':8272'', cmKubeBurst = 0, cmKubeQps = 0\<rparr>"

datatype cmError = CmClient client_error | CmTunnel dial_error | CmHostname | CmLock
datatype cmFatal = CmStartControllers string | CmLeadershipLost

record cmState =
  cmTunnel :: controllerTunnel
  cmDialled :: nat
  cmContext :: ControllerContext

datatype cmProc = CmReturns cmError | CmFatal cmFatal | CmDialling | CmRunning cmState

fun cm_step :: "(string, InitFunc) gomap \<Rightarrow> leaderEvent \<Rightarrow> cmState \<Rightarrow> cmProc" where
  "cm_step ctls StartedLeading st =
     (case startControllers ctls ((cmContext st)\<lparr>PublishChan := TunnelChan\<rparr>) of
        (Some err, ctx) \<Rightarrow> CmFatal (CmStartControllers err)
      | (None, ctx) \<Rightarrow> CmRunning (st\<lparr>cmContext := ctx\<rparr>))"
| "cm_step ctls StoppedLeading st = CmFatal CmLeadershipLost"
| "cm_step ctls (NewLeader _) st = CmRunning st"

fun cm_events :: "(string, InitFunc) gomap \<Rightarrow> leaderEvent list \<Rightarrow> cmState \<Rightarrow> cmProc" where
  "cm_events ctls [] st = CmRunning st"
| "cm_events ctls (ev # evs) st = (case cm_step ctls ev st of CmRunning st' \<Rightarrow> cm_events ctls evs st' | p \<Rightarrow> p)"

text \<open>What the process finds. \<^verbatim>\<open>Start\<close> of the tunnel returns after the first connection; what the
  connections yield is \<open>controller_loop\<close> from there.\<close>

record 'q cmEnv =
  cmLoad :: "string \<Rightarrow> 'q restConfig option"
  cmNewOte :: "'q restConfig \<Rightarrow> unit option"
  cmNewKube :: "'q restConfig \<Rightarrow> unit option"
  cmDial :: "nat \<Rightarrow> string \<Rightarrow> dial"
  cmHostname :: "string option"
  cmLock :: bool

definition cm_Run ::
  "('q :: zero) cmEnv \<Rightarrow> (string, InitFunc) gomap \<Rightarrow> 'q cmFlags \<Rightarrow> leaderEvent list \<Rightarrow> cmProc" where
  "cm_Run env ctls f evs =
     (case NewClient (cmLoad env) (cmNewOte env) (cmKubeConfig f) of
        Inl e \<Rightarrow> CmReturns (CmClient e)
      | Inr oteClient \<Rightarrow>
     (case NewK8sClient (cmLoad env) (cmNewKube env)
             \<lparr>optKubeConfig = cmKubeConfig f, optBurst = cmKubeBurst f, optQps = cmKubeQps f\<rparr> of
        Inl e \<Rightarrow> CmReturns (CmClient e)
      | Inr k8sClient \<Rightarrow>
     (case NewK8sClient (cmLoad env) (cmNewKube env) \<lparr>optKubeConfig = cmKubeConfig f, optBurst = 0, optQps = 0\<rparr> of
        Inl e \<Rightarrow> CmReturns (CmClient e)
      | Inr leK8sClient \<Rightarrow>
     (case controllerTunnel_Start (cmDial env) [] (NewControllerTunnel (cmRootAddr f)) of
        None \<Rightarrow> CmDialling
      | Some (Some e, _, _, _) \<Rightarrow> CmReturns (CmTunnel e)
      | Some (None, _, n, tunnel) \<Rightarrow>
          if cmHostname env = None then CmReturns CmHostname
          else if \<not> cmLock env then CmReturns CmLock
          else cm_events ctls evs \<lparr>cmTunnel = tunnel, cmDialled = n, cmContext = createControllerContext\<rparr>))))"

section \<open>The edge controller's process\<close>

text \<open>\<^verbatim>\<open>Start\<close> registers the handlers of nodes and starts the timer; the process then only waits for
  them and for a signal. Its command panics with the error \<^verbatim>\<open>Run\<close> returns.\<close>

datatype ecEvent =
    NodeAdd "cnode iobj"
  | NodeUpdate "cnode iobj" "cnode iobj"
  | NodeDelete "cnode iobj"
  | StatusTick
  | ExitSignal

datatype 'k ecProc =
    EcPanic string client_error
  | EcHandlerPanic
  | EcExit
  | EcRunning updateNodeMap 'k

definition NewEdgeNodeController :: updateNodeMap where
  "NewEdgeNodeController = []"

definition ec_handled :: "(updateNodeMap \<times> 'k) option \<Rightarrow> 'k ecProc" where
  "ec_handled r = (case r of None \<Rightarrow> EcHandlerPanic | Some (m, k) \<Rightarrow> EcRunning m k)"

fun ec_step ::
  "'k enapi \<Rightarrow> (ncondition list \<Rightarrow> bytes option) \<Rightarrow> ecEvent \<Rightarrow> updateNodeMap \<times> 'k \<Rightarrow> 'k ecProc" where
  "ec_step oteApi js (NodeAdd obj) s = ec_handled (handleNodeAdd oteApi obj s)"
| "ec_step oteApi js (NodeUpdate old new) s = ec_handled (updateNodeFunc oteApi old new s)"
| "ec_step oteApi js (NodeDelete obj) s = ec_handled (handleNodeDelete oteApi obj s)"
| "ec_step oteApi js StatusTick s = EcRunning (fst s) (updateNodeStatus oteApi js (fst s) (snd s))"
| "ec_step oteApi js ExitSignal s = EcExit"

fun ec_events ::
  "'k enapi \<Rightarrow> (ncondition list \<Rightarrow> bytes option) \<Rightarrow> ecEvent list \<Rightarrow> updateNodeMap \<times> 'k \<Rightarrow> 'k ecProc" where
  "ec_events oteApi js [] s = EcRunning (fst s) (snd s)"
| "ec_events oteApi js (ev # evs) s =
     (case ec_step oteApi js ev s of EcRunning m k \<Rightarrow> ec_events oteApi js evs (m, k) | p \<Rightarrow> p)"

definition edgecontroller_Run ::
  "(string \<Rightarrow> ('q :: zero) restConfig option) \<Rightarrow> ('q restConfig \<Rightarrow> unit option) \<Rightarrow>
   ('q restConfig \<Rightarrow> 'k enapi option) \<Rightarrow> (ncondition list \<Rightarrow> bytes option) \<Rightarrow> string \<Rightarrow> ecEvent list \<Rightarrow> 'k \<Rightarrow>
   'k ecProc" where
  "edgecontroller_Run load newKube newOte js kubeConfig evs k =
     (case NewK8sClient load newKube \<lparr>optKubeConfig = kubeConfig, optBurst = 0, optQps = 0\<rparr> of
        Inl e \<Rightarrow> EcPanic ''get k8s client failed'' e
      | Inr k8sClient \<Rightarrow>
          (case NewClient load newOte kubeConfig of
             Inl e \<Rightarrow> EcPanic ''get ote client failed'' e
           | Inr oteApi \<Rightarrow> ec_events oteApi js evs (NewEdgeNodeController, k)))"

section \<open>Lemmas\<close>

definition led :: "leaderEvent list \<Rightarrow> nat" where
  "led evs = length (filter (\<lambda>ev. ev = StartedLeading) evs)"

lemma led_simps [simp]:
  "led [] = 0" "led (StartedLeading # evs) = Suc (led evs)" "led (StoppedLeading # evs) = led evs"
  "led (NewLeader l # evs) = led evs"
  by (simp_all add: led_def)

lemma startControllers_ok:
  assumes "mset ctls = mset cmControllers"
  shows "startControllers ctls ctx = (None, ctx\<lparr>clusterControllers := clusterControllers ctx @ [PublishChan ctx],
     namespaceControllers := namespaceControllers ctx @ [PublishChan ctx], informersStarted := True\<rparr>)"
proof -
  let ?c = "(''clustercrd'', InitClusterCrdController)" and ?n = "(''namespace'', InitNamespaceController)"
  from assms have "mset ctls = {#?c, ?n#}" by (simp add: cmControllers_def)
  moreover from this have "length ctls = 2" by (metis mset.simps(1) mset.simps(2) length_Cons list.size(3) numeral_2_eq_2 size_mset)
  then obtain a b where "ctls = [a, b]" by (auto simp: length_Suc_conv numeral_2_eq_2)
  ultimately have "ctls = [?c, ?n] \<or> ctls = [?n, ?c]" by (auto simp: add_eq_conv_ex)
  then show ?thesis
    by (auto simp: startControllers_def InitClusterCrdController_def InitNamespaceController_def)
qed

text \<open>A replica has each controller as often as it has started to lead, and none before; its
  tunnel stays as \<^verbatim>\<open>Start\<close> left it.\<close>

lemma cm_events_running:
  assumes "mset ctls = mset cmControllers"
  shows "cm_events ctls evs st = CmRunning st' \<Longrightarrow>
     cmTunnel st' = cmTunnel st \<and> cmDialled st' = cmDialled st \<and>
     informersStarted (cmContext st') = (informersStarted (cmContext st) \<or> 0 < led evs) \<and>
     clusterControllers (cmContext st') = clusterControllers (cmContext st) @ replicate (led evs) TunnelChan \<and>
     namespaceControllers (cmContext st') = namespaceControllers (cmContext st) @ replicate (led evs) TunnelChan"
proof (induction evs arbitrary: st)
  case (Cons ev evs)
  then show ?case by (cases ev) (auto simp: startControllers_ok [OF assms])
qed simp

lemma publish_all_tunnel:
  "publish_all (replicate n TunnelChan) (Some msg) = Some (concat (replicate n (case msg of None \<Rightarrow> [] | Some m \<Rightarrow> [m])))"
  by (induction n) (auto split: option.splits)

end
