(* ===== verification/ManagerProps.thy ===== *)
theory ManagerProps
  imports ManagerApp ControllerProps
begin

text \<open>Properties of the controller manager's process.\<close>

section \<open>Lemmas\<close>

lemma controller_connect_client:
  assumes "controller_connect d n e = Some r"
  shows "fst r = None \<longrightarrow> ctClient (snd (snd r)) = Some (ctCloudAddr (snd (snd r)))"
proof (rule controller_connect.raw_induct [OF _ assms, where
      P = "\<lambda>d n e r. fst r = None \<longrightarrow> ctClient (snd (snd r)) = Some (ctCloudAddr (snd (snd r)))"])
  fix f and d :: "nat \<Rightarrow> string \<Rightarrow> dial" and n e r
  assume IH: "\<And>d n e r. f d n e = Some r \<Longrightarrow>
      fst r = None \<longrightarrow> ctClient (snd (snd r)) = Some (ctCloudAddr (snd (snd r)))"
    and r: "(case d n (ctCloudAddr e) of
        DialOk \<Rightarrow> Some (None, Suc n, e\<lparr>ctClient := Some (ctCloudAddr e)\<rparr>)
      | DialRedirect host \<Rightarrow> f d (Suc n) (e\<lparr>ctOriginCloudAddr := ctCloudAddr e, ctCloudAddr := host\<rparr>)
      | x \<Rightarrow> Some (Some (dial_err x), Suc n, e)) = Some r"
  show "fst r = None \<longrightarrow> ctClient (snd (snd r)) = Some (ctCloudAddr (snd (snd r)))"
  proof (cases "d n (ctCloudAddr e)")
    case (DialRedirect host)
    with r have "f d (Suc n) (e\<lparr>ctOriginCloudAddr := ctCloudAddr e, ctCloudAddr := host\<rparr>) = Some r" by simp
    then show ?thesis by (rule IH)
  qed (use r in auto)
qed

lemma cm_Run_running:
  assumes "cm_Run env ctls f evs = CmRunning st"
  obtains n tunnel where "ctClient tunnel = Some (ctCloudAddr tunnel)" "connectionHealth tunnel"
    "cm_events ctls evs \<lparr>cmTunnel = tunnel, cmDialled = n, cmContext = createControllerContext\<rparr> = CmRunning st"
proof -
  from assms obtain n e tr where start: "controllerTunnel_Start (cmDial env) [] (NewControllerTunnel (cmRootAddr f)) =
      Some (None, tr, n, e)"
    and run: "cm_events ctls evs \<lparr>cmTunnel = e, cmDialled = n, cmContext = createControllerContext\<rparr> = CmRunning st"
    by (auto simp: cm_Run_def split: sum.splits option.splits if_splits prod.splits)
  from start obtain e1 where "controller_connect (cmDial env) 0 (NewControllerTunnel (cmRootAddr f)) = Some (None, n, e1)"
    "e = e1\<lparr>connectionHealth := True\<rparr>"
    by (auto simp: controllerTunnel_Start_def split: option.splits prod.splits)
  with controller_connect_client [OF this(1)] run show thesis by (intro that [of e n]) simp_all
qed

section \<open>Publishing\<close>


definition sample_cmEnv :: "nat cmEnv" where
  "sample_cmEnv = \<lparr>cmLoad = (\<lambda>_. Some \<lparr>cfgHost = ''api'', cfgBurst = 10, cfgQPS = 5\<rparr>), cmNewOte = (\<lambda>_. Some ()),
     cmNewKube = (\<lambda>_. Some ()), cmDial = (\<lambda>n _. if n = 0 then DialRedirect ''leader:1'' else DialOk),
     cmHostname = Some ''host'', cmLock = True\<rparr>"

lemma sample_cmRun:
  "cm_Run sample_cmEnv (rev cmControllers) cmDefaults [NewLeader ''host_1'', StartedLeading] =
     CmRunning \<lparr>cmTunnel = \<lparr>ctCloudAddr = ''leader:1'', ctOriginCloudAddr = '':8272'', ctClient = Some ''leader:1'',
       connectionHealth = True\<rparr>, cmDialled = 2, cmContext = \<lparr>PublishChan = TunnelChan,
       clusterControllers = [TunnelChan], namespaceControllers = [TunnelChan], informersStarted = True\<rparr>\<rparr>"
proof -
  have "controllerTunnel_Start (cmDial sample_cmEnv) [] (NewControllerTunnel '':8272'') = Some (None, [ConnectedTo], 2,
      \<lparr>ctCloudAddr = ''leader:1'', ctOriginCloudAddr = '':8272'', ctClient = Some ''leader:1'', connectionHealth = True\<rparr>)"
    by (simp add: controllerTunnel_Start_def sample_cmEnv_def NewControllerTunnel_def
        controller_connect.simps [of _ 0] controller_connect.simps [of _ "Suc 0"])
  moreover have "NewClient (cmLoad sample_cmEnv) (cmNewOte sample_cmEnv) c = Inr ()"
    "NewK8sClient (cmLoad sample_cmEnv) (cmNewKube sample_cmEnv) opt = Inr ()"
    "cmHostname sample_cmEnv = Some ''host''" "cmLock sample_cmEnv" for c opt
    by (simp_all add: NewClient_def NewK8sClient_def getRestConfigFromKubeConfigFile_def sample_cmEnv_def Let_def)
  ultimately show ?thesis
    by (simp add: cm_Run_def cmDefaults_def startControllers_ok createControllerContext_def)
qed


end
