(* ===== verification/DeepCopy.thy ===== *)
theory DeepCopy
  imports Prelude
begin

text \<open>
  Deep copies of the custom resources (\<^verbatim>\<open>pkg/apis/ote/v1/zz_generated.deepcopy.go\<close>). Whether a copy
  is deep depends on aliasing, so the objects of \<^verbatim>\<open>types.go\<close> are modelled here with their pointers:
  an explicit heap holds the maps, the arrays under slices, the quantities, and what metadata
  points to. A struct is a value; a pointer, a map and a slice are addresses, \<open>None\<close> is nil.
  One counter hands out the addresses of every kind.

  Copying a \<^verbatim>\<open>Quantity\<close> or an \<^verbatim>\<open>ObjectMeta\<close> is code of apimachinery: arguments \<open>qcopy\<close> and \<open>mcopy\<close> that
  give the content of the copy, which is put into a cell of its own.
\<close>

section \<open>Objects\<close>

type_synonym addr = nat

record pClusterResource =
  pCapacity :: "addr option"
  pAllocatable :: "addr option"

record pClusterStatus =
  pListen :: string
  pParentName :: string
  pStatus :: string
  pTimestamp :: int
  pResource :: pClusterResource

record pCluster =
  pcTypeMeta :: string
  pcObjectMeta :: addr
  pcSpecName :: string
  pcStatus :: pClusterStatus

record pCCSpec =
  psParentClusterName :: string
  psClusterSelector :: string
  psDestination :: string
  psMethod :: string
  psURL :: string
  psBody :: string

record pCCStatus =
  psTimestamp :: int
  psStatusCode :: int
  psStatusBody :: string

record pClusterController =
  pccTypeMeta :: string
  pccObjectMeta :: addr
  pccSpec :: pCCSpec
  pccStatus :: "addr option"

record pEdgeNode =
  peTypeMeta :: string
  peObjectMeta :: addr
  peStatus :: string

text \<open>The lists differ in their items only.\<close>

record pList =
  plTypeMeta :: string
  plListMeta :: addr
  plItems :: "addr option"

section \<open>The heap\<close>

record ('q, 'm) heap =
  hNext :: addr
  hQuantity :: "addr \<Rightarrow> 'q"
  hMeta :: "addr \<Rightarrow> 'm"
  hResources :: "addr \<Rightarrow> (string, addr option) gomap"
  hStatuses :: "addr \<Rightarrow> (string, pCCStatus) gomap"
  hClusters :: "addr \<Rightarrow> pCluster list"
  hControllers :: "addr \<Rightarrow> pClusterController list"
  hNodes :: "addr \<Rightarrow> pEdgeNode list"

definition newQuantity :: "'q \<Rightarrow> ('q, 'm) heap \<Rightarrow> addr \<times> ('q, 'm) heap" where
  "newQuantity q h = (hNext h, h\<lparr>hQuantity := (hQuantity h)(hNext h := q), hNext := Suc (hNext h)\<rparr>)"

definition newMeta :: "'m \<Rightarrow> ('q, 'm) heap \<Rightarrow> addr \<times> ('q, 'm) heap" where
  "newMeta m h = (hNext h, h\<lparr>hMeta := (hMeta h)(hNext h := m), hNext := Suc (hNext h)\<rparr>)"

definition newResources :: "(string, addr option) gomap \<Rightarrow> ('q, 'm) heap \<Rightarrow> addr \<times> ('q, 'm) heap" where
  "newResources m h = (hNext h, h\<lparr>hResources := (hResources h)(hNext h := m), hNext := Suc (hNext h)\<rparr>)"

definition newStatuses :: "(string, pCCStatus) gomap \<Rightarrow> ('q, 'm) heap \<Rightarrow> addr \<times> ('q, 'm) heap" where
  "newStatuses m h = (hNext h, h\<lparr>hStatuses := (hStatuses h)(hNext h := m), hNext := Suc (hNext h)\<rparr>)"

definition newClusters :: "pCluster list \<Rightarrow> ('q, 'm) heap \<Rightarrow> addr \<times> ('q, 'm) heap" where
  "newClusters xs h = (hNext h, h\<lparr>hClusters := (hClusters h)(hNext h := xs), hNext := Suc (hNext h)\<rparr>)"

definition newControllers :: "pClusterController list \<Rightarrow> ('q, 'm) heap \<Rightarrow> addr \<times> ('q, 'm) heap" where
  "newControllers xs h = (hNext h, h\<lparr>hControllers := (hControllers h)(hNext h := xs), hNext := Suc (hNext h)\<rparr>)"

definition newNodes :: "pEdgeNode list \<Rightarrow> ('q, 'm) heap \<Rightarrow> addr \<times> ('q, 'm) heap" where
  "newNodes xs h = (hNext h, h\<lparr>hNodes := (hNodes h)(hNext h := xs), hNext := Suc (hNext h)\<rparr>)"

section \<open>Copying\<close>

text \<open>The loop over a map of quantities; a nil quantity stays nil. The map is finished before it
  gets its address, which makes no difference as no one has it yet.\<close>

fun copyQuantities ::
  "('q \<Rightarrow> 'q) \<Rightarrow> (string, addr option) gomap \<Rightarrow> ('q, 'm) heap \<Rightarrow> (string, addr option) gomap \<times> ('q, 'm) heap" where
  "copyQuantities qcopy [] h = ([], h)"
| "copyQuantities qcopy ((key, None) # m) h =
     (case copyQuantities qcopy m h of (m', h') \<Rightarrow> ((key, None) # m', h'))"
| "copyQuantities qcopy ((key, Some val) # m) h =
     (case newQuantity (qcopy (hQuantity h val)) h of
        (x, h1) \<Rightarrow> (case copyQuantities qcopy m h1 of (m', h') \<Rightarrow> ((key, Some x) # m', h')))"

definition copyResources ::
  "('q \<Rightarrow> 'q) \<Rightarrow> addr option \<Rightarrow> ('q, 'm) heap \<Rightarrow> addr option \<times> ('q, 'm) heap" where
  "copyResources qcopy r h =
     (case r of
        None \<Rightarrow> (None, h)
      | Some a \<Rightarrow>
          (case copyQuantities qcopy (hResources h a) h of
             (m, h1) \<Rightarrow> (case newResources m h1 of (b, h2) \<Rightarrow> (Some b, h2))))"

definition ClusterResource_DeepCopyInto ::
  "('q \<Rightarrow> 'q) \<Rightarrow> pClusterResource \<Rightarrow> ('q, 'm) heap \<Rightarrow> pClusterResource \<times> ('q, 'm) heap" where
  "ClusterResource_DeepCopyInto qcopy x h =
     (case copyResources qcopy (pCapacity x) h of
        (c, h1) \<Rightarrow>
          (case copyResources qcopy (pAllocatable x) h1 of
             (a, h2) \<Rightarrow> (x\<lparr>pCapacity := c, pAllocatable := a\<rparr>, h2)))"

definition ClusterStatus_DeepCopyInto ::
  "('q \<Rightarrow> 'q) \<Rightarrow> pClusterStatus \<Rightarrow> ('q, 'm) heap \<Rightarrow> pClusterStatus \<times> ('q, 'm) heap" where
  "ClusterStatus_DeepCopyInto qcopy x h =
     (case ClusterResource_DeepCopyInto qcopy (pResource x) h of (r, h1) \<Rightarrow> (x\<lparr>pResource := r\<rparr>, h1))"

definition copyMeta :: "('m \<Rightarrow> 'm) \<Rightarrow> addr \<Rightarrow> ('q, 'm) heap \<Rightarrow> addr \<times> ('q, 'm) heap" where
  "copyMeta mcopy a h = newMeta (mcopy (hMeta h a)) h"

definition Cluster_DeepCopyInto ::
  "('q \<Rightarrow> 'q) \<Rightarrow> ('m \<Rightarrow> 'm) \<Rightarrow> pCluster \<Rightarrow> ('q, 'm) heap \<Rightarrow> pCluster \<times> ('q, 'm) heap" where
  "Cluster_DeepCopyInto qcopy mcopy x h =
     (case copyMeta mcopy (pcObjectMeta x) h of
        (m, h1) \<Rightarrow>
          (case ClusterStatus_DeepCopyInto qcopy (pcStatus x) h1 of
             (s, h2) \<Rightarrow> (x\<lparr>pcObjectMeta := m, pcStatus := s\<rparr>, h2)))"

definition ClusterController_DeepCopyInto ::
  "('m \<Rightarrow> 'm) \<Rightarrow> pClusterController \<Rightarrow> ('q, 'm) heap \<Rightarrow> pClusterController \<times> ('q, 'm) heap" where
  "ClusterController_DeepCopyInto mcopy x h =
     (case copyMeta mcopy (pccObjectMeta x) h of
        (m, h1) \<Rightarrow>
          (case pccStatus x of
             None \<Rightarrow> (x\<lparr>pccObjectMeta := m\<rparr>, h1)
           | Some a \<Rightarrow>
               (case newStatuses (hStatuses h1 a) h1 of
                  (b, h2) \<Rightarrow> (x\<lparr>pccObjectMeta := m, pccStatus := Some b\<rparr>, h2))))"

definition EdgeNode_DeepCopyInto ::
  "('m \<Rightarrow> 'm) \<Rightarrow> pEdgeNode \<Rightarrow> ('q, 'm) heap \<Rightarrow> pEdgeNode \<times> ('q, 'm) heap" where
  "EdgeNode_DeepCopyInto mcopy x h =
     (case copyMeta mcopy (peObjectMeta x) h of (m, h1) \<Rightarrow> (x\<lparr>peObjectMeta := m\<rparr>, h1))"

text \<open>Structs without pointers are copied by the assignment.\<close>

definition ClusterSpec_DeepCopyInto :: "string \<Rightarrow> string" where
  "ClusterSpec_DeepCopyInto x = x"

definition ClusterControllerSpec_DeepCopyInto :: "pCCSpec \<Rightarrow> pCCSpec" where
  "ClusterControllerSpec_DeepCopyInto x = x"

definition ClusterControllerStatus_DeepCopyInto :: "pCCStatus \<Rightarrow> pCCStatus" where
  "ClusterControllerStatus_DeepCopyInto x = x"

text \<open>The loops over the items.\<close>

fun copyItems :: "('o \<Rightarrow> ('q, 'm) heap \<Rightarrow> 'o \<times> ('q, 'm) heap) \<Rightarrow> 'o list \<Rightarrow> ('q, 'm) heap \<Rightarrow> 'o list \<times> ('q, 'm) heap" where
  "copyItems cp [] h = ([], h)"
| "copyItems cp (x # xs) h =
     (case cp x h of (y, h1) \<Rightarrow> (case copyItems cp xs h1 of (ys, h2) \<Rightarrow> (y # ys, h2)))"

definition copyList ::
  "(('q, 'm) heap \<Rightarrow> addr \<Rightarrow> 'o list) \<Rightarrow> ('o list \<Rightarrow> ('q, 'm) heap \<Rightarrow> addr \<times> ('q, 'm) heap) \<Rightarrow>
   ('o \<Rightarrow> ('q, 'm) heap \<Rightarrow> 'o \<times> ('q, 'm) heap) \<Rightarrow> ('m \<Rightarrow> 'm) \<Rightarrow> pList \<Rightarrow> ('q, 'm) heap \<Rightarrow> pList \<times> ('q, 'm) heap" where
  "copyList items newItems cp mcopy x h =
     (case copyMeta mcopy (plListMeta x) h of
        (m, h1) \<Rightarrow>
          (case plItems x of
             None \<Rightarrow> (x\<lparr>plListMeta := m\<rparr>, h1)
           | Some a \<Rightarrow>
               (case copyItems cp (items h1 a) h1 of
                  (ys, h2) \<Rightarrow> (case newItems ys h2 of (b, h3) \<Rightarrow> (x\<lparr>plListMeta := m, plItems := Some b\<rparr>, h3)))))"

definition ClusterList_DeepCopyInto ::
  "('q \<Rightarrow> 'q) \<Rightarrow> ('m \<Rightarrow> 'm) \<Rightarrow> pList \<Rightarrow> ('q, 'm) heap \<Rightarrow> pList \<times> ('q, 'm) heap" where
  "ClusterList_DeepCopyInto qcopy mcopy = copyList hClusters newClusters (Cluster_DeepCopyInto qcopy mcopy) mcopy"

definition ClusterControllerList_DeepCopyInto ::
  "('m \<Rightarrow> 'm) \<Rightarrow> pList \<Rightarrow> ('q, 'm) heap \<Rightarrow> pList \<times> ('q, 'm) heap" where
  "ClusterControllerList_DeepCopyInto mcopy =
     copyList hControllers newControllers (ClusterController_DeepCopyInto mcopy) mcopy"

definition EdgeNodeList_DeepCopyInto ::
  "('m \<Rightarrow> 'm) \<Rightarrow> pList \<Rightarrow> ('q, 'm) heap \<Rightarrow> pList \<times> ('q, 'm) heap" where
  "EdgeNodeList_DeepCopyInto mcopy = copyList hNodes newNodes (EdgeNode_DeepCopyInto mcopy) mcopy"

section \<open>DeepCopy\<close>

text \<open>Nil stays nil.\<close>

definition deepCopy :: "('o \<Rightarrow> ('q, 'm) heap \<Rightarrow> 'o \<times> ('q, 'm) heap) \<Rightarrow> 'o option \<Rightarrow> ('q, 'm) heap \<Rightarrow> 'o option \<times> ('q, 'm) heap" where
  "deepCopy into p h = (case p of None \<Rightarrow> (None, h) | Some x \<Rightarrow> (case into x h of (y, h') \<Rightarrow> (Some y, h')))"

definition Cluster_DeepCopy :: "('q \<Rightarrow> 'q) \<Rightarrow> ('m \<Rightarrow> 'm) \<Rightarrow> pCluster option \<Rightarrow> ('q, 'm) heap \<Rightarrow> pCluster option \<times> ('q, 'm) heap" where
  "Cluster_DeepCopy qcopy mcopy = deepCopy (Cluster_DeepCopyInto qcopy mcopy)"

definition ClusterController_DeepCopy :: "('m \<Rightarrow> 'm) \<Rightarrow> pClusterController option \<Rightarrow> ('q, 'm) heap \<Rightarrow> pClusterController option \<times> ('q, 'm) heap" where
  "ClusterController_DeepCopy mcopy = deepCopy (ClusterController_DeepCopyInto mcopy)"

definition ClusterControllerList_DeepCopy :: "('m \<Rightarrow> 'm) \<Rightarrow> pList option \<Rightarrow> ('q, 'm) heap \<Rightarrow> pList option \<times> ('q, 'm) heap" where
  "ClusterControllerList_DeepCopy mcopy = deepCopy (ClusterControllerList_DeepCopyInto mcopy)"

definition ClusterList_DeepCopy :: "('q \<Rightarrow> 'q) \<Rightarrow> ('m \<Rightarrow> 'm) \<Rightarrow> pList option \<Rightarrow> ('q, 'm) heap \<Rightarrow> pList option \<times> ('q, 'm) heap" where
  "ClusterList_DeepCopy qcopy mcopy = deepCopy (ClusterList_DeepCopyInto qcopy mcopy)"

definition ClusterResource_DeepCopy :: "('q \<Rightarrow> 'q) \<Rightarrow> pClusterResource option \<Rightarrow> ('q, 'm) heap \<Rightarrow> pClusterResource option \<times> ('q, 'm) heap" where
  "ClusterResource_DeepCopy qcopy = deepCopy (ClusterResource_DeepCopyInto qcopy)"

definition ClusterStatus_DeepCopy :: "('q \<Rightarrow> 'q) \<Rightarrow> pClusterStatus option \<Rightarrow> ('q, 'm) heap \<Rightarrow> pClusterStatus option \<times> ('q, 'm) heap" where
  "ClusterStatus_DeepCopy qcopy = deepCopy (ClusterStatus_DeepCopyInto qcopy)"

definition EdgeNode_DeepCopy :: "('m \<Rightarrow> 'm) \<Rightarrow> pEdgeNode option \<Rightarrow> ('q, 'm) heap \<Rightarrow> pEdgeNode option \<times> ('q, 'm) heap" where
  "EdgeNode_DeepCopy mcopy = deepCopy (EdgeNode_DeepCopyInto mcopy)"

definition EdgeNodeList_DeepCopy :: "('m \<Rightarrow> 'm) \<Rightarrow> pList option \<Rightarrow> ('q, 'm) heap \<Rightarrow> pList option \<times> ('q, 'm) heap" where
  "EdgeNodeList_DeepCopy mcopy = deepCopy (EdgeNodeList_DeepCopyInto mcopy)"

definition ClusterSpec_DeepCopy :: "string option \<Rightarrow> string option" where
  "ClusterSpec_DeepCopy p = map_option ClusterSpec_DeepCopyInto p"

definition ClusterControllerSpec_DeepCopy :: "pCCSpec option \<Rightarrow> pCCSpec option" where
  "ClusterControllerSpec_DeepCopy p = map_option ClusterControllerSpec_DeepCopyInto p"

definition ClusterControllerStatus_DeepCopy :: "pCCStatus option \<Rightarrow> pCCStatus option" where
  "ClusterControllerStatus_DeepCopy p = map_option ClusterControllerStatus_DeepCopyInto p"

text \<open>\<^verbatim>\<open>DeepCopyObject\<close> of a type: its copy as an object, or nil for nil.\<close>

datatype object =
    ObjCluster pCluster
  | ObjClusterController pClusterController
  | ObjClusterControllerList pList
  | ObjClusterList pList
  | ObjEdgeNode pEdgeNode
  | ObjEdgeNodeList pList

definition asObject :: "('o \<Rightarrow> object) \<Rightarrow> 'o option \<times> ('q, 'm) heap \<Rightarrow> object option \<times> ('q, 'm) heap" where
  "asObject c r = (case r of (p, h) \<Rightarrow> (map_option c p, h))"

definition Cluster_DeepCopyObject :: "('q \<Rightarrow> 'q) \<Rightarrow> ('m \<Rightarrow> 'm) \<Rightarrow> pCluster option \<Rightarrow> ('q, 'm) heap \<Rightarrow> object option \<times> ('q, 'm) heap" where
  "Cluster_DeepCopyObject qcopy mcopy p h = asObject ObjCluster (Cluster_DeepCopy qcopy mcopy p h)"

definition ClusterController_DeepCopyObject :: "('m \<Rightarrow> 'm) \<Rightarrow> pClusterController option \<Rightarrow> ('q, 'm) heap \<Rightarrow> object option \<times> ('q, 'm) heap" where
  "ClusterController_DeepCopyObject mcopy p h = asObject ObjClusterController (ClusterController_DeepCopy mcopy p h)"

definition ClusterControllerList_DeepCopyObject :: "('m \<Rightarrow> 'm) \<Rightarrow> pList option \<Rightarrow> ('q, 'm) heap \<Rightarrow> object option \<times> ('q, 'm) heap" where
  "ClusterControllerList_DeepCopyObject mcopy p h = asObject ObjClusterControllerList (ClusterControllerList_DeepCopy mcopy p h)"

definition ClusterList_DeepCopyObject :: "('q \<Rightarrow> 'q) \<Rightarrow> ('m \<Rightarrow> 'm) \<Rightarrow> pList option \<Rightarrow> ('q, 'm) heap \<Rightarrow> object option \<times> ('q, 'm) heap" where
  "ClusterList_DeepCopyObject qcopy mcopy p h = asObject ObjClusterList (ClusterList_DeepCopy qcopy mcopy p h)"

definition EdgeNode_DeepCopyObject :: "('m \<Rightarrow> 'm) \<Rightarrow> pEdgeNode option \<Rightarrow> ('q, 'm) heap \<Rightarrow> object option \<times> ('q, 'm) heap" where
  "EdgeNode_DeepCopyObject mcopy p h = asObject ObjEdgeNode (EdgeNode_DeepCopy mcopy p h)"

definition EdgeNodeList_DeepCopyObject :: "('m \<Rightarrow> 'm) \<Rightarrow> pList option \<Rightarrow> ('q, 'm) heap \<Rightarrow> object option \<times> ('q, 'm) heap" where
  "EdgeNodeList_DeepCopyObject mcopy p h = asObject ObjEdgeNodeList (EdgeNodeList_DeepCopy mcopy p h)"

end
