(* ===== verification/DeepCopyProps.thy ===== *)
theory DeepCopyProps
  imports DeepCopy
begin

text \<open>
  Deep copies are deep: what can be read from a copy is what could be read from the original, and
  no address can be reached from both. The contract of a copying function is the locale
  \<open>deep_copy\<close>; the functions of \<open>DeepCopy\<close> are built from parts that meet it.
\<close>

section \<open>Heaps\<close>

definition same :: "addr \<Rightarrow> ('q, 'm) heap \<Rightarrow> ('q, 'm) heap \<Rightarrow> bool" where
  "same a h g \<longleftrightarrow> hQuantity h a = hQuantity g a \<and> hMeta h a = hMeta g a \<and> hResources h a = hResources g a \<and>
     hStatuses h a = hStatuses g a \<and> hClusters h a = hClusters g a \<and> hControllers h a = hControllers g a \<and>
     hNodes h a = hNodes g a"

definition extends :: "('q, 'm) heap \<Rightarrow> ('q, 'm) heap \<Rightarrow> bool" where
  "extends h g \<longleftrightarrow> hNext h \<le> hNext g \<and> (\<forall>a < hNext h. same a h g)"

lemma extends_refl [simp]: "extends h h"
  by (simp add: extends_def same_def)

lemma extends_trans: "extends h g \<Longrightarrow> extends g k \<Longrightarrow> extends h k"
  by (auto simp: extends_def same_def)

lemma extendsD: "extends h g \<Longrightarrow> a < hNext h \<Longrightarrow> same a h g" "extends h g \<Longrightarrow> hNext h \<le> hNext g"
  by (simp_all add: extends_def)

lemma ivl_mono: "(i :: nat) \<le> j \<Longrightarrow> {j..<k} \<subseteq> {i..<k}" and ivl_mono': "(j :: nat) \<le> k \<Longrightarrow> {i..<j} \<subseteq> {i..<k}"
  by auto

section \<open>Interfaces\<close>

text \<open>\<open>fp\<close> is the memory an object reaches, \<open>rd\<close> what can be read from it, \<open>cv\<close> what copying does to
  that, \<open>cp\<close> the copying function.\<close>

locale deep_copy =
  fixes fp :: "('q, 'm) heap \<Rightarrow> 'o \<Rightarrow> addr set"
    and rd :: "('q, 'm) heap \<Rightarrow> 'o \<Rightarrow> 'v"
    and cv :: "'v \<Rightarrow> 'v"
    and cp :: "'o \<Rightarrow> ('q, 'm) heap \<Rightarrow> 'o \<times> ('q, 'm) heap"
  assumes frame: "(\<And>a. a \<in> fp h x \<Longrightarrow> same a h g) \<Longrightarrow> fp g x = fp h x \<and> rd g x = rd h x"
    and copies: "fp h x \<subseteq> {..<hNext h} \<Longrightarrow> cp x h = (y, g) \<Longrightarrow>
      extends h g \<and> rd g y = cv (rd h x) \<and> fp g y \<subseteq> {hNext h..<hNext g}"
begin

lemma frame_extends:
  assumes "fp h x \<subseteq> {..<hNext h}" "extends h g"
  shows "fp g x = fp h x" "rd g x = rd h x" "fp g x \<subseteq> {..<hNext g}"
proof -
  have "same a h g" if "a \<in> fp h x" for a
    using that assms by (auto simp: extends_def)
  from frame [OF this] show "fp g x = fp h x" "rd g x = rd h x" by simp_all
  with assms show "fp g x \<subseteq> {..<hNext g}" by (auto simp: extends_def)
qed

lemma separate:
  assumes "fp h x \<subseteq> {..<hNext h}" "cp x h = (y, g)"
  shows "fp g x \<inter> fp g y = {}"
proof -
  from copies [OF assms] have "extends h g" "fp g y \<subseteq> {hNext h..<hNext g}" by simp_all
  moreover have "fp g x \<subseteq> {..<hNext h}"
    using frame_extends(1) [OF assms(1) \<open>extends h g\<close>] assms(1) by simp
  ultimately have "fp g x \<inter> fp g y \<subseteq> {..<hNext h} \<inter> {hNext h..<hNext g}" by (intro Int_mono)
  also have "\<dots> = {}" by auto
  finally show ?thesis by simp
qed

text \<open>Whatever happens to the memory of one of the two leaves the other alone.\<close>

lemma copy_survives:
  assumes "fp h x \<subseteq> {..<hNext h}" "cp x h = (y, g)" "\<And>a. a \<notin> fp g x \<Longrightarrow> same a g k"
  shows "rd k y = cv (rd h x)"
proof -
  have "same a g k" if "a \<in> fp g y" for a
  proof (rule assms(3))
    show "a \<notin> fp g x" using that separate [OF assms(1,2)] by blast
  qed
  from frame [OF this] have "rd k y = rd g y" by (rule conjunct2)
  also from copies [OF assms(1,2)] have "\<dots> = cv (rd h x)" by simp
  finally show ?thesis .
qed

lemma original_survives:
  assumes "fp h x \<subseteq> {..<hNext h}" "cp x h = (y, g)" "\<And>a. a \<notin> fp g y \<Longrightarrow> same a g k"
  shows "rd k x = rd h x"
proof -
  have "same a g k" if "a \<in> fp g x" for a
  proof (rule assms(3))
    show "a \<notin> fp g y" using that separate [OF assms(1,2)] by blast
  qed
  from frame [OF this] have "rd k x = rd g x" by (rule conjunct2)
  also from copies [OF assms(1,2)] have "\<dots> = rd h x" by (intro frame_extends(2) [OF assms(1)]) (rule conjunct1)
  finally show ?thesis .
qed

text \<open>Several objects, one after the other.\<close>

lemma copyItems_copies:
  "(\<Union>x\<in>set xs. fp h x) \<subseteq> {..<hNext h} \<Longrightarrow> copyItems cp xs h = (ys, g) \<Longrightarrow>
     extends h g \<and> map (rd g) ys = map cv (map (rd h) xs) \<and> (\<Union>y\<in>set ys. fp g y) \<subseteq> {hNext h..<hNext g}"
proof (induction xs arbitrary: h ys)
  case (Cons x xs)
  obtain y h1 where y: "cp x h = (y, h1)" by fastforce
  obtain zs where zs: "copyItems cp xs h1 = (zs, g)" "ys = y # zs"
    using Cons.prems(2) y by (auto split: prod.splits)
  from Cons.prems(1) have x: "fp h x \<subseteq> {..<hNext h}" and xs: "\<And>z. z \<in> set xs \<Longrightarrow> fp h z \<subseteq> {..<hNext h}" by auto
  note c = copies [OF x y]
  then have e: "extends h h1" by blast
  have "(\<Union>z\<in>set xs. fp h1 z) \<subseteq> {..<hNext h1}" using frame_extends(3) [OF xs e] by blast
  from Cons.IH [OF this zs(1)] have IH: "extends h1 g" "map (rd g) zs = map cv (map (rd h1) xs)"
    "(\<Union>y\<in>set zs. fp g y) \<subseteq> {hNext h1..<hNext g}" by simp_all
  have "map (rd h1) xs = map (rd h) xs" using frame_extends(2) [OF xs e] by simp
  moreover have "fp h1 y \<subseteq> {..<hNext h1}" using c by auto
  note frame_extends [OF this IH(1)]
  ultimately have y: "fp g y = fp h1 y" "rd g y = rd h1 y" and r: "map (rd g) zs = map cv (map (rd h) xs)"
    using IH(2) by simp_all
  have "extends h g" using e IH(1) by (rule extends_trans)
  moreover have "map (rd g) ys = map cv (map (rd h) (x # xs))" using c y r zs(2) by simp
  moreover have "fp g y \<subseteq> {hNext h..<hNext g}" "(\<Union>y\<in>set zs. fp g y) \<subseteq> {hNext h..<hNext g}"
    using c y IH(3) ivl_mono [OF extendsD(2) [OF e]] ivl_mono' [OF extendsD(2) [OF IH(1)]]
    by (metis subset_trans)+
  ultimately show ?case using zs(2) by simp
qed simp

lemma items_deep: "deep_copy (\<lambda>h xs. \<Union>x\<in>set xs. fp h x) (\<lambda>h. map (rd h)) (map cv) (copyItems cp)"
proof
  fix h xs g
  assume s: "\<And>a. a \<in> (\<Union>x\<in>set xs. fp h x) \<Longrightarrow> same a h g"
  have "fp g x = fp h x \<and> rd g x = rd h x" if "x \<in> set xs" for x
    using that by (intro frame s) blast
  then show "(\<Union>x\<in>set xs. fp g x) = (\<Union>x\<in>set xs. fp h x) \<and> map (rd g) xs = map (rd h) xs" by simp
qed (rule copyItems_copies)

lemma option_deep: "deep_copy (\<lambda>h. case_option {} (fp h)) (\<lambda>h. map_option (rd h)) (map_option cv) (deepCopy cp)"
proof
  fix h p g
  show "(\<And>a. a \<in> case_option {} (fp h) p \<Longrightarrow> same a h g) \<Longrightarrow>
    case_option {} (fp g) p = case_option {} (fp h) p \<and> map_option (rd g) p = map_option (rd h) p"
    using frame by (cases p) auto
next
  fix h p y g
  assume fp: "case_option {} (fp h) p \<subseteq> {..<hNext h}" and cp: "deepCopy cp p h = (y, g)"
  show "extends h g \<and> map_option (rd g) y = map_option cv (map_option (rd h) p) \<and>
    case_option {} (fp g) y \<subseteq> {hNext h..<hNext g}"
  proof (cases p)
    case (Some x)
    with cp obtain z where "cp x h = (z, g)" "y = Some z" by (auto simp: deepCopy_def split: prod.splits)
    with copies [of h x z g] fp Some show ?thesis by simp
  qed (use cp in \<open>simp add: deepCopy_def\<close>)
qed

text \<open>A part of a struct: the rest is copied by assignment.\<close>

lemma lens_deep:
  assumes "\<And>x y. get (put x y) = y" "\<And>x y. base (put x y) = base x"
  shows "deep_copy (\<lambda>h x. fp h (get x)) (\<lambda>h x. (base x, rd h (get x))) (map_prod (\<lambda>b. b) cv)
    (\<lambda>x h. case cp (get x) h of (y, g) \<Rightarrow> (put x y, g))"
proof
  fix h x g
  show "(\<And>a. a \<in> fp h (get x) \<Longrightarrow> same a h g) \<Longrightarrow>
      fp g (get x) = fp h (get x) \<and> (base x, rd g (get x)) = (base x, rd h (get x))"
    using frame [of h "get x" g] by simp
next
  fix h x y g
  assume fp: "fp h (get x) \<subseteq> {..<hNext h}" and cp: "(case cp (get x) h of (y, g) \<Rightarrow> (put x y, g)) = (y, g)"
  from cp obtain z where "cp (get x) h = (z, g)" "y = put x z" by (auto split: prod.splits)
  with copies [of h "get x" z g] fp assms
  show "extends h g \<and> (base y, rd g (get y)) = map_prod (\<lambda>b. b) cv (base x, rd h (get x)) \<and>
      fp g (get y) \<subseteq> {hNext h..<hNext g}"
    by simp
qed

end

text \<open>Two copies one after the other.\<close>

definition cp_pair ::
  "('o \<Rightarrow> ('q, 'm) heap \<Rightarrow> 'o \<times> ('q, 'm) heap) \<Rightarrow> ('p \<Rightarrow> ('q, 'm) heap \<Rightarrow> 'p \<times> ('q, 'm) heap) \<Rightarrow>
   'o \<times> 'p \<Rightarrow> ('q, 'm) heap \<Rightarrow> ('o \<times> 'p) \<times> ('q, 'm) heap" where
  "cp_pair cp1 cp2 x h = (case cp1 (fst x) h of (a, h1) \<Rightarrow> (case cp2 (snd x) h1 of (b, h2) \<Rightarrow> ((a, b), h2)))"

locale deep_copy_pair = one: deep_copy fp1 rd1 cv1 cp1 + two: deep_copy fp2 rd2 cv2 cp2
  for fp1 :: "('q, 'm) heap \<Rightarrow> 'o \<Rightarrow> addr set" and rd1 :: "('q, 'm) heap \<Rightarrow> 'o \<Rightarrow> 'v" and cv1 cp1
    and fp2 :: "('q, 'm) heap \<Rightarrow> 'p \<Rightarrow> addr set" and rd2 :: "('q, 'm) heap \<Rightarrow> 'p \<Rightarrow> 'w" and cv2 cp2
begin

lemma pair_deep:
  "deep_copy (\<lambda>h x. fp1 h (fst x) \<union> fp2 h (snd x)) (\<lambda>h x. (rd1 h (fst x), rd2 h (snd x))) (map_prod cv1 cv2)
     (cp_pair cp1 cp2)"
proof
  fix h x g
  assume "\<And>a. a \<in> fp1 h (fst x) \<union> fp2 h (snd x) \<Longrightarrow> same a h g"
  then show "fp1 g (fst x) \<union> fp2 g (snd x) = fp1 h (fst x) \<union> fp2 h (snd x) \<and>
      (rd1 g (fst x), rd2 g (snd x)) = (rd1 h (fst x), rd2 h (snd x))"
    using one.frame [of h "fst x" g] two.frame [of h "snd x" g] by simp
next
  fix h x y g
  assume fp: "fp1 h (fst x) \<union> fp2 h (snd x) \<subseteq> {..<hNext h}" and cp: "cp_pair cp1 cp2 x h = (y, g)"
  obtain a h1 where a: "cp1 (fst x) h = (a, h1)" by fastforce
  with cp obtain b where b: "cp2 (snd x) h1 = (b, g)" "y = (a, b)" by (auto simp: cp_pair_def split: prod.splits)
  from fp have fp1: "fp1 h (fst x) \<subseteq> {..<hNext h}" and fp2: "fp2 h (snd x) \<subseteq> {..<hNext h}" by simp_all
  from one.copies [OF fp1 a] have A: "extends h h1" "rd1 h1 a = cv1 (rd1 h (fst x))" "fp1 h1 a \<subseteq> {hNext h..<hNext h1}"
    by simp_all
  note F2 = two.frame_extends [OF fp2 A(1)]
  from two.copies [OF F2(3) b(1)] have B: "extends h1 g" "rd2 g b = cv2 (rd2 h1 (snd x))" "fp2 g b \<subseteq> {hNext h1..<hNext g}"
    by simp_all
  have "fp1 h1 a \<subseteq> {..<hNext h1}" using A(3) by auto
  note F1 = one.frame_extends [OF this B(1)]
  have "fp1 g a \<union> fp2 g b \<subseteq> {hNext h..<hNext g}"
    using F1(1) A(3) B(3) ivl_mono [OF extendsD(2) [OF A(1)]] ivl_mono' [OF extendsD(2) [OF B(1)]]
    by (intro Un_least) (metis subset_trans)+
  then show "extends h g \<and> (rd1 g (fst y), rd2 g (snd y)) = map_prod cv1 cv2 (rd1 h (fst x), rd2 h (snd x)) \<and>
      fp1 g (fst y) \<union> fp2 g (snd y) \<subseteq> {hNext h..<hNext g}"
    using extends_trans [OF A(1) B(1)] F1(2) F2(2) A(2) B(2) b(2) by simp
qed

end

text \<open>A kind of cells of the heap, and copying what a cell holds into a new one.\<close>

locale heap_cells =
  fixes cget :: "('q, 'm) heap \<Rightarrow> addr \<Rightarrow> 'c" and cnew :: "'c \<Rightarrow> ('q, 'm) heap \<Rightarrow> addr \<times> ('q, 'm) heap"
  assumes cget_same: "same a h g \<Longrightarrow> cget g a = cget h a"
    and cnew_cell: "cnew c h = (b, g) \<Longrightarrow> b = hNext h \<and> hNext g = Suc (hNext h) \<and> cget g (hNext h) = c"
    and cnew_same: "cnew c h = (b, g) \<Longrightarrow> a < hNext h \<Longrightarrow> same a h g"
begin

lemma cnew_extends: "cnew c h = (b, g) \<Longrightarrow> extends h g"
  using cnew_cell cnew_same by (simp add: extends_def)

end

definition cp_ref ::
  "(('q, 'm) heap \<Rightarrow> addr \<Rightarrow> 'c) \<Rightarrow> ('c \<Rightarrow> ('q, 'm) heap \<Rightarrow> addr \<times> ('q, 'm) heap) \<Rightarrow>
   ('c \<Rightarrow> ('q, 'm) heap \<Rightarrow> 'c \<times> ('q, 'm) heap) \<Rightarrow> addr \<Rightarrow> ('q, 'm) heap \<Rightarrow> addr \<times> ('q, 'm) heap" where
  "cp_ref cget cnew cp a h = (case cp (cget h a) h of (c, h1) \<Rightarrow> cnew c h1)"

locale deep_copy_cell = heap_cells cget cnew + deep_copy fp rd cv cp
  for cget :: "('q, 'm) heap \<Rightarrow> addr \<Rightarrow> 'c" and cnew
    and fp :: "('q, 'm) heap \<Rightarrow> 'c \<Rightarrow> addr set" and rd :: "('q, 'm) heap \<Rightarrow> 'c \<Rightarrow> 'v" and cv cp
begin

lemma cell_deep:
  "deep_copy (\<lambda>h a. insert a (fp h (cget h a))) (\<lambda>h a. rd h (cget h a)) cv (cp_ref cget cnew cp)"
proof
  fix h a g
  assume s: "\<And>b. b \<in> insert a (fp h (cget h a)) \<Longrightarrow> same b h g"
  then have "cget g a = cget h a" by (intro cget_same) simp
  moreover have "fp g (cget h a) = fp h (cget h a) \<and> rd g (cget h a) = rd h (cget h a)" by (intro frame s) simp
  ultimately show "insert a (fp g (cget g a)) = insert a (fp h (cget h a)) \<and> rd g (cget g a) = rd h (cget h a)" by simp
next
  fix h a b g
  assume fp: "insert a (fp h (cget h a)) \<subseteq> {..<hNext h}" and cp: "cp_ref cget cnew cp a h = (b, g)"
  from cp obtain c h1 where c: "cp (cget h a) h = (c, h1)" and b: "cnew c h1 = (b, g)"
    by (auto simp: cp_ref_def split: prod.splits)
  from fp have "fp h (cget h a) \<subseteq> {..<hNext h}" by simp
  from copies [OF this c] have C: "extends h h1" "rd h1 c = cv (rd h (cget h a))" "fp h1 c \<subseteq> {hNext h..<hNext h1}"
    by simp_all
  note B = cnew_cell [OF b] cnew_extends [OF b]
  have "fp h1 c \<subseteq> {..<hNext h1}" using C(3) by auto
  note F = frame_extends [OF this B(2)]
  have "hNext h \<le> hNext h1" using C(1) by (rule extendsD)
  then have "insert b (fp g c) \<subseteq> {hNext h..<hNext g}" using B(1) F(1) C(3) by auto
  then show "extends h g \<and> rd g (cget g b) = cv (rd h (cget h a)) \<and>
      insert b (fp g (cget g b)) \<subseteq> {hNext h..<hNext g}"
    using extends_trans [OF C(1) B(2)] B(1) C(2) F(2) by simp
qed

end

section \<open>The cells\<close>

lemmas new_defs = newQuantity_def newMeta_def newResources_def newStatuses_def newClusters_def newControllers_def newNodes_def

interpretation quantity: heap_cells hQuantity newQuantity by unfold_locales (auto simp: new_defs same_def)
interpretation meta: heap_cells hMeta newMeta by unfold_locales (auto simp: new_defs same_def)
interpretation resources: heap_cells hResources newResources by unfold_locales (auto simp: new_defs same_def)
interpretation statuses: heap_cells hStatuses newStatuses by unfold_locales (auto simp: new_defs same_def)
interpretation clusters: heap_cells hClusters newClusters by unfold_locales (auto simp: new_defs same_def)
interpretation controllers: heap_cells hControllers newControllers by unfold_locales (auto simp: new_defs same_def)
interpretation nodes: heap_cells hNodes newNodes by unfold_locales (auto simp: new_defs same_def)

text \<open>Values without pointers.\<close>

interpretation pointerless: deep_copy "\<lambda>_ _. {}" "\<lambda>_ x. x" f "\<lambda>x h. (f x, h)" for f
  by unfold_locales simp_all

section \<open>The parts of the resources\<close>

interpretation metaCell: deep_copy_cell hMeta newMeta "\<lambda>_ _. {}" "\<lambda>_ x. x" mcopy "\<lambda>x h. (mcopy x, h)" for mcopy
  by unfold_locales

lemma copyMeta_ref: "copyMeta mcopy = cp_ref hMeta newMeta (\<lambda>x h. (mcopy x, h))"
  by (simp add: fun_eq_iff copyMeta_def cp_ref_def)

interpretation quantityCell: deep_copy_cell hQuantity newQuantity "\<lambda>_ _. {}" "\<lambda>_ x. x" qcopy "\<lambda>x h. (qcopy x, h)" for qcopy
  by unfold_locales

definition fpMeta :: "('q, 'm) heap \<Rightarrow> addr \<Rightarrow> addr set" where
  "fpMeta h a = {a}"

interpretation cpMeta: deep_copy fpMeta hMeta mcopy "copyMeta mcopy" for mcopy
  using metaCell.cell_deep by (simp add: copyMeta_ref fpMeta_def [abs_def])

text \<open>A map of quantities.\<close>

definition fpEntry :: "('q, 'm) heap \<Rightarrow> string \<times> addr option \<Rightarrow> addr set" where
  "fpEntry h x = (case snd x of None \<Rightarrow> {} | Some a \<Rightarrow> {a})"

definition rdEntry :: "('q, 'm) heap \<Rightarrow> string \<times> addr option \<Rightarrow> string \<times> 'q option" where
  "rdEntry h x = (fst x, map_option (hQuantity h) (snd x))"

definition cpEntry ::
  "('q \<Rightarrow> 'q) \<Rightarrow> string \<times> addr option \<Rightarrow> ('q, 'm) heap \<Rightarrow> (string \<times> addr option) \<times> ('q, 'm) heap" where
  "cpEntry qcopy x h =
     (case deepCopy (cp_ref hQuantity newQuantity (\<lambda>q h. (qcopy q, h))) (snd x) h of (y, g) \<Rightarrow> ((fst x, y), g))"

interpretation entry: deep_copy fpEntry rdEntry "map_prod (\<lambda>b. b) (map_option qcopy)" "cpEntry qcopy" for qcopy
  using deep_copy.lens_deep [OF deep_copy.option_deep [OF quantityCell.cell_deep [of qcopy]],
      where get = snd and put = "\<lambda>x y. (fst x, y)" and base = fst]
  by (simp add: fpEntry_def [abs_def] rdEntry_def [abs_def] cpEntry_def [abs_def])

lemma copyQuantities_items: "copyQuantities qcopy m h = copyItems (cpEntry qcopy) m h"
  by (induction qcopy m h rule: copyQuantities.induct)
     (simp_all add: cpEntry_def deepCopy_def cp_ref_def newQuantity_def split: prod.splits)

interpretation resourcesCell: deep_copy_cell hResources newResources "\<lambda>h m. \<Union>x\<in>set m. fpEntry h x" "\<lambda>h. map (rdEntry h)"
  "map (map_prod (\<lambda>b. b) (map_option qcopy))" "copyQuantities qcopy" for qcopy
  using entry.items_deep [of qcopy] resources.heap_cells_axioms
  by (simp add: deep_copy_cell_def copyQuantities_items [abs_def])

definition fpResources :: "('q, 'm) heap \<Rightarrow> addr option \<Rightarrow> addr set" where
  "fpResources h r = (case r of None \<Rightarrow> {} | Some a \<Rightarrow> insert a (\<Union>x\<in>set (hResources h a). fpEntry h x))"

definition rdResources :: "('q, 'm) heap \<Rightarrow> addr option \<Rightarrow> (string, 'q option) gomap option" where
  "rdResources h r = map_option (\<lambda>a. map (rdEntry h) (hResources h a)) r"

abbreviation cvResources :: "('q \<Rightarrow> 'q) \<Rightarrow> (string, 'q option) gomap option \<Rightarrow> (string, 'q option) gomap option" where
  "cvResources qcopy \<equiv> map_option (map (map_prod (\<lambda>b. b) (map_option qcopy)))"

lemma copyResources_ref: "copyResources qcopy = deepCopy (cp_ref hResources newResources (copyQuantities qcopy))"
  by (auto simp: fun_eq_iff copyResources_def deepCopy_def cp_ref_def split: option.splits prod.splits)

interpretation cpResources: deep_copy fpResources rdResources "cvResources qcopy" "copyResources qcopy" for qcopy
  using deep_copy.option_deep [OF resourcesCell.cell_deep [of qcopy]]
  by (simp add: copyResources_ref fpResources_def [abs_def] rdResources_def [abs_def])

section \<open>Clusters\<close>

interpretation bothResources: deep_copy_pair fpResources rdResources "cvResources qcopy" "copyResources qcopy"
  fpResources rdResources "cvResources qcopy" "copyResources qcopy" for qcopy
  by unfold_locales

definition fpStatus :: "('q, 'm) heap \<Rightarrow> pClusterStatus \<Rightarrow> addr set" where
  "fpStatus h x = fpResources h (pCapacity (pResource x)) \<union> fpResources h (pAllocatable (pResource x))"

definition rdStatus :: "('q, 'm) heap \<Rightarrow> pClusterStatus \<Rightarrow>
    (string \<times> string \<times> string \<times> int) \<times> (string, 'q option) gomap option \<times> (string, 'q option) gomap option" where
  "rdStatus h x = ((pListen x, pParentName x, pStatus x, pTimestamp x),
     (rdResources h (pCapacity (pResource x)), rdResources h (pAllocatable (pResource x))))"

interpretation status: deep_copy fpStatus rdStatus "map_prod (\<lambda>b. b) (map_prod (cvResources qcopy) (cvResources qcopy))"
  "ClusterStatus_DeepCopyInto qcopy" for qcopy
proof -
  have cp: "ClusterStatus_DeepCopyInto qcopy = (\<lambda>x h. case cp_pair (copyResources qcopy) (copyResources qcopy)
      (pCapacity (pResource x), pAllocatable (pResource x)) h of
      (y, g) \<Rightarrow> (x\<lparr>pResource := (pResource x)\<lparr>pCapacity := fst y, pAllocatable := snd y\<rparr>\<rparr>, g))"
    by (auto simp: fun_eq_iff ClusterStatus_DeepCopyInto_def ClusterResource_DeepCopyInto_def cp_pair_def split: prod.splits)
  show "deep_copy fpStatus rdStatus (map_prod (\<lambda>b. b) (map_prod (cvResources qcopy) (cvResources qcopy)))
      (ClusterStatus_DeepCopyInto qcopy)"
    using deep_copy.lens_deep [OF bothResources.pair_deep [of qcopy],
        where get = "\<lambda>x. (pCapacity (pResource x), pAllocatable (pResource x))"
          and put = "\<lambda>x y. x\<lparr>pResource := (pResource x)\<lparr>pCapacity := fst y, pAllocatable := snd y\<rparr>\<rparr>"
          and base = "\<lambda>x. (pListen x, pParentName x, pStatus x, pTimestamp x)"]
    by (simp add: cp fpStatus_def [abs_def] rdStatus_def [abs_def])
qed

type_synonym 'q statusValue =
  "(string \<times> string \<times> string \<times> int) \<times> (string, 'q option) gomap option \<times> (string, 'q option) gomap option"

abbreviation cvStatus :: "('q \<Rightarrow> 'q) \<Rightarrow> 'q statusValue \<Rightarrow> 'q statusValue" where
  "cvStatus qcopy \<equiv> map_prod (\<lambda>b. b) (map_prod (cvResources qcopy) (cvResources qcopy))"

interpretation metaStatus: deep_copy_pair fpMeta hMeta mcopy "copyMeta mcopy"
  fpStatus rdStatus "cvStatus qcopy" "ClusterStatus_DeepCopyInto qcopy" for mcopy qcopy
  by unfold_locales

definition fpCluster :: "('q, 'm) heap \<Rightarrow> pCluster \<Rightarrow> addr set" where
  "fpCluster h x = fpMeta h (pcObjectMeta x) \<union> fpStatus h (pcStatus x)"

type_synonym ('q, 'm) clusterValue = "(string \<times> string) \<times> 'm \<times> 'q statusValue"

definition rdCluster :: "('q, 'm) heap \<Rightarrow> pCluster \<Rightarrow> ('q, 'm) clusterValue" where
  "rdCluster h x = ((pcTypeMeta x, pcSpecName x), (hMeta h (pcObjectMeta x), rdStatus h (pcStatus x)))"

abbreviation cvCluster :: "('q \<Rightarrow> 'q) \<Rightarrow> ('m \<Rightarrow> 'm) \<Rightarrow> ('q, 'm) clusterValue \<Rightarrow> ('q, 'm) clusterValue" where
  "cvCluster qcopy mcopy \<equiv> map_prod (\<lambda>b. b) (map_prod mcopy (cvStatus qcopy))"

interpretation cluster: deep_copy fpCluster rdCluster "cvCluster qcopy mcopy" "Cluster_DeepCopyInto qcopy mcopy"
  for qcopy mcopy
proof -
  have cp: "Cluster_DeepCopyInto qcopy mcopy = (\<lambda>x h. case cp_pair (copyMeta mcopy) (ClusterStatus_DeepCopyInto qcopy)
      (pcObjectMeta x, pcStatus x) h of (y, g) \<Rightarrow> (x\<lparr>pcObjectMeta := fst y, pcStatus := snd y\<rparr>, g))"
    by (auto simp: fun_eq_iff Cluster_DeepCopyInto_def cp_pair_def split: prod.splits)
  show "deep_copy fpCluster rdCluster (cvCluster qcopy mcopy) (Cluster_DeepCopyInto qcopy mcopy)"
    using deep_copy.lens_deep [OF metaStatus.pair_deep [of mcopy qcopy],
        where get = "\<lambda>x. (pcObjectMeta x, pcStatus x)" and base = "\<lambda>x. (pcTypeMeta x, pcSpecName x)"
          and put = "\<lambda>x y. x\<lparr>pcObjectMeta := fst y, pcStatus := snd y\<rparr>"]
    by (simp add: cp fpCluster_def [abs_def] rdCluster_def [abs_def])
qed

section \<open>Cluster controllers and edge nodes\<close>

interpretation statusesCell: deep_copy_cell hStatuses newStatuses "\<lambda>_ _. {}" "\<lambda>_ x. x" "\<lambda>x. x" Pair
proof -
  show "deep_copy_cell hStatuses newStatuses (\<lambda>_ _. {}) (\<lambda>_ x. x) (\<lambda>x. x) Pair"
    using pointerless.deep_copy_axioms [of "\<lambda>x. x"] statuses.heap_cells_axioms by (simp add: deep_copy_cell_def)
qed

definition fpStatuses :: "('q, 'm) heap \<Rightarrow> addr option \<Rightarrow> addr set" where
  "fpStatuses h r = (case r of None \<Rightarrow> {} | Some a \<Rightarrow> {a})"

definition rdStatuses :: "('q, 'm) heap \<Rightarrow> addr option \<Rightarrow> (string, pCCStatus) gomap option" where
  "rdStatuses h r = map_option (hStatuses h) r"

interpretation cpStatuses: deep_copy fpStatuses rdStatuses "map_option (\<lambda>x. x)"
  "deepCopy (cp_ref hStatuses newStatuses Pair)"
proof -
  show "deep_copy fpStatuses rdStatuses (map_option (\<lambda>x. x)) (deepCopy (cp_ref hStatuses newStatuses Pair))"
    using deep_copy.option_deep [OF statusesCell.cell_deep]
    by (simp add: fpStatuses_def [abs_def] rdStatuses_def [abs_def])
qed

interpretation metaStatuses: deep_copy_pair fpMeta hMeta mcopy "copyMeta mcopy" fpStatuses rdStatuses
  "map_option (\<lambda>x. x)" "deepCopy (cp_ref hStatuses newStatuses Pair)" for mcopy
  by unfold_locales

definition fpController :: "('q, 'm) heap \<Rightarrow> pClusterController \<Rightarrow> addr set" where
  "fpController h x = fpMeta h (pccObjectMeta x) \<union> fpStatuses h (pccStatus x)"

definition rdController :: "('q, 'm) heap \<Rightarrow> pClusterController \<Rightarrow>
    (string \<times> pCCSpec) \<times> 'm \<times> (string, pCCStatus) gomap option" where
  "rdController h x = ((pccTypeMeta x, pccSpec x), (hMeta h (pccObjectMeta x), rdStatuses h (pccStatus x)))"

interpretation clusterController: deep_copy fpController rdController
  "map_prod (\<lambda>b. b) (map_prod mcopy (map_option (\<lambda>x. x)))" "ClusterController_DeepCopyInto mcopy" for mcopy
proof -
  have cp: "ClusterController_DeepCopyInto mcopy = (\<lambda>x h. case cp_pair (copyMeta mcopy)
      (deepCopy (cp_ref hStatuses newStatuses Pair)) (pccObjectMeta x, pccStatus x) h of
      (y, g) \<Rightarrow> (x\<lparr>pccObjectMeta := fst y, pccStatus := snd y\<rparr>, g))"
    by (auto simp: fun_eq_iff ClusterController_DeepCopyInto_def cp_pair_def deepCopy_def cp_ref_def
        split: prod.splits option.splits)
  show "deep_copy fpController rdController (map_prod (\<lambda>b. b) (map_prod mcopy (map_option (\<lambda>x. x))))
      (ClusterController_DeepCopyInto mcopy)"
    using deep_copy.lens_deep [OF metaStatuses.pair_deep [of mcopy],
        where get = "\<lambda>x. (pccObjectMeta x, pccStatus x)" and base = "\<lambda>x. (pccTypeMeta x, pccSpec x)"
          and put = "\<lambda>x y. x\<lparr>pccObjectMeta := fst y, pccStatus := snd y\<rparr>"]
    by (simp add: cp fpController_def [abs_def] rdController_def [abs_def])
qed

definition fpEdgeNode :: "('q, 'm) heap \<Rightarrow> pEdgeNode \<Rightarrow> addr set" where
  "fpEdgeNode h x = fpMeta h (peObjectMeta x)"

definition rdEdgeNode :: "('q, 'm) heap \<Rightarrow> pEdgeNode \<Rightarrow> (string \<times> string) \<times> 'm" where
  "rdEdgeNode h x = ((peTypeMeta x, peStatus x), hMeta h (peObjectMeta x))"

interpretation edgeNode: deep_copy fpEdgeNode rdEdgeNode "map_prod (\<lambda>b. b) mcopy" "EdgeNode_DeepCopyInto mcopy" for mcopy
  using deep_copy.lens_deep [OF cpMeta.deep_copy_axioms [of mcopy], where get = peObjectMeta
      and base = "\<lambda>x. (peTypeMeta x, peStatus x)" and put = "\<lambda>x y. x\<lparr>peObjectMeta := y\<rparr>"]
  by (simp add: fpEdgeNode_def [abs_def] rdEdgeNode_def [abs_def] EdgeNode_DeepCopyInto_def [abs_def])

section \<open>Lists\<close>

definition fpList ::
  "(('q, 'm) heap \<Rightarrow> addr \<Rightarrow> 'o list) \<Rightarrow> (('q, 'm) heap \<Rightarrow> 'o \<Rightarrow> addr set) \<Rightarrow> ('q, 'm) heap \<Rightarrow> pList \<Rightarrow> addr set" where
  "fpList items fp h x = fpMeta h (plListMeta x) \<union>
     (case plItems x of None \<Rightarrow> {} | Some a \<Rightarrow> insert a (\<Union>y\<in>set (items h a). fp h y))"

definition rdList ::
  "(('q, 'm) heap \<Rightarrow> addr \<Rightarrow> 'o list) \<Rightarrow> (('q, 'm) heap \<Rightarrow> 'o \<Rightarrow> 'v) \<Rightarrow> ('q, 'm) heap \<Rightarrow> pList \<Rightarrow>
   string \<times> 'm \<times> 'v list option" where
  "rdList items rd h x =
     (plTypeMeta x, (hMeta h (plListMeta x), map_option (\<lambda>a. map (rd h) (items h a)) (plItems x)))"

lemma list_deep:
  fixes items :: "('q, 'm) heap \<Rightarrow> addr \<Rightarrow> 'o list"
  assumes "heap_cells items newItems" "deep_copy fp rd cv cp"
  shows "deep_copy (fpList items fp) (rdList items rd) (map_prod (\<lambda>b. b) (map_prod mcopy (map_option (map cv))))
    (copyList items newItems cp mcopy)"
proof -
  let ?cp = "deepCopy (cp_ref items newItems (copyItems cp))"
  have "deep_copy_cell items newItems (\<lambda>h xs. \<Union>x\<in>set xs. fp h x) (\<lambda>h. map (rd h)) (map cv) (copyItems cp)"
    using assms(1) deep_copy.items_deep [OF assms(2)] by (simp add: deep_copy_cell_def)
  note opt = deep_copy.option_deep [OF deep_copy_cell.cell_deep [OF this]]
  note pair = deep_copy_pair.pair_deep [OF deep_copy_pair.intro [OF cpMeta.deep_copy_axioms [of mcopy] opt]]
  have cp: "copyList items newItems cp mcopy = (\<lambda>x h. case cp_pair (copyMeta mcopy) ?cp (plListMeta x, plItems x) h of
      (y, g) \<Rightarrow> (x\<lparr>plListMeta := fst y, plItems := snd y\<rparr>, g))"
    by (auto simp: fun_eq_iff copyList_def cp_pair_def deepCopy_def cp_ref_def split: prod.splits option.splits)
  show ?thesis
    using deep_copy.lens_deep [OF pair, where get = "\<lambda>x. (plListMeta x, plItems x)" and base = plTypeMeta
        and put = "\<lambda>x y. x\<lparr>plListMeta := fst y, plItems := snd y\<rparr>"]
    by (simp add: cp fpList_def [abs_def] rdList_def [abs_def])
qed

interpretation clusterList: deep_copy "fpList hClusters fpCluster" "rdList hClusters rdCluster"
  "map_prod (\<lambda>b. b) (map_prod mcopy (map_option (map (cvCluster qcopy mcopy))))"
  "ClusterList_DeepCopyInto qcopy mcopy" for qcopy mcopy
  unfolding ClusterList_DeepCopyInto_def by (rule list_deep) unfold_locales

interpretation controllerList: deep_copy "fpList hControllers fpController" "rdList hControllers rdController"
  "map_prod (\<lambda>b. b) (map_prod mcopy (map_option (map (map_prod (\<lambda>b. b) (map_prod mcopy (map_option (\<lambda>x. x)))))))"
  "ClusterControllerList_DeepCopyInto mcopy" for mcopy
  unfolding ClusterControllerList_DeepCopyInto_def by (rule list_deep) unfold_locales

interpretation nodeList: deep_copy "fpList hNodes fpEdgeNode" "rdList hNodes rdEdgeNode"
  "map_prod (\<lambda>b. b) (map_prod mcopy (map_option (map (map_prod (\<lambda>b. b) mcopy))))"
  "EdgeNodeList_DeepCopyInto mcopy" for mcopy
  unfolding EdgeNodeList_DeepCopyInto_def by (rule list_deep) unfold_locales

section \<open>Copies of lists of clusters\<close>

text \<open>C20: A deep copy of a list of clusters is independent of the list: the copy reads like the original,
  with all its quantities and metadata; no address is reached from both; and whatever is then
  written to the memory of one of them, the other still reads as before. The copies of quantities
  and of metadata are those of the library, which are taken to be equal to the originals.\<close>

theorem cluster_list_copy_independent:
  assumes "\<And>q. qcopy q = q" "\<And>m. mcopy m = m" and fp: "fpList hClusters fpCluster h x \<subseteq> {..<hNext h}"
    and copy: "ClusterList_DeepCopy qcopy mcopy (Some x) h = (Some y, g)"
  shows "rdList hClusters rdCluster g y = rdList hClusters rdCluster h x \<and>
    fpList hClusters fpCluster g x \<inter> fpList hClusters fpCluster g y = {} \<and>
    (\<forall>k. (\<forall>a. a \<notin> fpList hClusters fpCluster g x \<longrightarrow> same a g k) \<longrightarrow>
       rdList hClusters rdCluster k y = rdList hClusters rdCluster h x) \<and>
    (\<forall>k. (\<forall>a. a \<notin> fpList hClusters fpCluster g y \<longrightarrow> same a g k) \<longrightarrow>
       rdList hClusters rdCluster k x = rdList hClusters rdCluster h x)"
proof -
  from assms(1,2) have id: "qcopy = id" "mcopy = id" by auto
  have cv: "map_prod (\<lambda>b. b) (map_prod id (map_option (map (cvCluster id id)))) v = v" for v :: "string \<times> 'b \<times> ('a, 'b) clusterValue list option"
    by (simp add: id_def [symmetric] prod.map_id0 option.map_id0 list.map_id0)
  have into: "ClusterList_DeepCopyInto id id x h = (y, g)"
    using copy by (auto simp: id ClusterList_DeepCopy_def deepCopy_def split: prod.splits)
  from clusterList.copies [OF fp into] have "rdList hClusters rdCluster g y = rdList hClusters rdCluster h x"
    by (simp only: cv)
  moreover note clusterList.separate [OF fp into]
  moreover have "rdList hClusters rdCluster k y = rdList hClusters rdCluster h x"
    if "\<forall>a. a \<notin> fpList hClusters fpCluster g x \<longrightarrow> same a g k" for k
    using clusterList.copy_survives [OF fp into, of k, unfolded cv] that by blast
  moreover have "rdList hClusters rdCluster k x = rdList hClusters rdCluster h x"
    if "\<forall>a. a \<notin> fpList hClusters fpCluster g y \<longrightarrow> same a g k" for k
    using clusterList.original_survives [OF fp into, of k] that by blast
  ultimately show ?thesis by blast
qed

text \<open>A heap with one cluster that has a quantity, a nil one, and no map of what is allocatable.\<close>

definition sample_heap :: "(int, string) heap" where
  "sample_heap = \<lparr>hNext = 5, hQuantity = (\<lambda>a. if a = 2 then 4 else 0), hMeta = (\<lambda>a. if a = 0 then ''list'' else ''c1''),
     hResources = (\<lambda>a. if a = 3 then [(''cpu'', Some 2), (''pods'', None)] else []), hStatuses = (\<lambda>_. []),
     hClusters = (\<lambda>a. if a = 4 then [\<lparr>pcTypeMeta = ''Cluster'', pcObjectMeta = 1, pcSpecName = ''c1'',
       pcStatus = \<lparr>pListen = '':1'', pParentName = ''Root'', pStatus = ''online'', pTimestamp = 7,
         pResource = \<lparr>pCapacity = Some 3, pAllocatable = None\<rparr>\<rparr>\<rparr>] else []),
     hControllers = (\<lambda>_. []), hNodes = (\<lambda>_. [])\<rparr>"

definition sample_list :: pList where
  "sample_list = \<lparr>plTypeMeta = ''ClusterList'', plListMeta = 0, plItems = Some 4\<rparr>"

theorem cluster_list_copy_independent_witness:
  "\<exists>y g. ClusterList_DeepCopy (\<lambda>q. q) (\<lambda>m. m) (Some sample_list) sample_heap = (Some y, g) \<and>
     rdList hClusters rdCluster (g\<lparr>hQuantity := (hQuantity g)(2 := 9)\<rparr>) y = rdList hClusters rdCluster sample_heap sample_list \<and>
     rdList hClusters rdCluster (g\<lparr>hQuantity := (hQuantity g)(2 := 9)\<rparr>) sample_list \<noteq>
       rdList hClusters rdCluster sample_heap sample_list"
proof -
  note defs = fpList_def fpMeta_def fpCluster_def fpStatus_def fpResources_def fpEntry_def
  have fp: "fpList hClusters fpCluster sample_heap sample_list \<subseteq> {..<hNext sample_heap}"
    by (simp add: defs sample_heap_def sample_list_def)
  obtain y g where into: "ClusterList_DeepCopyInto (\<lambda>q. q) (\<lambda>m. m) sample_list sample_heap = (y, g)" by fastforce
  then have copy: "ClusterList_DeepCopy (\<lambda>q. q) (\<lambda>m. m) (Some sample_list) sample_heap = (Some y, g)"
    by (simp add: ClusterList_DeepCopy_def deepCopy_def)
  let ?k = "g\<lparr>hQuantity := (hQuantity g)(2 := 9)\<rparr>"
  have e: "extends sample_heap g" using clusterList.copies [OF fp into] by blast
  have x: "fpList hClusters fpCluster g sample_list = {0, 1, 2, 3, 4}"
    unfolding clusterList.frame_extends(1) [OF fp e] by (auto simp: defs sample_heap_def sample_list_def)
  then have "same a g ?k" if "a \<notin> fpList hClusters fpCluster g sample_list" for a using that by (simp add: same_def)
  with cluster_list_copy_independent [OF refl refl fp copy]
  have "rdList hClusters rdCluster ?k y = rdList hClusters rdCluster sample_heap sample_list" by blast
  moreover have "0 < hNext sample_heap" "1 < hNext sample_heap" "3 < hNext sample_heap" "4 < hNext sample_heap"
    by (simp_all add: sample_heap_def)
  note this [THEN extendsD(1) [OF e]]
  then have "hMeta g 0 = hMeta sample_heap 0" "hMeta g 1 = hMeta sample_heap 1"
    "hResources g 3 = hResources sample_heap 3" "hClusters g 4 = hClusters sample_heap 4"
    by (simp_all add: same_def)
  then have "rdList hClusters rdCluster ?k sample_list \<noteq> rdList hClusters rdCluster sample_heap sample_list"
    by (simp add: rdList_def rdCluster_def rdStatus_def rdResources_def rdEntry_def sample_heap_def sample_list_def)
  ultimately show ?thesis using copy by blast
qed

end
