(* ===== verification/OteClient.thy ===== *)
theory OteClient
  imports Controllers
begin

text \<open>
  The generated clients of the custom resources (\<^verbatim>\<open>pkg/generated/clientset/versioned/typed/ote/v1\<close>)
  and the conversions of \<^verbatim>\<open>pkg/apis/ote/v1/types.go\<close>. A method builds one REST request, sends it, and
  decodes the answer; client-go, which sends it, is an argument. The three files are one text with
  the names of the resource replaced, so each method is defined once, for a resource with its
  name, its constructor and its zero value, and then at the three resources.

  At the end stand the API the resource wrappers and the edge node controller use (\<open>oteapi\<close>, \<open>enapi\<close>)
  as these clients provide it, and the documented behaviour of an API server.
\<close>

section \<open>Requests\<close>

datatype patchType = MergePatchType | StrategicMergePatchType | JSONPatchType

datatype restVerb = GetVerb | PostVerb | PutVerb | DeleteVerb | PatchVerb patchType

datatype oteObject = CRCluster Cluster | CRClusterController ClusterController | CREdgeNode EdgeNode

datatype restBody = BodyObject oteObject | BodyOptions string | BodyData bytes

record ListOptions =
  loSelector :: string
  loTimeoutSeconds :: "int option"
  loWatch :: bool

datatype restParams = ParamsGet string | ParamsList ListOptions

record restRequest =
  rrVerb :: restVerb
  rrNamespace :: string
  rrResource :: string
  rrName :: "string option"
  rrSubResource :: "string list"
  rrParams :: "restParams option"
  rrTimeout :: int
  rrBody :: "restBody option"

datatype restAnswer = RestError api_error | RestObject oteObject | RestList "oteObject list" | RestDone

text \<open>Sending a request for an answer, and for a stream of events.\<close>

record ('k, 'w) restClient =
  rcDo :: "restRequest \<Rightarrow> 'k \<Rightarrow> restAnswer \<times> 'k"
  rcWatch :: "restRequest \<Rightarrow> 'k \<Rightarrow> api_error + 'w"

definition newRequest :: "restVerb \<Rightarrow> string \<Rightarrow> string \<Rightarrow> restRequest" where
  "newRequest verb ns resource = \<lparr>rrVerb = verb, rrNamespace = ns, rrResource = resource, rrName = None,
     rrSubResource = [], rrParams = None, rrTimeout = 0, rrBody = None\<rparr>"

text \<open>A duration is a number of nanoseconds in 64 bits; the product wraps around.\<close>

definition int64 :: "int \<Rightarrow> int" where
  "int64 i = (i + 2 ^ 63) mod 2 ^ 64 - 2 ^ 63"

definition listTimeout :: "ListOptions \<Rightarrow> int" where
  "listTimeout opts = (case loTimeoutSeconds opts of None \<Rightarrow> 0 | Some s \<Rightarrow> int64 (s * 10 ^ 9))"

section \<open>A resource\<close>

record 'o typedResource =
  tyResource :: string
  tyObject :: "'o \<Rightarrow> oteObject"
  tyFrom :: "oteObject \<Rightarrow> 'o option"
  tyZero :: 'o
  tyName :: "'o \<Rightarrow> string"

text \<open>Decoding into a result: after an error the result is the zero value.\<close>

definition into :: "'o typedResource \<Rightarrow> restAnswer \<Rightarrow> 'o \<times> api_error option" where
  "into ty a =
     (case a of
        RestError e \<Rightarrow> (tyZero ty, Some e)
      | RestObject x \<Rightarrow>
          (case tyFrom ty x of Some o' \<Rightarrow> (o', None) | None \<Rightarrow> (tyZero ty, Some (ApiError ''decode'')))
      | _ \<Rightarrow> (tyZero ty, Some (ApiError ''decode'')))"

definition intoList :: "'o typedResource \<Rightarrow> restAnswer \<Rightarrow> 'o list \<times> api_error option" where
  "intoList ty a =
     (case a of
        RestError e \<Rightarrow> ([], Some e)
      | RestList xs \<Rightarrow>
          if list_all (\<lambda>x. tyFrom ty x \<noteq> None) xs then (List.map_filter (tyFrom ty) xs, None)
          else ([], Some (ApiError ''decode''))
      | _ \<Rightarrow> ([], Some (ApiError ''decode'')))"

definition answerError :: "restAnswer \<Rightarrow> api_error option" where
  "answerError a = (case a of RestError e \<Rightarrow> Some e | _ \<Rightarrow> None)"

section \<open>The methods\<close>

definition typed_Get ::
  "'o typedResource \<Rightarrow> ('k, 'w) restClient \<Rightarrow> string \<Rightarrow> string \<Rightarrow> string \<Rightarrow> 'k \<Rightarrow> ('o \<times> api_error option) \<times> 'k" where
  "typed_Get ty c ns name options k =
     map_prod (into ty) id (rcDo c ((newRequest GetVerb ns (tyResource ty))
       \<lparr>rrName := Some name, rrParams := Some (ParamsGet options)\<rparr>) k)"

definition typed_List ::
  "'o typedResource \<Rightarrow> ('k, 'w) restClient \<Rightarrow> string \<Rightarrow> ListOptions \<Rightarrow> 'k \<Rightarrow> ('o list \<times> api_error option) \<times> 'k" where
  "typed_List ty c ns opts k =
     map_prod (intoList ty) id (rcDo c ((newRequest GetVerb ns (tyResource ty))
       \<lparr>rrParams := Some (ParamsList opts), rrTimeout := listTimeout opts\<rparr>) k)"

definition typed_Watch ::
  "'o typedResource \<Rightarrow> ('k, 'w) restClient \<Rightarrow> string \<Rightarrow> ListOptions \<Rightarrow> 'k \<Rightarrow> api_error + 'w" where
  "typed_Watch ty c ns opts k =
     rcWatch c ((newRequest GetVerb ns (tyResource ty))
       \<lparr>rrParams := Some (ParamsList (opts\<lparr>loWatch := True\<rparr>)), rrTimeout := listTimeout opts\<rparr>) k"

definition typed_Create ::
  "'o typedResource \<Rightarrow> ('k, 'w) restClient \<Rightarrow> string \<Rightarrow> 'o \<Rightarrow> 'k \<Rightarrow> ('o \<times> api_error option) \<times> 'k" where
  "typed_Create ty c ns x k =
     map_prod (into ty) id (rcDo c ((newRequest PostVerb ns (tyResource ty))
       \<lparr>rrBody := Some (BodyObject (tyObject ty x))\<rparr>) k)"

definition typed_Update ::
  "'o typedResource \<Rightarrow> ('k, 'w) restClient \<Rightarrow> string \<Rightarrow> 'o \<Rightarrow> 'k \<Rightarrow> ('o \<times> api_error option) \<times> 'k" where
  "typed_Update ty c ns x k =
     map_prod (into ty) id (rcDo c ((newRequest PutVerb ns (tyResource ty))
       \<lparr>rrName := Some (tyName ty x), rrBody := Some (BodyObject (tyObject ty x))\<rparr>) k)"

definition typed_UpdateStatus ::
  "'o typedResource \<Rightarrow> ('k, 'w) restClient \<Rightarrow> string \<Rightarrow> 'o \<Rightarrow> 'k \<Rightarrow> ('o \<times> api_error option) \<times> 'k" where
  "typed_UpdateStatus ty c ns x k =
     map_prod (into ty) id (rcDo c ((newRequest PutVerb ns (tyResource ty))
       \<lparr>rrName := Some (tyName ty x), rrSubResource := [''status''],
        rrBody := Some (BodyObject (tyObject ty x))\<rparr>) k)"

definition typed_Delete ::
  "'o typedResource \<Rightarrow> ('k, 'w) restClient \<Rightarrow> string \<Rightarrow> string \<Rightarrow> string \<Rightarrow> 'k \<Rightarrow> api_error option \<times> 'k" where
  "typed_Delete ty c ns name options k =
     map_prod answerError id (rcDo c ((newRequest DeleteVerb ns (tyResource ty))
       \<lparr>rrName := Some name, rrBody := Some (BodyOptions options)\<rparr>) k)"

definition typed_DeleteCollection ::
  "'o typedResource \<Rightarrow> ('k, 'w) restClient \<Rightarrow> string \<Rightarrow> string \<Rightarrow> ListOptions \<Rightarrow> 'k \<Rightarrow> api_error option \<times> 'k" where
  "typed_DeleteCollection ty c ns options listOptions k =
     map_prod answerError id (rcDo c ((newRequest DeleteVerb ns (tyResource ty))
       \<lparr>rrParams := Some (ParamsList listOptions), rrTimeout := listTimeout listOptions,
        rrBody := Some (BodyOptions options)\<rparr>) k)"

definition typed_Patch ::
  "'o typedResource \<Rightarrow> ('k, 'w) restClient \<Rightarrow> string \<Rightarrow> string \<Rightarrow> patchType \<Rightarrow> bytes \<Rightarrow> string list \<Rightarrow> 'k \<Rightarrow>
   ('o \<times> api_error option) \<times> 'k" where
  "typed_Patch ty c ns name pt data subresources k =
     map_prod (into ty) id (rcDo c ((newRequest (PatchVerb pt) ns (tyResource ty))
       \<lparr>rrSubResource := subresources, rrName := Some name, rrBody := Some (BodyData data)\<rparr>) k)"

section \<open>The three resources\<close>

definition zeroStatus :: ClusterStatus where
  "zeroStatus = \<lparr>stListen = [], stParentName = [], stStatus = [], stTimestamp = 0, stCapacity = [], stAllocatable = []\<rparr>"

fun asCluster :: "oteObject \<Rightarrow> Cluster option" where
  "asCluster (CRCluster c) = Some c" | "asCluster _ = None"

fun asClusterController :: "oteObject \<Rightarrow> ClusterController option" where
  "asClusterController (CRClusterController c) = Some c" | "asClusterController _ = None"

fun asEdgeNode :: "oteObject \<Rightarrow> EdgeNode option" where
  "asEdgeNode (CREdgeNode c) = Some c" | "asEdgeNode _ = None"

definition clusters :: "Cluster typedResource" where
  "clusters = \<lparr>tyResource = ''clusters'', tyObject = CRCluster, tyFrom = asCluster,
     tyZero = \<lparr>clNamespace = [], clName = [], clResourceVersion = [], clSpecName = [], clStatus = zeroStatus\<rparr>,
     tyName = clName\<rparr>"

definition clusterControllers :: "ClusterController typedResource" where
  "clusterControllers = \<lparr>tyResource = ''clustercontrollers'', tyObject = CRClusterController, tyFrom = asClusterController,
     tyZero = \<lparr>ccNamespace = [], ccName = [], ccCreationTimestamp = 0, ccParentClusterName = [],
       ccClusterSelector = [], ccDestination = [], ccMethod = [], ccURL = [], ccBody = [], ccStatus = None\<rparr>,
     tyName = ccName\<rparr>"

definition edgeNodes :: "EdgeNode typedResource" where
  "edgeNodes = \<lparr>tyResource = ''edgenodes'', tyObject = CREdgeNode, tyFrom = asEdgeNode,
     tyZero = \<lparr>enName = [], enNamespace = [], enStatus = []\<rparr>, tyName = enName\<rparr>"

definition clusters_Get :: "('k, 'w) restClient \<Rightarrow> string \<Rightarrow> string \<Rightarrow> string \<Rightarrow> 'k \<Rightarrow> (Cluster \<times> api_error option) \<times> 'k" where
  "clusters_Get = typed_Get clusters"

definition clusters_List :: "('k, 'w) restClient \<Rightarrow> string \<Rightarrow> ListOptions \<Rightarrow> 'k \<Rightarrow> (Cluster list \<times> api_error option) \<times> 'k" where
  "clusters_List = typed_List clusters"

definition clusters_Watch :: "('k, 'w) restClient \<Rightarrow> string \<Rightarrow> ListOptions \<Rightarrow> 'k \<Rightarrow> api_error + 'w" where
  "clusters_Watch = typed_Watch clusters"

definition clusters_Create :: "('k, 'w) restClient \<Rightarrow> string \<Rightarrow> Cluster \<Rightarrow> 'k \<Rightarrow> (Cluster \<times> api_error option) \<times> 'k" where
  "clusters_Create = typed_Create clusters"

definition clusters_Update :: "('k, 'w) restClient \<Rightarrow> string \<Rightarrow> Cluster \<Rightarrow> 'k \<Rightarrow> (Cluster \<times> api_error option) \<times> 'k" where
  "clusters_Update = typed_Update clusters"

definition clusters_UpdateStatus :: "('k, 'w) restClient \<Rightarrow> string \<Rightarrow> Cluster \<Rightarrow> 'k \<Rightarrow> (Cluster \<times> api_error option) \<times> 'k" where
  "clusters_UpdateStatus = typed_UpdateStatus clusters"

definition clusters_Delete :: "('k, 'w) restClient \<Rightarrow> string \<Rightarrow> string \<Rightarrow> string \<Rightarrow> 'k \<Rightarrow> api_error option \<times> 'k" where
  "clusters_Delete = typed_Delete clusters"

definition clusters_DeleteCollection :: "('k, 'w) restClient \<Rightarrow> string \<Rightarrow> string \<Rightarrow> ListOptions \<Rightarrow> 'k \<Rightarrow> api_error option \<times> 'k" where
  "clusters_DeleteCollection = typed_DeleteCollection clusters"

definition clusters_Patch :: "('k, 'w) restClient \<Rightarrow> string \<Rightarrow> string \<Rightarrow> patchType \<Rightarrow> bytes \<Rightarrow> string list \<Rightarrow> 'k \<Rightarrow> (Cluster \<times> api_error option) \<times> 'k" where
  "clusters_Patch = typed_Patch clusters"

definition clusterControllers_Get :: "('k, 'w) restClient \<Rightarrow> string \<Rightarrow> string \<Rightarrow> string \<Rightarrow> 'k \<Rightarrow> (ClusterController \<times> api_error option) \<times> 'k" where
  "clusterControllers_Get = typed_Get clusterControllers"

definition clusterControllers_List :: "('k, 'w) restClient \<Rightarrow> string \<Rightarrow> ListOptions \<Rightarrow> 'k \<Rightarrow> (ClusterController list \<times> api_error option) \<times> 'k" where
  "clusterControllers_List = typed_List clusterControllers"

definition clusterControllers_Watch :: "('k, 'w) restClient \<Rightarrow> string \<Rightarrow> ListOptions \<Rightarrow> 'k \<Rightarrow> api_error + 'w" where
  "clusterControllers_Watch = typed_Watch clusterControllers"

definition clusterControllers_Create :: "('k, 'w) restClient \<Rightarrow> string \<Rightarrow> ClusterController \<Rightarrow> 'k \<Rightarrow> (ClusterController \<times> api_error option) \<times> 'k" where
  "clusterControllers_Create = typed_Create clusterControllers"

definition clusterControllers_Update :: "('k, 'w) restClient \<Rightarrow> string \<Rightarrow> ClusterController \<Rightarrow> 'k \<Rightarrow> (ClusterController \<times> api_error option) \<times> 'k" where
  "clusterControllers_Update = typed_Update clusterControllers"

definition clusterControllers_UpdateStatus :: "('k, 'w) restClient \<Rightarrow> string \<Rightarrow> ClusterController \<Rightarrow> 'k \<Rightarrow> (ClusterController \<times> api_error option) \<times> 'k" where
  "clusterControllers_UpdateStatus = typed_UpdateStatus clusterControllers"

definition clusterControllers_Delete :: "('k, 'w) restClient \<Rightarrow> string \<Rightarrow> string \<Rightarrow> string \<Rightarrow> 'k \<Rightarrow> api_error option \<times> 'k" where
  "clusterControllers_Delete = typed_Delete clusterControllers"

definition clusterControllers_DeleteCollection :: "('k, 'w) restClient \<Rightarrow> string \<Rightarrow> string \<Rightarrow> ListOptions \<Rightarrow> 'k \<Rightarrow> api_error option \<times> 'k" where
  "clusterControllers_DeleteCollection = typed_DeleteCollection clusterControllers"

definition clusterControllers_Patch :: "('k, 'w) restClient \<Rightarrow> string \<Rightarrow> string \<Rightarrow> patchType \<Rightarrow> bytes \<Rightarrow> string list \<Rightarrow> 'k \<Rightarrow> (ClusterController \<times> api_error option) \<times> 'k" where
  "clusterControllers_Patch = typed_Patch clusterControllers"

definition edgeNodes_Get :: "('k, 'w) restClient \<Rightarrow> string \<Rightarrow> string \<Rightarrow> string \<Rightarrow> 'k \<Rightarrow> (EdgeNode \<times> api_error option) \<times> 'k" where
  "edgeNodes_Get = typed_Get edgeNodes"

definition edgeNodes_List :: "('k, 'w) restClient \<Rightarrow> string \<Rightarrow> ListOptions \<Rightarrow> 'k \<Rightarrow> (EdgeNode list \<times> api_error option) \<times> 'k" where
  "edgeNodes_List = typed_List edgeNodes"

definition edgeNodes_Watch :: "('k, 'w) restClient \<Rightarrow> string \<Rightarrow> ListOptions \<Rightarrow> 'k \<Rightarrow> api_error + 'w" where
  "edgeNodes_Watch = typed_Watch edgeNodes"

definition edgeNodes_Create :: "('k, 'w) restClient \<Rightarrow> string \<Rightarrow> EdgeNode \<Rightarrow> 'k \<Rightarrow> (EdgeNode \<times> api_error option) \<times> 'k" where
  "edgeNodes_Create = typed_Create edgeNodes"

definition edgeNodes_Update :: "('k, 'w) restClient \<Rightarrow> string \<Rightarrow> EdgeNode \<Rightarrow> 'k \<Rightarrow> (EdgeNode \<times> api_error option) \<times> 'k" where
  "edgeNodes_Update = typed_Update edgeNodes"

definition edgeNodes_UpdateStatus :: "('k, 'w) restClient \<Rightarrow> string \<Rightarrow> EdgeNode \<Rightarrow> 'k \<Rightarrow> (EdgeNode \<times> api_error option) \<times> 'k" where
  "edgeNodes_UpdateStatus = typed_UpdateStatus edgeNodes"

definition edgeNodes_Delete :: "('k, 'w) restClient \<Rightarrow> string \<Rightarrow> string \<Rightarrow> string \<Rightarrow> 'k \<Rightarrow> api_error option \<times> 'k" where
  "edgeNodes_Delete = typed_Delete edgeNodes"

definition edgeNodes_DeleteCollection :: "('k, 'w) restClient \<Rightarrow> string \<Rightarrow> string \<Rightarrow> ListOptions \<Rightarrow> 'k \<Rightarrow> api_error option \<times> 'k" where
  "edgeNodes_DeleteCollection = typed_DeleteCollection edgeNodes"

definition edgeNodes_Patch :: "('k, 'w) restClient \<Rightarrow> string \<Rightarrow> string \<Rightarrow> patchType \<Rightarrow> bytes \<Rightarrow> string list \<Rightarrow> 'k \<Rightarrow> (EdgeNode \<times> api_error option) \<times> 'k" where
  "edgeNodes_Patch = typed_Patch edgeNodes"

lemmas cluster_client_defs = clusters_Get_def clusters_Create_def clusters_Update_def clusters_Delete_def clusters_Patch_def

section \<open>Conversions\<close>

text \<open>\<open>js\<close> and \<open>unjs\<close> are Go's encoding and decoding of JSON for the type.\<close>

definition ClusterController_Serialize :: "(ClusterController \<Rightarrow> bytes option) \<Rightarrow> ClusterController \<Rightarrow> bytes option" where
  "ClusterController_Serialize js cc = js cc"

definition ClusterControllerDeserialize :: "(bytes \<Rightarrow> ClusterController option) \<Rightarrow> bytes \<Rightarrow> ClusterController option" where
  "ClusterControllerDeserialize unjs b = unjs b"

definition Cluster_Serialize :: "(Cluster \<Rightarrow> bytes option) \<Rightarrow> Cluster \<Rightarrow> bytes option" where
  "Cluster_Serialize js c = js c"

definition ClusterDeserialize :: "(bytes \<Rightarrow> Cluster option) \<Rightarrow> bytes \<Rightarrow> Cluster option" where
  "ClusterDeserialize unjs b = unjs b"

definition WrapperToClusterController ::
  "(Cluster \<Rightarrow> bytes option) \<Rightarrow> Cluster \<Rightarrow> string \<Rightarrow> ClusterController option" where
  "WrapperToClusterController js c dst =
     map_option (\<lambda>cbyte. (tyZero clusterControllers)\<lparr>ccDestination := dst, ccBody := cbyte\<rparr>) (Cluster_Serialize js c)"

lemma wrapped_cluster_back:
  "roundtrip js unjs \<Longrightarrow> WrapperToClusterController js c dst = Some cc \<Longrightarrow>
     ClusterDeserialize unjs (ccBody cc) = Some c \<and> ccDestination cc = dst"
  by (auto simp: WrapperToClusterController_def Cluster_Serialize_def ClusterDeserialize_def roundtrip_def)

section \<open>The interfaces the components use\<close>

text \<open>What \<^verbatim>\<open>pkg/k8sclient\<close> calls, on these clients; retrying, encoding and patches are libraries.\<close>

definition restOteapi ::
  "('k, 'w) restClient \<Rightarrow> (('k \<Rightarrow> api_error option \<times> 'k) \<Rightarrow> 'k \<Rightarrow> api_error option \<times> 'k) \<Rightarrow>
   (Cluster \<Rightarrow> bytes option) \<Rightarrow> (bytes \<Rightarrow> bytes \<Rightarrow> bytes option) \<Rightarrow> 'k oteapi" where
  "restOteapi c retry js merge =
     \<lparr>api_getCluster = (\<lambda>ns name k. case fst (clusters_Get c ns name [] k) of (x, None) \<Rightarrow> Some x | _ \<Rightarrow> None),
      api_createCluster = (\<lambda>ns x k. map_prod snd id (clusters_Create c ns x k)),
      api_updateCluster = (\<lambda>ns x k. map_prod snd id (clusters_Update c ns x k)),
      api_deleteCluster = (\<lambda>ns name k. clusters_Delete c ns name [] k),
      api_patchCluster = (\<lambda>ns name data k. map_prod snd id (clusters_Patch c ns name MergePatchType data [] k)),
      api_getCC = (\<lambda>ns name k. case fst (clusterControllers_Get c ns name [] k) of (x, None) \<Rightarrow> Some x | _ \<Rightarrow> None),
      api_updateCC = (\<lambda>ns x k. map_prod snd id (clusterControllers_Update c ns x k)),
      api_retry = retry, api_marshalCluster = js, api_mergePatch = merge\<rparr>"

definition restEnapi ::
  "('k, 'w) restClient \<Rightarrow> (string \<Rightarrow> bytes \<Rightarrow> 'k \<Rightarrow> api_error option \<times> 'k) \<Rightarrow> 'k enapi" where
  "restEnapi c patchNode =
     \<lparr>enGet = (\<lambda>name k. case fst (edgeNodes_Get c ''kube-system'' name [] k) of (x, None) \<Rightarrow> Inr x | (x, Some e) \<Rightarrow> Inl e),
      enCreate = (\<lambda>x k. map_prod snd id (edgeNodes_Create c ''kube-system'' x k)),
      enUpdate = (\<lambda>x k. map_prod snd id (edgeNodes_Update c ''kube-system'' x k)),
      enDelete = (\<lambda>name k. edgeNodes_Delete c ''kube-system'' name [] k),
      ndPatchStatus = patchNode\<rparr>"

section \<open>An API server\<close>

text \<open>
  Documented behaviour. \<open>obj k resource ns name\<close> is what the server holds. A request to read one
  object answers with it, or with an error if there is none. A request to create or replace
  an object fails and changes nothing, or stores the object it carries, under a fresh resource
  version and at the place it was sent to, and answers with it; creating, that place is under
  the name the object has. An object is stored under the name and namespace it carries.
\<close>

fun withVersion :: "string \<Rightarrow> oteObject \<Rightarrow> oteObject" where
  "withVersion rv (CRCluster c) = CRCluster (c\<lparr>clResourceVersion := rv\<rparr>)"
| "withVersion rv x = x"

fun objName :: "oteObject \<Rightarrow> string" where
  "objName (CRCluster c) = clName c"
| "objName (CRClusterController c) = ccName c"
| "objName (CREdgeNode c) = enName c"

fun objNamespace :: "oteObject \<Rightarrow> string" where
  "objNamespace (CRCluster c) = clNamespace c"
| "objNamespace (CRClusterController c) = ccNamespace c"
| "objNamespace (CREdgeNode c) = enNamespace c"

text \<open>The place a write is sent to, and what it carries.\<close>

fun writeOf :: "restRequest \<Rightarrow> ((string \<times> string \<times> string) \<times> oteObject) option" where
  "writeOf r = (case (rrVerb r, rrName r, rrSubResource r, rrBody r) of
       (PostVerb, None, [], Some (BodyObject x)) \<Rightarrow> Some ((rrResource r, rrNamespace r, objName x), x)
     | (PutVerb, Some name, [], Some (BodyObject x)) \<Rightarrow> Some ((rrResource r, rrNamespace r, name), x)
     | _ \<Rightarrow> None)"

type_synonym 'k objects = "'k \<Rightarrow> string \<times> string \<times> string \<Rightarrow> oteObject option"

definition reads_ok :: "'k objects \<Rightarrow> ('k, 'w) restClient \<Rightarrow> bool" where
  "reads_ok obj c \<longleftrightarrow> (\<forall>r k name. rrVerb r = GetVerb \<longrightarrow> rrName r = Some name \<longrightarrow> rrSubResource r = [] \<longrightarrow>
     fst (rcDo c r k) = (case obj k (rrResource r, rrNamespace r, name) of
       Some x \<Rightarrow> RestObject x | None \<Rightarrow> RestError NotFound))"

definition writes_ok :: "'k objects \<Rightarrow> ('k, 'w) restClient \<Rightarrow> bool" where
  "writes_ok obj c \<longleftrightarrow> (\<forall>r k place x a k'. writeOf r = Some (place, x) \<longrightarrow> rcDo c r k = (a, k') \<longrightarrow>
     (case a of
        RestError e \<Rightarrow> k' = k
      | RestObject y \<Rightarrow> (\<exists>rv. y = withVersion rv x) \<and> obj k' place = Some y \<and>
          (\<forall>p. p \<noteq> place \<longrightarrow> obj k' p = obj k p)
      | _ \<Rightarrow> False))"

definition objects_ok :: "'k objects \<Rightarrow> bool" where
  "objects_ok obj \<longleftrightarrow> (\<forall>k resource ns name x. obj k (resource, ns, name) = Some x \<longrightarrow>
     objNamespace x = ns \<and> objName x = name)"

definition rest_ok :: "'k objects \<Rightarrow> ('k, 'w) restClient \<Rightarrow> bool" where
  "rest_ok obj c \<longleftrightarrow> reads_ok obj c \<and> writes_ok obj c \<and> objects_ok obj"

end
