(* ===== verification/OteClientProps.thy ===== *)
theory OteClientProps
  imports OteClient
begin

text \<open>The generated clients turn the behaviour of an API server into the interface the components
  rely on.\<close>

section \<open>Lemmas\<close>

lemma clusters_simps [simp]:
  "tyResource clusters = ''clusters''" "tyObject clusters = CRCluster" "tyFrom clusters = asCluster" "tyName clusters = clName"
  by (simp_all add: clusters_def)

lemma asCluster_iff: "asCluster x = Some c \<longleftrightarrow> x = CRCluster c"
  by (cases x) auto

lemma rest_getCluster:
  assumes "rest_ok obj c"
  shows "api_getCluster (restOteapi c retry js merge) ns name k = Option.bind (obj k (''clusters'', ns, name)) asCluster"
proof -
  let ?r = "(newRequest GetVerb ns ''clusters'')\<lparr>rrName := Some name, rrParams := Some (ParamsGet [])\<rparr>"
  have "fst (rcDo c ?r k) = (case obj k (''clusters'', ns, name) of Some x \<Rightarrow> RestObject x | None \<Rightarrow> RestError NotFound)"
    using assms by (simp add: rest_ok_def reads_ok_def newRequest_def)
  then show ?thesis
    by (simp add: restOteapi_def clusters_Get_def typed_Get_def into_def split: option.splits)
qed

lemma rest_write_ok:
  assumes rest: "rest_ok obj c"
    and req: "\<And>ns x. writeOf (req ns x) = Some ((''clusters'', ns, clName x), CRCluster x)"
    and w: "\<And>ns x k. w ns x k = map_prod (\<lambda>a. snd (into clusters a)) id (rcDo c (req ns x) k)"
  shows "write_ok (restOteapi c retry js merge) w"
proof -
  have "if e \<noteq> None then k' = k
        else stored_as x (api_getCluster (restOteapi c retry js merge) ns (clName x) k') \<and>
          (\<forall>ns' n'. (ns', n') \<noteq> (ns, clName x) \<longrightarrow> api_getCluster (restOteapi c retry js merge) ns' n' k' =
             api_getCluster (restOteapi c retry js merge) ns' n' k)"
    if run: "w ns x k = (e, k')" for ns x k e k'
  proof -
    obtain a where a: "rcDo c (req ns x) k = (a, k')" "e = snd (into clusters a)"
      using run w [of ns x k] by (cases "rcDo c (req ns x) k") auto
    have ok: "case a of RestError e \<Rightarrow> k' = k
      | RestObject y \<Rightarrow> (\<exists>rv. y = withVersion rv (CRCluster x)) \<and> obj k' (''clusters'', ns, clName x) = Some y \<and>
          (\<forall>p. p \<noteq> (''clusters'', ns, clName x) \<longrightarrow> obj k' p = obj k p)
      | _ \<Rightarrow> False"
      using rest req [of ns x] a(1) unfolding rest_ok_def writes_ok_def by blast
    show ?thesis
    proof (cases a)
      case (RestObject y)
      with ok a(2) show ?thesis
        by (auto simp: into_def rest_getCluster [OF rest] stored_as_def)
    qed (use ok a(2) in \<open>auto simp: into_def\<close>)
  qed
  then show ?thesis unfolding write_ok_def by blast
qed

lemma rest_writes:
  assumes "rest_ok obj c"
  shows "write_ok (restOteapi c retry js merge) (api_updateCluster (restOteapi c retry js merge))"
    "write_ok (restOteapi c retry js merge) (api_createCluster (restOteapi c retry js merge))"
proof -
  show "write_ok (restOteapi c retry js merge) (api_updateCluster (restOteapi c retry js merge))"
    by (rule rest_write_ok [OF assms, where req = "\<lambda>ns x. (newRequest PutVerb ns ''clusters'')
          \<lparr>rrName := Some (clName x), rrBody := Some (BodyObject (CRCluster x))\<rparr>"])
       (simp_all add: newRequest_def restOteapi_def clusters_Update_def typed_Update_def prod.map_comp comp_def id_def)
  show "write_ok (restOteapi c retry js merge) (api_createCluster (restOteapi c retry js merge))"
    by (rule rest_write_ok [OF assms, where req = "\<lambda>ns x. (newRequest PostVerb ns ''clusters'')
          \<lparr>rrBody := Some (BodyObject (CRCluster x))\<rparr>"])
       (simp_all add: newRequest_def restOteapi_def clusters_Create_def typed_Create_def prod.map_comp comp_def id_def)
qed

section \<open>The interface of the resource wrappers\<close>


text \<open>A server that keeps a map and refuses an object whose name or namespace is not that of the
  place.\<close>

type_synonym store = "(string \<times> string \<times> string, oteObject) gomap"

definition sample_obj :: "store objects" where
  "sample_obj k p = (case go_get k p of
     Some x \<Rightarrow> if objNamespace x = fst (snd p) \<and> objName x = snd (snd p) then Some x else None | None \<Rightarrow> None)"

definition sample_do :: "restRequest \<Rightarrow> store \<Rightarrow> restAnswer \<times> store" where
  "sample_do r k =
     (case writeOf r of
        Some (p, x) \<Rightarrow>
          if objNamespace x = fst (snd p) \<and> objName x = snd (snd p)
          then (RestObject (withVersion ''2'' x), go_put p (withVersion ''2'' x) k) else (RestError Conflict, k)
      | None \<Rightarrow>
          (case rrName r of
             None \<Rightarrow> (RestList [], k)
           | Some name \<Rightarrow>
               (case sample_obj k (rrResource r, rrNamespace r, name) of
                  Some x \<Rightarrow> (RestObject x, k) | None \<Rightarrow> (RestError NotFound, k))))"

definition sample_rest :: "(store, unit) restClient" where
  "sample_rest = \<lparr>rcDo = sample_do, rcWatch = (\<lambda>_ _. Inr ())\<rparr>"

lemma withVersion_place [simp]: "objName (withVersion rv x) = objName x" "objNamespace (withVersion rv x) = objNamespace x"
  by (cases x; simp)+

lemma sample_rest_ok: "rest_ok sample_obj sample_rest"
proof -
  have "reads_ok sample_obj sample_rest"
    by (auto simp: reads_ok_def sample_rest_def sample_do_def split: option.splits)
  moreover have "writes_ok sample_obj sample_rest"
    unfolding writes_ok_def sample_rest_def sample_do_def
    by (auto simp: sample_obj_def simp del: writeOf.simps split: option.splits)
  moreover have "objects_ok sample_obj"
    by (auto simp: objects_ok_def sample_obj_def split: option.splits if_splits)
  ultimately show ?thesis by (simp add: rest_ok_def)
qed


end
