(* ===== verification/Spec2Isabelle.thy ===== *)
theory Spec2Isabelle
  imports HandlerProps NetworkProps TunnelProps UpstreamProps LoadBalancerProps HubProps
    ReporterProps ShimProps CertificateProps ControllerProps ElectionProps ShimAppProps HubAppProps
    ManagerProps DeepCopyProps OteClientProps
begin

text \<open>
  \<^bold>\<open>A verification of ote-stack.\<close> The program connects Kubernetes clusters at the edge to a center.

  \<^bold>\<open>The program.\<close> Cluster controllers form a tree. Each has a cluster handler, which listens for
  children with a cloud tunnel, and an edge handler, which dials the parent with an edge tunnel and
  hands requests to its own cluster through a shim, in the same process or in one of its own. The
  controller manager is connected to the root: it publishes namespaces down the tree, and it
  applies the reports that reporters in the shims send up the tree to the API server of the
  center. In every edge cluster an edge hub stands between the nodes and the center: a load
  balancer looks for a healthy API server, syncers copy what the center has into a local storage,
  and a server answers the nodes from the storage while the center is out of reach. An edge
  controller at the center keeps nodes alive that cannot be reached.

  \<^bold>\<open>How it is modelled.\<close> A Go map is an association list (\<open>gomap\<close>, with the order in which it is
  visited), bytes and strings are \<open>string\<close>, a pointer that may be nil is an option, an error is an option or
  a sum, and a panic is \<open>None\<close> or a constructor of an outcome. A method is a function from the state
  to the result and the new state; what it sends is returned. What runs in goroutines is cut into
  atomic steps at the points where the code takes a lock or waits, and a run is a list of events
  or an inductive relation, so that statements over all runs cover the interleavings of these
  steps. Libraries, the network, clocks and random choices are arguments; what is required of them
  is a named predicate (\<open>oteapi_ok\<close>, \<open>kind_ok\<close>, \<open>hub_ok\<close>, \<open>rest_ok\<close>, \<open>roundtrip\<close>, \<open>shuffle_ok\<close>, ...), and
  the \<open>Sample...\<close> theories have concrete ones that fulfil them.

  \<^bold>\<open>Shared.\<close> \<open>Prelude\<close>: maps, strings, alternating signals. \<open>Message\<close>: \<^verbatim>\<open>pkg/clustermessage\<close>, \<^verbatim>\<open>pkg/config\<close>.
  \<open>Resources\<close>: Kubernetes objects and the API of a kind. \<open>K8sClient\<close>: the resources of \<^verbatim>\<open>pkg/apis/ote/v1\<close>
  and their wrappers in \<^verbatim>\<open>pkg/k8sclient\<close>.

  \<^bold>\<open>The tree.\<close>
  \<^item> \<open>Router\<close> (\<^verbatim>\<open>pkg/clusterrouter\<close>): the route table, with the locale \<open>route_table\<close> as its contract.
    \<open>Selector\<close> (\<^verbatim>\<open>pkg/clusterselector\<close>).
  \<^item> \<open>Handler\<close> (\<^verbatim>\<open>clusterhandler.go\<close>): one function per entry point; \<open>HandlerLemmas\<close>: what each does;
    \<open>HandlerSteps\<close>: the state machine of all entry points. \<open>HandlerProps\<close> shows what holds in every
    reachable state: the table is well formed, the queue bounded, only the root writes; stored
    statuses only get younger; a subtree report makes table and child agree; a child that comes
    and goes leaves no trace; and the exact events that make the process panic.
  \<^item> \<open>EdgeHandler\<close> (\<^verbatim>\<open>edgehandler.go\<close>); \<open>Network\<close>: handlers and edge handlers composed to a tree. \<open>NetworkProps\<close>:
    a request published at the root is executed once by each selected cluster and by no other.
  \<^item> \<open>EdgeTunnel\<close>, \<open>CloudTunnel\<close>, \<open>TunnelLoops\<close> (\<^verbatim>\<open>pkg/tunnel\<close>): dialling, redirects and the blacklist (locales
    \<open>cloud_blacklist\<close>, \<open>redirect_client\<close>), connections, and the loops that read. \<open>TunnelProps\<close>: the edge
    tunnel outlives any number of broken connections and loses no message that was read.
  \<^item> \<open>ControllerApp\<close>, \<open>ElectionProps\<close> (\<^verbatim>\<open>cmd/clustercontroller\<close>): the process and its leader election.
  \<^item> \<open>OteClient\<close>, \<open>OteClientProps\<close> (\<^verbatim>\<open>pkg/generated/clientset/.../typed\<close>): the generated clients implement the
    interface of \<open>K8sClient\<close>. \<open>DeepCopy\<close>, \<open>DeepCopyProps\<close> (\<^verbatim>\<open>zz_generated.deepcopy.go\<close>): copies share no
    memory, over an explicit heap; locales \<open>deep_copy\<close>, \<open>deep_copy_pair\<close>, \<open>heap_cells\<close>, \<open>deep_copy_cell\<close>.

  \<^bold>\<open>Reports.\<close>
  \<^item> \<open>Reporters\<close> (\<^verbatim>\<open>pkg/reporter\<close>) and \<open>Upstream\<close> (\<^verbatim>\<open>pkg/controllermanager\<close>): both ends of a report. The copies of
    the code for the kinds of objects share the operations \<open>rep_...\<close> and \<open>res_...\<close>; \<open>UpstreamLemmas\<close> has
    their contract as the locale \<open>resource_processor\<close>, \<open>Mirror\<close> the locale \<open>mirrored_kind\<close>.
  \<^item> \<open>UpstreamProps\<close>: objects never fall back to an older version, full lists delete exactly what is gone,
    a cluster's report leaves other clusters alone. \<open>ReporterProps\<close>: with reports delivered in order,
    the center mirrors the edge; and what happens when they are not.
  \<^item> \<open>Shim\<close>, \<open>ShimProps\<close> (\<^verbatim>\<open>pkg/clustershim\<close>); \<open>ShimApp\<close>, \<open>ShimAppProps\<close> (\<^verbatim>\<open>cmd/k8s_cluster_shim\<close>,
    \<^verbatim>\<open>cmd/k3s_cluster_shim\<close>): a remote shim acts like a local one, serves one controller at a time, and
    its reporters run exactly while one is connected.
  \<^item> \<open>Controllers\<close>, \<open>ControllerProps\<close> (\<^verbatim>\<open>pkg/controller\<close>); \<open>ManagerApp\<close>, \<open>ManagerProps\<close>
    (\<^verbatim>\<open>cmd/ote_controller_manager\<close>, \<^verbatim>\<open>cmd/edgecontroller\<close>, \<^verbatim>\<open>k8s_client.go\<close>): only a leader publishes.

  \<^bold>\<open>The edge hub.\<close>
  \<^item> \<open>Storage\<close>, \<open>StorageLemmas\<close> (\<^verbatim>\<open>pkg/storage\<close>), \<open>Syncer\<close> (\<^verbatim>\<open>pkg/syncer\<close>), \<open>LoadBalancer\<close>, \<open>LoadBalancerProps\<close>
    (\<^verbatim>\<open>pkg/loadbalancer\<close>): the search for a backend ends, and health signals alternate in every run.
  \<^item> \<open>HubServer\<close>, \<open>HubServerLemmas\<close> (\<^verbatim>\<open>pkg/server/handler\<close> and the resources; locale \<open>resource_handler\<close>),
    \<open>EdgeServer\<close>, \<open>HubRoutes\<close> (\<^verbatim>\<open>k8s_server.go\<close>, \<^verbatim>\<open>k3s_server.go\<close>, the \<^verbatim>\<open>register.go\<close> files), \<open>HubApp\<close>
    (\<^verbatim>\<open>cmd/edgehub\<close>). \<open>HubProps\<close>: offline the storage is a map, and a restart recovers it. \<open>HubAppProps\<close>: no
    request fits two routes, what is put over HTTP is got back, and the storage is online exactly
    while the load balancer has a healthy server.
  \<^item> \<open>Certificate\<close>, \<open>CertificateProps\<close> (\<^verbatim>\<open>pkg/server/certificate\<close>): tokens, and certificates served offline.

  \<^bold>\<open>Loops.\<close> Dialling, reconnecting and their followers of redirects are \<open>partial_function\<close>s on options, so
  that not returning is \<open>None\<close>; that they return is proved from the hypothesis that some later attempt
  is accepted. The search for a backend has fuel, and fuel above the number of servers is enough
  (\<open>backend_search_terminates\<close>) while no one else changes the list; \<open>backend_search_diverges\<close> shows that
  otherwise no fuel may be enough. All other loops are structural, or have a termination proof
  (\<open>findAController\<close>, \<open>itoaPos\<close>). Numbers are unbounded where the code only compares or adds them
  far from the limits; version strings are read as 64-bit integers, and list timeouts wrap at 64 bits.

  \<^bold>\<open>Not modelled.\<close>
  \<^item> Generated code without decisions of this program: informers, listers and fakes under \<^verbatim>\<open>pkg/generated\<close>,
    the construction of client sets, registration of types with the scheme, protobuf code. The
    informers and the codecs are arguments.
  \<^item> Code that only calls a library: \<^verbatim>\<open>wsclient.go\<close> (a websocket with a lock), \<^verbatim>\<open>local_eventrecorder.go\<close>
    (logging), the \<^verbatim>\<open>main\<close> functions, the cobra commands around the flags, TLS and listening sockets.
  \<^item> Code nothing calls: \<^verbatim>\<open>pkg/edgehandler/func.go\<close>, \<^verbatim>\<open>getClusterFromClusterController\<close>.
  \<^item> Time: sleeps, deadlines and tickers are left out; a ticker is an event that may come at any point.
  \<^item> Data races below the atomic steps, other than those findings and theorems name.
\<close>

end
